(* ===== verification/Prelude.thy ===== *)
theory Prelude
  imports Main "HOL-Library.List_Lexorder" "HOL-Library.Char_ord" "HOL-Library.Sublist"
begin

text \<open>
  What every component of the model shares: the parts of Python's string, list and set
  operations the source uses, as executable functions with their laws, and the fact
  collections the component theories add to.

  A Python \<open>str\<close> is a \<open>string\<close> (a list of characters). Case conversion and white-space
  tests are the ASCII ones; a character above 127 is never changed and never a space.
  Strings are ordered lexicographically by character code, as Python orders them.
\<close>

named_theorems py_defs \<open>definitions of the Python-level helpers\<close>
named_theorems invariants \<open>invariants kept by the operations of the model\<close>

section \<open>Characters\<close>

definition is_upper_ascii :: "char \<Rightarrow> bool" where
  "is_upper_ascii c \<longleftrightarrow> CHR ''A'' \<le> c \<and> c \<le> CHR ''Z''"

definition is_lower_ascii :: "char \<Rightarrow> bool" where
  "is_lower_ascii c \<longleftrightarrow> CHR ''a'' \<le> c \<and> c \<le> CHR ''z''"

definition is_digit_ascii :: "char \<Rightarrow> bool" where
  "is_digit_ascii c \<longleftrightarrow> CHR ''0'' \<le> c \<and> c \<le> CHR ''9''"

definition is_letter_ascii :: "char \<Rightarrow> bool" where
  "is_letter_ascii c \<longleftrightarrow> is_upper_ascii c \<or> is_lower_ascii c"

text \<open>White space as \<open>str.strip()\<close> sees it: the codes 9-13, 28-31 and 32.\<close>

definition is_py_space :: "char \<Rightarrow> bool" where
  "is_py_space c \<longleftrightarrow>
     (let n = (of_char c :: nat) in (9 \<le> n \<and> n \<le> 13) \<or> (28 \<le> n \<and> n \<le> 32))"

definition lower_char :: "char \<Rightarrow> char" where
  "lower_char c = (if is_upper_ascii c then char_of ((of_char c :: nat) + 32) else c)"

definition upper_char :: "char \<Rightarrow> char" where
  "upper_char c = (if is_lower_ascii c then char_of ((of_char c :: nat) - 32) else c)"

section \<open>Strings\<close>

definition lower :: "string \<Rightarrow> string" where
  "lower s = map lower_char s"

definition upper :: "string \<Rightarrow> string" where
  "upper s = map upper_char s"

definition lstrip_by :: "('a \<Rightarrow> bool) \<Rightarrow> 'a list \<Rightarrow> 'a list" where
  "lstrip_by p s = dropWhile p s"

definition rstrip_by :: "('a \<Rightarrow> bool) \<Rightarrow> 'a list \<Rightarrow> 'a list" where
  "rstrip_by p s = rev (dropWhile p (rev s))"

definition strip_by :: "('a \<Rightarrow> bool) \<Rightarrow> 'a list \<Rightarrow> 'a list" where
  "strip_by p s = rstrip_by p (lstrip_by p s)"

definition strip :: "string \<Rightarrow> string" where
  "strip s = strip_by is_py_space s"

definition starts_with :: "'a list \<Rightarrow> 'a list \<Rightarrow> bool" where
  "starts_with s p \<longleftrightarrow> take (length p) s = p"

definition ends_with :: "'a list \<Rightarrow> 'a list \<Rightarrow> bool" where
  "ends_with s p \<longleftrightarrow> starts_with (rev s) (rev p)"

text \<open>\<open>s.removeprefix(p)\<close>\<close>

definition remove_prefix :: "'a list \<Rightarrow> 'a list \<Rightarrow> 'a list" where
  "remove_prefix s p = (if starts_with s p then drop (length p) s else s)"

text \<open>\<open>s.find(p)\<close>: the least index at which \<open>p\<close> occurs; \<open>None\<close> is Python's -1.\<close>

fun find_sub :: "'a list \<Rightarrow> 'a list \<Rightarrow> nat option" where
  "find_sub [] p = (if p = [] then Some 0 else None)"
| "find_sub (c # s) p =
     (if starts_with (c # s) p then Some 0 else map_option Suc (find_sub s p))"

definition contains :: "'a list \<Rightarrow> 'a list \<Rightarrow> bool" where
  "contains s p \<longleftrightarrow> find_sub s p \<noteq> None"

text \<open>\<open>s.split(c)\<close> for a one-character separator: never empty.\<close>

fun split_on :: "'a \<Rightarrow> 'a list \<Rightarrow> 'a list list" where
  "split_on c [] = [[]]"
| "split_on c (x # xs) =
     (if x = c then [] # split_on c xs
      else (case split_on c xs of [] \<Rightarrow> [[x]] | w # ws \<Rightarrow> (x # w) # ws))"

text \<open>\<open>s.split()\<close>: the words between white space.\<close>

definition split_words :: "string \<Rightarrow> string list" where
  "split_words s =
     filter (\<lambda>w. w \<noteq> []) (split_on (CHR '' '') (map (\<lambda>c. if is_py_space c then CHR '' '' else c) s))"

text \<open>\<open>sep.join(xs)\<close>\<close>

fun join :: "'a list \<Rightarrow> 'a list list \<Rightarrow> 'a list" where
  "join sep [] = []"
| "join sep [x] = x"
| "join sep (x # y # xs) = x @ sep @ join sep (y # xs)"

fun show_nat :: "nat \<Rightarrow> string" where
  "show_nat n = (if n < 10 then [char_of (n + 48)]
                 else show_nat (n div 10) @ [char_of (n mod 10 + 48)])"

declare show_nat.simps [simp del]

definition show_int :: "int \<Rightarrow> string" where
  "show_int i = (if i < 0 then CHR ''-'' # show_nat (nat (- i)) else show_nat (nat i))"

section \<open>Lists and sets\<close>

text \<open>\<open>list(dict.fromkeys(xs))\<close>: the first occurrences, in order.\<close>

fun unique_acc :: "'a list \<Rightarrow> 'a list \<Rightarrow> 'a list" where
  "unique_acc seen [] = []"
| "unique_acc seen (x # xs) =
     (if x \<in> set seen then unique_acc seen xs else x # unique_acc (x # seen) xs)"

definition unique :: "'a list \<Rightarrow> 'a list" where
  "unique xs = unique_acc [] xs"

text \<open>\<open>sorted(set(xs))\<close>\<close>

definition sorted_set :: "'a::linorder list \<Rightarrow> 'a list" where
  "sorted_set xs = sort (remdups xs)"

text \<open>\<open>xs.remove(x)\<close>, with the \<open>ValueError\<close> of a missing element swallowed, is
  \<open>remove1\<close>; \<open>sum(...)\<close> over a list is \<open>sum_list\<close>.\<close>

subsection \<open>Laws\<close>

lemma starts_with_iff: "starts_with s p \<longleftrightarrow> (\<exists>t. s = p @ t)"
  unfolding starts_with_def by (metis append_eq_conv_conj append_take_drop_id)

lemma starts_with_prefix: "starts_with s p \<longleftrightarrow> prefix p s"
  by (auto simp: starts_with_iff prefix_def)

lemma ends_with_iff: "ends_with s p \<longleftrightarrow> (\<exists>t. s = t @ p)"
proof
  assume "ends_with s p"
  then obtain t where "rev s = rev p @ t" by (auto simp: ends_with_def starts_with_iff)
  then have "s = rev t @ p" by (metis rev_append rev_rev_ident)
  then show "\<exists>t. s = t @ p" ..
next
  assume "\<exists>t. s = t @ p"
  then show "ends_with s p" by (auto simp: ends_with_def starts_with_iff)
qed

lemma starts_with_append [simp]: "starts_with (p @ t) p"
  by (auto simp: starts_with_iff)

lemma find_sub_None_iff: "find_sub s p = None \<longleftrightarrow> (\<nexists>u v. s = u @ p @ v)"
proof (induction s)
  case (Cons c s)
  have "(\<exists>u v. c # s = u @ p @ v) \<longleftrightarrow> starts_with (c # s) p \<or> (\<exists>u v. s = u @ p @ v)"
    unfolding starts_with_iff
    by (metis (no_types, opaque_lifting) append_Cons append_Nil append_eq_Cons_conv append_eq_append_conv2)
  with Cons show ?case by auto
qed auto

lemma contains_iff: "contains s p \<longleftrightarrow> (\<exists>u v. s = u @ p @ v)"
  by (simp add: contains_def find_sub_None_iff)

lemma unique_acc_set: "set (unique_acc seen xs) = set xs - set seen"
  by (induction seen xs rule: unique_acc.induct) auto

lemma unique_acc_distinct: "distinct (unique_acc seen xs)"
  by (induction seen xs rule: unique_acc.induct) (auto simp: unique_acc_set)

lemma set_unique [simp]: "set (unique xs) = set xs"
  by (simp add: unique_def unique_acc_set)

lemma distinct_unique [simp]: "distinct (unique xs)"
  by (simp add: unique_def unique_acc_distinct)

lemma unique_Nil [simp]: "unique [] = []"
  by (simp add: unique_def)

lemma unique_acc_fresh:
  "distinct xs \<Longrightarrow> set xs \<inter> set seen = {} \<Longrightarrow> unique_acc seen xs = xs"
  by (induction seen xs rule: unique_acc.induct) auto

lemma unique_distinct_id [simp]: "distinct xs \<Longrightarrow> unique xs = xs"
  by (simp add: unique_def unique_acc_fresh)

lemma set_sorted_set [simp]: "set (sorted_set xs) = set xs"
  by (simp add: sorted_set_def)

lemma sorted_sorted_set [simp]: "sorted (sorted_set xs)"
  by (simp add: sorted_set_def)

lemma distinct_sorted_set [simp]: "distinct (sorted_set xs)"
  by (simp add: sorted_set_def)

lemma sorted_set_Nil [simp]: "sorted_set [] = []"
  by (simp add: sorted_set_def)

lemma sorted_set_cong: "set xs = set ys \<Longrightarrow> sorted_set xs = sorted_set ys"
  by (intro sorted_distinct_set_unique) simp_all

lemma sorted_set_eq_iff: "sorted_set xs = sorted_set ys \<longleftrightarrow> set xs = set ys"
  by (metis set_sorted_set sorted_set_cong)

lemma sorted_set_empty_iff [simp]: "sorted_set xs = [] \<longleftrightarrow> xs = []"
  by (metis set_empty set_sorted_set)

lemma length_lower [simp]: "length (lower s) = length s"
  by (simp add: lower_def)

lemma lower_Nil_iff [simp]: "lower s = [] \<longleftrightarrow> s = []"
  by (simp add: lower_def)

lemma of_char_upper_ascii: "is_upper_ascii c \<longleftrightarrow> 65 \<le> (of_char c :: nat) \<and> (of_char c :: nat) \<le> 90"
  by (simp add: is_upper_ascii_def less_eq_char_def)

lemma lower_char_not_upper: "\<not> is_upper_ascii (lower_char c)"
proof (cases "is_upper_ascii c")
  case True
  then have "(of_char c :: nat) \<ge> 65" "(of_char c :: nat) \<le> 90"
    by (simp_all add: of_char_upper_ascii)
  then have "of_char (lower_char c) = (of_char c :: nat) + 32"
    using True by (simp add: lower_char_def)
  with \<open>(of_char c :: nat) \<ge> 65\<close> show ?thesis
    by (simp add: of_char_upper_ascii)
qed (simp add: lower_char_def)

lemma lower_char_idem [simp]: "lower_char (lower_char c) = lower_char c"
  by (subst lower_char_def) (simp add: lower_char_not_upper)

lemma lower_idem [simp]: "lower (lower s) = lower s"
  by (simp add: lower_def)

lemma dropWhile_idem [simp]: "dropWhile p (dropWhile p s) = dropWhile p s"
  by (induction s) auto

lemma rstrip_by_Nil [simp]: "rstrip_by p [] = []"
  by (simp add: rstrip_by_def)

lemma set_rstrip_by: "set (rstrip_by p s) \<subseteq> set s"
  by (auto simp: rstrip_by_def dest: set_dropWhileD)

lemma rstrip_by_append_last:
  "s \<noteq> [] \<Longrightarrow> \<not> p (last s) \<Longrightarrow> rstrip_by p s = s"
  by (cases s rule: rev_cases) (auto simp: rstrip_by_def)

lemma rstrip_by_idem [simp]: "rstrip_by p (rstrip_by p s) = rstrip_by p s"
  by (simp add: rstrip_by_def)

lemma rstrip_by_prefix: "\<exists>t. s = rstrip_by p s @ t \<and> (\<forall>c\<in>set t. p c)"
proof -
  have "rev s = takeWhile p (rev s) @ dropWhile p (rev s)" by simp
  then have "s = rev (dropWhile p (rev s)) @ rev (takeWhile p (rev s))"
    by (metis rev_append rev_rev_ident)
  moreover have "\<forall>c\<in>set (rev (takeWhile p (rev s))). p c"
    by (auto dest: set_takeWhileD)
  ultimately show ?thesis unfolding rstrip_by_def by blast
qed

lemma hd_rstrip_by: "rstrip_by p s \<noteq> [] \<Longrightarrow> hd (rstrip_by p s) = hd s"
  by (metis hd_append2 rstrip_by_prefix)

lemma lstrip_rstrip_fix:
  "lstrip_by p (rstrip_by p (lstrip_by p s)) = rstrip_by p (lstrip_by p s)"
proof (cases "rstrip_by p (lstrip_by p s)")
  case (Cons c r)
  then have "c = hd (lstrip_by p s)" and "lstrip_by p s \<noteq> []"
    using hd_rstrip_by [of p "lstrip_by p s"] by auto
  then have "\<not> p c" by (simp add: lstrip_by_def hd_dropWhile)
  with Cons show ?thesis by (simp add: lstrip_by_def)
qed (simp add: lstrip_by_def)

lemma strip_idem [simp]: "strip (strip s) = strip s"
  by (simp add: strip_def strip_by_def lstrip_rstrip_fix)

lemma length_strip_le: "length (strip s) \<le> length s"
  unfolding strip_def strip_by_def rstrip_by_def lstrip_by_def
  by (metis dual_order.trans length_dropWhile_le length_rev)

lemma is_py_space_lower [simp]: "is_py_space (lower_char c) = is_py_space c"
proof (cases "is_upper_ascii c")
  case True
  then have b: "(of_char c :: nat) \<ge> 65" "(of_char c :: nat) \<le> 90"
    by (simp_all add: of_char_upper_ascii)
  then have "of_char (lower_char c) = (of_char c :: nat) + 32"
    using True by (simp add: lower_char_def)
  with b show ?thesis by (simp add: is_py_space_def Let_def)
qed (simp add: lower_char_def)

lemma strip_lower: "strip (lower s) = lower (strip s)"
proof -
  have *: "is_py_space \<circ> lower_char = is_py_space" by (simp add: fun_eq_iff)
  show ?thesis
    by (simp add: strip_def strip_by_def rstrip_by_def lstrip_by_def lower_def
        dropWhile_map rev_map *)
qed

lemma split_on_not_Nil [simp]: "split_on c s \<noteq> []"
  by (induction s) (auto split: list.splits)

lemma join_split_on: "join [c] (split_on c s) = s"
proof (induction s)
  case (Cons x s)
  obtain w ws where w: "split_on c s = w # ws"
    using split_on_not_Nil [of c s] by (cases "split_on c s") auto
  show ?case
  proof (cases ws)
    case Nil
    with Cons w show ?thesis by auto
  next
    case (Cons v vs)
    with \<open>join [c] (split_on c s) = s\<close> w show ?thesis by auto
  qed
qed simp

lemma split_on_sep:
  "c \<notin> set x \<Longrightarrow> split_on c (x @ c # s) = x # split_on c s"
  by (induction x) auto

lemma split_on_none: "c \<notin> set x \<Longrightarrow> split_on c x = [x]"
  by (induction x) auto

lemma set_split_on: "set s \<subseteq> insert c (\<Union> (set ` set (split_on c s)))"
proof (induction s)
  case (Cons a s)
  obtain w ws where "split_on c s = w # ws"
    using split_on_not_Nil [of c s] by (cases "split_on c s") auto
  with Cons show ?case by auto
qed simp

end
