(* ===== verification/Ip.thy ===== *)
theory Ip
  imports Prelude "HOL-Library.Word"
begin

text \<open>
  The part of Python's \<open>ipaddress\<close> module the program relies on: parsing of address and network
  literals, containment, and the classification of special-purpose addresses
  (\<open>is_global\<close>, \<open>is_loopback\<close>, \<open>is_link_local\<close>, \<open>is_reserved\<close>) with the tables of CPython
  3.14. Addresses are machine words of their own width; an IPv6 address may carry a scope id.
\<close>

unbundle bit_operations_syntax

datatype ip_addr = IPv4 "32 word" | IPv6 "128 word" "string option"

section \<open>Numerals\<close>

definition digit_value :: "char \<Rightarrow> nat" where
  "digit_value c = (of_char c :: nat) - 48"

definition nat_of_digits :: "string \<Rightarrow> nat" where
  "nat_of_digits s = foldl (\<lambda>n c. n * 10 + digit_value c) 0 s"

text \<open>\<open>s.isascii() and s.isdigit()\<close>: false of the empty string.\<close>

definition is_digits :: "string \<Rightarrow> bool" where
  "is_digits s \<longleftrightarrow> s \<noteq> [] \<and> list_all is_digit_ascii s"

definition hex_value :: "char \<Rightarrow> nat option" where
  "hex_value c =
     (let n = (of_char c :: nat) in
      if 48 \<le> n \<and> n \<le> 57 then Some (n - 48)
      else if 65 \<le> n \<and> n \<le> 70 then Some (n - 55)
      else if 97 \<le> n \<and> n \<le> 102 then Some (n - 87)
      else None)"

fun hex_digits :: "nat \<Rightarrow> string \<Rightarrow> nat option" where
  "hex_digits n [] = Some n"
| "hex_digits n (c # s) =
     (case hex_value c of None \<Rightarrow> None | Some v \<Rightarrow> hex_digits (n * 16 + v) s)"

section \<open>IPv4\<close>

definition parse_octet :: "string \<Rightarrow> nat option" where
  "parse_octet s =
     (if \<not> is_digits s \<or> length s > 3 \<or> (s \<noteq> ''0'' \<and> hd s = CHR ''0'') then None
      else if nat_of_digits s > 255 then None else Some (nat_of_digits s))"

definition word_of_octets :: "nat \<Rightarrow> nat \<Rightarrow> nat \<Rightarrow> nat \<Rightarrow> 32 word" where
  "word_of_octets a b c d = foldl (\<lambda>w n. push_bit 8 w OR word_of_nat n) 0 [a, b, c, d]"

definition ipv4_of_string :: "string \<Rightarrow> 32 word option" where
  "ipv4_of_string s =
     (case map parse_octet (split_on (CHR ''.'') s) of
        [Some a, Some b, Some c, Some d] \<Rightarrow> Some (word_of_octets a b c d)
      | _ \<Rightarrow> None)"

definition octets_of :: "32 word \<Rightarrow> nat list" where
  "octets_of w = map (\<lambda>i. unat (drop_bit i w AND 0xFF)) [24, 16, 8, 0]"

definition string_of_ipv4 :: "32 word \<Rightarrow> string" where
  "string_of_ipv4 w = join ''.'' (map show_nat (octets_of w))"

section \<open>IPv6\<close>

definition parse_hextet :: "string \<Rightarrow> nat option" where
  "parse_hextet s = (if s = [] \<or> length s > 4 then None else hex_digits 0 s)"

definition hextets_word :: "nat list \<Rightarrow> 128 word" where
  "hextets_word hs = foldl (\<lambda>w h. push_bit 16 w OR word_of_nat h) 0 hs"

fun all_some :: "'a option list \<Rightarrow> 'a list option" where
  "all_some [] = Some []"
| "all_some (None # xs) = None"
| "all_some (Some x # xs) = map_option ((#) x) (all_some xs)"

text \<open>A group is a text to parse or, for the two groups of an IPv4 suffix, its value.\<close>

definition hextet_groups :: "string list \<Rightarrow> (string + nat) list option" where
  "hextet_groups parts =
     (if CHR ''.'' \<in> set (last parts) then
        (case ipv4_of_string (last parts) of
           None \<Rightarrow> None
         | Some w \<Rightarrow> Some (map Inl (butlast parts) @
                            [Inr (unat (drop_bit 16 w)), Inr (unat (w AND 0xFFFF))]))
      else Some (map Inl parts))"

fun group_value :: "string + nat \<Rightarrow> nat option" where
  "group_value (Inl s) = parse_hextet s"
| "group_value (Inr n) = Some n"

definition groups_word :: "(string + nat) list \<Rightarrow> nat \<Rightarrow> (string + nat) list \<Rightarrow> 128 word option" where
  "groups_word hi skipped lo =
     (case (all_some (map group_value hi), all_some (map group_value lo)) of
        (Some h, Some l) \<Rightarrow> Some (hextets_word (h @ replicate skipped 0 @ l))
      | _ \<Rightarrow> None)"

definition ipv6_of_string :: "string \<Rightarrow> 128 word option" where
  "ipv6_of_string s =
     (let parts = split_on (CHR '':'') s in
      if s = [] \<or> length parts < 3 then None
      else (case hextet_groups parts of
              None \<Rightarrow> None
            | Some gs \<Rightarrow>
                let n = length gs in
                if n > 9 then None
                else (case filter (\<lambda>i. gs ! i = Inl []) [1..<n - 1] of
                        [] \<Rightarrow>
                          if n \<noteq> 8 then None else groups_word gs 0 []
                      | [k] \<Rightarrow>
                          let hi = (if hd gs = Inl [] then k - 1 else k);
                              lo = (if last gs = Inl [] then n - k - 2 else n - k - 1)
                          in if (hd gs = Inl [] \<and> hi \<noteq> 0) \<or> (last gs = Inl [] \<and> lo \<noteq> 0) then None
                             else if hi + lo > 7 then None
                             else groups_word (take hi gs) (8 - (hi + lo)) (drop (n - lo) gs)
                      | _ \<Rightarrow> None)))"

definition split_scope_id :: "string \<Rightarrow> (string \<times> string option) option" where
  "split_scope_id s =
     (if CHR ''%'' \<notin> set s then Some (s, None)
      else let scope = drop 1 (dropWhile (\<lambda>c. c \<noteq> CHR ''%'') s) in
           if scope = [] \<or> CHR ''%'' \<in> set scope then None
           else Some (takeWhile (\<lambda>c. c \<noteq> CHR ''%'') s, Some scope))"

text \<open>\<open>ipaddress.ip_address\<close>; \<open>None\<close> is its \<open>ValueError\<close>.\<close>

definition ip_address :: "string \<Rightarrow> ip_addr option" where
  "ip_address s =
     (case ipv4_of_string s of
        Some w \<Rightarrow> Some (IPv4 w)
      | None \<Rightarrow>
          if CHR ''/'' \<in> set s then None
          else (case split_scope_id s of
                  None \<Rightarrow> None
                | Some (a, scope) \<Rightarrow> map_option (\<lambda>w. IPv6 w scope) (ipv6_of_string a)))"

section \<open>Networks\<close>

text \<open>\<open>_ip_int_from_prefix\<close> and \<open>__contains__\<close>: \<open>other._ip & netmask == network_address\<close>.\<close>

definition netmask :: "nat \<Rightarrow> 'a::len word" where
  "netmask n = (- 1) XOR drop_bit n (- 1)"

definition in_net :: "'a::len word \<Rightarrow> 'a word \<times> nat \<Rightarrow> bool" where
  "in_net w net \<longleftrightarrow> w AND netmask (snd net) = fst net"

definition in_nets :: "'a::len word \<Rightarrow> ('a word \<times> nat) list \<Rightarrow> bool" where
  "in_nets w nets \<longleftrightarrow> list_ex (in_net w) nets"

datatype ip_net = Net4 "32 word \<times> nat" | Net6 "128 word \<times> nat"

definition prefix_of_string :: "nat \<Rightarrow> string \<Rightarrow> nat option" where
  "prefix_of_string bits s =
     (if is_digits s \<and> nat_of_digits s \<le> bits then Some (nat_of_digits s) else None)"

text \<open>\<open>_prefix_from_ip_int\<close>: a run of ones followed by zeros.\<close>

definition prefix_of_mask :: "32 word \<Rightarrow> nat option" where
  "prefix_of_mask w = find (\<lambda>n. netmask n = w) [0..<33]"

definition mask_of_string :: "string \<Rightarrow> nat option" where
  "mask_of_string s =
     (case prefix_of_string 32 s of
        Some n \<Rightarrow> Some n
      | None \<Rightarrow>
          (case ipv4_of_string s of
             None \<Rightarrow> None
           | Some w \<Rightarrow>
               (case prefix_of_mask w of
                  Some n \<Rightarrow> Some n
                | None \<Rightarrow> prefix_of_mask (NOT w))))"

text \<open>\<open>ip_network(s, strict=False)\<close> of a text with a slash: host bits are masked away.\<close>

definition ip_network :: "string \<Rightarrow> ip_net option" where
  "ip_network s =
     (case split_on (CHR ''/'') s of
        [a, m] \<Rightarrow>
          (case (ipv4_of_string a, mask_of_string m) of
             (Some w, Some n) \<Rightarrow> Some (Net4 (w AND netmask n, n))
           | _ \<Rightarrow>
               (case (split_scope_id a, prefix_of_string 128 m) of
                  (Some (b, _), Some n) \<Rightarrow>
                    map_option (\<lambda>w. Net6 (w AND netmask n, n)) (ipv6_of_string b)
                | _ \<Rightarrow> None))
      | _ \<Rightarrow> None)"

fun in_network :: "ip_addr \<Rightarrow> ip_net \<Rightarrow> bool" where
  "in_network (IPv4 w) (Net4 net) = in_net w net"
| "in_network (IPv6 w _) (Net6 net) = in_net w net"
| "in_network _ _ = False"

section \<open>Special-purpose addresses\<close>

definition PRIVATE4 :: "(32 word \<times> nat) list" where
  "PRIVATE4 =
     [(word_of_octets 0 0 0 0, 8), (word_of_octets 10 0 0 0, 8), (word_of_octets 127 0 0 0, 8),
      (word_of_octets 169 254 0 0, 16), (word_of_octets 172 16 0 0, 12),
      (word_of_octets 192 0 0 0, 24), (word_of_octets 192 0 0 170, 31),
      (word_of_octets 192 0 2 0, 24), (word_of_octets 192 168 0 0, 16),
      (word_of_octets 198 18 0 0, 15), (word_of_octets 198 51 100 0, 24),
      (word_of_octets 203 0 113 0, 24), (word_of_octets 240 0 0 0, 4),
      (word_of_octets 255 255 255 255, 32)]"

definition PRIVATE4_EXCEPTIONS :: "(32 word \<times> nat) list" where
  "PRIVATE4_EXCEPTIONS = [(word_of_octets 192 0 0 9, 32), (word_of_octets 192 0 0 10, 32)]"

definition is_private4 :: "32 word \<Rightarrow> bool" where
  "is_private4 w \<longleftrightarrow> in_nets w PRIVATE4 \<and> \<not> in_nets w PRIVATE4_EXCEPTIONS"

definition is_global4 :: "32 word \<Rightarrow> bool" where
  "is_global4 w \<longleftrightarrow> \<not> in_net w (word_of_octets 100 64 0 0, 10) \<and> \<not> is_private4 w"

definition is_loopback4 :: "32 word \<Rightarrow> bool" where
  "is_loopback4 w \<longleftrightarrow> in_net w (word_of_octets 127 0 0 0, 8)"

definition is_link_local4 :: "32 word \<Rightarrow> bool" where
  "is_link_local4 w \<longleftrightarrow> in_net w (word_of_octets 169 254 0 0, 16)"

definition is_reserved4 :: "32 word \<Rightarrow> bool" where
  "is_reserved4 w \<longleftrightarrow> in_net w (word_of_octets 240 0 0 0, 4)"

definition hextets_net :: "nat list \<Rightarrow> nat \<Rightarrow> 128 word \<times> nat" where
  "hextets_net hs n = (hextets_word (hs @ replicate (8 - length hs) 0), n)"

definition PRIVATE6 :: "(128 word \<times> nat) list" where
  "PRIVATE6 =
     [hextets_net [0, 0, 0, 0, 0, 0, 0, 1] 128, hextets_net [] 128,
      hextets_net [0, 0, 0, 0, 0, 0xFFFF] 96, hextets_net [0x64, 0xFF9B, 1] 48,
      hextets_net [0x100] 64, hextets_net [0x2001] 23, hextets_net [0x2001, 0xDB8] 32,
      hextets_net [0x2002] 16, hextets_net [0x3FFF] 20, hextets_net [0xFC00] 7,
      hextets_net [0xFE80] 10]"

definition PRIVATE6_EXCEPTIONS :: "(128 word \<times> nat) list" where
  "PRIVATE6_EXCEPTIONS =
     [hextets_net [0x2001, 1, 0, 0, 0, 0, 0, 1] 128, hextets_net [0x2001, 1, 0, 0, 0, 0, 0, 2] 128,
      hextets_net [0x2001, 3] 32, hextets_net [0x2001, 4, 0x112] 48, hextets_net [0x2001, 0x20] 28,
      hextets_net [0x2001, 0x30] 28]"

definition RESERVED6 :: "(128 word \<times> nat) list" where
  "RESERVED6 =
     [hextets_net [] 8, hextets_net [0x100] 8, hextets_net [0x200] 7, hextets_net [0x400] 6,
      hextets_net [0x800] 5, hextets_net [0x1000] 4, hextets_net [0x4000] 3,
      hextets_net [0x6000] 3, hextets_net [0x8000] 3, hextets_net [0xA000] 3,
      hextets_net [0xC000] 3, hextets_net [0xE000] 4, hextets_net [0xF000] 5,
      hextets_net [0xF800] 6, hextets_net [0xFE00] 9]"

definition ipv4_mapped :: "128 word \<Rightarrow> 32 word option" where
  "ipv4_mapped w = (if drop_bit 32 w \<noteq> 0xFFFF then None else Some (ucast w))"

fun ip_is_global :: "ip_addr \<Rightarrow> bool" where
  "ip_is_global (IPv4 w) = is_global4 w"
| "ip_is_global (IPv6 w _) =
     (case ipv4_mapped w of
        Some v \<Rightarrow> is_global4 v
      | None \<Rightarrow> \<not> (in_nets w PRIVATE6 \<and> \<not> in_nets w PRIVATE6_EXCEPTIONS))"

fun ip_is_loopback :: "ip_addr \<Rightarrow> bool" where
  "ip_is_loopback (IPv4 w) = is_loopback4 w"
| "ip_is_loopback (IPv6 w _) =
     (case ipv4_mapped w of Some v \<Rightarrow> is_loopback4 v | None \<Rightarrow> w = 1)"

fun ip_is_link_local :: "ip_addr \<Rightarrow> bool" where
  "ip_is_link_local (IPv4 w) = is_link_local4 w"
| "ip_is_link_local (IPv6 w _) =
     (case ipv4_mapped w of Some v \<Rightarrow> is_link_local4 v
      | None \<Rightarrow> in_net w (hextets_net [0xFE80] 10))"

fun ip_is_reserved :: "ip_addr \<Rightarrow> bool" where
  "ip_is_reserved (IPv4 w) = is_reserved4 w"
| "ip_is_reserved (IPv6 w _) =
     (case ipv4_mapped w of Some v \<Rightarrow> is_reserved4 v | None \<Rightarrow> in_nets w RESERVED6)"

section \<open>Laws\<close>

lemma drop_bit_minus_one: "drop_bit n (- 1 :: 'a::len word) = mask (LENGTH('a) - n)"
  by (rule bit_word_eqI) (auto simp: bit_drop_bit_eq bit_mask_iff)

lemma netmask_eq: "netmask n = (NOT (mask (LENGTH('a) - n)) :: 'a::len word)"
  by (simp add: netmask_def drop_bit_minus_one)

lemma and_netmask: "(w :: 'a::len word) AND NOT (mask k) = push_bit k (drop_bit k w)"
  by (rule bit_word_eqI) (auto simp: bit_simps)

lemma in_net_iff:
  assumes "n \<le> 32" "v < 2 ^ n" "base = word_of_nat (v * 2 ^ (32 - n))"
  shows "in_net (w :: 32 word) (base, n) \<longleftrightarrow> unat w div 2 ^ (32 - n) = v"
proof -
  let ?k = "32 - n"
  have p: "(2::nat) ^ 32 = 2 ^ n * 2 ^ ?k" using assms(1) by (simp flip: power_add)
  have "v * 2 ^ ?k < 2 ^ 32" unfolding p using assms(2) by (intro mult_strict_right_mono) simp_all
  then have b: "unat base = v * 2 ^ ?k" using assms(3) by (simp add: unsigned_of_nat take_bit_nat_eq_self del: of_nat_mult)
  have "unat w < 2 ^ 32" using unsigned_less [of w] by simp
  then have q: "unat w div 2 ^ ?k * 2 ^ ?k < 2 ^ 32" by (meson div_times_less_eq_dividend le_less_trans)
  have l: "unat (w AND netmask n) = unat w div 2 ^ ?k * 2 ^ ?k"
    using q \<open>unat w < 2 ^ 32\<close>
    by (simp add: netmask_eq and_netmask unsigned_push_bit_eq unsigned_drop_bit_eq
        push_bit_eq_mult [where 'a = nat] drop_bit_eq_div [where 'a = nat] take_bit_nat_eq_self)
  have "in_net w (base, n) \<longleftrightarrow> unat (w AND netmask n) = unat base"
    by (simp add: in_net_def word_unat_eq_iff)
  then show ?thesis unfolding l b by simp
qed

lemma octets_of_eq:
  "octets_of w = [unat w div 16777216, unat w div 65536 mod 256, unat w div 256 mod 256, unat w mod 256]"
proof -
  have m: "(255 :: 32 word) = mask 8" by (simp add: mask_eq_exp_minus_1)
  have b: "unat w < 4294967296" using unsigned_less [of w] by simp
  have *: "unat (drop_bit i w AND 0xFF) = unat w div 2 ^ i mod 256" for i
    unfolding m using b by (simp add: unsigned_drop_bit_eq take_bit_eq_mod [where 'a = nat] drop_bit_eq_div [where 'a = nat] unsigned_take_bit_eq flip: take_bit_eq_mask)
  have "unat w div 16777216 < 256" using b by (simp add: less_mult_imp_div_less)
  then show ?thesis by (simp add: octets_of_def *)
qed

lemma digit_char: "d < 10 \<Longrightarrow> digit_value (char_of (d + 48)) = d \<and> is_digit_ascii (char_of (d + 48))"
  by (simp add: digit_value_def is_digit_ascii_def less_eq_char_def)

lemma nat_of_digits_snoc: "nat_of_digits (s @ [c]) = nat_of_digits s * 10 + digit_value c"
  by (simp add: nat_of_digits_def)

lemma digits_show_nat: "nat_of_digits (show_nat n) = n \<and> list_all is_digit_ascii (show_nat n)"
proof (induction n rule: show_nat.induct)
  case (1 n)
  show ?case
  proof (cases "n < 10")
    case True
    then show ?thesis using digit_char [of n]
      by (subst (1 2) show_nat.simps) (simp add: nat_of_digits_def)
  next
    case False
    then show ?thesis using 1 digit_char [of "n mod 10"]
      by (subst (1 2) show_nat.simps) (simp add: nat_of_digits_snoc)
  qed
qed

lemma show_nat_not_Nil [simp]: "show_nat n \<noteq> []"
  by (subst show_nat.simps) simp

lemma of_char_0x30: "(of_char (CHR ''0'') :: nat) = 48"
  by simp

lemma hd_show_nat: "n > 0 \<Longrightarrow> hd (show_nat n) \<noteq> CHR ''0''"
proof (induction n rule: show_nat.induct)
  case (1 n)
  have "char_of (n + 48) \<noteq> CHR ''0''" if "0 < n" "n < 10"
    using digit_char [of n] that by (metis digit_value_def not_gr_zero of_char_0x30 diff_self_eq_0)
  with 1 show ?case by (subst show_nat.simps) simp
qed

lemma length_show_nat: "n < 10 ^ Suc k \<Longrightarrow> length (show_nat n) \<le> Suc k"
proof (induction k arbitrary: n)
  case 0
  then show ?case by (subst show_nat.simps) simp
next
  case (Suc k)
  then have "n div 10 < 10 ^ Suc k" by (simp add: less_mult_imp_div_less)
  with Suc.IH [of "n div 10"] show ?case by (subst show_nat.simps) simp
qed

lemma parse_octet_show: "n < 256 \<Longrightarrow> parse_octet (show_nat n) = Some n"
proof -
  assume n: "n < 256"
  have "show_nat 0 = ''0''" by code_simp
  then have "show_nat n \<noteq> ''0'' \<Longrightarrow> hd (show_nat n) \<noteq> CHR ''0''"
    using hd_show_nat [of n] by (cases n) auto
  with n digits_show_nat [of n] length_show_nat [of n 2] show "parse_octet (show_nat n) = Some n"
    by (auto simp: parse_octet_def is_digits_def)
qed

lemma dot_not_digit: "list_all is_digit_ascii s \<Longrightarrow> CHR ''.'' \<notin> set s"
  by (auto simp: list_all_iff is_digit_ascii_def less_eq_char_def)

lemma push_drop_or: "push_bit 8 (drop_bit 8 v) OR (v AND mask 8) = (v :: 32 word)"
  by (rule bit_word_eqI) (auto simp: bit_simps)

lemma word_of_octets_of: "octets_of w = [a, b, c, d] \<Longrightarrow> word_of_octets a b c d = w"
proof -
  assume "octets_of w = [a, b, c, d]"
  then have *: "a = unat (drop_bit 24 w AND mask 8)" "b = unat (drop_bit 16 w AND mask 8)"
    "c = unat (drop_bit 8 w AND mask 8)" "d = unat (w AND mask 8)"
    by (simp_all add: octets_of_def mask_eq_exp_minus_1)
  have top: "drop_bit 24 w AND mask 8 = drop_bit 24 w"
    by (rule bit_word_eqI) (auto simp: bit_simps dest: bit_imp_le_length)
  have "push_bit 8 (drop_bit 24 w) OR (drop_bit 16 w AND mask 8) = drop_bit 16 w"
    "push_bit 8 (drop_bit 16 w) OR (drop_bit 8 w AND mask 8) = drop_bit 8 w"
    using push_drop_or [of "drop_bit 16 w"] push_drop_or [of "drop_bit 8 w"] by simp_all
  then show ?thesis
    by (simp add: word_of_octets_def * top push_drop_or)
qed

lemma octets_small: "n \<in> set (octets_of w) \<Longrightarrow> n < 256"
proof -
  have "unat w < 4294967296" using unsigned_less [of w, where 'a = nat] by simp
  then show "n \<in> set (octets_of w) \<Longrightarrow> n < 256" by (auto simp: octets_of_eq less_mult_imp_div_less)
qed

lemma ipv4_of_string_of: "ipv4_of_string (string_of_ipv4 w) = Some w"
proof -
  obtain a b c d where o: "octets_of w = [a, b, c, d]" by (simp add: octets_of_def)
  then have small: "a < 256" "b < 256" "c < 256" "d < 256"
    using octets_small [of _ w] by simp_all
  have nodot: "CHR ''.'' \<notin> set (show_nat n)" for n
    using dot_not_digit digits_show_nat by blast
  have "split_on (CHR ''.'') (string_of_ipv4 w) = [show_nat a, show_nat b, show_nat c, show_nat d]"
    by (simp add: string_of_ipv4_def o split_on_sep split_on_none nodot)
  then show ?thesis
    by (simp add: ipv4_of_string_def parse_octet_show small word_of_octets_of o)
qed

lemma in_net_host: "in_net (w :: 32 word) (base, 32) \<longleftrightarrow> w = base"
  by (simp add: in_net_def netmask_eq)

lemma private_blocks:
  "in_net w (word_of_octets 0 0 0 0, 8) \<longleftrightarrow> unat w div 16777216 = 0"
  "in_net w (word_of_octets 10 0 0 0, 8) \<longleftrightarrow> unat w div 16777216 = 10"
  "in_net w (word_of_octets 127 0 0 0, 8) \<longleftrightarrow> unat w div 16777216 = 127"
  "in_net w (word_of_octets 169 254 0 0, 16) \<longleftrightarrow> unat w div 65536 = 43518"
  "in_net w (word_of_octets 172 16 0 0, 12) \<longleftrightarrow> unat w div 1048576 = 2753"
  "in_net w (word_of_octets 192 168 0 0, 16) \<longleftrightarrow> unat w div 65536 = 49320"
  "in_net w (word_of_octets 198 18 0 0, 15) \<longleftrightarrow> unat w div 131072 = 25353"
  "in_net w (word_of_octets 240 0 0 0, 4) \<longleftrightarrow> unat w div 268435456 = 15"
  "in_net w (word_of_octets 100 64 0 0, 10) \<longleftrightarrow> unat w div 4194304 = 401"
  by (simp_all add: word_of_octets_def in_net_iff [where n = 8 and v = 0 and base = 0]
      in_net_iff [where n = 8 and v = 10 and base = 167772160]
      in_net_iff [where n = 8 and v = 127 and base = 2130706432]
      in_net_iff [where n = 16 and v = 43518 and base = 2851995648]
      in_net_iff [where n = 12 and v = 2753 and base = 2886729728]
      in_net_iff [where n = 16 and v = 49320 and base = 3232235520]
      in_net_iff [where n = 15 and v = 25353 and base = 3323068416]
      in_net_iff [where n = 4 and v = 15 and base = 4026531840]
      in_net_iff [where n = 10 and v = 401 and base = 1681915904])

lemma is_global4_octets:
  assumes "is_global4 w" "octets_of w = [a, b, c, d]"
  shows "a \<notin> {0, 10, 127} \<and> a < 240 \<and> (a, b) \<noteq> (169, 254) \<and> (a, b) \<noteq> (192, 168) \<and>
    \<not> (a = 172 \<and> 16 \<le> b \<and> b < 32) \<and> \<not> (a = 100 \<and> 64 \<le> b \<and> b < 128) \<and>
    \<not> (a = 198 \<and> (b = 18 \<or> b = 19))"
proof (cases "in_nets w PRIVATE4_EXCEPTIONS")
  case True
  then have "w = word_of_octets 192 0 0 9 \<or> w = word_of_octets 192 0 0 10"
    by (auto simp: in_nets_def PRIVATE4_EXCEPTIONS_def in_net_host)
  then have "octets_of w = [192, 0, 0, 9] \<or> octets_of w = [192, 0, 0, 10]"
    by (auto simp: octets_of_def word_of_octets_def)
  with assms(2) show ?thesis by auto
next
  case False
  define n where "n = unat w"
  have ab: "a = n div 16777216" "b = n div 65536 mod 256"
    using assms(2) by (simp_all add: octets_of_eq n_def)
  have b: "n < 4294967296" using unsigned_less [of w, where 'a = nat] by (simp add: n_def)
  have nets: "n div 16777216 \<noteq> 0" "n div 16777216 \<noteq> 10" "n div 16777216 \<noteq> 127"
    "n div 65536 \<noteq> 43518" "n div 1048576 \<noteq> 2753" "n div 65536 \<noteq> 49320"
    "n div 131072 \<noteq> 25353" "n div 268435456 \<noteq> 15" "n div 4194304 \<noteq> 401"
    using assms(1) False
    by (simp_all add: is_global4_def is_private4_def in_nets_def PRIVATE4_def private_blocks n_def)
  define h where "h = n div 65536"
  have div: "n div 16777216 = h div 256" "n div 1048576 = h div 16" "n div 131072 = h div 2"
    "n div 268435456 = h div 4096" "n div 4194304 = h div 64"
    unfolding h_def by (simp_all flip: div_mult2_eq)
  have ab: "a = h div 256" "b = h mod 256" using ab div(1) by (simp_all add: h_def)
  then have h: "h = a * 256 + b" "b < 256" by simp_all
  note nets = nets [unfolded div, folded h_def]
  have "a \<notin> {0, 10, 127}" using nets(1-3) unfolding ab(1) by blast
  moreover have "a < 240"
  proof (rule ccontr)
    assume "\<not> a < 240"
    then have "61440 \<le> h" using h(1) by simp
    moreover have "h < 65536" using b by (simp add: h_def less_mult_imp_div_less)
    ultimately have "h div 4096 = 15" by (intro div_nat_eqI) simp_all
    with nets(8) show False by simp
  qed
  moreover have "(a, b) \<noteq> (169, 254)" "(a, b) \<noteq> (192, 168)" using nets(4,6) h(1) by auto
  moreover have "\<not> (a = 172 \<and> 16 \<le> b \<and> b < 32)"
  proof
    assume "a = 172 \<and> 16 \<le> b \<and> b < 32"
    then have "h div 16 = 2753" using h(1) by (intro div_nat_eqI) simp_all
    with nets(5) show False by simp
  qed
  moreover have "\<not> (a = 100 \<and> 64 \<le> b \<and> b < 128)"
  proof
    assume "a = 100 \<and> 64 \<le> b \<and> b < 128"
    then have "h div 64 = 401" using h(1) by (intro div_nat_eqI) simp_all
    with nets(9) show False by simp
  qed
  moreover have "\<not> (a = 198 \<and> (b = 18 \<or> b = 19))"
  proof
    assume "a = 198 \<and> (b = 18 \<or> b = 19)"
    then have "h div 2 = 25353" using h(1) by (intro div_nat_eqI) auto
    with nets(7) show False by simp
  qed
  ultimately show ?thesis by blast
qed

definition is_ip_char :: "char \<Rightarrow> bool" where
  "is_ip_char c \<longleftrightarrow> hex_value c \<noteq> None \<or> c = CHR ''.'' \<or> c = CHR '':''"

lemma hex_digits_chars: "hex_digits n s = Some m \<Longrightarrow> c \<in> set s \<Longrightarrow> hex_value c \<noteq> None"
  by (induction n s rule: hex_digits.induct) (auto split: option.splits)

lemma parse_hextet_chars: "parse_hextet s = Some m \<Longrightarrow> c \<in> set s \<Longrightarrow> is_ip_char c"
  by (auto simp: parse_hextet_def is_ip_char_def split: if_splits dest: hex_digits_chars)

lemma digit_is_hex: "is_digit_ascii c \<Longrightarrow> hex_value c \<noteq> None"
  by (simp add: is_digit_ascii_def hex_value_def less_eq_char_def Let_def)

lemma parse_octet_chars: "parse_octet s = Some m \<Longrightarrow> c \<in> set s \<Longrightarrow> is_digit_ascii c"
  by (auto simp: parse_octet_def is_digits_def list_all_iff split: if_splits)

lemma ipv4_chars:
  assumes "ipv4_of_string s = Some w" "c \<in> set s"
  shows "is_digit_ascii c \<or> c = CHR ''.''"
proof -
  have "\<forall>p \<in> set (split_on (CHR ''.'') s). parse_octet p \<noteq> None"
    using assms(1) by (auto simp: ipv4_of_string_def split: list.splits option.splits)
  then show ?thesis using set_split_on [of s "CHR ''.''"] assms(2) parse_octet_chars by fastforce
qed

lemma all_some_Some: "all_some xs = Some ys \<Longrightarrow> x \<in> set xs \<Longrightarrow> x \<noteq> None"
  by (induction xs arbitrary: ys rule: all_some.induct) auto

lemma groups_word_parts:
  assumes "groups_word hi k lo = Some w" "Inl p \<in> set hi \<union> set lo"
  shows "parse_hextet p \<noteq> None"
  using assms all_some_Some [of "map group_value hi" _ "parse_hextet p"]
    all_some_Some [of "map group_value lo" _ "parse_hextet p"]
  by (force simp: groups_word_def split: option.splits)

lemma hextet_groups_chars:
  assumes "hextet_groups parts = Some gs" "parts \<noteq> []"
    "\<And>p. Inl p \<in> set gs \<Longrightarrow> p = [] \<or> parse_hextet p \<noteq> None"
    and "p \<in> set parts" "c \<in> set p"
  shows "is_ip_char c"
proof (cases "CHR ''.'' \<in> set (last parts)")
  case False
  then have "Inl p \<in> set gs" using assms(1,4) by (auto simp: hextet_groups_def)
  with assms(3,5) show ?thesis using parse_hextet_chars by fastforce
next
  case True
  then obtain w where w: "ipv4_of_string (last parts) = Some w"
    and gs: "gs = map Inl (butlast parts) @ [Inr (unat (drop_bit 16 w)), Inr (unat (w AND 0xFFFF))]"
    using assms(1) by (auto simp: hextet_groups_def split: option.splits)
  show ?thesis
  proof (cases "p \<in> set (butlast parts)")
    case True
    then have "Inl p \<in> set gs" by (simp add: gs)
    with assms(3,5) show ?thesis using parse_hextet_chars by fastforce
  next
    case False
    then have "p = last parts" using assms(2,4) by (metis append_butlast_last_id rotate1.simps(2) set_ConsD set_rotate1)
    then show ?thesis using ipv4_chars [OF w] assms(5) digit_is_hex by (auto simp: is_ip_char_def)
  qed
qed

lemma ipv6_groups:
  assumes "ipv6_of_string s = Some w"
  obtains gs where "hextet_groups (split_on (CHR '':'') s) = Some gs"
    "\<forall>p. Inl p \<in> set gs \<longrightarrow> p = [] \<or> parse_hextet p \<noteq> None"
proof -
  let ?parts = "split_on (CHR '':'') s"
  obtain gs where gs: "hextet_groups ?parts = Some gs"
    using assms by (auto simp: ipv6_of_string_def Let_def split: if_splits option.splits)
  define n where "n = length gs"
  define ks where "ks = filter (\<lambda>i. gs ! i = Inl []) [1..<n - 1]"
  note v = assms [unfolded ipv6_of_string_def Let_def gs option.case, folded n_def, folded ks_def]
  have "p = [] \<or> parse_hextet p \<noteq> None" if p: "Inl p \<in> set gs" for p
  proof (cases ks)
    case Nil
    then have "groups_word gs 0 [] = Some w" using v by (auto split: if_splits)
    with p groups_word_parts show ?thesis by blast
  next
    case (Cons k ks')
    then have "ks' = []" using v by (auto split: if_splits list.splits)
    with Cons have ks: "ks = [k]" by simp
    then have "k \<in> set ks" by simp
    then have k: "1 \<le> k" "k < n - 1" "gs ! k = Inl []"
      using \<open>k \<in> set ks\<close> by (auto simp: ks_def)
    define hi where "hi = (if hd gs = Inl [] then k - 1 else k)"
    define lo where "lo = (if last gs = Inl [] then n - k - 2 else n - k - 1)"
    have w: "groups_word (take hi gs) (8 - (hi + lo)) (drop (n - lo) gs) = Some w"
      and z: "hd gs = Inl [] \<Longrightarrow> hi = 0" "last gs = Inl [] \<Longrightarrow> lo = 0"
      using v unfolding ks list.case hi_def [symmetric] lo_def [symmetric] by (auto split: if_splits)
    obtain i where i: "i < n" "gs ! i = Inl p" using p by (metis in_set_conv_nth n_def)
    consider "i < hi" | "i \<ge> n - lo" | "hi \<le> i" "i < n - lo" by linarith
    then show ?thesis
    proof cases
      case 1
      then have "Inl p \<in> set (take hi gs)" using i by (metis in_set_conv_nth length_take min_less_iff_conj n_def nth_take)
      with w groups_word_parts show ?thesis by blast
    next
      case 2
      then have "drop (n - lo) gs ! (i - (n - lo)) = Inl p" "i - (n - lo) < length (drop (n - lo) gs)"
        using i by (simp_all add: n_def)
      then have "Inl p \<in> set (drop (n - lo) gs)" by (metis nth_mem)
      with w groups_word_parts show ?thesis by blast
    next
      case 3
      have ne: "gs \<noteq> []" using i n_def by auto
      have "i = 0 \<and> hd gs = Inl [] \<or> i = k \<or> i = n - 1 \<and> last gs = Inl []"
        using 3 z k unfolding hi_def lo_def by (auto split: if_splits)
      then have "gs ! i = Inl []"
        using k ne by (auto simp: hd_conv_nth last_conv_nth n_def)
      with i show ?thesis by simp
    qed
  qed
  then show thesis using gs by (intro that) blast+
qed

lemma ip_address_chars:
  assumes "ip_address s = Some a" "CHR ''%'' \<notin> set s" "c \<in> set s"
  shows "is_ip_char c"
proof (cases "ipv4_of_string s")
  case (Some w)
  then show ?thesis using ipv4_chars [OF Some assms(3)] digit_is_hex by (auto simp: is_ip_char_def)
next
  case None
  then obtain w where w: "ipv6_of_string s = Some w"
    using assms(1,2) by (auto simp: ip_address_def split_scope_id_def split: if_splits)
  obtain gs where gs: "hextet_groups (split_on (CHR '':'') s) = Some gs"
    "\<forall>p. Inl p \<in> set gs \<longrightarrow> p = [] \<or> parse_hextet p \<noteq> None"
    by (rule ipv6_groups [OF w])
  have "is_ip_char x" if "p \<in> set (split_on (CHR '':'') s)" "x \<in> set p" for p x
    by (rule hextet_groups_chars [OF gs(1) split_on_not_Nil _ that]) (use gs(2) in blast)
  with set_split_on [of s "CHR '':''"] assms(3) show ?thesis by (auto simp: is_ip_char_def)
qed

lemma show_nat_chars: "c \<in> set (show_nat n) \<Longrightarrow> is_digit_ascii c"
  using digits_show_nat [of n] by (auto simp: list_all_iff)

end
