(* ===== verification/Url.thy ===== *)
theory Url
  imports Ip
begin

text \<open>
  The part of Python's \<open>urllib.parse\<close> the program relies on (\<open>urlsplit\<close>, \<open>urlparse\<close>, the
  host, port and user-info accessors, \<open>urlunsplit\<close>, \<open>parse_qs\<close>, \<open>quote\<close>), as CPython 3.14
  has it, and \<open>domain_from_url\<close> of \<open>app/utils.py\<close>. \<open>None\<close> is \<open>ValueError\<close>.

  A percent escape of a byte above 127 is decoded to the character of that code, where Python
  decodes UTF-8.
\<close>

section \<open>Partitions\<close>

definition partition_at :: "char \<Rightarrow> string \<Rightarrow> string \<times> bool \<times> string" where
  "partition_at c s =
     (takeWhile (\<lambda>x. x \<noteq> c) s, c \<in> set s, drop 1 (dropWhile (\<lambda>x. x \<noteq> c) s))"

definition rpartition_at :: "char \<Rightarrow> string \<Rightarrow> string \<times> bool \<times> string" where
  "rpartition_at c s =
     (if c \<in> set s
      then (rev (drop 1 (dropWhile (\<lambda>x. x \<noteq> c) (rev s))), True, rev (takeWhile (\<lambda>x. x \<noteq> c) (rev s)))
      else ([], False, s))"

section \<open>Splitting\<close>

record url =
  ur_scheme :: string
  ur_netloc :: string
  ur_path :: string
  ur_params :: string
  ur_query :: string
  ur_fragment :: string

definition is_scheme_char :: "char \<Rightarrow> bool" where
  "is_scheme_char c \<longleftrightarrow> is_letter_ascii c \<or> is_digit_ascii c \<or> c \<in> {CHR ''+'', CHR ''-'', CHR ''.''}"

definition is_c0_or_space :: "char \<Rightarrow> bool" where
  "is_c0_or_space c \<longleftrightarrow> (of_char c :: nat) \<le> 32"

definition is_unsafe_url_char :: "char \<Rightarrow> bool" where
  "is_unsafe_url_char c \<longleftrightarrow> (of_char c :: nat) \<in> {9, 10, 13}"

definition is_netloc_end :: "char \<Rightarrow> bool" where
  "is_netloc_end c \<longleftrightarrow> c \<in> {CHR ''/'', CHR ''?'', CHR ''#''}"

text \<open>\<open>v[a-fA-F0-9]+\..+\<close>, the form of an address of a future version.\<close>

definition is_ipvfuture :: "string \<Rightarrow> bool" where
  "is_ipvfuture h =
     (let (version, dot, rest) = partition_at (CHR ''.'') (drop 1 h) in
      dot \<and> version \<noteq> [] \<and> list_all (\<lambda>c. hex_value c \<noteq> None) version \<and> rest \<noteq> [])"

definition check_bracketed_host :: "string \<Rightarrow> bool" where
  "check_bracketed_host h =
     (if starts_with h ''v'' then is_ipvfuture h
      else (case ip_address h of Some (IPv6 _ _) \<Rightarrow> True | _ \<Rightarrow> False))"

definition check_bracketed_netloc :: "string \<Rightarrow> bool" where
  "check_bracketed_netloc netloc =
     (let (_, _, hostname_and_port) = rpartition_at (CHR ''@'') netloc;
          (pre, have_open, bracketed) = partition_at (CHR ''['') hostname_and_port
      in if have_open then
           (let (hostname, _, port) = partition_at (CHR '']'') bracketed in
            pre = [] \<and> (port = [] \<or> starts_with port '':'') \<and> check_bracketed_host hostname)
         else check_bracketed_host (fst (partition_at (CHR '':'') hostname_and_port)))"

definition netloc_ok :: "string \<Rightarrow> bool" where
  "netloc_ok netloc =
     (let lb = CHR ''['' \<in> set netloc; rb = CHR '']'' \<in> set netloc
      in lb = rb \<and> (lb \<longrightarrow> check_bracketed_netloc netloc))"

definition split_scheme :: "string \<Rightarrow> string \<times> string" where
  "split_scheme u =
     (let (pre, colon, post) = partition_at (CHR '':'') u in
      if colon \<and> pre \<noteq> [] \<and> is_letter_ascii (hd pre) \<and> list_all is_scheme_char pre
      then (lower pre, post) else ([], u))"

definition split_netloc :: "string \<Rightarrow> string \<times> string" where
  "split_netloc u =
     (if starts_with u ''//''
      then (takeWhile (\<lambda>c. \<not> is_netloc_end c) (drop 2 u), dropWhile (\<lambda>c. \<not> is_netloc_end c) (drop 2 u))
      else ([], u))"

definition urlsplit :: "string \<Rightarrow> url option" where
  "urlsplit s =
     (let u = filter (\<lambda>c. \<not> is_unsafe_url_char c) (dropWhile is_c0_or_space s);
          (scheme, u1) = split_scheme u;
          (netloc, u2) = split_netloc u1
      in if \<not> netloc_ok netloc then None
         else
           let (u3, _, fragment) = partition_at (CHR ''#'') u2;
               (path, _, query) = partition_at (CHR ''?'') u3
           in Some \<lparr>ur_scheme = scheme, ur_netloc = netloc, ur_path = path, ur_params = [],
                    ur_query = query, ur_fragment = fragment\<rparr>)"

definition uses_params :: "string list" where
  "uses_params = [[], ''ftp'', ''hdl'', ''prospero'', ''http'', ''imap'', ''https'', ''shttp'',
                  ''rtsp'', ''rtsps'', ''rtspu'', ''sip'', ''sips'', ''mms'', ''sftp'', ''tel'']"

text \<open>\<open>_splitparams\<close>: the parameters follow the first semicolon of the last path segment.\<close>

definition split_params :: "string \<Rightarrow> string \<times> string" where
  "split_params u =
     (let (pre, slash, seg) = rpartition_at (CHR ''/'') u;
          (p, _, params) = partition_at (CHR '';'') seg
      in ((if slash then pre @ ''/'' else []) @ p, params))"

definition urlparse :: "string \<Rightarrow> url option" where
  "urlparse s =
     map_option (\<lambda>u. if ur_scheme u \<in> set uses_params
                     then u\<lparr>ur_path := fst (split_params (ur_path u)),
                            ur_params := snd (split_params (ur_path u))\<rparr>
                     else u) (urlsplit s)"

section \<open>Accessors\<close>

definition url_userinfo :: "url \<Rightarrow> string option \<times> string option" where
  "url_userinfo u =
     (let (userinfo, have_info, _) = rpartition_at (CHR ''@'') (ur_netloc u);
          (name, have_password, password) = partition_at (CHR '':'') userinfo
      in if have_info then (Some name, if have_password then Some password else None)
         else (None, None))"

definition url_hostinfo :: "url \<Rightarrow> string \<times> string" where
  "url_hostinfo u =
     (let (_, _, hostinfo) = rpartition_at (CHR ''@'') (ur_netloc u);
          (_, have_open, bracketed) = partition_at (CHR ''['') hostinfo
      in if have_open then
           (let (hostname, _, rest) = partition_at (CHR '']'') bracketed;
                (_, _, port) = partition_at (CHR '':'') rest
            in (hostname, port))
         else (let (hostname, _, port) = partition_at (CHR '':'') hostinfo in (hostname, port)))"

text \<open>A zone of a scoped IPv6 address keeps its case.\<close>

definition lower_host :: "string \<Rightarrow> string" where
  "lower_host h =
     (let (host, percent, zone) = partition_at (CHR ''%'') h
      in lower host @ (if percent then ''%'' @ zone else []))"

definition url_hostname :: "url \<Rightarrow> string option" where
  "url_hostname u =
     (let h = fst (url_hostinfo u) in if h = [] then None else Some (lower_host h))"

text \<open>\<open>.port\<close>: the outer \<open>None\<close> is the \<open>ValueError\<close> of a bad port.\<close>

definition url_port :: "url \<Rightarrow> nat option option" where
  "url_port u =
     (let p = snd (url_hostinfo u) in
      if p = [] then Some None
      else if is_digits p \<and> nat_of_digits p \<le> 65535 then Some (Some (nat_of_digits p))
      else None)"

definition domain_from_url :: "string \<Rightarrow> string" where
  "domain_from_url s =
     (case urlparse s of
        None \<Rightarrow> []
      | Some u \<Rightarrow>
          let hostname = lower (case url_hostname u of Some h \<Rightarrow> h | None \<Rightarrow> [])
          in if CHR ''.'' \<in> set hostname then hostname else [])"

section \<open>Putting together\<close>

definition uses_netloc :: "string list" where
  "uses_netloc = [[], ''ftp'', ''http'', ''gopher'', ''nntp'', ''telnet'', ''imap'', ''wais'', ''file'',
     ''mms'', ''https'', ''shttp'', ''snews'', ''prospero'', ''rtsp'', ''rtsps'', ''rtspu'', ''rsync'',
     ''svn'', ''svn+ssh'', ''sftp'', ''nfs'', ''git'', ''git+ssh'', ''ws'', ''wss'', ''itms-services'']"

definition urlunsplit :: "url \<Rightarrow> string" where
  "urlunsplit u =
     (let path = ur_path u;
          rooted = (if path \<noteq> [] \<and> \<not> starts_with path ''/'' then ''/'' @ path else path);
          u1 = (if ur_netloc u \<noteq> [] then ''//'' @ ur_netloc u @ rooted
                else if starts_with path ''//'' then ''//'' @ path
                else if ur_scheme u \<noteq> [] \<and> ur_scheme u \<in> set uses_netloc \<and>
                        (path = [] \<or> starts_with path ''/'') then ''//'' @ path
                else path);
          u2 = (if ur_scheme u \<noteq> [] then ur_scheme u @ '':'' @ u1 else u1);
          u3 = (if ur_query u \<noteq> [] then u2 @ ''?'' @ ur_query u else u2)
      in if ur_fragment u \<noteq> [] then u3 @ ''#'' @ ur_fragment u else u3)"

definition urlunparse :: "url \<Rightarrow> string" where
  "urlunparse u =
     urlunsplit (if ur_params u \<noteq> []
                 then u\<lparr>ur_path := ur_path u @ '';'' @ ur_params u, ur_params := []\<rparr> else u)"

section \<open>Queries and quoting\<close>

definition hex_char :: "nat \<Rightarrow> char" where
  "hex_char n = (if n < 10 then char_of (n + 48) else char_of (n + 55))"

fun unquote :: "string \<Rightarrow> string" where
  "unquote (c # a # b # s) =
     (if c = CHR ''%'' then
        (case (hex_value a, hex_value b) of
           (Some x, Some y) \<Rightarrow> char_of (16 * x + y) # unquote s
         | _ \<Rightarrow> c # unquote (a # b # s))
      else c # unquote (a # b # s))"
| "unquote s = s"

definition unquote_plus :: "string \<Rightarrow> string" where
  "unquote_plus s = unquote (map (\<lambda>c. if c = CHR ''+'' then CHR '' '' else c) s)"

definition parse_qsl :: "string \<Rightarrow> (string \<times> string) list" where
  "parse_qsl qs =
     concat (map (\<lambda>name_value.
       let (name, _, value) = partition_at (CHR ''='') name_value
       in if value \<noteq> [] then [(unquote_plus name, unquote_plus value)] else [])
     (split_on (CHR ''&'') qs))"

definition is_unreserved :: "char \<Rightarrow> bool" where
  "is_unreserved c \<longleftrightarrow>
     is_letter_ascii c \<or> is_digit_ascii c \<or> c \<in> {CHR ''_'', CHR ''.'', CHR ''-'', CHR ''~''}"

text \<open>\<open>quote(s, safe="")\<close>\<close>

definition quote_char :: "char \<Rightarrow> string" where
  "quote_char c =
     (if is_unreserved c then [c]
      else let n = (of_char c :: nat) in [CHR ''%'', hex_char (n div 16), hex_char (n mod 16)])"

definition quote :: "string \<Rightarrow> string" where
  "quote s = concat (map quote_char s)"

section \<open>Laws\<close>

lemma while_neq_append:
  "c \<notin> set x \<Longrightarrow> dropWhile (\<lambda>y. y \<noteq> c) (x @ s) = dropWhile (\<lambda>y. y \<noteq> c) s"
  "c \<notin> set x \<Longrightarrow> takeWhile (\<lambda>y. y \<noteq> c) (x @ s) = x @ takeWhile (\<lambda>y. y \<noteq> c) s"
  by (induction x) auto

lemma partition_at_sep [simp]: "c \<notin> set x \<Longrightarrow> partition_at c (x @ c # y) = (x, True, y)"
  by (simp add: partition_at_def while_neq_append)

lemma partition_at_none [simp]: "c \<notin> set x \<Longrightarrow> partition_at c x = (x, False, [])"
proof -
  assume "c \<notin> set x"
  then have d: "dropWhile (\<lambda>y. y \<noteq> c) x = []" and t: "takeWhile (\<lambda>y. y \<noteq> c) x = x"
    by (induction x) auto
  show "partition_at c x = (x, False, [])"
    using \<open>c \<notin> set x\<close> unfolding partition_at_def d t by simp
qed

lemma partition_at_Cons [simp]: "partition_at c (c # y) = ([], True, y)"
  by (simp add: partition_at_def)

lemma partition_at_Nil [simp]: "partition_at c [] = ([], False, [])"
  by (simp add: partition_at_def)

lemma rpartition_at_none [simp]: "c \<notin> set x \<Longrightarrow> rpartition_at c x = ([], False, x)"
  by (simp add: rpartition_at_def)

lemma is_ip_char_not:
  "is_ip_char c \<Longrightarrow> c \<notin> {CHR ''/'', CHR ''?'', CHR ''#'', CHR ''@'', CHR ''['', CHR '']'', CHR ''%''} \<and>
     \<not> is_unsafe_url_char c \<and> \<not> is_netloc_end c"
  by (auto simp: is_ip_char_def hex_value_def is_unsafe_url_char_def is_netloc_end_def Let_def split: if_splits)

text \<open>Splitting a URL that was put together from a scheme, an authority and the rest.\<close>

lemma urlsplit_authority:
  assumes "scheme = ''http'' \<or> scheme = ''https''" "netloc_ok netloc"
    and "\<forall>c \<in> set netloc. \<not> is_unsafe_url_char c \<and> \<not> is_netloc_end c"
    and "rest = [] \<or> is_netloc_end (hd rest)"
  shows "\<exists>u. urlsplit (scheme @ '':'' @ ''//'' @ netloc @ rest) = Some u \<and>
     ur_scheme u = scheme \<and> ur_netloc u = netloc"
proof -
  let ?safe = "\<lambda>c. \<not> is_unsafe_url_char c"
  have s: "filter ?safe scheme = scheme" "\<forall>c \<in> set scheme. c \<noteq> CHR '':''" "scheme \<noteq> []"
    "is_letter_ascii (hd scheme)" "list_all is_scheme_char scheme" "lower scheme = scheme"
    "\<not> is_c0_or_space (hd scheme)"
    using assms(1) by (auto simp: is_unsafe_url_char_def is_letter_ascii_def is_lower_ascii_def
        is_scheme_char_def lower_def lower_char_def is_upper_ascii_def is_c0_or_space_def less_eq_char_def)
  have n: "filter ?safe netloc = netloc" using assms(3) by simp
  obtain r where r: "filter ?safe rest = r" "r = [] \<or> is_netloc_end (hd r)"
  proof (cases rest)
    case (Cons c cs)
    then have "is_netloc_end c" using assms(4) by simp
    then have "?safe c" by (auto simp: is_netloc_end_def is_unsafe_url_char_def)
    with Cons \<open>is_netloc_end c\<close> show thesis by (intro that) auto
  qed (auto intro: that)
  have safe: "?safe (CHR '':'')" "?safe (CHR ''/'')" by (simp_all add: is_unsafe_url_char_def)
  have "dropWhile is_c0_or_space (scheme @ '':'' @ ''//'' @ netloc @ rest) = scheme @ '':'' @ ''//'' @ netloc @ rest"
    using s(3,7) by (cases scheme) auto
  then have u: "filter ?safe (dropWhile is_c0_or_space (scheme @ '':'' @ ''//'' @ netloc @ rest)) =
      scheme @ CHR '':'' # ''//'' @ netloc @ r"
    using s(1) n r(1) safe by simp
  have "CHR '':'' \<notin> set scheme" using s(2) by auto
  then have sch: "split_scheme (scheme @ CHR '':'' # ''//'' @ netloc @ r) = (scheme, ''//'' @ netloc @ r)"
    using s by (simp add: split_scheme_def)
  have "takeWhile (\<lambda>c. \<not> is_netloc_end c) (netloc @ r) = netloc"
    "dropWhile (\<lambda>c. \<not> is_netloc_end c) (netloc @ r) = r"
    using assms(3) r(2) by (induction netloc; cases r; auto)+
  then have nl: "split_netloc (''//'' @ netloc @ r) = (netloc, r)"
    by (simp add: split_netloc_def starts_with_def)
  show ?thesis
    unfolding urlsplit_def Let_def u sch prod.case nl using assms(2) by (auto split: prod.split)
qed

lemma urlunparse_authority:
  assumes "ur_netloc u \<noteq> []" "ur_scheme u \<noteq> []"
  shows "\<exists>rest. urlunparse u = ur_scheme u @ '':'' @ ''//'' @ ur_netloc u @ rest \<and>
     (rest = [] \<or> is_netloc_end (hd rest))"
proof -
  define v where "v = (if ur_params u \<noteq> []
                 then u\<lparr>ur_path := ur_path u @ '';'' @ ur_params u, ur_params := []\<rparr> else u)"
  have v: "ur_netloc v = ur_netloc u" "ur_scheme v = ur_scheme u" by (simp_all add: v_def)
  define path where "path = (if ur_path v \<noteq> [] \<and> \<not> starts_with (ur_path v) ''/'' then ''/'' @ ur_path v else ur_path v)"
  define tail where "tail = (if ur_query v \<noteq> [] then ''?'' @ ur_query v else []) @
                            (if ur_fragment v \<noteq> [] then ''#'' @ ur_fragment v else [])"
  have "urlunparse u = ur_scheme u @ '':'' @ ''//'' @ ur_netloc u @ path @ tail"
    using assms v by (simp add: urlunparse_def v_def [symmetric] urlunsplit_def Let_def path_def tail_def)
  moreover have "path @ tail = [] \<or> is_netloc_end (hd (path @ tail))"
  proof (cases path)
    case (Cons c cs)
    then have "c = CHR ''/''"
      by (cases "ur_path v") (auto simp: path_def starts_with_def split: if_splits)
    with Cons show ?thesis by (simp add: is_netloc_end_def)
  qed (simp add: tail_def is_netloc_end_def)
  ultimately show ?thesis by blast
qed

lemma url_port_le: "url_port u = Some (Some n) \<Longrightarrow> n \<le> 65535"
  by (auto simp: url_port_def Let_def split: if_splits)

end
