(* ===== verification/Json.thy ===== *)
theory Json
  imports Prelude
begin

text \<open>
  JSON values as Python's \<open>json\<close> module decodes them, the text columns that hold them, and
  the defensive parses of \<open>app/utils.py\<close> (\<open>safe_json_loads\<close>, \<open>json_list\<close>, \<open>json_object\<close>,
  \<open>host_permissions_of\<close>).

  An object is an association list in insertion order; \<open>json.loads\<close> keeps one entry per key.
  A float is kept as its Python \<open>repr\<close>. A stored text is either unparsable or one of the
  spellings of a value: \<open>Text n j\<close> is the \<open>n\<close>-th text that parses to \<open>j\<close>, and \<open>json.dumps\<close>
  writes spelling 0, so two texts of the same value may still differ as strings.
\<close>

datatype json =
    JNull
  | JBool bool
  | JInt int
  | JFloat string
  | JStr string
  | JArr "json list"
  | JObj "(string \<times> json) list"

type_synonym jobject = "(string \<times> json) list"

datatype jtext = Junk string | Text nat json

section \<open>The standard library's operations on values\<close>

definition json_loads :: "jtext \<Rightarrow> json option" where
  "json_loads t = (case t of Junk _ \<Rightarrow> None | Text _ j \<Rightarrow> Some j)"

definition json_dumps :: "json \<Rightarrow> jtext" where
  "json_dumps j = Text 0 j"

definition dict_get :: "jobject \<Rightarrow> string \<Rightarrow> json option" where
  "dict_get d k = map_of d k"

text \<open>\<open>d.get(k)\<close>: \<open>None\<close> when the key is absent.\<close>

definition dict_get_none :: "jobject \<Rightarrow> string \<Rightarrow> json" where
  "dict_get_none d k = (case map_of d k of Some v \<Rightarrow> v | None \<Rightarrow> JNull)"

text \<open>\<open>d[k] = v\<close>: an existing key keeps its place, a new one goes to the end.\<close>

fun dict_set :: "jobject \<Rightarrow> string \<Rightarrow> json \<Rightarrow> jobject" where
  "dict_set [] k v = [(k, v)]"
| "dict_set ((k', v') # d) k v =
     (if k' = k then (k, v) # d else (k', v') # dict_set d k v)"

text \<open>Truth value of a decoded value.\<close>

fun truthy :: "json \<Rightarrow> bool" where
  "truthy JNull = False"
| "truthy (JBool b) = b"
| "truthy (JInt i) = (i \<noteq> 0)"
| "truthy (JFloat r) = (r \<noteq> ''0.0'' \<and> r \<noteq> ''-0.0'')"
| "truthy (JStr s) = (s \<noteq> [])"
| "truthy (JArr xs) = (xs \<noteq> [])"
| "truthy (JObj d) = (d \<noteq> [])"

text \<open>\<open>repr\<close> of a string: single quotes unless the text has one and no double quote;
  quote, backslash and control characters are escaped.\<close>

definition hex_digit :: "nat \<Rightarrow> char" where
  "hex_digit n = (if n < 10 then char_of (n + 48) else char_of (n + 87))"

definition repr_char :: "char \<Rightarrow> char \<Rightarrow> string" where
  "repr_char q c =
     (let n = (of_char c :: nat) in
      if c = q \<or> n = 92 then [CHR 0x5C, c]
      else if n = 9 then [CHR 0x5C, CHR ''t'']
      else if n = 10 then [CHR 0x5C, CHR ''n'']
      else if n = 13 then [CHR 0x5C, CHR ''r'']
      else if n < 32 \<or> n = 127 then [CHR 0x5C, CHR ''x'', hex_digit (n div 16), hex_digit (n mod 16)]
      else [c])"

definition repr_str :: "string \<Rightarrow> string" where
  "repr_str s =
     (let q = (if CHR 0x27 \<in> set s \<and> CHR 0x22 \<notin> set s then CHR 0x22 else CHR 0x27)
      in q # concat (map (repr_char q) s) @ [q])"

text \<open>\<open>repr(v)\<close> and \<open>str(v)\<close> of a decoded value; they differ on strings only.\<close>

fun py_repr :: "json \<Rightarrow> string" where
  "py_repr JNull = ''None''"
| "py_repr (JBool b) = (if b then ''True'' else ''False'')"
| "py_repr (JInt i) = show_int i"
| "py_repr (JFloat r) = r"
| "py_repr (JStr s) = repr_str s"
| "py_repr (JArr xs) = ''['' @ join '', '' (map py_repr xs) @ '']''"
| "py_repr (JObj d) =
     ''{'' @ join '', '' (map (\<lambda>(k, v). repr_str k @ '': '' @ py_repr v) d) @ ''}''"

definition py_str :: "json \<Rightarrow> string" where
  "py_str v = (case v of JStr s \<Rightarrow> s | _ \<Rightarrow> py_repr v)"

text \<open>\<open>[x for x in xs if isinstance(x, str)]\<close>\<close>

fun only_strings :: "json list \<Rightarrow> string list" where
  "only_strings [] = []"
| "only_strings (JStr s # xs) = s # only_strings xs"
| "only_strings (_ # xs) = only_strings xs"

section \<open>app/utils.py\<close>

definition empty_text :: "jtext \<Rightarrow> bool" where
  "empty_text t = (t = Junk [])"

text \<open>The default is given as the value its text parses to; the warning it logs is not state.\<close>

definition safe_json_loads :: "jtext option \<Rightarrow> json \<Rightarrow> json" where
  "safe_json_loads raw dflt =
     (case raw of
        None \<Rightarrow> dflt
      | Some t \<Rightarrow>
          if empty_text t then dflt
          else (case json_loads t of Some j \<Rightarrow> j | None \<Rightarrow> dflt))"

definition json_list :: "jtext option \<Rightarrow> json list" where
  "json_list raw = (case safe_json_loads raw (JArr []) of JArr xs \<Rightarrow> xs | _ \<Rightarrow> [])"

definition json_object :: "jtext option \<Rightarrow> jobject option" where
  "json_object raw = (case safe_json_loads raw JNull of JObj d \<Rightarrow> Some d | _ \<Rightarrow> None)"

definition host_permissions_of :: "jobject option \<Rightarrow> string list" where
  "host_permissions_of analysis =
     (case analysis of
        None \<Rightarrow> []
      | Some d \<Rightarrow>
          (case dict_get d ''host_permissions'' of
             None \<Rightarrow> []
           | Some (JArr hosts) \<Rightarrow> only_strings hosts
           | Some _ \<Rightarrow> []))"

section \<open>Laws\<close>

lemma loads_dumps [simp]: "json_loads (json_dumps j) = Some j"
  by (simp add: json_loads_def json_dumps_def)

lemma dumps_not_empty [simp]: "\<not> empty_text (json_dumps j)"
  by (simp add: empty_text_def json_dumps_def)

lemma dumps_inj [simp]: "json_dumps j = json_dumps k \<longleftrightarrow> j = k"
  by (simp add: json_dumps_def)

lemma safe_json_loads_dumps [simp]: "safe_json_loads (Some (json_dumps j)) d = j"
  by (simp add: safe_json_loads_def)

lemma json_list_dumps [simp]: "json_list (Some (json_dumps (JArr xs))) = xs"
  by (simp add: json_list_def)

lemma json_list_None [simp]: "json_list None = []"
  by (simp add: json_list_def safe_json_loads_def)

lemma json_object_dumps [simp]: "json_object (Some (json_dumps (JObj d))) = Some d"
  by (simp add: json_object_def)

lemma json_object_None [simp]: "json_object None = None"
  by (simp add: json_object_def safe_json_loads_def)

lemma only_strings_map [simp]: "only_strings (map JStr ss) = ss"
  by (induction ss) auto

lemma set_only_strings: "set (only_strings xs) = {s. JStr s \<in> set xs}"
  by (induction xs rule: only_strings.induct) auto

lemma dict_get_set: "dict_get (dict_set d k v) k' = (if k' = k then Some v else dict_get d k')"
  by (induction d k v rule: dict_set.induct) (auto simp: dict_get_def)

lemma dict_get_none_set:
  "dict_get_none (dict_set d k v) k' = (if k' = k then v else dict_get_none d k')"
  using dict_get_set [of d k v k'] by (simp add: dict_get_def dict_get_none_def)

lemma dict_get_none_get:
  "dict_get_none d k = (case dict_get d k of Some v \<Rightarrow> v | None \<Rightarrow> JNull)"
  by (simp add: dict_get_none_def dict_get_def)

lemma dict_set_not_Nil [simp]: "dict_set d k v \<noteq> []"
  by (induction d k v rule: dict_set.induct) auto

lemma keys_dict_set:
  "map fst (dict_set d k v) = (if k \<in> set (map fst d) then map fst d else map fst d @ [k])"
  by (induction d k v rule: dict_set.induct) auto

lemma distinct_dict_set: "distinct (map fst d) \<Longrightarrow> distinct (map fst (dict_set d k v))"
  by (simp add: keys_dict_set)

end
