(* ===== verification/Permissions.thy ===== *)
theory Permissions
  imports Prelude
begin

text \<open>
  \<open>app/permissions.py\<close>: the permission tiers shared by the scorer and the inspector, and the
  two classifiers the detail page renders with.
\<close>

definition CRITICAL_PERMISSIONS :: "string set" where
  "CRITICAL_PERMISSIONS =
     {''<all_urls>'', ''debugger'', ''nativeMessaging'', ''proxy'', ''webRequest'',
      ''webRequestBlocking'', ''declarativeNetRequestWithHostAccess'', ''desktopCapture''}"

definition HIGH_PERMISSIONS :: "string set" where
  "HIGH_PERMISSIONS =
     {''cookies'', ''history'', ''tabs'', ''browsingData'', ''downloads'', ''management'',
      ''clipboardRead'', ''contentSettings'', ''pageCapture'', ''tabCapture'',
      ''audioCapture'', ''videoCapture'', ''webNavigation''}"

definition MEDIUM_PERMISSIONS :: "string set" where
  "MEDIUM_PERMISSIONS =
     {''storage'', ''notifications'', ''contextMenus'', ''bookmarks'', ''identity'',
      ''geolocation'', ''scripting'', ''privacy'', ''sessions'', ''topSites'',
      ''declarativeNetRequest'', ''clipboardWrite''}"

definition BROAD_HOST_PATTERNS :: "string set" where
  "BROAD_HOST_PATTERNS = {''<all_urls>'', ''*://*/*'', ''http://*/*'', ''https://*/*''}"

definition permission_tier :: "string \<Rightarrow> string" where
  "permission_tier name =
     (if name \<in> CRITICAL_PERMISSIONS \<or> name \<in> BROAD_HOST_PATTERNS then ''critical''
      else if name \<in> HIGH_PERMISSIONS then ''high''
      else if name \<in> MEDIUM_PERMISSIONS then ''medium''
      else ''low'')"

definition host_permission_tier :: "string \<Rightarrow> string" where
  "host_permission_tier pattern =
     (if pattern \<in> BROAD_HOST_PATTERNS then ''critical'' else ''high'')"

lemmas permission_sets =
  CRITICAL_PERMISSIONS_def HIGH_PERMISSIONS_def MEDIUM_PERMISSIONS_def BROAD_HOST_PATTERNS_def

lemma permission_tier_critical_iff:
  "permission_tier p = ''critical'' \<longleftrightarrow> p \<in> CRITICAL_PERMISSIONS \<union> BROAD_HOST_PATTERNS"
  by (simp add: permission_tier_def)

lemma permission_tier_values:
  "permission_tier p \<in> {''critical'', ''high'', ''medium'', ''low''}"
  by (simp add: permission_tier_def)

end
