(* ===== verification/Analysis.thy ===== *)
theory Analysis
  imports Json
begin

text \<open>
  The inspector's result types (\<open>PackageFinding\<close>, \<open>PackageAnalysis\<close> of \<open>app/inspector.py\<close>)
  and their JSON form, which is what \<open>Extension.package_analysis\<close> stores.

  \<open>manifest_version\<close> is whatever the manifest holds under that key: the code copies the
  value without checking its type, so it is a JSON value here.
\<close>

record package_finding =
  pf_code :: string
  pf_severity :: string
  pf_title :: string
  pf_detail :: string
  pf_source :: string
  pf_file :: "string option"
  pf_line :: "int option"

type_synonym finding_key_tuple =
  "string \<times> string \<times> string \<times> string option \<times> int option \<times> string"

record package_analysis =
  pa_permissions :: "string list"
  pa_host_permissions :: "string list"
  pa_external_domains :: "string list"
  pa_external_urls :: "string list"
  pa_network_callout_urls :: "string list"
  pa_package_sha256 :: string
  pa_archive_sha256 :: string
  pa_findings :: "package_finding list"
  pa_uses_eval :: bool
  pa_uses_remote_code :: bool
  pa_obfuscation_score :: int
  pa_file_count :: int
  pa_total_size_bytes :: int
  pa_has_minified_code :: bool
  pa_manifest_version :: json
  pa_version :: string
  pa_author :: string
  pa_analysis_complete :: bool
  pa_finding_keys :: "finding_key_tuple set"

definition empty_analysis :: package_analysis where
  "empty_analysis =
     \<lparr>pa_permissions = [], pa_host_permissions = [], pa_external_domains = [],
      pa_external_urls = [], pa_network_callout_urls = [], pa_package_sha256 = [],
      pa_archive_sha256 = [], pa_findings = [], pa_uses_eval = False,
      pa_uses_remote_code = False, pa_obfuscation_score = 0, pa_file_count = 0,
      pa_total_size_bytes = 0, pa_has_minified_code = False, pa_manifest_version = JInt 2,
      pa_version = [], pa_author = [], pa_analysis_complete = True, pa_finding_keys = {}\<rparr>"

definition json_strs :: "string list \<Rightarrow> json" where
  "json_strs ss = JArr (map JStr ss)"

definition json_opt_str :: "string option \<Rightarrow> json" where
  "json_opt_str x = (case x of None \<Rightarrow> JNull | Some s \<Rightarrow> JStr s)"

definition json_opt_int :: "int option \<Rightarrow> json" where
  "json_opt_int x = (case x of None \<Rightarrow> JNull | Some i \<Rightarrow> JInt i)"

definition finding_dict :: "package_finding \<Rightarrow> json" where
  "finding_dict f =
     JObj [(''code'', JStr (pf_code f)), (''severity'', JStr (pf_severity f)),
           (''title'', JStr (pf_title f)), (''detail'', JStr (pf_detail f)),
           (''source'', JStr (pf_source f)), (''file'', json_opt_str (pf_file f)),
           (''line'', json_opt_int (pf_line f))]"

text \<open>The dataclass fields in declaration order, less \<open>version\<close>, \<open>author\<close>, the internal
  key set and \<open>findings\<close>, which comes last.\<close>

definition to_json_dict :: "package_analysis \<Rightarrow> jobject" where
  "to_json_dict a =
     [(''permissions'', json_strs (pa_permissions a)),
      (''host_permissions'', json_strs (pa_host_permissions a)),
      (''external_domains'', json_strs (pa_external_domains a)),
      (''external_urls'', json_strs (pa_external_urls a)),
      (''network_callout_urls'', json_strs (pa_network_callout_urls a)),
      (''package_sha256'', JStr (pa_package_sha256 a)),
      (''archive_sha256'', JStr (pa_archive_sha256 a)),
      (''uses_eval'', JBool (pa_uses_eval a)),
      (''uses_remote_code'', JBool (pa_uses_remote_code a)),
      (''obfuscation_score'', JInt (pa_obfuscation_score a)),
      (''file_count'', JInt (pa_file_count a)),
      (''total_size_bytes'', JInt (pa_total_size_bytes a)),
      (''has_minified_code'', JBool (pa_has_minified_code a)),
      (''manifest_version'', pa_manifest_version a),
      (''analysis_complete'', JBool (pa_analysis_complete a)),
      (''findings'', JArr (map finding_dict (pa_findings a)))]"

definition analysis_stored_defaults :: jobject where
  "analysis_stored_defaults =
     [(''permissions'', JArr []), (''host_permissions'', JArr []),
      (''external_domains'', JArr []), (''external_urls'', JArr []),
      (''network_callout_urls'', JArr []), (''package_sha256'', JStr []),
      (''archive_sha256'', JStr []), (''uses_eval'', JBool False),
      (''uses_remote_code'', JBool False), (''obfuscation_score'', JInt 0),
      (''file_count'', JInt 0), (''total_size_bytes'', JInt 0),
      (''has_minified_code'', JBool False), (''manifest_version'', JInt 2),
      (''analysis_complete'', JBool True), (''findings'', JArr [])]"

lemma stored_defaults_keys:
  "map fst analysis_stored_defaults = map fst (to_json_dict a)"
  by (simp add: analysis_stored_defaults_def to_json_dict_def)

lemma stored_defaults_empty: "analysis_stored_defaults = to_json_dict empty_analysis"
  by (simp add: analysis_stored_defaults_def to_json_dict_def empty_analysis_def json_strs_def)

lemma distinct_to_json_dict: "distinct (map fst (to_json_dict a))"
  by (simp add: to_json_dict_def)

lemma to_json_dict_get [simp]:
  "dict_get (to_json_dict a) ''permissions'' = Some (json_strs (pa_permissions a))"
  "dict_get (to_json_dict a) ''host_permissions'' = Some (json_strs (pa_host_permissions a))"
  "dict_get (to_json_dict a) ''external_domains'' = Some (json_strs (pa_external_domains a))"
  "dict_get (to_json_dict a) ''uses_remote_code'' = Some (JBool (pa_uses_remote_code a))"
  "dict_get (to_json_dict a) ''findings'' = Some (JArr (map finding_dict (pa_findings a)))"
  by (simp_all add: to_json_dict_def dict_get_def)

lemma host_permissions_of_json [simp]:
  "host_permissions_of (Some (to_json_dict a)) = pa_host_permissions a"
  by (simp add: host_permissions_of_def json_strs_def)

end
