(* ===== verification/Models.thy ===== *)
theory Models
  imports Analysis
begin

text \<open>
  \<open>app/models.py\<close>: one record per table, with the columns in the source's order, the typed
  accessors of \<open>Extension\<close>, the CHECK and UNIQUE constraints as predicates, and the database
  as a record of tables.

  A row is a persisted row, so its primary key is an integer. A timestamp column is an
  instant in microseconds since the epoch; the columns whose readers still test \<open>tzinfo\<close>
  are \<open>datetime\<close> values, aware or naive. A JSON-in-string column is a \<open>jtext\<close>.
\<close>

type_synonym instant = int

datatype datetime = Aware instant | Naive instant

text \<open>\<open>dt if dt.tzinfo else dt.replace(tzinfo=timezone.utc)\<close>, as an instant.\<close>

fun utc_of :: "datetime \<Rightarrow> instant" where
  "utc_of (Aware t) = t"
| "utc_of (Naive t) = t"

definition usec_per_sec :: int where "usec_per_sec = 1000000"
definition usec_per_day :: int where "usec_per_day = 86400 * 1000000"

section \<open>Roles and users\<close>

datatype role = ADMIN | ANALYST | AUDITOR

fun role_value :: "role \<Rightarrow> string" where
  "role_value ADMIN = ''admin''"
| "role_value ANALYST = ''analyst''"
| "role_value AUDITOR = ''auditor''"

record user =
  u_id :: int
  u_username :: string
  u_password_hash :: "string option"
  u_email :: "string option"
  u_role :: string
  u_auth_provider :: string
  u_oidc_issuer :: "string option"
  u_oidc_subject :: "string option"
  u_auth_tenant :: "string option"
  u_role_managed_by_idp :: bool
  u_created_at :: instant
  u_password_changed_at :: "datetime option"

text \<open>The table arguments: \<open>ck_user_local_xor_subject\<close>, \<open>ck_user_issuer_subject_together\<close>,
  \<open>ck_user_role\<close>, and over two rows \<open>uq_user_issuer_subject\<close>, \<open>uq_user_sso_email\<close> and the
  unique user name. SQL's NULL is never equal to NULL.\<close>

definition user_row_ok :: "user \<Rightarrow> bool" where
  "user_row_ok u \<longleftrightarrow>
     (u_auth_provider u = ''local'') = (u_oidc_subject u = None) \<and>
     (u_oidc_issuer u = None) = (u_oidc_subject u = None) \<and>
     u_role u \<in> {''admin'', ''analyst'', ''auditor''}"

definition users_compatible :: "user \<Rightarrow> user \<Rightarrow> bool" where
  "users_compatible u v \<longleftrightarrow>
     u_username u \<noteq> u_username v \<and>
     \<not> (u_oidc_issuer u \<noteq> None \<and> u_oidc_subject u \<noteq> None \<and>
        u_oidc_issuer u = u_oidc_issuer v \<and> u_oidc_subject u = u_oidc_subject v) \<and>
     \<not> (u_oidc_subject u \<noteq> None \<and> u_oidc_subject v \<noteq> None \<and>
        u_email u \<noteq> None \<and> u_email u = u_email v)"

section \<open>Extensions\<close>

record extension =
  x_id :: int
  x_user_id :: "int option"
  x_store :: string
  x_extension_id :: string
  x_name :: string
  x_publisher :: string
  x_description :: "string option"
  x_version :: string
  x_install_count :: "int option"
  x_last_updated :: "datetime option"
  x_permissions :: jtext
  x_store_url :: string
  x_added_at :: instant
  x_last_fetched_at :: "instant option"
  x_watchlist :: bool
  x_risk_score :: "int option"
  x_heuristic_risk_score :: "int option"
  x_risk_detail :: "jtext option"
  x_triage_status :: string
  x_triage_assignee :: "string option"
  x_triage_notes :: "string option"
  x_risk_override :: string
  x_triage_updated_at :: "instant option"
  x_package_analysis :: "jtext option"
  x_install_footprint :: "int option"
  x_pending_alert_events :: "jtext option"
  x_threat_match :: bool

definition TRIAGE_STATUSES :: "string set" where
  "TRIAGE_STATUSES = {''new'', ''triaging'', ''accepted-risk'', ''blocked'', ''resolved''}"

definition RISK_OVERRIDES :: "string set" where
  "RISK_OVERRIDES = {''none'', ''allow'', ''deny''}"

definition extension_row_ok :: "extension \<Rightarrow> bool" where
  "extension_row_ok x \<longleftrightarrow>
     x_triage_status x \<in> TRIAGE_STATUSES \<and>
     x_risk_override x \<in> RISK_OVERRIDES \<and>
     (case x_heuristic_risk_score x of None \<Rightarrow> True | Some h \<Rightarrow> 0 \<le> h \<and> h \<le> 100)"

definition permissions_list :: "extension \<Rightarrow> string list" where
  "permissions_list x = only_strings (json_list (Some (x_permissions x)))"

definition analysis_dict :: "extension \<Rightarrow> jobject option" where
  "analysis_dict x = json_object (x_package_analysis x)"

definition host_permissions_list :: "extension \<Rightarrow> string list" where
  "host_permissions_list x = host_permissions_of (analysis_dict x)"

definition risk_detail_dict :: "extension \<Rightarrow> jobject option" where
  "risk_detail_dict x = json_object (x_risk_detail x)"

section \<open>History tables\<close>

record package_snapshot =
  ps_id :: int
  ps_extension_id :: int
  ps_version :: string
  ps_package_sha256 :: string
  ps_analysis_json :: jtext
  ps_captured_at :: instant

record fetch_log =
  fl_id :: int
  fl_extension_id :: int
  fl_fetched_at :: instant
  fl_success :: bool
  fl_store_outage :: bool
  fl_error_message :: "string option"
  fl_risk_score_before :: "int option"
  fl_risk_score_after :: "int option"

record install_count_history =
  ih_id :: int
  ih_extension_id :: int
  ih_recorded_at :: instant
  ih_install_count :: int

record install_observation =
  io_id :: int
  io_extension_id :: int
  io_asset_id :: string
  io_asset_type :: "string option"
  io_department :: "string option"
  io_source :: string
  io_first_seen :: instant
  io_last_seen :: instant

record threat_list_entry =
  tl_id :: int
  tl_store :: string
  tl_extension_id :: string
  tl_source :: string
  tl_reason :: "string option"
  tl_added_at :: instant

definition threat_row_ok :: "threat_list_entry \<Rightarrow> bool" where
  "threat_row_ok e \<longleftrightarrow> tl_store e \<in> {''chrome'', ''vscode'', ''edge''}"

section \<open>Alerting tables\<close>

record alert_destination =
  ad_id :: int
  ad_user_id :: int
  ad_label :: string
  ad_kind :: string
  ad_target :: string
  ad_config :: jtext
  ad_enabled :: bool
  ad_created_at :: instant

definition destination_row_ok :: "alert_destination \<Rightarrow> bool" where
  "destination_row_ok d \<longleftrightarrow>
     ad_kind d \<in> {''webhook'', ''slack'', ''teams'', ''email'', ''jira'', ''servicenow''}"

definition config_dict :: "alert_destination \<Rightarrow> (string \<times> string) list" where
  "config_dict d =
     (case json_object (Some (ad_config d)) of
        None \<Rightarrow> []
      | Some obj \<Rightarrow> map (\<lambda>(k, v). (k, py_str v)) obj)"

record alert_rule =
  ar_id :: int
  ar_user_id :: int
  ar_destination_id :: int
  ar_extension_id :: "int option"
  ar_event_type :: string
  ar_enabled :: bool
  ar_created_at :: instant

record api_key =
  ak_id :: int
  ak_user_id :: int
  ak_label :: string
  ak_key_hash :: string
  ak_key_prefix :: string
  ak_key_suffix :: string
  ak_readonly :: bool
  ak_created_at :: datetime
  ak_last_used_at :: "datetime option"

record alert_log =
  al_id :: int
  al_rule_id :: "int option"
  al_destination_id :: "int option"
  al_extension_id :: int
  al_user_id :: "int option"
  al_event_type :: string
  al_detail :: jtext
  al_sent_at :: instant
  al_success :: bool
  al_error :: "string option"

record audit_log =
  au_id :: int
  au_actor_id :: "int option"
  au_actor :: string
  au_action :: string
  au_target_type :: string
  au_target_id :: "string option"
  au_detail :: "jtext option"
  au_ip :: "string option"
  au_at :: instant

definition detail_dict :: "audit_log \<Rightarrow> jobject" where
  "detail_dict a = (case json_object (au_detail a) of None \<Rightarrow> [] | Some d \<Rightarrow> d)"

section \<open>Settings tables\<close>

record proxy_settings =
  px_mode :: string
  px_proxy_url :: string
  px_no_proxy :: string
  px_updated_at :: instant

definition proxy_row_ok :: "proxy_settings \<Rightarrow> bool" where
  "proxy_row_ok p \<longleftrightarrow>
     px_mode p \<in> {''NONE'', ''SYSTEM'', ''EXPLICIT''} \<and>
     (px_mode p \<noteq> ''EXPLICIT'' \<or> px_proxy_url p \<noteq> [])"

section \<open>The database\<close>

text \<open>
  One list of rows per table, in insertion order, and the next primary key. The per-table
  identity sequences are one counter: ids are only compared within a table, and there the
  counter's order is the sequence's.
\<close>

record db =
  db_users :: "user list"
  db_extensions :: "extension list"
  db_snapshots :: "package_snapshot list"
  db_fetch_logs :: "fetch_log list"
  db_install_history :: "install_count_history list"
  db_observations :: "install_observation list"
  db_threats :: "threat_list_entry list"
  db_destinations :: "alert_destination list"
  db_rules :: "alert_rule list"
  db_api_keys :: "api_key list"
  db_alert_logs :: "alert_log list"
  db_audit_logs :: "audit_log list"
  db_next_id :: int

definition empty_db :: db where
  "empty_db =
     \<lparr>db_users = [], db_extensions = [], db_snapshots = [], db_fetch_logs = [],
      db_install_history = [], db_observations = [], db_threats = [], db_destinations = [],
      db_rules = [], db_api_keys = [], db_alert_logs = [], db_audit_logs = [], db_next_id = 1\<rparr>"

definition get_user :: "db \<Rightarrow> int \<Rightarrow> user option" where
  "get_user d i = find (\<lambda>u. u_id u = i) (db_users d)"

definition get_extension :: "db \<Rightarrow> int \<Rightarrow> extension option" where
  "get_extension d i = find (\<lambda>x. x_id x = i) (db_extensions d)"

text \<open>Flush of a changed extension row: the row with its id is replaced.\<close>

definition put_extension :: "extension \<Rightarrow> db \<Rightarrow> db" where
  "put_extension x d =
     d\<lparr>db_extensions := map (\<lambda>y. if x_id y = x_id x then x else y) (db_extensions d)\<rparr>"

definition take_id :: "db \<Rightarrow> int \<times> db" where
  "take_id d = (db_next_id d, d\<lparr>db_next_id := db_next_id d + 1\<rparr>)"

definition extension_ids :: "db \<Rightarrow> int list" where
  "extension_ids d = map x_id (db_extensions d)"

section \<open>Laws\<close>

lemma utc_of_cases: "utc_of dt = t \<longleftrightarrow> dt = Aware t \<or> dt = Naive t"
  by (cases dt) auto

lemma find_map_replace:
  "find (\<lambda>y. k y = i) (map (\<lambda>y. if k y = k x then x else y) ys) =
     (case find (\<lambda>y. k y = i) ys of
        None \<Rightarrow> None | Some y \<Rightarrow> Some (if i = k x then x else y))"
  by (induction ys) auto

lemma get_put_extension:
  "get_extension (put_extension x d) i =
     (case get_extension d i of
        None \<Rightarrow> None | Some y \<Rightarrow> Some (if i = x_id x then x else y))"
  by (simp add: get_extension_def put_extension_def find_map_replace)

lemma get_put_same [simp]:
  "get_extension d (x_id x) = Some y \<Longrightarrow> get_extension (put_extension x d) (x_id x) = Some x"
  by (simp add: get_put_extension)

lemma get_put_other [simp]:
  "i \<noteq> x_id x \<Longrightarrow> get_extension (put_extension x d) i = get_extension d i"
  by (simp add: get_put_extension split: option.splits)

lemma extension_ids_put [simp]: "extension_ids (put_extension x d) = extension_ids d"
  by (auto simp: extension_ids_def put_extension_def)

lemma put_extension_frame [simp]:
  "db_users (put_extension x d) = db_users d"
  "db_snapshots (put_extension x d) = db_snapshots d"
  "db_fetch_logs (put_extension x d) = db_fetch_logs d"
  "db_install_history (put_extension x d) = db_install_history d"
  "db_observations (put_extension x d) = db_observations d"
  "db_threats (put_extension x d) = db_threats d"
  "db_destinations (put_extension x d) = db_destinations d"
  "db_rules (put_extension x d) = db_rules d"
  "db_api_keys (put_extension x d) = db_api_keys d"
  "db_alert_logs (put_extension x d) = db_alert_logs d"
  "db_audit_logs (put_extension x d) = db_audit_logs d"
  "db_next_id (put_extension x d) = db_next_id d"
  by (simp_all add: put_extension_def)

lemma get_extension_id: "get_extension d i = Some x \<Longrightarrow> x_id x = i"
  by (auto simp: get_extension_def find_Some_iff)

lemma get_extension_mem: "get_extension d i = Some x \<Longrightarrow> x \<in> set (db_extensions d)"
  by (auto simp: get_extension_def find_Some_iff)

lemma get_extension_cong:
  "db_extensions d = db_extensions e \<Longrightarrow> get_extension d = get_extension e"
  by (simp add: get_extension_def fun_eq_iff)

lemma put_extension_commute:
  "x_id x \<noteq> x_id y \<Longrightarrow> put_extension x (put_extension y d) = put_extension y (put_extension x d)"
  by (simp add: put_extension_def)

section \<open>A concrete row for the examples\<close>

definition sample_extension :: extension where
  "sample_extension =
     \<lparr>x_id = 7, x_user_id = Some 1, x_store = ''chrome'', x_extension_id = ''abc'',
      x_name = ''Tabs'', x_publisher = ''Acme'', x_description = None, x_version = ''1.0'',
      x_install_count = Some 500, x_last_updated = None, x_permissions = json_dumps (JArr []),
      x_store_url = [], x_added_at = 0, x_last_fetched_at = Some 0, x_watchlist = True,
      x_risk_score = Some 60, x_heuristic_risk_score = Some 60, x_risk_detail = None,
      x_triage_status = ''new'', x_triage_assignee = None, x_triage_notes = None,
      x_risk_override = ''none'', x_triage_updated_at = None, x_package_analysis = None,
      x_install_footprint = None, x_pending_alert_events = None, x_threat_match = False\<rparr>"

end
