(* ===== verification/Scoring.thy ===== *)
theory Scoring
  imports Analysis Permissions Models
begin

text \<open>
  \<open>app/scoring.py\<close>: the six risk signals, the aggregate score, the severity bands and the
  analyst policy. The current time is an argument. \<open>psl\<close> stands for the public-suffix
  lookup of the third-party package \<open>tldextract\<close>: the registrable domain of a host name, or
  the empty string.

  Python's \<open>(previous - count) / previous > 0.30\<close> is a comparison of doubles; the model
  compares the exact fractions, which agrees for install counts below \<open>10^15\<close>.
\<close>

section \<open>Severity weights and the public-suffix fallback\<close>

definition FINDING_WEIGHTS :: "string \<rightharpoonup> int" where
  "FINDING_WEIGHTS = map_of [(''critical'', 6), (''high'', 4), (''medium'', 2)]"

definition registrable_domain :: "(string \<Rightarrow> string) \<Rightarrow> string \<Rightarrow> string" where
  "registrable_domain psl hostname = (if psl hostname = [] then hostname else psl hostname)"

record risk_detail =
  rd_permissions :: int
  rd_popularity :: int
  rd_publisher :: int
  rd_staleness :: int
  rd_code_behaviour :: int
  rd_external_domains :: int
  rd_total :: int
  rd_risk_level :: string

definition risk_detail_asdict :: "risk_detail \<Rightarrow> jobject" where
  "risk_detail_asdict r =
     [(''permissions'', JInt (rd_permissions r)), (''popularity'', JInt (rd_popularity r)),
      (''publisher'', JInt (rd_publisher r)), (''staleness'', JInt (rd_staleness r)),
      (''code_behaviour'', JInt (rd_code_behaviour r)),
      (''external_domains'', JInt (rd_external_domains r)),
      (''total'', JInt (rd_total r)), (''risk_level'', JStr (rd_risk_level r))]"

definition risk_stored_defaults :: jobject where
  "risk_stored_defaults =
     map (\<lambda>f. (f, if f = ''risk_level'' then JStr ''unknown'' else JInt 0))
       [''permissions'', ''popularity'', ''publisher'', ''staleness'', ''code_behaviour'',
        ''external_domains'', ''total'', ''risk_level'']"

section \<open>The six signals\<close>

definition score_permissions :: "string list \<Rightarrow> string list \<Rightarrow> int" where
  "score_permissions permissions host_permissions =
     (let all_perms = set permissions \<union> set host_permissions in
      if all_perms \<inter> (CRITICAL_PERMISSIONS \<union> BROAD_HOST_PATTERNS) \<noteq> {} then 25
      else if all_perms \<inter> HIGH_PERMISSIONS \<noteq> {} then 15
      else if all_perms \<inter> MEDIUM_PERMISSIONS \<noteq> {} then 7
      else 0)"

definition score_popularity :: "int option \<Rightarrow> int list \<Rightarrow> int" where
  "score_popularity install_count history =
     (case install_count of
        None \<Rightarrow> 10
      | Some n \<Rightarrow>
          let base = (if n < 100 then 16 else if n < 1000 then 8 else if n < 10000 then 4 else 0)
          in if 2 \<le> length history \<and> history ! (length history - 2) > 0 \<and>
                10 * (history ! (length history - 2) - n) > 3 * history ! (length history - 2)
             then min (base + 10) 20 else base)"

text \<open>\<open>re.sub(r"(?<=[a-z0-9])(?=[A-Z])", " ", s)\<close>\<close>

fun camel_spaced :: "string \<Rightarrow> string" where
  "camel_spaced (a # b # s) =
     (if (is_lower_ascii a \<or> is_digit_ascii a) \<and> is_upper_ascii b
      then a # CHR '' '' # camel_spaced (b # s) else a # camel_spaced (b # s))"
| "camel_spaced s = s"

text \<open>\<open>re.findall(r"[a-z0-9]+", s)\<close>\<close>

fun alnum_words :: "string \<Rightarrow> string \<Rightarrow> string list" where
  "alnum_words w [] = (if w = [] then [] else [rev w])"
| "alnum_words w (c # s) =
     (if is_lower_ascii c \<or> is_digit_ascii c then alnum_words (c # w) s
      else if w = [] then alnum_words [] s else rev w # alnum_words [] s)"

definition GENERIC_WORDS :: "string set" where
  "GENERIC_WORDS = {''extension'', ''extensions'', ''tool'', ''tools'', ''addon'', ''addons'',
                    ''plugin'', ''plugins''}"

definition CORP_SUFFIXES :: "string set" where
  "CORP_SUFFIXES = {''inc'', ''llc'', ''ltd'', ''limited'', ''co'', ''corp'', ''corporation'',
                    ''gmbh'', ''company''}"

definition looks_generic :: "string \<Rightarrow> bool" where
  "looks_generic publisher =
     (if publisher = [] then True
      else if filter is_letter_ascii publisher = [] then True
      else
        let words = alnum_words [] (lower (camel_spaced publisher));
            meaningful = filter (\<lambda>w. w \<notin> CORP_SUFFIXES) words
        in if meaningful = [] then True else list_all (\<lambda>w. w \<in> GENERIC_WORDS) meaningful)"

definition score_publisher :: "string \<Rightarrow> bool \<Rightarrow> bool option \<Rightarrow> int" where
  "score_publisher publisher publisher_changed publisher_verified =
     min ((if publisher_changed then 8 else 0)
          + (if publisher_verified = Some False then 4 else 0)
          + (if looks_generic publisher then 3 else 0)) 15"

text \<open>\<open>(now - last_updated).days\<close> is the floor of the difference in days.\<close>

definition score_staleness :: "instant \<Rightarrow> datetime option \<Rightarrow> int" where
  "score_staleness now last_updated =
     (case last_updated of
        None \<Rightarrow> 10
      | Some dt \<Rightarrow>
          let age_days = (now - utc_of dt) div usec_per_day
          in if age_days > 365 * 3 then 15
             else if age_days > 365 * 2 then 11
             else if age_days > 365 then 7
             else if age_days > 180 then 4
             else 0)"

definition counts_toward_code_behaviour :: "package_finding \<Rightarrow> bool" where
  "counts_toward_code_behaviour f =
     (if pf_source f = ''javascript'' then True
      else if starts_with (pf_code f) ''csp_'' then True
      else if pf_code f = ''manifest_v2'' then True
      else False)"

definition score_code_findings :: "package_analysis \<Rightarrow> int" where
  "score_code_findings a =
     sum_list (map (\<lambda>f. case FINDING_WEIGHTS (pf_severity f) of Some w \<Rightarrow> w | None \<Rightarrow> 0)
       (filter counts_toward_code_behaviour (pa_findings a)))"

definition score_code_behaviour :: "package_analysis option \<Rightarrow> int" where
  "score_code_behaviour analysis =
     (case analysis of
        None \<Rightarrow> 7
      | Some a \<Rightarrow>
          min ((if pa_uses_eval a then 8 else 0)
               + (if pa_uses_remote_code a then 5 else 0)
               + (if pa_obfuscation_score a \<ge> 6 then 5
                  else if pa_obfuscation_score a \<ge> 3 then 3 else 0)
               + min (score_code_findings a) 7) 15)"

definition score_external_domains :: "(string \<Rightarrow> string) \<Rightarrow> package_analysis option \<Rightarrow> int" where
  "score_external_domains psl analysis =
     (case analysis of
        None \<Rightarrow> 5
      | Some a \<Rightarrow>
          let count = length (remdups (map (registrable_domain psl) (pa_external_domains a)))
          in if count = 0 then 0 else if count \<le> 2 then 3 else if count \<le> 5 then 6 else 10)"

section \<open>Bands and the aggregate\<close>

definition RISK_LEVEL_THRESHOLDS :: "(string \<times> int) list" where
  "RISK_LEVEL_THRESHOLDS = [(''critical'', 75), (''high'', 50), (''medium'', 25), (''low'', 0)]"

definition risk_level :: "int \<Rightarrow> string" where
  "risk_level score =
     (case find (\<lambda>(band, lower). score \<ge> lower) RISK_LEVEL_THRESHOLDS of
        Some (band, _) \<Rightarrow> band
      | None \<Rightarrow> ''low'')"

definition risk_level_opt :: "int option \<Rightarrow> string option" where
  "risk_level_opt score = (case score of None \<Rightarrow> None | Some s \<Rightarrow> Some (risk_level s))"

record risk_inputs =
  ri_permissions :: "string list"
  ri_host_permissions :: "string list"
  ri_install_count :: "int option"
  ri_install_history :: "int list"
  ri_publisher :: string
  ri_publisher_changed :: bool
  ri_publisher_verified :: "bool option"
  ri_last_updated :: "datetime option"
  ri_analysis :: "package_analysis option"

definition compute_risk_score ::
    "(string \<Rightarrow> string) \<Rightarrow> instant \<Rightarrow> risk_inputs \<Rightarrow> bool \<Rightarrow> risk_detail" where
  "compute_risk_score psl now i threat_match =
     (let p = score_permissions (ri_permissions i) (ri_host_permissions i);
          pop = score_popularity (ri_install_count i) (ri_install_history i);
          pub = score_publisher (ri_publisher i) (ri_publisher_changed i) (ri_publisher_verified i);
          stale = score_staleness now (ri_last_updated i);
          code = score_code_behaviour (ri_analysis i);
          domains = score_external_domains psl (ri_analysis i);
          total = min (p + pop + pub + stale + code + domains) 100;
          result = \<lparr>rd_permissions = p, rd_popularity = pop, rd_publisher = pub,
                    rd_staleness = stale, rd_code_behaviour = code,
                    rd_external_domains = domains, rd_total = total,
                    rd_risk_level = risk_level total\<rparr>
      in if threat_match then result\<lparr>rd_total := 100, rd_risk_level := ''critical''\<rparr> else result)"

definition effective_risk_score :: "int option \<Rightarrow> bool \<Rightarrow> string \<Rightarrow> int option" where
  "effective_risk_score heuristic_score threat_match risk_override =
     (if threat_match \<or> risk_override = ''deny'' then Some 100
      else if risk_override = ''allow'' then Some 0
      else heuristic_score)"

definition effective_risk_level :: "int option \<Rightarrow> bool \<Rightarrow> string \<Rightarrow> string option" where
  "effective_risk_level score threat_match risk_override =
     (if risk_override = ''allow'' \<and> \<not> threat_match then Some ''suppressed''
      else risk_level_opt score)"

definition RISK_COMPONENTS :: "string list" where
  "RISK_COMPONENTS = [''permissions'', ''popularity'', ''publisher'', ''staleness'',
                      ''code_behaviour'', ''external_domains'']"

definition recover_heuristic_risk_score ::
    "int option \<Rightarrow> int option \<Rightarrow> jobject option \<Rightarrow> int option" where
  "recover_heuristic_risk_score stored_score effective_score detail =
     (case stored_score of
        Some s \<Rightarrow> Some s
      | None \<Rightarrow>
          (case detail of
             None \<Rightarrow> effective_score
           | Some [] \<Rightarrow> effective_score
           | Some (kv # d) \<Rightarrow>
               let values = map (dict_get_none (kv # d)) RISK_COMPONENTS;
                   component_total =
                     sum_list (map (\<lambda>v. case v of JInt i \<Rightarrow> i | _ \<Rightarrow> 0) values)
               in Some (min component_total 100)))"

section \<open>Bounds of the signals\<close>

text \<open>The points a tier is worth; the abstract reading of the permission signal.\<close>

definition tier_points :: "string \<Rightarrow> int" where
  "tier_points tier = (if tier = ''critical'' then 25 else if tier = ''high'' then 15
                       else if tier = ''medium'' then 7 else 0)"

lemma score_permissions_bounds: "0 \<le> score_permissions ps hs" "score_permissions ps hs \<le> 25"
  by (simp_all add: score_permissions_def Let_def)

lemma score_popularity_bounds: "0 \<le> score_popularity n h" "score_popularity n h \<le> 20"
  by (auto simp: score_popularity_def Let_def split: option.splits)

lemma score_publisher_bounds: "0 \<le> score_publisher p c v" "score_publisher p c v \<le> 15"
  by (simp_all add: score_publisher_def)

lemma score_staleness_bounds: "0 \<le> score_staleness now dt" "score_staleness now dt \<le> 15"
  by (auto simp: score_staleness_def Let_def split: option.splits)

lemma finding_weight_nonneg:
  "0 \<le> (case FINDING_WEIGHTS s of Some w \<Rightarrow> w | None \<Rightarrow> 0)"
  by (auto simp: FINDING_WEIGHTS_def)

lemma score_code_findings_nonneg: "0 \<le> score_code_findings a"
  unfolding score_code_findings_def by (intro sum_list_nonneg) (auto simp: finding_weight_nonneg)

lemma score_code_behaviour_bounds:
  "0 \<le> score_code_behaviour a" "score_code_behaviour a \<le> 15"
  using score_code_findings_nonneg
  by (auto simp: score_code_behaviour_def split: option.splits)

lemma score_external_domains_bounds:
  "0 \<le> score_external_domains psl a" "score_external_domains psl a \<le> 10"
  by (auto simp: score_external_domains_def Let_def split: option.splits)

lemmas signal_bounds =
  score_permissions_bounds score_popularity_bounds score_publisher_bounds
  score_staleness_bounds score_code_behaviour_bounds score_external_domains_bounds

lemma risk_level_cases:
  "risk_level s = (if s \<ge> 75 then ''critical'' else if s \<ge> 50 then ''high''
                   else if s \<ge> 25 then ''medium'' else ''low'')"
  by (simp add: risk_level_def RISK_LEVEL_THRESHOLDS_def)

lemma component_sum_le_100:
  "score_permissions ps hs + score_popularity n h + score_publisher p c v
     + score_staleness now dt + score_code_behaviour a + score_external_domains psl a \<le> 100"
  using score_permissions_bounds(2) [of ps hs] score_popularity_bounds(2) [of n h]
    score_publisher_bounds(2) [of p c v] score_staleness_bounds(2) [of now dt]
    score_code_behaviour_bounds(2) [of a] score_external_domains_bounds(2) [of psl a]
  by linarith

definition component_sum :: "risk_detail \<Rightarrow> int" where
  "component_sum r = rd_permissions r + rd_popularity r + rd_publisher r + rd_staleness r
                     + rd_code_behaviour r + rd_external_domains r"

section \<open>Properties\<close>

lemma tier_points_permission_tier:
  "tier_points (permission_tier p) =
     (if p \<in> CRITICAL_PERMISSIONS \<union> BROAD_HOST_PATTERNS then 25
      else if p \<in> HIGH_PERMISSIONS then 15 else if p \<in> MEDIUM_PERMISSIONS then 7 else 0)"
  by (simp add: permission_tier_def tier_points_def)

lemma tier_points_values: "tier_points t \<in> {0, 7, 15, 25}"
  by (simp add: tier_points_def)

lemma Max_points_eqI:
  "finite A \<Longrightarrow> m \<in> insert 0 A \<Longrightarrow> (\<And>a. a \<in> A \<Longrightarrow> a \<le> m) \<Longrightarrow> 0 \<le> m \<Longrightarrow> Max (insert (0::int) A) = m"
  by (rule Max_eqI) auto

text \<open>The permission signal is the points of the most dangerous tier among everything the
  package may reach, host patterns included, as the detail page classifies each one.\<close>

theorem score_permissions_is_worst_tier:
  "score_permissions ps hs = Max (insert 0 (tier_points ` permission_tier ` (set ps \<union> set hs)))"
proof -
  define A where "A = set ps \<union> set hs"
  let ?pts = "\<lambda>p. tier_points (permission_tier p)"
  have score: "score_permissions ps hs =
      (if A \<inter> (CRITICAL_PERMISSIONS \<union> BROAD_HOST_PATTERNS) \<noteq> {} then 25
       else if A \<inter> HIGH_PERMISSIONS \<noteq> {} then 15
       else if A \<inter> MEDIUM_PERMISSIONS \<noteq> {} then 7 else 0)"
    by (simp add: score_permissions_def A_def)
  have le: "?pts p \<le> score_permissions ps hs" if "p \<in> A" for p
    using that unfolding score tier_points_permission_tier
    by (smt (verit) IntI Un_iff disjoint_iff)
  have "score_permissions ps hs = 0 \<or> (\<exists>p \<in> A. ?pts p = score_permissions ps hs)"
    unfolding score tier_points_permission_tier
    by (smt (verit) Int_iff Un_iff disjoint_iff)
  then have "score_permissions ps hs \<in> insert 0 (?pts ` A)" by force
  with le have "Max (insert 0 (?pts ` A)) = score_permissions ps hs"
    by (intro Max_points_eqI) (auto simp: A_def score_permissions_bounds)
  then show ?thesis by (simp add: A_def image_image)
qed

lemma card_image_mono: "A \<subseteq> B \<Longrightarrow> finite B \<Longrightarrow> card (f ` A) \<le> card (f ` B)"
  by (intro card_mono) auto

text \<open>C9: the total is the sum of its six components, which never exceeds 100, so the cap of
  the code never hides points; a threat match pins the total to 100. The level is always
  that of the total.\<close>

theorem compute_risk_score_total:
  "let r = compute_risk_score psl now i threat in
     0 \<le> component_sum r \<and> component_sum r \<le> 100 \<and>
     rd_total r = (if threat then 100 else component_sum r) \<and>
     rd_risk_level r = risk_level (rd_total r) \<and>
     component_sum r = component_sum (compute_risk_score psl now i False)"
  using signal_bounds(1,3,5,7,9,11) component_sum_le_100
  by (auto simp: compute_risk_score_def component_sum_def Let_def risk_level_cases)

lemma score_permissions_mono:
  assumes "set ps \<union> set hs \<subseteq> set ps' \<union> set hs'"
  shows "score_permissions ps hs \<le> score_permissions ps' hs'"
proof -
  have meet: "(set ps' \<union> set hs') \<inter> X \<noteq> {}" if "(set ps \<union> set hs) \<inter> X \<noteq> {}" for X
    using assms that by blast
  show ?thesis
    unfolding score_permissions_def Let_def
    using meet [of "CRITICAL_PERMISSIONS \<union> BROAD_HOST_PATTERNS"] meet [of HIGH_PERMISSIONS]
      meet [of MEDIUM_PERMISSIONS]
    by (simp del: Un_iff)
qed

lemma score_external_domains_mono:
  assumes "set (pa_external_domains a) \<subseteq> set (pa_external_domains b)"
  shows "score_external_domains psl (Some a) \<le> score_external_domains psl (Some b)"
proof -
  have "length (remdups (map (registrable_domain psl) (pa_external_domains a)))
          \<le> length (remdups (map (registrable_domain psl) (pa_external_domains b)))"
    using card_image_mono [OF assms] by (simp add: length_remdups_card_conv)
  moreover have "pa_external_domains b = [] \<Longrightarrow> pa_external_domains a = []" using assms by simp
  ultimately show ?thesis by (auto simp: score_external_domains_def Let_def)
qed

lemma sum_list_subseq_mono:
  assumes "subseq xs ys" and nonneg: "\<And>y. 0 \<le> (f y :: int)"
  shows "sum_list (map f xs) \<le> sum_list (map f ys)"
proof -
  have "0 \<le> sum_list (map f zs)" for zs by (rule sum_list_nonneg) (auto simp: nonneg)
  with assms(1) show ?thesis
    by (induction rule: list_emb.induct) (auto intro: add_increasing simp: nonneg)
qed

lemma score_code_findings_mono:
  "subseq (pa_findings a) (pa_findings b) \<Longrightarrow> score_code_findings a \<le> score_code_findings b"
  unfolding score_code_findings_def
  by (intro sum_list_subseq_mono subseq_filter finding_weight_nonneg)

text \<open>An analysis that reports at least what another one reports.\<close>

definition reports_more :: "package_analysis \<Rightarrow> package_analysis \<Rightarrow> bool" where
  "reports_more a b \<longleftrightarrow>
     (pa_uses_eval a \<longrightarrow> pa_uses_eval b) \<and> (pa_uses_remote_code a \<longrightarrow> pa_uses_remote_code b) \<and>
     pa_obfuscation_score a \<le> pa_obfuscation_score b \<and>
     subseq (pa_findings a) (pa_findings b) \<and>
     set (pa_external_domains a) \<subseteq> set (pa_external_domains b)"

lemma score_code_behaviour_mono:
  "reports_more a b \<Longrightarrow> score_code_behaviour (Some a) \<le> score_code_behaviour (Some b)"
  using score_code_findings_mono [of a b]
  by (auto simp: score_code_behaviour_def reports_more_def min_def)

text \<open>C10: more danger never scores lower. A package that asks for at least the same permissions
  and hosts, and whose analysis reports at least the same behaviour, findings and domains,
  scores at least as high when the store's metadata are the same.\<close>

theorem compute_risk_score_mono:
  assumes "set (ri_permissions i) \<union> set (ri_host_permissions i)
             \<subseteq> set (ri_permissions j) \<union> set (ri_host_permissions j)"
    and "ri_analysis i = Some a" and "ri_analysis j = Some b" and "reports_more a b"
    and "ri_install_count i = ri_install_count j" and "ri_install_history i = ri_install_history j"
    and "ri_publisher i = ri_publisher j" and "ri_publisher_changed i = ri_publisher_changed j"
    and "ri_publisher_verified i = ri_publisher_verified j"
    and "ri_last_updated i = ri_last_updated j"
  shows "rd_total (compute_risk_score psl now i threat) \<le> rd_total (compute_risk_score psl now j threat)"
proof -
  have "score_permissions (ri_permissions i) (ri_host_permissions i)
          \<le> score_permissions (ri_permissions j) (ri_host_permissions j)"
    using assms(1) by (rule score_permissions_mono)
  moreover have "score_code_behaviour (Some a) \<le> score_code_behaviour (Some b)"
    using assms(4) by (rule score_code_behaviour_mono)
  moreover have "score_external_domains psl (Some a) \<le> score_external_domains psl (Some b)"
    using assms(4) by (intro score_external_domains_mono) (simp add: reports_more_def)
  ultimately show ?thesis
    using assms by (simp add: compute_risk_score_def Let_def min.coboundedI1 min_le_iff_disj)
qed

definition sample_inputs :: "string list \<Rightarrow> string list \<Rightarrow> package_analysis option \<Rightarrow> risk_inputs" where
  "sample_inputs ps hs a =
     \<lparr>ri_permissions = ps, ri_host_permissions = hs, ri_install_count = Some 50000,
      ri_install_history = [50000], ri_publisher = ''Acme Labs'', ri_publisher_changed = False,
      ri_publisher_verified = None, ri_last_updated = Some (Aware 0), ri_analysis = a\<rparr>"

lemma compute_risk_score_mono_witness:
  "rd_total (compute_risk_score (\<lambda>h. h) 0
      (sample_inputs [''storage''] [] (Some empty_analysis)) False)
   \<le> rd_total (compute_risk_score (\<lambda>h. h) 0
        (sample_inputs [''storage'', ''tabs''] [''*://*/*'']
           (Some (empty_analysis\<lparr>pa_uses_eval := True, pa_external_domains := [''a.io'']\<rparr>))) False)"
  by (rule compute_risk_score_mono)
     (auto simp: sample_inputs_def reports_more_def empty_analysis_def)

text \<open>The public score follows the analyst and the threat list in a fixed order: a match wins over
  everything, then a deny, then an allow, and only then the computed score; the level is that
  of the public score, or ''suppressed'' exactly when an allow is what decided.\<close>

theorem effective_policy:
  "effective_risk_score heuristic threat override =
     (if threat then Some 100
      else if override = ''deny'' then Some 100
      else if override = ''allow'' then Some 0 else heuristic) \<and>
   effective_risk_level (effective_risk_score heuristic threat override) threat override =
     (if threat then Some ''critical''
      else if override = ''deny'' then Some ''critical''
      else if override = ''allow'' then Some ''suppressed''
      else map_option risk_level heuristic)"
  by (auto simp: effective_risk_score_def effective_risk_level_def risk_level_opt_def risk_level_cases
      split: option.splits)

end
