(* ===== verification/Package_Diff.thy ===== *)
theory Package_Diff
  imports Json Analysis
begin

text \<open>
  \<open>app/package_diff.py\<close>: the capabilities a new package snapshot adds over the previous one.
  Both arguments are stored JSON objects, so every field may be missing or of any shape.
\<close>

definition strings_of :: "json \<Rightarrow> string list" where
  "strings_of value = (case value of JArr xs \<Rightarrow> only_strings xs | _ \<Rightarrow> [])"

text \<open>A finding's identity. \<open>isinstance(True, int)\<close> holds in Python, and a tuple holding
  \<open>True\<close> equals one holding 1, so a boolean member is its integer.\<close>

definition FINDING_FIELDS :: "string list" where
  "FINDING_FIELDS = [''code'', ''severity'', ''title'', ''detail'', ''source'', ''file'', ''line'']"

fun key_scalar :: "json \<Rightarrow> json option" where
  "key_scalar (JStr s) = Some (JStr s)"
| "key_scalar (JInt i) = Some (JInt i)"
| "key_scalar (JBool b) = Some (JInt (if b then 1 else 0))"
| "key_scalar JNull = Some JNull"
| "key_scalar _ = None"

definition finding_key :: "json \<Rightarrow> json list option" where
  "finding_key finding =
     (case finding of
        JObj d \<Rightarrow>
          let values = map (dict_get_none d) FINDING_FIELDS
          in if list_all (\<lambda>v. key_scalar v \<noteq> None) values
             then Some (map (\<lambda>v. the (key_scalar v)) values) else None
      | _ \<Rightarrow> None)"

fun new_findings_loop ::
    "json list option set \<Rightarrow> json list set \<Rightarrow> json list \<Rightarrow> json list" where
  "new_findings_loop old_keys seen [] = []"
| "new_findings_loop old_keys seen (item # items) =
     (case finding_key item of
        None \<Rightarrow> new_findings_loop old_keys seen items
      | Some key \<Rightarrow>
          if Some key \<notin> old_keys \<and> key \<notin> seen
          then item # new_findings_loop old_keys (insert key seen) items
          else new_findings_loop old_keys seen items)"

definition new_findings :: "json \<Rightarrow> json \<Rightarrow> json list" where
  "new_findings old new =
     (let old_keys = (case old of JArr xs \<Rightarrow> set (map finding_key xs) | _ \<Rightarrow> {}) in
      case new of JArr items \<Rightarrow> new_findings_loop old_keys {} items | _ \<Rightarrow> [])"

definition added_strings :: "string list \<Rightarrow> string list \<Rightarrow> string list" where
  "added_strings new old = sorted_set (filter (\<lambda>s. s \<notin> set old) new)"

definition diff_analysis :: "jobject \<Rightarrow> jobject \<Rightarrow> jobject option" where
  "diff_analysis old new =
     (let perms = (\<lambda>d. strings_of (dict_get_none d ''permissions'')
                       @ strings_of (dict_get_none d ''host_permissions''));
          domains = (\<lambda>d. strings_of (dict_get_none d ''external_domains''));
          added_permissions = added_strings (perms new) (perms old);
          added_domains = added_strings (domains new) (domains old);
          findings = new_findings (dict_get_none old ''findings'') (dict_get_none new ''findings'');
          remote_code_enabled = (\<not> truthy (dict_get_none old ''uses_remote_code'')
                                 \<and> truthy (dict_get_none new ''uses_remote_code''));
          result =
            (if added_permissions \<noteq> [] then [(''added_permissions'', json_strs added_permissions)] else [])
            @ (if remote_code_enabled then [(''remote_code_enabled'', JBool True)] else [])
            @ (if added_domains \<noteq> [] then [(''added_domains'', json_strs added_domains)] else [])
            @ (if findings \<noteq> [] then [(''new_findings'', JArr findings)] else [])
      in if result = [] then None else Some result)"

section \<open>Laws\<close>

lemma set_added_strings [simp]: "set (added_strings new old) = set new - set old"
  by (auto simp: added_strings_def)

lemma added_strings_Nil_iff: "added_strings new old = [] \<longleftrightarrow> set new \<subseteq> set old"
  by (metis Diff_eq_empty_iff set_added_strings set_empty)

lemma new_findings_loop_mem:
  "f \<in> set (new_findings_loop ok seen items) \<Longrightarrow>
     f \<in> set items \<and> (\<exists>k. finding_key f = Some k \<and> Some k \<notin> ok \<and> k \<notin> seen)"
  by (induction ok seen items rule: new_findings_loop.induct)
     (auto split: option.splits if_splits)

lemma new_findings_loop_complete:
  "f \<in> set items \<Longrightarrow> finding_key f = Some k \<Longrightarrow> Some k \<notin> ok \<Longrightarrow> k \<notin> seen \<Longrightarrow>
     \<exists>g \<in> set (new_findings_loop ok seen items). finding_key g = Some k"
proof (induction ok seen items rule: new_findings_loop.induct)
  case (2 ok seen item items)
  show ?case
  proof (cases "finding_key item")
    case None
    with 2 show ?thesis by auto
  next
    case (Some key)
    with 2 show ?thesis by (cases "key = k") auto
  qed
qed simp

lemma new_findings_loop_distinct:
  "distinct (map finding_key (new_findings_loop ok seen items))"
proof (induction ok seen items rule: new_findings_loop.induct)
  case (2 ok seen item items)
  then show ?case
    by (auto split: option.splits dest!: new_findings_loop_mem)
qed simp

lemma new_findings_Nil_iff:
  "new_findings (JArr old) (JArr new) = [] \<longleftrightarrow>
     (\<forall>f \<in> set new. finding_key f \<noteq> None \<longrightarrow> finding_key f \<in> finding_key ` set old)"
proof
  assume nil: "new_findings (JArr old) (JArr new) = []"
  show "\<forall>f \<in> set new. finding_key f \<noteq> None \<longrightarrow> finding_key f \<in> finding_key ` set old"
  proof (intro ballI impI)
    fix f assume f: "f \<in> set new" "finding_key f \<noteq> None"
    show "finding_key f \<in> finding_key ` set old"
    proof (rule ccontr)
      assume "finding_key f \<notin> finding_key ` set old"
      with f obtain k where "finding_key f = Some k" "Some k \<notin> set (map finding_key old)" by auto
      from new_findings_loop_complete [OF f(1) this, of "{}"] nil show False
        by (simp add: new_findings_def)
    qed
  qed
next
  assume all: "\<forall>f \<in> set new. finding_key f \<noteq> None \<longrightarrow> finding_key f \<in> finding_key ` set old"
  show "new_findings (JArr old) (JArr new) = []"
  proof (rule ccontr)
    assume "new_findings (JArr old) (JArr new) \<noteq> []"
    then have "new_findings_loop (set (map finding_key old)) {} new \<noteq> []"
      by (simp add: new_findings_def)
    then obtain f where "f \<in> set (new_findings_loop (set (map finding_key old)) {} new)"
      by (meson list.set_sel(1))
    from new_findings_loop_mem [OF this] all show False by force
  qed
qed

lemma new_findings_not_list [simp]:
  "(\<And>xs. new \<noteq> JArr xs) \<Longrightarrow> new_findings old new = []"
  by (auto simp: new_findings_def split: json.splits)

lemma new_findings_self: "new_findings v v = []"
  by (cases v) (auto simp: new_findings_Nil_iff)

lemma diff_analysis_None_iff:
  "diff_analysis old new = None \<longleftrightarrow>
     set (strings_of (dict_get_none new ''permissions'')) \<union>
       set (strings_of (dict_get_none new ''host_permissions''))
       \<subseteq> set (strings_of (dict_get_none old ''permissions'')) \<union>
          set (strings_of (dict_get_none old ''host_permissions'')) \<and>
     set (strings_of (dict_get_none new ''external_domains''))
       \<subseteq> set (strings_of (dict_get_none old ''external_domains'')) \<and>
     (truthy (dict_get_none new ''uses_remote_code'') \<longrightarrow>
        truthy (dict_get_none old ''uses_remote_code'')) \<and>
     new_findings (dict_get_none old ''findings'') (dict_get_none new ''findings'') = []"
  by (auto simp: diff_analysis_def Let_def added_strings_Nil_iff)

lemma diff_analysis_not_empty: "diff_analysis old new \<noteq> Some []"
  by (simp add: diff_analysis_def Let_def)

section \<open>Properties\<close>

definition capabilities :: "jobject \<Rightarrow> string set" where
  "capabilities d = set (strings_of (dict_get_none d ''permissions''))
                    \<union> set (strings_of (dict_get_none d ''host_permissions''))"

definition contacted :: "jobject \<Rightarrow> string set" where
  "contacted d = set (strings_of (dict_get_none d ''external_domains''))"

lemma sorted_set_list_of_set: "sorted_set xs = sorted_list_of_set (set xs)"
  by (intro sorted_distinct_set_unique) simp_all

lemma added_strings_list_of_set: "added_strings new old = sorted_list_of_set (set new - set old)"
  by (simp add: added_strings_def sorted_set_list_of_set set_diff_eq Collect_conj_eq)

text \<open>The elements of a list value; any other value has none.\<close>

definition items_of :: "json \<Rightarrow> json list" where
  "items_of v = (case v of JArr xs \<Rightarrow> xs | _ \<Rightarrow> [])"

lemma new_findings_items:
  "new_findings old new = new_findings_loop (finding_key ` set (items_of old)) {} (items_of new)"
  by (auto simp: new_findings_def items_of_def split: json.splits)

lemma new_findings_spec:
  "distinct (map finding_key (new_findings old new)) \<and>
   finding_key ` set (new_findings old new) =
     finding_key ` set (items_of new) - finding_key ` set (items_of old) - {None}"
proof -
  define ok where "ok = finding_key ` set (items_of old)"
  have "finding_key ` set (new_findings_loop ok {} (items_of new))
      = finding_key ` set (items_of new) - ok - {None}"
  proof
    show "finding_key ` set (new_findings_loop ok {} (items_of new))
        \<subseteq> finding_key ` set (items_of new) - ok - {None}"
      by (force dest!: new_findings_loop_mem)
    show "finding_key ` set (items_of new) - ok - {None}
        \<subseteq> finding_key ` set (new_findings_loop ok {} (items_of new))"
    proof
      fix k assume k: "k \<in> finding_key ` set (items_of new) - ok - {None}"
      then obtain f key where "f \<in> set (items_of new)" "finding_key f = Some key" "k = Some key"
        "Some key \<notin> ok" by auto
      with new_findings_loop_complete [of f "items_of new" key ok "{}"]
      show "k \<in> finding_key ` set (new_findings_loop ok {} (items_of new))" by force
    qed
  qed
  then show ?thesis
    using new_findings_loop_distinct [of ok "{}" "items_of new"]
    by (simp add: new_findings_items ok_def)
qed

text \<open>The optional entries of a result, by key.\<close>

lemma result_entries:
  fixes ps ds :: "string list" and fs :: "json list"
  assumes "r = (if ps \<noteq> [] then [(''added_permissions'', json_strs ps)] else [])
      @ (if rc then [(''remote_code_enabled'', JBool True)] else [])
      @ (if ds \<noteq> [] then [(''added_domains'', json_strs ds)] else [])
      @ (if fs \<noteq> [] then [(''new_findings'', JArr fs)] else [])"
  shows "dict_get r ''added_permissions'' = (if ps = [] then None else Some (json_strs ps))"
    "dict_get r ''added_domains'' = (if ds = [] then None else Some (json_strs ds))"
    "dict_get r ''remote_code_enabled'' = Some (JBool True) \<longleftrightarrow> rc"
    "dict_get r ''new_findings'' = (if fs = [] then None else Some (JArr fs))"
  unfolding assms by (simp_all add: dict_get_def)


end
