(* ===== verification/Threats.thy ===== *)
theory Threats
  imports Json
begin

text \<open>
  \<open>app/threats.py\<close>: validation of threat-list entries, parsing of a feed, and the synthetic
  finding of a match. A \<open>ValueError\<close> is the left side of the result; the constructor names
  the check that failed.
\<close>

definition SUPPORTED_STORES :: "string set" where
  "SUPPORTED_STORES = {''chrome'', ''vscode'', ''edge''}"

definition MAX_EXTENSION_ID_LENGTH :: nat where "MAX_EXTENSION_ID_LENGTH = 512"
definition MAX_SOURCE_LENGTH :: nat where "MAX_SOURCE_LENGTH = 128"
definition MAX_REASON_LENGTH :: nat where "MAX_REASON_LENGTH = 1000"
definition MAX_FEED_ENTRIES :: nat where "MAX_FEED_ENTRIES = 1000"

lemmas threat_limits =
  MAX_EXTENSION_ID_LENGTH_def MAX_SOURCE_LENGTH_def MAX_REASON_LENGTH_def MAX_FEED_ENTRIES_def

record threat_entry_input =
  te_store :: string
  te_extension_id :: string
  te_source :: string
  te_reason :: "string option"

datatype threat_error =
    BadStore | BadExtensionId | BadSource | BadReason
  | FeedNotArray | FeedTooLong | RowNotObject | RowFields | RowSourceReason

definition normalize_entry ::
    "string \<Rightarrow> string \<Rightarrow> string \<Rightarrow> string option \<Rightarrow> threat_error + threat_entry_input" where
  "normalize_entry store extension_id source reason =
     (let normalized_store = lower (strip store);
          normalized_id =
            (if normalized_store = ''vscode'' then lower (strip extension_id) else strip extension_id);
          normalized_source = strip source;
          normalized_reason = map_option strip reason
      in if normalized_store \<notin> SUPPORTED_STORES then Inl BadStore
         else if normalized_id = [] \<or> length normalized_id > MAX_EXTENSION_ID_LENGTH
           then Inl BadExtensionId
         else if normalized_source = [] \<or> length normalized_source > MAX_SOURCE_LENGTH
           then Inl BadSource
         else if (case normalized_reason of None \<Rightarrow> False | Some r \<Rightarrow> length r > MAX_REASON_LENGTH)
           then Inl BadReason
         else Inr \<lparr>te_store = normalized_store, te_extension_id = normalized_id,
                   te_source = normalized_source,
                   te_reason = (if normalized_reason = Some [] then None else normalized_reason)\<rparr>)"

definition parse_feed_row ::
    "string \<Rightarrow> json \<Rightarrow> threat_error + threat_entry_input" where
  "parse_feed_row default_source row =
     (case row of
        JObj d \<Rightarrow>
          (let source = (case dict_get d ''source'' of Some s \<Rightarrow> s | None \<Rightarrow> JStr default_source);
               reason = dict_get_none d ''reason''
           in case (dict_get_none d ''store'', dict_get_none d ''extension_id'') of
                (JStr store, JStr extension_id) \<Rightarrow>
                  (case (source, reason) of
                     (JStr src, JNull) \<Rightarrow> normalize_entry store extension_id src None
                   | (JStr src, JStr r) \<Rightarrow> normalize_entry store extension_id src (Some r)
                   | _ \<Rightarrow> Inl RowSourceReason)
              | _ \<Rightarrow> Inl RowFields)
      | _ \<Rightarrow> Inl RowNotObject)"

definition entry_identity :: "threat_entry_input \<Rightarrow> string \<times> string \<times> string" where
  "entry_identity e = (te_store e, te_extension_id e, te_source e)"

fun parse_feed_rows ::
    "string \<Rightarrow> (string \<times> string \<times> string) set \<Rightarrow> json list \<Rightarrow>
       threat_error + threat_entry_input list" where
  "parse_feed_rows default_source seen [] = Inr []"
| "parse_feed_rows default_source seen (row # rows) =
     (case parse_feed_row default_source row of
        Inl e \<Rightarrow> Inl e
      | Inr entry \<Rightarrow>
          if entry_identity entry \<in> seen then parse_feed_rows default_source seen rows
          else (case parse_feed_rows default_source (insert (entry_identity entry) seen) rows of
                  Inl e \<Rightarrow> Inl e
                | Inr entries \<Rightarrow> Inr (entry # entries)))"

definition parse_feed_payload :: "json \<Rightarrow> string \<Rightarrow> threat_error + threat_entry_input list" where
  "parse_feed_payload payload default_source =
     (let rows = (case payload of JObj d \<Rightarrow> dict_get_none d ''entries'' | _ \<Rightarrow> payload) in
      case rows of
        JArr items \<Rightarrow>
          if length items > MAX_FEED_ENTRIES then Inl FeedTooLong
          else parse_feed_rows default_source {} items
      | _ \<Rightarrow> Inl FeedNotArray)"

definition finding_for_entries :: "threat_entry_input list \<Rightarrow> jobject" where
  "finding_for_entries entries =
     (let details = join ''; ''
        (map (\<lambda>e. case te_reason e of
                    Some (c # r) \<Rightarrow> te_source e @ '': '' @ (c # r)
                  | _ \<Rightarrow> te_source e) entries)
      in [(''code'', JStr ''threat_match''), (''severity'', JStr ''critical''),
          (''title'', JStr ''Known-bad extension matched a threat list''),
          (''detail'', JStr (take MAX_REASON_LENGTH details)),
          (''source'', JStr ''threat_list'')])"

section \<open>Normalised entries\<close>

definition entry_normal :: "threat_entry_input \<Rightarrow> bool" where
  "entry_normal e \<longleftrightarrow>
     te_store e \<in> SUPPORTED_STORES \<and>
     te_extension_id e \<noteq> [] \<and> length (te_extension_id e) \<le> MAX_EXTENSION_ID_LENGTH \<and>
     strip (te_extension_id e) = te_extension_id e \<and>
     (te_store e = ''vscode'' \<longrightarrow> lower (te_extension_id e) = te_extension_id e) \<and>
     te_source e \<noteq> [] \<and> length (te_source e) \<le> MAX_SOURCE_LENGTH \<and>
     strip (te_source e) = te_source e \<and>
     (case te_reason e of None \<Rightarrow> True
      | Some r \<Rightarrow> r \<noteq> [] \<and> length r \<le> MAX_REASON_LENGTH \<and> strip r = r)"

lemma store_strip_lower:
  "s \<in> SUPPORTED_STORES \<Longrightarrow> lower (strip s) = s"
  by (auto simp: SUPPORTED_STORES_def) code_simp+

lemma normalize_entry_normal:
  assumes "normalize_entry s i src r = Inr e"
  shows "entry_normal e"
proof -
  have *: "strip (lower (strip i)) = lower (strip i)" by (simp add: strip_lower)
  show ?thesis
    using assms unfolding normalize_entry_def Let_def entry_normal_def
    by (auto simp: * not_less split: if_splits option.splits)
qed

lemma normalize_entry_id:
  assumes "entry_normal e"
  shows "normalize_entry (te_store e) (te_extension_id e) (te_source e) (te_reason e) = Inr e"
proof -
  from assms have s: "lower (strip (te_store e)) = te_store e"
    by (simp add: entry_normal_def store_strip_lower)
  show ?thesis
    using assms unfolding normalize_entry_def Let_def entry_normal_def s
    by (auto simp: not_less split: option.splits)
qed

lemma parse_feed_row_normal: "parse_feed_row ds row = Inr e \<Longrightarrow> entry_normal e"
  by (auto simp: parse_feed_row_def Let_def normalize_entry_normal split: json.splits)

lemma parse_feed_rows_sound:
  assumes "parse_feed_rows ds seen rows = Inr es"
  shows "distinct (map entry_identity es) \<and> entry_identity ` set es \<inter> seen = {} \<and>
         (\<forall>e \<in> set es. entry_normal e) \<and> length es \<le> length rows"
  using assms
proof (induction ds seen rows arbitrary: es rule: parse_feed_rows.induct)
  case (2 ds seen row rows)
  then obtain entry where row: "parse_feed_row ds row = Inr entry"
    by (auto split: sum.splits)
  show ?case
  proof (cases "entry_identity entry \<in> seen")
    case True
    with row 2 show ?thesis by fastforce
  next
    case False
    with row "2.prems" obtain es' where
      es': "parse_feed_rows ds (insert (entry_identity entry) seen) rows = Inr es'"
        and "es = entry # es'" by (auto split: sum.splits)
    with row "2.IH"(2) [OF row False es'] False parse_feed_row_normal [OF row]
    show ?thesis by auto
  qed
qed auto

lemma parse_feed_rows_total:
  assumes "parse_feed_rows ds seen rows = Inr es" and "row \<in> set rows"
  shows "\<exists>e. parse_feed_row ds row = Inr e \<and> entry_identity e \<in> seen \<union> entry_identity ` set es"
  using assms
proof (induction ds seen rows arbitrary: es rule: parse_feed_rows.induct)
  case (2 ds seen r rows)
  then obtain entry where r: "parse_feed_row ds r = Inr entry"
    by (auto split: sum.splits)
  show ?case
  proof (cases "entry_identity entry \<in> seen")
    case True
    with r "2.prems" have "parse_feed_rows ds seen rows = Inr es" by simp
    with True r "2.IH"(1) [OF r True this] "2.prems"(2) show ?thesis by auto
  next
    case False
    with r "2.prems" obtain es' where
      es': "parse_feed_rows ds (insert (entry_identity entry) seen) rows = Inr es'"
        and "es = entry # es'" by (auto split: sum.splits)
    with r "2.IH"(2) [OF r False es'] "2.prems"(2) show ?thesis by auto
  qed
qed auto

section \<open>Properties\<close>

text \<open>Validating an entry is a projection onto the normalised entries: whatever is accepted
  satisfies every bound, is stripped and in its store's case, and passes validation again
  unchanged, so an entry keeps one identity however it is spelled on the way in.\<close>

theorem normalize_entry_projection:
  assumes "normalize_entry store extension_id source reason = Inr e"
  shows "entry_normal e \<and>
    normalize_entry (te_store e) (te_extension_id e) (te_source e) (te_reason e) = Inr e"
  using normalize_entry_normal [OF assms] normalize_entry_id by blast

lemma normalize_entry_projection_witness:
  "\<exists>e. normalize_entry '' VSCode '' ''Pub.Ext '' ''feed'' (Some '' '') = Inr e \<and> entry_normal e \<and>
       te_extension_id e = ''pub.ext''"
proof -
  have "normalize_entry '' VSCode '' ''Pub.Ext '' ''feed'' (Some '' '')
      = Inr \<lparr>te_store = ''vscode'', te_extension_id = ''pub.ext'', te_source = ''feed'', te_reason = None\<rparr>"
    by code_simp
  with normalize_entry_projection [OF this] show ?thesis by auto
qed

text \<open>C18: a feed is taken whole or not at all. When it parses, it had at most 1000 rows, every row
  was valid and is represented by an entry of its identity, no identity occurs twice, and every
  entry is normalised.\<close>

theorem parse_feed_payload_whole:
  assumes "parse_feed_payload payload ds = Inr es"
  shows "\<exists>rows. (payload = JArr rows \<or>
                 (\<exists>d. payload = JObj d \<and> dict_get_none d ''entries'' = JArr rows)) \<and>
    length rows \<le> MAX_FEED_ENTRIES \<and> distinct (map entry_identity es) \<and>
    (\<forall>e \<in> set es. entry_normal e) \<and>
    (\<forall>row \<in> set rows. \<exists>e. parse_feed_row ds row = Inr e \<and> entry_identity e \<in> entry_identity ` set es)"
proof -
  from assms obtain rows where
    rows: "(case payload of JObj d \<Rightarrow> dict_get_none d ''entries'' | _ \<Rightarrow> payload) = JArr rows"
    and len: "length rows \<le> MAX_FEED_ENTRIES" and parse: "parse_feed_rows ds {} rows = Inr es"
    by (auto simp: parse_feed_payload_def Let_def not_less split: json.splits if_splits)
  have "payload = JArr rows \<or> (\<exists>d. payload = JObj d \<and> dict_get_none d ''entries'' = JArr rows)"
    using rows by (cases payload) auto
  with len parse_feed_rows_sound [OF parse] parse_feed_rows_total [OF parse]
  show ?thesis by (intro exI [of _ rows]) auto
qed

lemma parse_feed_payload_whole_witness:
  "\<exists>es. parse_feed_payload (JArr [JObj [(''store'', JStr ''edge''), (''extension_id'', JStr ''a'')],
            JObj [(''extension_id'', JStr '' a ''), (''store'', JStr ''Edge'')]]) ''op'' = Inr es \<and>
        length es = 1 \<and> distinct (map entry_identity es)"
proof -
  have "parse_feed_payload (JArr [JObj [(''store'', JStr ''edge''), (''extension_id'', JStr ''a'')],
            JObj [(''extension_id'', JStr '' a ''), (''store'', JStr ''Edge'')]]) ''op''
      = Inr [\<lparr>te_store = ''edge'', te_extension_id = ''a'', te_source = ''op'', te_reason = None\<rparr>]"
    by code_simp
  with parse_feed_payload_whole [OF this] show ?thesis by auto
qed

end
