(* ===== verification/Notifications.thy ===== *)
theory Notifications
  imports Models Scoring
begin

text \<open>
  \<open>app/notifications.py\<close>: the change events, their detection between two snapshots of an
  extension row, and the delivery of events to the matching alert rules. The sender registry
  of \<open>app/senders/base.py\<close> and the deep link of \<open>app/senders/webhook.py\<close> are here too.

  Delivery itself leaves the program. \<open>de_deliver k dest msg\<close> is the outcome of the \<open>k\<close>-th
  \<open>sender.send\<close> call of one \<open>fire_alerts\<close> run: \<open>None\<close> when it returns, the exception's text
  when it raises. \<open>de_scrub\<close> is \<open>proxy.scrub\<close> and \<open>de_commit_ok\<close> tells whether the commit of
  the log rows succeeds.
\<close>

record change_event =
  ev_type :: string
  ev_old :: json
  ev_new :: json

definition event_asdict :: "change_event \<Rightarrow> json" where
  "event_asdict e =
     JObj [(''event_type'', JStr (ev_type e)), (''old_value'', ev_old e), (''new_value'', ev_new e)]"

text \<open>\<open>ChangeEvent(**d)\<close>: every field present, no other key, and a string event type.\<close>

definition event_of_dict :: "jobject \<Rightarrow> change_event option" where
  "event_of_dict d =
     (if set (map fst d) = {''event_type'', ''old_value'', ''new_value''}
      then (case dict_get_none d ''event_type'' of
              JStr t \<Rightarrow> Some \<lparr>ev_type = t, ev_old = dict_get_none d ''old_value'',
                               ev_new = dict_get_none d ''new_value''\<rparr>
            | _ \<Rightarrow> None)
      else None)"

section \<open>Change detection\<close>

definition perms_of :: "extension \<Rightarrow> string list" where
  "perms_of x = permissions_list x @ host_permissions_list x"

definition threat_event :: "json list option \<Rightarrow> change_event" where
  "threat_event detail =
     \<lparr>ev_type = ''threat_match'', ev_old = JNull,
      ev_new = (case detail of
                  Some (e # es) \<Rightarrow> JArr (e # es)
                | _ \<Rightarrow> JObj [(''matched'', JBool True)])\<rparr>"

definition risk_events :: "extension \<Rightarrow> extension \<Rightarrow> change_event list" where
  "risk_events old new =
     (case (risk_level_opt (x_risk_score old), risk_level_opt (x_risk_score new)) of
        (Some old_level, Some new_level) \<Rightarrow>
          if old_level \<noteq> new_level
          then [\<lparr>ev_type = ''risk_level_change'', ev_old = JStr old_level, ev_new = JStr new_level\<rparr>]
          else []
      | _ \<Rightarrow> [])"

definition string_events :: "string \<Rightarrow> string \<Rightarrow> string \<Rightarrow> change_event list" where
  "string_events kind old new =
     (if old \<noteq> [] \<and> new \<noteq> [] \<and> old \<noteq> new
      then [\<lparr>ev_type = kind, ev_old = JStr old, ev_new = JStr new\<rparr>] else [])"

definition permission_events :: "extension \<Rightarrow> extension \<Rightarrow> change_event list" where
  "permission_events old new =
     (if set (perms_of old) \<noteq> set (perms_of new)
      then [\<lparr>ev_type = ''permission_change'', ev_old = json_strs (sorted_set (perms_of old)),
             ev_new = json_strs (sorted_set (perms_of new))\<rparr>]
      else [])"

definition capability_events ::
    "string option \<Rightarrow> jobject option \<Rightarrow> string \<Rightarrow> change_event list" where
  "capability_events old_version diff new_version =
     (case (old_version, diff) of
        (Some (c # v), Some (kv # d)) \<Rightarrow>
          [\<lparr>ev_type = ''capability_change'',
            ev_old = JObj [(''version'', JStr (c # v))],
            ev_new = JObj [(''version'', JStr new_version), (''diff'', JObj (kv # d))]\<rparr>]
      | _ \<Rightarrow> [])"

definition detect_changes ::
    "extension \<Rightarrow> extension \<Rightarrow> string option \<Rightarrow> jobject option \<Rightarrow> json list option \<Rightarrow>
       change_event list" where
  "detect_changes old new capability_old_version capability_diff threat_match_detail =
     (if x_last_fetched_at old = None
      then (if \<not> x_threat_match old \<and> x_threat_match new
            then [threat_event threat_match_detail] else [])
      else
        risk_events old new
        @ string_events ''publisher_change'' (x_publisher old) (x_publisher new)
        @ permission_events old new
        @ string_events ''new_version'' (x_version old) (x_version new)
        @ capability_events capability_old_version capability_diff (x_version new)
        @ (if \<not> x_threat_match old \<and> x_threat_match new
           then [threat_event threat_match_detail] else []))"

section \<open>Messages\<close>

text \<open>The arrow and the dash of the texts are their UTF-8 bytes.\<close>

definition utf8_arrow :: string where "utf8_arrow = [CHR 0xE2, CHR 0x86, CHR 0x92]"
definition utf8_dash :: string where "utf8_dash = [CHR 0xE2, CHR 0x80, CHR 0x94]"

definition alert_text :: "string \<Rightarrow> string \<Rightarrow> json \<Rightarrow> json \<Rightarrow> string" where
  "alert_text event_type nm old new =
     (let p = ''IcebergEBS: '' @ nm in
      if event_type = ''risk_level_change''
        then p @ '' risk level changed '' @ py_str old @ '' '' @ utf8_arrow @ '' '' @ py_str new
      else if event_type = ''publisher_change''
        then p @ '' publisher changed from '' @ [CHR 0x22] @ py_str old @ [CHR 0x22]
               @ '' to '' @ [CHR 0x22] @ py_str new @ [CHR 0x22]
      else if event_type = ''permission_change'' then p @ '' permissions changed''
      else if event_type = ''new_version'' then p @ '' updated to version '' @ py_str new
      else if event_type = ''capability_change'' then p @ '' update introduced new risky capabilities''
      else if event_type = ''threat_match'' then p @ '' matched a known-bad extension threat list''
      else p @ '' '' @ utf8_dash @ '' '' @ event_type)"

record alert_message =
  am_text :: string
  am_event :: string
  am_ext_id :: int
  am_name :: string
  am_store :: string
  am_store_url :: string
  am_old :: json
  am_new :: json
  am_risk_score :: "int option"
  am_app_url :: "string option"

definition extension_deep_link :: "string \<Rightarrow> int \<Rightarrow> string option" where
  "extension_deep_link app_base_url ext_id =
     (if app_base_url = [] then None
      else Some (rstrip_by (\<lambda>c. c = CHR ''/'') app_base_url @ ''/extensions/'' @ show_int ext_id))"

definition KIND_ORDER :: "string list" where
  "KIND_ORDER = [''webhook'', ''slack'', ''teams'', ''email'', ''jira'', ''servicenow'']"

text \<open>Every kind registers itself on import, so the registry's keys are the ordered kinds.\<close>

definition get_sender :: "string \<Rightarrow> string option" where
  "get_sender kind = (if kind \<in> set KIND_ORDER then Some kind else None)"

record delivery_env =
  de_app_base_url :: string
  de_scrub :: "string \<Rightarrow> string"
  de_deliver :: "nat \<Rightarrow> alert_destination \<Rightarrow> alert_message \<Rightarrow> string option"
  de_commit_ok :: bool

definition message_for :: "delivery_env \<Rightarrow> change_event \<Rightarrow> extension \<Rightarrow> alert_message" where
  "message_for env e x =
     \<lparr>am_text = alert_text (ev_type e) (x_name x) (ev_old e) (ev_new e), am_event = ev_type e,
      am_ext_id = x_id x, am_name = x_name x, am_store = x_store x, am_store_url = x_store_url x,
      am_old = ev_old e, am_new = ev_new e, am_risk_score = x_risk_score x,
      am_app_url = extension_deep_link (de_app_base_url env) (x_id x)\<rparr>"

section \<open>Firing\<close>

definition matching_rules :: "change_event list \<Rightarrow> extension \<Rightarrow> db \<Rightarrow> alert_rule list" where
  "matching_rules events x d =
     filter (\<lambda>r. Some (ar_user_id r) = x_user_id x \<and> ar_enabled r \<and>
                 ar_event_type r \<in> set (map ev_type events) \<and>
                 (ar_extension_id r = None \<or> ar_extension_id r = Some (x_id x))) (db_rules d)"

definition destination_of :: "db \<Rightarrow> alert_rule \<Rightarrow> alert_destination option" where
  "destination_of d r = find (\<lambda>a. ad_id a = ar_destination_id r) (db_destinations d)"

text \<open>The two nested loops: for each event in order, each matching rule of its type whose
  destination exists and is enabled.\<close>

definition delivery_targets ::
    "change_event list \<Rightarrow> extension \<Rightarrow> db \<Rightarrow> (change_event \<times> alert_rule \<times> alert_destination) list" where
  "delivery_targets events x d =
     concat (map (\<lambda>e.
       concat (map (\<lambda>r.
         case destination_of d r of
           None \<Rightarrow> []
         | Some dest \<Rightarrow> if ad_enabled dest then [(e, r, dest)] else [])
         (filter (\<lambda>r. ar_event_type r = ev_type e) (matching_rules events x d))))
       events)"

definition delivery_error ::
    "delivery_env \<Rightarrow> nat \<Rightarrow> alert_destination \<Rightarrow> alert_message \<Rightarrow> string option" where
  "delivery_error env k dest msg =
     (case get_sender (ad_kind dest) of
        None \<Rightarrow> Some (''No sender registered for destination kind '' @ [CHR 0x27] @ ad_kind dest
                      @ [CHR 0x27])
      | Some _ \<Rightarrow> de_deliver env k dest msg)"

definition alert_log_row ::
    "delivery_env \<Rightarrow> instant \<Rightarrow> extension \<Rightarrow> int \<Rightarrow>
       nat \<times> change_event \<times> alert_rule \<times> alert_destination \<Rightarrow> alert_log" where
  "alert_log_row env now x first_id t =
     (case t of (k, e, r, dest) \<Rightarrow>
        let err = delivery_error env k dest (message_for env e x) in
        \<lparr>al_id = first_id + int k, al_rule_id = Some (ar_id r), al_destination_id = Some (ad_id dest),
         al_extension_id = x_id x, al_user_id = x_user_id x, al_event_type = ev_type e,
         al_detail = json_dumps (JObj [(''old'', ev_old e), (''new'', ev_new e)]),
         al_sent_at = now, al_success = (err = None),
         al_error = map_option (\<lambda>t. take 2000 (de_scrub env t)) err\<rparr>)"

text \<open>The result is whether the call returned (it raises when the commit fails) and the
  database after it; the session is its own, so a failed commit leaves no row.\<close>

definition fire_alerts ::
    "delivery_env \<Rightarrow> instant \<Rightarrow> change_event list \<Rightarrow> extension \<Rightarrow> db \<Rightarrow> bool \<times> db" where
  "fire_alerts env now events x d =
     (if events = [] \<or> x_user_id x = None then (True, d)
      else if matching_rules events x d = [] then (True, d)
      else
        let targets = delivery_targets events x d;
            rows = map (alert_log_row env now x (db_next_id d)) (enumerate 0 targets)
        in if de_commit_ok env
           then (True, d\<lparr>db_alert_logs := db_alert_logs d @ rows,
                         db_next_id := db_next_id d + int (length rows)\<rparr>)
           else (False, d))"

section \<open>Laws\<close>

text \<open>The object inside the marker entry of an event.\<close>

fun dict_of :: "json \<Rightarrow> jobject" where
  "dict_of (JObj d) = d"
| "dict_of _ = []"

lemma event_of_asdict [simp]: "event_of_dict (dict_of (event_asdict e)) = Some e"
  by (auto simp: event_of_dict_def event_asdict_def dict_get_none_def)

lemma event_of_obj [simp]:
  "event_of_dict [(''event_type'', JStr (ev_type e)), (''old_value'', ev_old e),
     (''new_value'', ev_new e)] = Some e"
  using event_of_asdict [of e] by (simp add: event_asdict_def)

lemma event_asdict_inj [simp]: "event_asdict e = event_asdict f \<longleftrightarrow> e = f"
  by (cases e; cases f) (simp add: event_asdict_def)

lemma perms_eq_iff: "sorted_set (perms_of a) = sorted_set (perms_of b) \<longleftrightarrow>
    set (perms_of a) = set (perms_of b)"
  by (rule sorted_set_eq_iff)

lemma delivery_targets_mem:
  "(e, r, dest) \<in> set (delivery_targets events x d) \<longleftrightarrow>
     e \<in> set events \<and> r \<in> set (db_rules d) \<and> ar_enabled r \<and> ar_event_type r = ev_type e \<and>
     Some (ar_user_id r) = x_user_id x \<and>
     (ar_extension_id r = None \<or> ar_extension_id r = Some (x_id x)) \<and>
     destination_of d r = Some dest \<and> ad_enabled dest"
  by (auto simp: delivery_targets_def matching_rules_def split: option.splits if_splits)

lemma fire_alerts_frame [simp]:
  "db_extensions (snd (fire_alerts env now events x d)) = db_extensions d"
  "db_users (snd (fire_alerts env now events x d)) = db_users d"
  "db_threats (snd (fire_alerts env now events x d)) = db_threats d"
  "db_rules (snd (fire_alerts env now events x d)) = db_rules d"
  "db_fetch_logs (snd (fire_alerts env now events x d)) = db_fetch_logs d"
  "db_snapshots (snd (fire_alerts env now events x d)) = db_snapshots d"
  "db_observations (snd (fire_alerts env now events x d)) = db_observations d"
  "db_install_history (snd (fire_alerts env now events x d)) = db_install_history d"
  by (simp_all add: fire_alerts_def Let_def)

lemma get_extension_fire_alerts [simp]:
  "get_extension (snd (fire_alerts env now events x d)) = get_extension d"
  by (rule get_extension_cong) simp

lemma delivery_targets_no_rules:
  "matching_rules events x d = [] \<Longrightarrow> delivery_targets events x d = []"
  by (simp add: delivery_targets_def concat_eq_Nil_conv)

lemma fire_alerts_rows:
  "de_commit_ok env \<Longrightarrow> events \<noteq> [] \<Longrightarrow> x_user_id x \<noteq> None \<Longrightarrow>
     db_alert_logs (snd (fire_alerts env now events x d)) =
       db_alert_logs d @ map (alert_log_row env now x (db_next_id d))
         (enumerate 0 (delivery_targets events x d))"
  by (auto simp: fire_alerts_def Let_def delivery_targets_no_rules)

lemma alert_log_row_event:
  "al_event_type (alert_log_row env now x i (k, e, r, dest)) = ev_type e"
  by (simp add: alert_log_row_def Let_def)

section \<open>Properties\<close>

definition has_event :: "string \<Rightarrow> change_event list \<Rightarrow> bool" where
  "has_event kind events \<longleftrightarrow> kind \<in> set (map ev_type events)"

lemma risk_events_kinds: "set (map ev_type (risk_events old new)) \<subseteq> {''risk_level_change''}"
  by (auto simp: risk_events_def split: option.splits)

lemma string_events_kinds: "set (map ev_type (string_events k old new)) \<subseteq> {k}"
  by (auto simp: string_events_def)

lemma permission_events_kinds: "set (map ev_type (permission_events old new)) \<subseteq> {''permission_change''}"
  by (auto simp: permission_events_def)

lemma capability_events_kinds: "set (map ev_type (capability_events v d n)) \<subseteq> {''capability_change''}"
  by (auto simp: capability_events_def split: option.splits list.splits)

lemma risk_events_iff:
  "risk_events old new \<noteq> [] \<longleftrightarrow>
     (\<exists>a b. x_risk_score old = Some a \<and> x_risk_score new = Some b \<and> risk_level a \<noteq> risk_level b)"
  by (auto simp: risk_events_def risk_level_opt_def split: option.splits)

lemmas event_kinds = risk_events_kinds string_events_kinds permission_events_kinds capability_events_kinds

text \<open>C7: for a row that has been fetched before, an event of each kind is raised exactly when its
  condition holds: the risk band moved between two known scores, a known publisher or version was
  replaced by another, the set of permissions and hosts differs, a new snapshot adds
  capabilities, or a threat match appeared. No kind is raised twice, so an unchanged row is silent.\<close>

theorem detect_changes_kinds:
  assumes "x_last_fetched_at old \<noteq> None"
  shows "let events = detect_changes old new cap_version diff detail in
    (has_event ''risk_level_change'' events \<longleftrightarrow>
       (\<exists>a b. x_risk_score old = Some a \<and> x_risk_score new = Some b \<and> risk_level a \<noteq> risk_level b)) \<and>
    (has_event ''publisher_change'' events \<longleftrightarrow>
       x_publisher old \<noteq> [] \<and> x_publisher new \<noteq> [] \<and> x_publisher old \<noteq> x_publisher new) \<and>
    (has_event ''permission_change'' events \<longleftrightarrow> set (perms_of old) \<noteq> set (perms_of new)) \<and>
    (has_event ''new_version'' events \<longleftrightarrow>
       x_version old \<noteq> [] \<and> x_version new \<noteq> [] \<and> x_version old \<noteq> x_version new) \<and>
    (has_event ''capability_change'' events \<longleftrightarrow>
       cap_version \<notin> {None, Some []} \<and> diff \<notin> {None, Some []}) \<and>
    (has_event ''threat_match'' events \<longleftrightarrow> \<not> x_threat_match old \<and> x_threat_match new) \<and>
    distinct (map ev_type events)"
proof -
  define r where "r = risk_events old new"
  define p where "p = string_events ''publisher_change'' (x_publisher old) (x_publisher new)"
  define q where "q = permission_events old new"
  define v where "v = string_events ''new_version'' (x_version old) (x_version new)"
  define c where "c = capability_events cap_version diff (x_version new)"
  define t where "t = (if \<not> x_threat_match old \<and> x_threat_match new then [threat_event detail] else [])"
  have all: "detect_changes old new cap_version diff detail = r @ p @ q @ v @ c @ t"
    using assms by (auto simp: detect_changes_def r_def p_def q_def v_def c_def t_def)
  have kinds: "set (map ev_type r) \<subseteq> {''risk_level_change''}" "set (map ev_type p) \<subseteq> {''publisher_change''}"
    "set (map ev_type q) \<subseteq> {''permission_change''}" "set (map ev_type v) \<subseteq> {''new_version''}"
    "set (map ev_type c) \<subseteq> {''capability_change''}" "set (map ev_type t) \<subseteq> {''threat_match''}"
    unfolding r_def p_def q_def v_def c_def t_def
    by (intro event_kinds)+ (auto simp: threat_event_def)
  have len: "distinct (map ev_type r)" "distinct (map ev_type p)" "distinct (map ev_type q)"
    "distinct (map ev_type v)" "distinct (map ev_type c)" "distinct (map ev_type t)"
    by (auto simp: r_def p_def q_def v_def c_def t_def risk_events_def string_events_def
        permission_events_def capability_events_def split: option.splits list.splits)
  have iff: "r \<noteq> [] \<longleftrightarrow> (\<exists>a b. x_risk_score old = Some a \<and> x_risk_score new = Some b \<and> risk_level a \<noteq> risk_level b)"
    "p \<noteq> [] \<longleftrightarrow> x_publisher old \<noteq> [] \<and> x_publisher new \<noteq> [] \<and> x_publisher old \<noteq> x_publisher new"
    "q \<noteq> [] \<longleftrightarrow> set (perms_of old) \<noteq> set (perms_of new)"
    "v \<noteq> [] \<longleftrightarrow> x_version old \<noteq> [] \<and> x_version new \<noteq> [] \<and> x_version old \<noteq> x_version new"
    "c \<noteq> [] \<longleftrightarrow> cap_version \<notin> {None, Some []} \<and> diff \<notin> {None, Some []}"
    "t \<noteq> [] \<longleftrightarrow> \<not> x_threat_match old \<and> x_threat_match new"
    unfolding r_def p_def q_def v_def c_def t_def
    by (rule risk_events_iff)
       (auto simp: string_events_def permission_events_def capability_events_def
          split: option.splits list.splits)
  have each: "\<And>e. e \<in> set r \<Longrightarrow> ev_type e = ''risk_level_change''"
    "\<And>e. e \<in> set p \<Longrightarrow> ev_type e = ''publisher_change''"
    "\<And>e. e \<in> set q \<Longrightarrow> ev_type e = ''permission_change''"
    "\<And>e. e \<in> set v \<Longrightarrow> ev_type e = ''new_version''"
    "\<And>e. e \<in> set c \<Longrightarrow> ev_type e = ''capability_change''"
    "\<And>e. e \<in> set t \<Longrightarrow> ev_type e = ''threat_match''"
    using kinds by auto
  have dist: "distinct (map ev_type (r @ p @ q @ v @ c @ t))"
    using len by (auto simp: each)
  have image_const: "ev_type ` set es = (if es = [] then {} else {k})"
    if "\<And>e. e \<in> set es \<Longrightarrow> ev_type e = k" for es k
    using that by (cases es) auto
  note images = each [THEN image_const]
  have "has_event k (r @ p @ q @ v @ c @ t) \<longleftrightarrow>
      (k = ''risk_level_change'' \<and> r \<noteq> []) \<or> (k = ''publisher_change'' \<and> p \<noteq> []) \<or>
      (k = ''permission_change'' \<and> q \<noteq> []) \<or> (k = ''new_version'' \<and> v \<noteq> []) \<or>
      (k = ''capability_change'' \<and> c \<noteq> []) \<or> (k = ''threat_match'' \<and> t \<noteq> [])" for k
    by (simp add: has_event_def image_Un images)
  then show ?thesis
    unfolding Let_def all iff [symmetric] using dist by simp
qed

lemma detect_changes_kinds_witness:
  "has_event ''new_version''
     (detect_changes sample_extension (sample_extension\<lparr>x_version := ''2.0''\<rparr>) None None None)"
  using detect_changes_kinds [of sample_extension "sample_extension\<lparr>x_version := ''2.0''\<rparr>" None None None]
  by (simp add: Let_def sample_extension_def)

text \<open>Firing writes one log row for every delivery that was due and none else: for each event in
  order, each enabled rule of the extension's owner for its type, covering this extension, whose
  destination exists and is enabled. A row names the owner, the rule and the destination, and
  records success exactly when the send returned.\<close>

theorem fire_alerts_logs_targets:
  assumes "de_commit_ok env" and "events \<noteq> []" and "x_user_id x = Some owner"
  shows "\<exists>rows targets. db_alert_logs (snd (fire_alerts env now events x d)) = db_alert_logs d @ rows \<and>
    (\<forall>e r dest. (e, r, dest) \<in> set targets \<longleftrightarrow>
       e \<in> set events \<and> r \<in> set (db_rules d) \<and> ar_enabled r \<and> ar_event_type r = ev_type e \<and>
       ar_user_id r = owner \<and> (ar_extension_id r = None \<or> ar_extension_id r = Some (x_id x)) \<and>
       destination_of d r = Some dest \<and> ad_enabled dest) \<and>
    length rows = length targets \<and>
    (\<forall>k < length targets. \<forall>e r dest. targets ! k = (e, r, dest) \<longrightarrow>
       al_user_id (rows ! k) = Some owner \<and> al_rule_id (rows ! k) = Some (ar_id r) \<and>
       al_destination_id (rows ! k) = Some (ad_id dest) \<and> al_extension_id (rows ! k) = x_id x \<and>
       al_event_type (rows ! k) = ev_type e \<and>
       al_success (rows ! k) = (delivery_error env k dest (message_for env e x) = None))"
proof (intro exI conjI)
  let ?targets = "delivery_targets events x d"
  let ?rows = "map (alert_log_row env now x (db_next_id d)) (enumerate 0 ?targets)"
  show "db_alert_logs (snd (fire_alerts env now events x d)) = db_alert_logs d @ ?rows"
    using assms by (intro fire_alerts_rows) auto
  show "\<forall>e r dest. (e, r, dest) \<in> set ?targets \<longleftrightarrow>
       e \<in> set events \<and> r \<in> set (db_rules d) \<and> ar_enabled r \<and> ar_event_type r = ev_type e \<and>
       ar_user_id r = owner \<and> (ar_extension_id r = None \<or> ar_extension_id r = Some (x_id x)) \<and>
       destination_of d r = Some dest \<and> ad_enabled dest"
    using assms(3) by (simp add: delivery_targets_mem)
  show "length ?rows = length ?targets" by simp
  show "\<forall>k < length ?targets. \<forall>e r dest. ?targets ! k = (e, r, dest) \<longrightarrow>
       al_user_id (?rows ! k) = Some owner \<and> al_rule_id (?rows ! k) = Some (ar_id r) \<and>
       al_destination_id (?rows ! k) = Some (ad_id dest) \<and> al_extension_id (?rows ! k) = x_id x \<and>
       al_event_type (?rows ! k) = ev_type e \<and>
       al_success (?rows ! k) = (delivery_error env k dest (message_for env e x) = None)"
    using assms(3) by (auto simp: nth_enumerate_eq alert_log_row_def Let_def)
qed

definition sample_rule :: alert_rule where
  "sample_rule = \<lparr>ar_id = 4, ar_user_id = 1, ar_destination_id = 5, ar_extension_id = None,
                  ar_event_type = ''new_version'', ar_enabled = True, ar_created_at = 0\<rparr>"

definition sample_destination :: alert_destination where
  "sample_destination = \<lparr>ad_id = 5, ad_user_id = 1, ad_label = ''ops'', ad_kind = ''slack'',
                         ad_target = ''https://hooks'', ad_config = json_dumps (JObj []),
                         ad_enabled = True, ad_created_at = 0\<rparr>"

definition sample_delivery :: delivery_env where
  "sample_delivery = \<lparr>de_app_base_url = [], de_scrub = (\<lambda>s. s), de_deliver = (\<lambda>_ _ _. None),
                      de_commit_ok = True\<rparr>"

lemma fire_alerts_logs_targets_witness:
  "\<exists>rows. db_alert_logs (snd (fire_alerts sample_delivery 9
        [\<lparr>ev_type = ''new_version'', ev_old = JStr ''1'', ev_new = JStr ''2''\<rparr>] sample_extension
        (empty_db\<lparr>db_rules := [sample_rule], db_destinations := [sample_destination]\<rparr>))) = rows \<and>
     rows \<noteq> []"
proof -
  let ?e = "\<lparr>ev_type = ''new_version'', ev_old = JStr ''1'', ev_new = JStr ''2''\<rparr>"
  let ?d = "empty_db\<lparr>db_rules := [sample_rule], db_destinations := [sample_destination]\<rparr>"
  have "de_commit_ok sample_delivery" "[?e] \<noteq> []" "x_user_id sample_extension = Some 1"
    by (simp_all add: sample_delivery_def sample_extension_def)
  from fire_alerts_logs_targets [OF this, of 9 ?d] obtain rows targets where
    rows: "db_alert_logs (snd (fire_alerts sample_delivery 9 [?e] sample_extension ?d)) = db_alert_logs ?d @ rows"
    and mem: "(?e, sample_rule, sample_destination) \<in> set targets \<longleftrightarrow>
       ?e \<in> set [?e] \<and> sample_rule \<in> set (db_rules ?d) \<and> ar_enabled sample_rule \<and>
       ar_event_type sample_rule = ev_type ?e \<and> ar_user_id sample_rule = 1 \<and>
       (ar_extension_id sample_rule = None \<or> ar_extension_id sample_rule = Some (x_id sample_extension)) \<and>
       destination_of ?d sample_rule = Some sample_destination \<and> ad_enabled sample_destination"
    and len: "length rows = length targets" by blast
  have "(?e, sample_rule, sample_destination) \<in> set targets"
    unfolding mem by (simp add: sample_rule_def sample_destination_def destination_of_def)
  with len rows show ?thesis by (auto simp: empty_db_def)
qed

end
