(* ===== verification/Pending.thy ===== *)
theory Pending
  imports Notifications
begin

text \<open>
  The durable pending-alert marker of \<open>app/services.py\<close>: \<open>_parse_pending_events\<close>,
  \<open>_merge_pending_events\<close>, \<open>_ack_pending_events\<close> and \<open>_clear_pending_alerts\<close>, on the stored
  text and on the database row, and the queue interface the delivery pipeline relies on.
\<close>

section \<open>The operations on the stored text\<close>

fun parse_entries :: "json list \<Rightarrow> change_event list" where
  "parse_entries [] = []"
| "parse_entries (JObj d # es) =
     (case event_of_dict d of
        Some e \<Rightarrow> e # parse_entries es
      | None \<Rightarrow> parse_entries es)"
| "parse_entries (_ # es) = parse_entries es"

definition parse_pending_events :: "jtext option \<Rightarrow> change_event list" where
  "parse_pending_events raw = parse_entries (json_list raw)"

text \<open>\<open>json.dumps(pending) if pending else None\<close>\<close>

definition marker_of :: "change_event list \<Rightarrow> jtext option" where
  "marker_of pending =
     (if pending = [] then None else Some (json_dumps (JArr (map event_asdict pending))))"

fun merge_loop ::
    "change_event list \<Rightarrow> change_event list \<Rightarrow> change_event list \<Rightarrow>
       change_event list \<times> change_event list" where
  "merge_loop pending appended [] = (pending, appended)"
| "merge_loop pending appended (event # events) =
     (if event \<in> set pending then merge_loop pending appended events
      else merge_loop (pending @ [event]) (appended @ [event]) events)"

text \<open>The new marker and the events this transaction appended.\<close>

definition merge_marker ::
    "change_event list \<Rightarrow> jtext option \<Rightarrow> jtext option \<times> change_event list" where
  "merge_marker events locked_marker =
     (let (pending, appended) = merge_loop (parse_pending_events locked_marker) [] events
      in (marker_of pending, appended))"

definition ack_marker :: "change_event list \<Rightarrow> jtext option \<Rightarrow> jtext option" where
  "ack_marker events marker =
     marker_of (fold remove1 events (parse_pending_events marker))"

text \<open>\<open>UPDATE ... SET pending_alert_events = NULL WHERE pending_alert_events = :expected\<close>\<close>

definition clear_marker :: "jtext \<Rightarrow> jtext option \<Rightarrow> jtext option" where
  "clear_marker expected marker = (if marker = Some expected then None else marker)"

section \<open>The operations on the row\<close>

text \<open>The marker is re-read from the row under its lock, then the staged row is flushed with
  the merged marker.\<close>

definition merge_pending_events ::
    "extension \<Rightarrow> change_event list \<Rightarrow> db \<Rightarrow> extension \<times> change_event list \<times> db" where
  "merge_pending_events x events d =
     (let locked_marker =
            (case get_extension d (x_id x) of
               Some row \<Rightarrow> x_pending_alert_events row | None \<Rightarrow> x_pending_alert_events x);
          (marker, appended) = merge_marker events locked_marker;
          x' = x\<lparr>x_pending_alert_events := marker\<rparr>
      in (x', appended, put_extension x' d))"

definition ack_pending_events :: "int option \<Rightarrow> change_event list \<Rightarrow> db \<Rightarrow> db" where
  "ack_pending_events ext_id events d =
     (case ext_id of
        None \<Rightarrow> d
      | Some i \<Rightarrow>
          if events = [] then d
          else (case get_extension d i of
                  None \<Rightarrow> d
                | Some x \<Rightarrow>
                    put_extension
                      (x\<lparr>x_pending_alert_events := ack_marker events (x_pending_alert_events x)\<rparr>) d))"

definition clear_pending_alerts :: "int option \<Rightarrow> jtext \<Rightarrow> db \<Rightarrow> db" where
  "clear_pending_alerts ext_id expected d =
     (case ext_id of
        None \<Rightarrow> d
      | Some i \<Rightarrow>
          (case get_extension d i of
             None \<Rightarrow> d
           | Some x \<Rightarrow>
               put_extension
                 (x\<lparr>x_pending_alert_events := clear_marker expected (x_pending_alert_events x)\<rparr>) d))"

section \<open>The queue interface\<close>

text \<open>
  What the delivery pipeline relies on: a marker holds a list of events; a merge appends the
  events that are not pending yet, an acknowledgement takes out one occurrence of each event,
  and a compare-and-clear empties exactly the marker it was given.
\<close>

locale pending_queue =
  fixes contents :: "'m \<Rightarrow> 'e list"
    and merge :: "'e list \<Rightarrow> 'm \<Rightarrow> 'm \<times> 'e list"
    and ack :: "'e list \<Rightarrow> 'm \<Rightarrow> 'm"
    and clear :: "'m \<Rightarrow> 'm \<Rightarrow> 'm"
  assumes merge_contents: "contents (fst (merge es m)) = contents m @ snd (merge es m)"
    and merge_new: "set (snd (merge es m)) = set es - set (contents m)"
    and merge_distinct: "distinct (snd (merge es m))"
    and ack_contents: "contents (ack es m) = fold remove1 es (contents m)"
    and clear_same: "contents (clear m m) = []"
    and clear_other: "m \<noteq> n \<Longrightarrow> clear m n = n"
begin

lemma merge_all_pending: "set es \<subseteq> set (contents (fst (merge es m)))"
  using merge_new [of es m] by (auto simp: merge_contents)

lemma merge_keeps: "e \<in> set (contents m) \<Longrightarrow> e \<in> set (contents (fst (merge es m)))"
  by (simp add: merge_contents)

lemma merge_only: "set (contents (fst (merge es m))) \<subseteq> set (contents m) \<union> set es"
  using merge_new [of es m] by (auto simp: merge_contents)

lemma merge_again: "snd (merge es (fst (merge es m))) = []"
  using merge_new [of es "fst (merge es m)"] merge_all_pending [of es m]
  by (metis Diff_eq_empty_iff set_empty)

lemma fold_remove1_other:
  "e \<notin> set es \<Longrightarrow> e \<in> set xs \<Longrightarrow> e \<in> set (fold remove1 es xs)"
  by (induction es arbitrary: xs) auto

lemma fold_remove1_sub: "set (fold remove1 es xs) \<subseteq> set xs"
proof (induction es arbitrary: xs)
  case (Cons e es)
  then show ?case using set_remove1_subset [of e xs] by fastforce
qed simp

lemma ack_keeps_others:
  "e \<in> set (contents m) \<Longrightarrow> e \<notin> set es \<Longrightarrow> e \<in> set (contents (ack es m))"
  by (simp add: ack_contents fold_remove1_other)

lemma ack_only: "set (contents (ack es m)) \<subseteq> set (contents m)"
  by (simp add: ack_contents fold_remove1_sub)

lemma fold_remove1_suffix:
  "distinct es \<Longrightarrow> set es \<inter> set xs = {} \<Longrightarrow> fold remove1 es (xs @ es) = xs"
proof (induction es)
  case (Cons e es)
  then have "remove1 e (xs @ e # es) = xs @ es" by (simp add: remove1_append)
  with Cons show ?case by simp
qed simp

text \<open>Acknowledging exactly what a merge returned restores what was pending before it.\<close>

lemma merge_then_ack:
  "contents (ack (snd (merge es m)) (fst (merge es m))) = contents m"
  using merge_new [of es m] merge_distinct [of es m]
  by (auto simp: ack_contents merge_contents intro!: fold_remove1_suffix)

lemma clear_keeps_others:
  "e \<in> set (contents n) \<Longrightarrow> e \<notin> set (contents m) \<Longrightarrow> e \<in> set (contents (clear m n))"
  by (cases "m = n") (auto simp: clear_other)

end

section \<open>The marker is such a queue\<close>

lemma parse_entries_asdict [simp]: "parse_entries (map event_asdict es) = es"
  by (induction es) (auto simp: event_asdict_def)

lemma parse_marker_of [simp]: "parse_pending_events (marker_of es) = es"
  by (simp add: parse_pending_events_def marker_of_def)

lemma parse_None [simp]: "parse_pending_events None = []"
  by (simp add: parse_pending_events_def)

lemma parse_dumps [simp]:
  "parse_pending_events (Some (json_dumps (JArr (map event_asdict es)))) = es"
  by (simp add: parse_pending_events_def)

lemma merge_loop_spec:
  "merge_loop pending appended events = (p, a) \<Longrightarrow>
     \<exists>new. p = pending @ new \<and> a = appended @ new \<and> set new = set events - set pending \<and>
           distinct new"
proof (induction pending appended events rule: merge_loop.induct)
  case (2 pending appended event events)
  show ?case
  proof (cases "event \<in> set pending")
    case True
    with 2 show ?thesis by auto
  next
    case False
    with "2.prems" "2.IH"(2) obtain new where
      "p = (pending @ [event]) @ new" "a = (appended @ [event]) @ new"
      "set new = set events - set (pending @ [event])" "distinct new" by auto
    with False show ?thesis by (intro exI [of _ "event # new"]) auto
  qed
qed simp

lemma merge_loop_snd:
  obtains new where "merge_loop pending [] events = (pending @ new, new)"
    and "set new = set events - set pending" and "distinct new"
  using merge_loop_spec [of pending "[]" events] by (cases "merge_loop pending [] events") auto

definition clear_marker_opt :: "jtext option \<Rightarrow> jtext option \<Rightarrow> jtext option" where
  "clear_marker_opt expected marker =
     (case expected of None \<Rightarrow> marker | Some t \<Rightarrow> clear_marker t marker)"

interpretation mq: pending_queue parse_pending_events merge_marker ack_marker clear_marker_opt
proof
  fix es :: "change_event list" and m n :: "jtext option"
  obtain new where new: "merge_loop (parse_pending_events m) [] es = (parse_pending_events m @ new, new)"
      "set new = set es - set (parse_pending_events m)" "distinct new"
    by (rule merge_loop_snd)
  show "parse_pending_events (fst (merge_marker es m)) =
          parse_pending_events m @ snd (merge_marker es m)"
    and "set (snd (merge_marker es m)) = set es - set (parse_pending_events m)"
    and "distinct (snd (merge_marker es m))"
    using new by (simp_all add: merge_marker_def)
  show "parse_pending_events (ack_marker es m) = fold remove1 es (parse_pending_events m)"
    by (simp add: ack_marker_def)
  show "parse_pending_events (clear_marker_opt m m) = []"
    by (simp add: clear_marker_opt_def clear_marker_def split: option.split)
  show "m \<noteq> n \<Longrightarrow> clear_marker_opt m n = n"
    by (auto simp: clear_marker_opt_def clear_marker_def split: option.split)
qed

lemma merge_pending_row:
  assumes "merge_pending_events x events d = (x', appended, d')"
    and "get_extension d (x_id x) = Some row"
  shows "x' = x\<lparr>x_pending_alert_events := fst (merge_marker events (x_pending_alert_events row))\<rparr>"
    and "appended = snd (merge_marker events (x_pending_alert_events row))"
    and "d' = put_extension x' d"
  using assms by (auto simp: merge_pending_events_def Let_def split: prod.splits)

lemma merge_pending_frame:
  assumes "merge_pending_events x events d = (x', appended, d')"
  shows "x_id x' = x_id x" and "x\<lparr>x_pending_alert_events := x_pending_alert_events x'\<rparr> = x'"
    and "d' = put_extension x' d"
  using assms by (auto simp: merge_pending_events_def Let_def split: prod.splits)

section \<open>Properties\<close>

text \<open>An event survives storage. Parsing the marker written for a list of events gives the list
  back, and a marker that is damaged in part still gives every entry that is intact, in order.\<close>

theorem pending_marker_roundtrip:
  "parse_pending_events (marker_of events) = events \<and>
   parse_pending_events (Some (json_dumps (JArr (xs @ map event_asdict events @ ys)))) =
     parse_entries xs @ events @ parse_entries ys"
proof -
  have "parse_entries (us @ vs) = parse_entries us @ parse_entries vs" for us vs
    by (induction us rule: parse_entries.induct) (auto split: option.splits)
  then show ?thesis by (simp add: parse_pending_events_def [of "Some _"])
qed

lemma fold_remove1_middle:
  "distinct es \<Longrightarrow> set es \<inter> set xs = {} \<Longrightarrow> fold remove1 es (xs @ es @ ys) = xs @ ys"
proof (induction es)
  case (Cons e es)
  then have "remove1 e (xs @ (e # es) @ ys) = xs @ es @ ys" by (simp add: remove1_append)
  with Cons show ?case by simp
qed simp

text \<open>C3: two refreshes of one extension never lose or repeat each other's events. When a second
  refresh merges its events while the first one's delivery is in flight, either acknowledgement
  takes out exactly the events its own merge appended, in whichever order they finish, and
  what was pending before both stays pending.\<close>

theorem concurrent_merges_ack_their_own:
  assumes "merge_marker es1 m = (m1, new1)" and "merge_marker es2 m1 = (m2, new2)"
  shows "parse_pending_events m2 = parse_pending_events m @ new1 @ new2 \<and>
    set new1 = set es1 - set (parse_pending_events m) \<and>
    set new2 = set es2 - set (parse_pending_events m) - set es1 \<and>
    parse_pending_events (ack_marker new1 m2) = parse_pending_events m @ new2 \<and>
    parse_pending_events (ack_marker new2 m2) = parse_pending_events m @ new1 \<and>
    parse_pending_events (ack_marker new2 (ack_marker new1 m2)) = parse_pending_events m \<and>
    parse_pending_events (ack_marker new1 (ack_marker new2 m2)) = parse_pending_events m"
proof -
  let ?p = "parse_pending_events m"
  have m1: "parse_pending_events m1 = ?p @ new1"
    and n1: "set new1 = set es1 - set ?p" "distinct new1"
    using mq.merge_contents [of es1 m] mq.merge_new [of es1 m] mq.merge_distinct [of es1 m] assms(1)
    by simp_all
  have m2: "parse_pending_events m2 = ?p @ new1 @ new2"
    and n2: "set new2 = set es2 - set (?p @ new1)" "distinct new2"
    using mq.merge_contents [of es2 m1] mq.merge_new [of es2 m1] mq.merge_distinct [of es2 m1] assms(2) m1
    by simp_all
  have dis: "set new1 \<inter> set ?p = {}" "set new2 \<inter> set (?p @ new1) = {}" "set new2 \<inter> set ?p = {}"
    using n1 n2 by auto
  have s2: "set new2 = set es2 - set ?p - set es1" using n1 n2 by auto
  have a1: "fold remove1 new1 (?p @ new1 @ new2) = ?p @ new2"
    by (rule fold_remove1_middle [OF n1(2) dis(1)])
  have a2: "fold remove1 new2 (?p @ new1 @ new2) = ?p @ new1"
    using fold_remove1_middle [OF n2(2) dis(2), of "[]"] by simp
  have a3: "fold remove1 new2 (?p @ new2) = ?p" "fold remove1 new1 (?p @ new1) = ?p"
    using fold_remove1_middle [OF n2(2) dis(3), of "[]"] fold_remove1_middle [OF n1(2) dis(1), of "[]"]
    by simp_all
  show ?thesis
    using m2 n1(1) s2 a1 a2 a3 by (simp add: mq.ack_contents)
qed

lemma concurrent_merges_ack_their_own_witness:
  "let e = \<lparr>ev_type = ''new_version'', ev_old = JStr ''1'', ev_new = JStr ''2''\<rparr>;
       f = \<lparr>ev_type = ''threat_match'', ev_old = JNull, ev_new = JBool True\<rparr>;
       (m1, new1) = merge_marker [e] None; (m2, new2) = merge_marker [e, f] m1
   in parse_pending_events (ack_marker new1 m2) = [f] \<and> new1 = [e] \<and> new2 = [f]"
proof -
  let ?e = "\<lparr>ev_type = ''new_version'', ev_old = JStr ''1'', ev_new = JStr ''2''\<rparr>"
  let ?f = "\<lparr>ev_type = ''threat_match'', ev_old = JNull, ev_new = JBool True\<rparr>"
  have m: "merge_marker [?e] None = (marker_of [?e], [?e])"
    "merge_marker [?e, ?f] (marker_of [?e]) = (marker_of [?e, ?f], [?f])"
    by (simp_all add: merge_marker_def)
  from concurrent_merges_ack_their_own [OF m] show ?thesis by (simp add: m Let_def)
qed

end
