(* ===== verification/Threat_Match.thy ===== *)
theory Threat_Match
  imports Pending Threats "HOL-Library.Product_Lexorder"
begin

text \<open>
  The threat-list half of \<open>app/services.py\<close>: identity matching, the synthetic finding, and
  the transition of tracked extensions when entries arrive (\<open>_identity_clause\<close> to
  \<open>apply_existing_threat_posture\<close>).

  Python iterates a set of identities in no fixed order; the model takes the order of first
  occurrence. \<open>ORDER BY source\<close> is by character code.
\<close>

definition identity_clause :: "string \<Rightarrow> string \<Rightarrow> string \<Rightarrow> bool" where
  "identity_clause column store extension_id =
     (if store = ''vscode'' then lower column = lower extension_id else column = extension_id)"

text \<open>The entries matching one identity, as both SELECTs of the module read them.\<close>

definition entries_for :: "db \<Rightarrow> string \<Rightarrow> string \<Rightarrow> threat_list_entry list" where
  "entries_for d store extension_id =
     sort_key (\<lambda>e. (tl_source e, tl_id e))
       (filter (\<lambda>e. tl_store e = store \<and> identity_clause (tl_extension_id e) store extension_id)
         (db_threats d))"

definition threat_entries :: "db \<Rightarrow> extension \<Rightarrow> threat_list_entry list" where
  "threat_entries d x = entries_for d (x_store x) (x_extension_id x)"

definition threat_detail :: "threat_list_entry list \<Rightarrow> json list" where
  "threat_detail entries =
     map (\<lambda>e. JObj [(''source'', JStr (tl_source e)), (''reason'', json_opt_str (tl_reason e))]) entries"

section \<open>The synthetic finding\<close>

definition is_threat_finding :: "json \<Rightarrow> bool" where
  "is_threat_finding f =
     (case f of JObj d \<Rightarrow> dict_get_none d ''code'' = JStr ''threat_match'' | _ \<Rightarrow> False)"

definition findings_list :: "jobject \<Rightarrow> json list" where
  "findings_list d = (case dict_get_none d ''findings'' of JArr xs \<Rightarrow> xs | _ \<Rightarrow> [])"

definition without_threat :: "json list \<Rightarrow> json list" where
  "without_threat fs = filter (\<lambda>f. \<not> is_threat_finding f) fs"

definition entry_input :: "threat_list_entry \<Rightarrow> threat_entry_input" where
  "entry_input e = \<lparr>te_store = tl_store e, te_extension_id = tl_extension_id e,
                    te_source = tl_source e, te_reason = tl_reason e\<rparr>"

definition apply_threat_finding :: "extension \<Rightarrow> threat_list_entry list \<Rightarrow> extension" where
  "apply_threat_finding x entries =
     (let finding = JObj (finding_for_entries (map entry_input entries));
          store = (\<lambda>d fs. x\<lparr>x_package_analysis :=
                              Some (json_dumps (JObj (dict_set d ''findings'' (JArr fs))))\<rparr>)
      in case analysis_dict x of
           None \<Rightarrow>
             if entries \<noteq> [] then
               (let existing = (case analysis_dict x of Some d \<Rightarrow> d | None \<Rightarrow> [])
                in store existing (without_threat (findings_list existing) @ [finding]))
             else if x_package_analysis x \<noteq> None \<and> x_package_analysis x \<noteq> Some (Junk []) then
               (case analysis_dict x of
                  Some existing \<Rightarrow> store existing (without_threat (findings_list existing))
                | None \<Rightarrow> x)
             else x
         | Some analysis \<Rightarrow>
             store analysis
               (without_threat (findings_list analysis) @ (if entries \<noteq> [] then [finding] else [])))"

section \<open>Policy on the stored row\<close>

text \<open>The lines both writers of a score share: the effective score, and the stored breakdown
  with its total and level rewritten to the effective posture.\<close>

definition set_posture :: "int option \<Rightarrow> jobject \<Rightarrow> extension \<Rightarrow> extension" where
  "set_posture heuristic detail x =
     (let score = effective_risk_score heuristic (x_threat_match x) (x_risk_override x);
          level = (case effective_risk_level score (x_threat_match x) (x_risk_override x) of
                     Some l \<Rightarrow> l | None \<Rightarrow> ''unknown'');
          detail' = dict_set (dict_set detail ''total'' (json_opt_int score))
                             ''risk_level'' (JStr level)
      in x\<lparr>x_heuristic_risk_score := heuristic, x_risk_score := score,
           x_risk_detail := Some (json_dumps (JObj detail'))\<rparr>)"

section \<open>Applying entries\<close>

text \<open>One locked extension row with its matches: the body of the inner loop.\<close>

definition threat_transition :: "extension \<Rightarrow> threat_list_entry list \<Rightarrow> extension" where
  "threat_transition x matches =
     (let x1 = apply_threat_finding (x\<lparr>x_threat_match := (matches \<noteq> [])\<rparr>) matches;
          detail = (case risk_detail_dict x1 of Some r \<Rightarrow> r | None \<Rightarrow> []);
          heuristic = recover_heuristic_risk_score (x_heuristic_risk_score x1) (x_risk_score x1)
                        (Some detail)
      in set_posture heuristic detail x1)"

definition apply_threat_row ::
    "extension \<Rightarrow> threat_list_entry list \<Rightarrow> db \<Rightarrow> extension \<times> change_event list \<times> db" where
  "apply_threat_row x matches d =
     (let x' = threat_transition x matches;
          events = detect_changes x x' None None (Some (threat_detail matches))
      in merge_pending_events x' events d)"

fun apply_threat_ids ::
    "string \<times> string \<Rightarrow> int list \<Rightarrow> db \<Rightarrow> (extension \<times> change_event list) list \<times> db" where
  "apply_threat_ids identity [] d = ([], d)"
| "apply_threat_ids identity (i # ids) d =
     (case get_extension d i of
        None \<Rightarrow> apply_threat_ids identity ids d
      | Some x \<Rightarrow>
          let matches = entries_for d (fst identity) (snd identity);
              (x', events, d') = apply_threat_row x matches d;
              (rest, d'') = apply_threat_ids identity ids d'
          in ((x', events) # rest, d''))"

definition tracked_ids :: "db \<Rightarrow> string \<times> string \<Rightarrow> int list" where
  "tracked_ids d identity =
     map x_id (filter (\<lambda>x. x_store x = fst identity \<and>
                           identity_clause (x_extension_id x) (fst identity) (snd identity))
                (db_extensions d))"

fun apply_identities ::
    "(string \<times> string) list \<Rightarrow> db \<Rightarrow> (extension \<times> change_event list) list \<times> db" where
  "apply_identities [] d = ([], d)"
| "apply_identities (identity # identities) d =
     (let (r1, d1) = apply_threat_ids identity (tracked_ids d identity) d;
          (r2, d2) = apply_identities identities d1
      in (r1 @ r2, d2))"

definition apply_threat_matches ::
    "threat_list_entry list \<Rightarrow> db \<Rightarrow> (extension \<times> change_event list) list \<times> db" where
  "apply_threat_matches entries d =
     apply_identities (unique (map (\<lambda>e. (tl_store e, tl_extension_id e)) entries)) d"

definition apply_existing_threat_posture ::
    "extension \<Rightarrow> db \<Rightarrow> change_event list \<times> db" where
  "apply_existing_threat_posture x d =
     (let entries = threat_entries d x in
      if entries = [] then ([], d)
      else
        let (transitions, d') = apply_threat_matches entries d
        in ((case find (\<lambda>t. x_id (fst t) = x_id x) transitions of
               Some (_, events) \<Rightarrow> events | None \<Rightarrow> []), d'))"

section \<open>Laws\<close>

lemma apply_threat_finding_frame [simp]:
  "x_id (apply_threat_finding x es) = x_id x"
  "x_threat_match (apply_threat_finding x es) = x_threat_match x"
  "x_risk_override (apply_threat_finding x es) = x_risk_override x"
  "x_heuristic_risk_score (apply_threat_finding x es) = x_heuristic_risk_score x"
  "x_risk_score (apply_threat_finding x es) = x_risk_score x"
  "x_risk_detail (apply_threat_finding x es) = x_risk_detail x"
  "x_permissions (apply_threat_finding x es) = x_permissions x"
  "x_publisher (apply_threat_finding x es) = x_publisher x"
  "x_version (apply_threat_finding x es) = x_version x"
  "x_pending_alert_events (apply_threat_finding x es) = x_pending_alert_events x"
  "x_last_fetched_at (apply_threat_finding x es) = x_last_fetched_at x"
  "x_watchlist (apply_threat_finding x es) = x_watchlist x"
  "x_user_id (apply_threat_finding x es) = x_user_id x"
  by (simp_all add: apply_threat_finding_def Let_def split: option.splits)

lemma set_posture_frame [simp]:
  "x_id (set_posture h d x) = x_id x"
  "x_threat_match (set_posture h d x) = x_threat_match x"
  "x_risk_override (set_posture h d x) = x_risk_override x"
  "x_permissions (set_posture h d x) = x_permissions x"
  "x_publisher (set_posture h d x) = x_publisher x"
  "x_version (set_posture h d x) = x_version x"
  "x_package_analysis (set_posture h d x) = x_package_analysis x"
  "x_pending_alert_events (set_posture h d x) = x_pending_alert_events x"
  "x_last_fetched_at (set_posture h d x) = x_last_fetched_at x"
  "x_watchlist (set_posture h d x) = x_watchlist x"
  "x_user_id (set_posture h d x) = x_user_id x"
  "x_heuristic_risk_score (set_posture h d x) = h"
  "x_risk_score (set_posture h d x) = effective_risk_score h (x_threat_match x) (x_risk_override x)"
  by (simp_all add: set_posture_def Let_def)

lemma analysis_dict_set_posture [simp]: "analysis_dict (set_posture h d x) = analysis_dict x"
  by (simp add: analysis_dict_def)

lemma set_posture_detail:
  "risk_detail_dict (set_posture h d x) =
     Some (dict_set (dict_set d ''total''
              (json_opt_int (effective_risk_score h (x_threat_match x) (x_risk_override x))))
            ''risk_level''
            (JStr (case effective_risk_level
                     (effective_risk_score h (x_threat_match x) (x_risk_override x))
                     (x_threat_match x) (x_risk_override x) of Some l \<Rightarrow> l | None \<Rightarrow> ''unknown'')))"
  by (simp add: set_posture_def Let_def risk_detail_dict_def)

definition findings_of :: "extension \<Rightarrow> json list" where
  "findings_of x = (case analysis_dict x of None \<Rightarrow> [] | Some d \<Rightarrow> findings_list d)"

lemma findings_list_set [simp]: "findings_list (dict_set d ''findings'' (JArr fs)) = fs"
  by (simp add: findings_list_def dict_get_none_set)

lemma findings_list_single [simp]: "findings_list [(''findings'', JArr fs)] = fs"
  by (simp add: findings_list_def dict_get_none_def)

lemma is_threat_finding_for [simp]: "is_threat_finding (JObj (finding_for_entries es))"
  by (simp add: is_threat_finding_def finding_for_entries_def Let_def dict_get_none_def)

lemma without_threat_append [simp]: "without_threat (xs @ ys) = without_threat xs @ without_threat ys"
  by (simp add: without_threat_def)

lemma without_threat_idem [simp]: "without_threat (without_threat xs) = without_threat xs"
  by (simp add: without_threat_def)

lemma findings_apply_match:
  "es \<noteq> [] \<Longrightarrow> findings_of (apply_threat_finding x es) =
     without_threat (findings_of x) @ [JObj (finding_for_entries (map entry_input es))]"
  by (simp add: findings_of_def apply_threat_finding_def Let_def findings_list_def [of "[]"]
      analysis_dict_def dict_get_none_def without_threat_def split: option.splits)

lemma findings_apply_none:
  "findings_of (apply_threat_finding x []) = without_threat (findings_of x)"
  by (auto simp: findings_of_def apply_threat_finding_def Let_def analysis_dict_def without_threat_def
      split: option.splits)

lemma findings_of_set_posture [simp]: "findings_of (set_posture h d x) = findings_of x"
  by (simp add: findings_of_def)

lemma findings_of_match_flag [simp]: "findings_of (x\<lparr>x_threat_match := b\<rparr>) = findings_of x"
  by (simp add: findings_of_def analysis_dict_def)

lemma threat_transition_frame [simp]:
  "x_id (threat_transition x es) = x_id x"
  "x_threat_match (threat_transition x es) = (es \<noteq> [])"
  "x_risk_override (threat_transition x es) = x_risk_override x"
  "x_permissions (threat_transition x es) = x_permissions x"
  "x_publisher (threat_transition x es) = x_publisher x"
  "x_version (threat_transition x es) = x_version x"
  "x_pending_alert_events (threat_transition x es) = x_pending_alert_events x"
  "x_last_fetched_at (threat_transition x es) = x_last_fetched_at x"
  by (simp_all add: threat_transition_def Let_def)

lemma threat_transition_findings:
  "findings_of (threat_transition x es) =
     without_threat (findings_of x)
     @ (if es = [] then [] else [JObj (finding_for_entries (map entry_input es))])"
  by (simp add: threat_transition_def Let_def findings_apply_match findings_apply_none)

lemma threat_transition_score:
  "x_risk_score (threat_transition x es) =
     effective_risk_score (x_heuristic_risk_score (threat_transition x es)) (es \<noteq> []) (x_risk_override x)"
  by (simp add: threat_transition_def Let_def)

lemma threat_transition_heuristic:
  "x_heuristic_risk_score x = Some h \<Longrightarrow> x_heuristic_risk_score (threat_transition x es) = Some h"
  by (simp add: threat_transition_def Let_def recover_heuristic_risk_score_def)

lemma threat_transition_detail:
  "\<exists>d. risk_detail_dict (threat_transition x es) = Some d \<and>
     dict_get_none d ''total'' = json_opt_int (x_risk_score (threat_transition x es)) \<and>
     dict_get_none d ''risk_level'' =
       JStr (case effective_risk_level (x_risk_score (threat_transition x es)) (es \<noteq> [])
               (x_risk_override x) of Some l \<Rightarrow> l | None \<Rightarrow> ''unknown'')"
  by (simp add: threat_transition_def Let_def set_posture_detail dict_get_none_set)

section \<open>Properties\<close>

text \<open>C11: a matched extension is critical whatever the analyst decided. Its score is 100 and its
  stored breakdown says so, exactly one threat finding is among its findings, beside all the
  others it had, and an alert is raised exactly when the match is new, so ingesting the same
  entry again is silent.\<close>

theorem threat_match_posture:
  assumes "matches \<noteq> []"
  shows "let x' = threat_transition x matches in
    x_threat_match x' \<and> x_risk_score x' = Some 100 \<and>
    (\<exists>d. risk_detail_dict x' = Some d \<and> dict_get_none d ''total'' = JInt 100 \<and>
         dict_get_none d ''risk_level'' = JStr ''critical'') \<and>
    filter is_threat_finding (findings_of x') = [JObj (finding_for_entries (map entry_input matches))] \<and>
    without_threat (findings_of x') = without_threat (findings_of x) \<and>
    (''threat_match'' \<in> ev_type ` set (detect_changes x x' None None (Some (threat_detail matches)))
       \<longleftrightarrow> \<not> x_threat_match x)"
proof -
  let ?x = "threat_transition x matches"
  have score: "x_risk_score ?x = Some 100"
    using assms by (simp add: threat_transition_score effective_risk_score_def)
  obtain d where d: "risk_detail_dict ?x = Some d" "dict_get_none d ''total'' = JInt 100"
      "dict_get_none d ''risk_level'' = JStr ''critical''"
    using threat_transition_detail [of x matches] assms score
    by (auto simp: json_opt_int_def effective_risk_level_def risk_level_opt_def risk_level_cases)
  have fs: "filter is_threat_finding (findings_of ?x) = [JObj (finding_for_entries (map entry_input matches))]"
    "without_threat (findings_of ?x) = without_threat (findings_of x)"
    using assms by (simp_all add: threat_transition_findings without_threat_def)
  have ev: "''threat_match'' \<in> ev_type ` set (detect_changes x ?x None None (Some (threat_detail matches)))
      \<longleftrightarrow> \<not> x_threat_match x"
    using assms
    by (auto simp: detect_changes_def threat_event_def risk_events_def string_events_def
        permission_events_def capability_events_def image_Un split: option.splits)
  show ?thesis using assms score d fs ev by (auto simp: Let_def)
qed

definition sample_threat :: threat_list_entry where
  "sample_threat = \<lparr>tl_id = 1, tl_store = ''chrome'', tl_extension_id = ''abc'', tl_source = ''feed'',
                    tl_reason = Some ''stealer'', tl_added_at = 0\<rparr>"

lemma threat_match_posture_witness:
  "x_risk_score (threat_transition (sample_extension\<lparr>x_risk_override := ''allow''\<rparr>) [sample_threat]) = Some 100"
  using threat_match_posture [of "[sample_threat]" "sample_extension\<lparr>x_risk_override := ''allow''\<rparr>"]
  by (simp add: Let_def)

text \<open>Nothing of the analysis is lost under a match. When the last entry for an extension is
  gone, the row returns to the score its heuristic and the analyst's decision give, with all its
  other findings and without the threat finding.\<close>

theorem threat_unmatch_restores:
  assumes "x_heuristic_risk_score x = Some h"
  shows "let x' = threat_transition (threat_transition x matches) [] in
    x_threat_match x' = False \<and> x_heuristic_risk_score x' = Some h \<and>
    x_risk_score x' = effective_risk_score (Some h) False (x_risk_override x) \<and>
    findings_of x' = without_threat (findings_of x)"
  using assms threat_transition_heuristic [of x h matches]
    threat_transition_heuristic [of "threat_transition x matches" h "[]"]
  by (auto simp: Let_def threat_transition_score threat_transition_findings without_threat_def)

lemma threat_unmatch_restores_witness:
  "x_risk_score (threat_transition (threat_transition sample_extension [sample_threat]) []) = Some 60"
  using threat_unmatch_restores [of sample_extension 60 "[sample_threat]"]
  by (simp add: Let_def sample_extension_def effective_risk_score_def)

end
