(* ===== verification/Pipeline.thy ===== *)
theory Pipeline
  imports Threat_Match Package_Diff
begin

text \<open>
  The fetch pipeline of \<open>app/services.py\<close> (\<open>_EffectiveValues\<close> to \<open>fetch_and_store\<close>), with
  \<open>ExtensionMetadata\<close> of \<open>app/fetchers/base.py\<close>.

  The store fetchers and the inspector run before the row lock is taken and touch no row, so
  they are arguments: \<open>fe_fetch store id\<close> is the outcome of \<open>fetcher.fetch\<close> (with the
  fetcher's \<open>package_complete\<close> flag), \<open>fe_inspect\<close> the outcome of \<open>inspect_package\<close>. The
  database argument is the one at the time the row lock is taken; from there the code runs
  under that lock, so the function is one transaction. It stages its writes: the caller
  commits by keeping the returned database, and rolls back by keeping the old one.
\<close>

record extension_metadata =
  md_name :: string
  md_publisher :: string
  md_description :: "string option"
  md_version :: string
  md_install_count :: "int option"
  md_last_updated :: "datetime option"
  md_store_url :: string
  md_publisher_verified :: "bool option"

datatype exn =
    FetchError string
  | TransportError string
  | OtherError string

datatype inspect_exn = InspectorError string | InspectorOther string

record fetch_env =
  fe_psl :: "string \<Rightarrow> string"
  fe_fetch :: "string \<Rightarrow> string \<Rightarrow> exn + (extension_metadata \<times> string option \<times> bool)"
  fe_inspect :: "string \<Rightarrow> inspect_exn + package_analysis"

section \<open>Keep-stale values\<close>

record effective_values =
  ef_permissions :: "string list"
  ef_host_permissions :: "string list"
  ef_publisher :: string
  ef_publisher_changed :: bool
  ef_install_count :: "int option"
  ef_last_updated :: "datetime option"

definition effective_values_of ::
    "extension \<Rightarrow> extension_metadata \<Rightarrow> package_analysis option \<Rightarrow> effective_values" where
  "effective_values_of x md analysis =
     \<lparr>ef_permissions =
        (case analysis of Some a \<Rightarrow> pa_permissions a | None \<Rightarrow> permissions_list x),
      ef_host_permissions =
        (case analysis of Some a \<Rightarrow> pa_host_permissions a | None \<Rightarrow> host_permissions_list x),
      ef_publisher =
        (if md_publisher md \<noteq> [] then md_publisher md
         else if x_publisher x \<noteq> [] then x_publisher x
         else (case analysis of Some a \<Rightarrow> pa_author a | None \<Rightarrow> [])),
      ef_publisher_changed =
        (x_last_fetched_at x \<noteq> None \<and> x_publisher x \<noteq> [] \<and> md_publisher md \<noteq> [] \<and>
         x_publisher x \<noteq> md_publisher md),
      ef_install_count =
        (case md_install_count md of Some n \<Rightarrow> Some n | None \<Rightarrow> x_install_count x),
      ef_last_updated =
        (case md_last_updated md of Some t \<Rightarrow> Some t | None \<Rightarrow> x_last_updated x)\<rparr>"

text \<open>The two most recent stored counts, newest first, then this reading.\<close>

definition previous_counts :: "extension \<Rightarrow> db \<Rightarrow> int list" where
  "previous_counts x d =
     map ih_install_count
       (take 2 (rev (sort_key (\<lambda>r. (ih_recorded_at r, ih_id r))
         (filter (\<lambda>r. ih_extension_id r = x_id x) (db_install_history d)))))"

definition stage_install_reading ::
    "instant \<Rightarrow> extension \<Rightarrow> extension_metadata \<Rightarrow> db \<Rightarrow> int list \<times> db" where
  "stage_install_reading now x md d =
     (case md_install_count md of
        Some n \<Rightarrow>
          (rev (previous_counts x d) @ [n],
           d\<lparr>db_install_history := db_install_history d @
               [\<lparr>ih_id = db_next_id d, ih_extension_id = x_id x, ih_recorded_at = now,
                 ih_install_count = n\<rparr>],
             db_next_id := db_next_id d + 1\<rparr>)
      | None \<Rightarrow> (rev (previous_counts x d), d))"

definition observed_version :: "extension_metadata \<Rightarrow> package_analysis option \<Rightarrow> string" where
  "observed_version md analysis =
     (case analysis of
        Some a \<Rightarrow> if pa_version a \<noteq> [] then pa_version a else md_version md
      | None \<Rightarrow> md_version md)"

definition apply_fetch_results ::
    "instant \<Rightarrow> extension \<Rightarrow> extension_metadata \<Rightarrow> package_analysis option \<Rightarrow>
       effective_values \<Rightarrow> risk_detail \<Rightarrow> extension" where
  "apply_fetch_results now x md analysis eff risk =
     (let x1 = x\<lparr>x_name := md_name md, x_publisher := ef_publisher eff,
                 x_description := md_description md, x_store_url := md_store_url md,
                 x_version := (if observed_version md analysis \<noteq> []
                               then observed_version md analysis else x_version x),
                 x_install_count := ef_install_count eff,
                 x_last_updated := ef_last_updated eff,
                 x_permissions := (case analysis of
                                     Some _ \<Rightarrow> json_dumps (json_strs (ef_permissions eff))
                                   | None \<Rightarrow> x_permissions x),
                 x_last_fetched_at := Some now\<rparr>;
          x2 = set_posture (Some (rd_total risk)) (risk_detail_asdict risk) x1
      in x2\<lparr>x_package_analysis :=
              (case analysis of
                 Some a \<Rightarrow> Some (json_dumps (JObj (to_json_dict a)))
               | None \<Rightarrow> x_package_analysis x2)\<rparr>)"

section \<open>Snapshots\<close>

definition latest_snapshot :: "int \<Rightarrow> db \<Rightarrow> package_snapshot option" where
  "latest_snapshot i d =
     (case rev (sort_key (\<lambda>s. (ps_captured_at s, ps_id s))
             (filter (\<lambda>s. ps_extension_id s = i) (db_snapshots d))) of
        [] \<Rightarrow> None | s # _ \<Rightarrow> Some s)"

text \<open>\<open>INSERT ... ON CONFLICT DO NOTHING\<close> on the unique pair of extension and version; the
  flag tells whether a row was inserted.\<close>

definition insert_snapshot ::
    "instant \<Rightarrow> extension \<Rightarrow> package_analysis \<Rightarrow> db \<Rightarrow> bool \<times> db" where
  "insert_snapshot now x a d =
     (if list_ex (\<lambda>s. ps_extension_id s = x_id x \<and> ps_version s = x_version x) (db_snapshots d)
      then (False, d)
      else (True,
        d\<lparr>db_snapshots := db_snapshots d @
            [\<lparr>ps_id = db_next_id d, ps_extension_id = x_id x, ps_version = x_version x,
              ps_package_sha256 = pa_package_sha256 a,
              ps_analysis_json = json_dumps (JObj (to_json_dict a)), ps_captured_at = now\<rparr>],
          db_next_id := db_next_id d + 1\<rparr>))"

text \<open>The guard \<open>ext.id is None\<close> never holds for a persisted row.\<close>

definition capture_package_snapshot ::
    "instant \<Rightarrow> extension \<Rightarrow> package_analysis option \<Rightarrow> db \<Rightarrow>
       (string option \<times> jobject option) \<times> db" where
  "capture_package_snapshot now x analysis d =
     (case analysis of
        None \<Rightarrow> ((None, None), d)
      | Some a \<Rightarrow>
          if \<not> pa_analysis_complete a \<or> x_version x = [] then ((None, None), d)
          else
            let previous = latest_snapshot (x_id x) d;
                (inserted, d') = insert_snapshot now x a d
            in case previous of
                 None \<Rightarrow> ((None, None), d')
               | Some p \<Rightarrow>
                   if \<not> inserted then ((None, None), d')
                   else
                     let old_analysis =
                           (case json_loads (ps_analysis_json p) of
                              Some (JObj o') \<Rightarrow> o' | _ \<Rightarrow> [])
                     in ((Some (ps_version p), diff_analysis old_analysis (to_json_dict a)), d'))"

section \<open>fetch\_and\_store\<close>

text \<open>\<open>get_fetcher\<close> of \<open>app/fetchers/__init__.py\<close>: an unknown store is a \<open>ValueError\<close>.\<close>

definition get_fetcher ::
    "fetch_env \<Rightarrow> string \<Rightarrow> exn + (string \<Rightarrow> exn + (extension_metadata \<times> string option \<times> bool))" where
  "get_fetcher env store =
     (if store = ''chrome'' \<or> store = ''vscode'' \<or> store = ''edge'' then Inr (fe_fetch env store)
      else Inl (OtherError (''Unknown store: '' @ repr_str store)))"

text \<open>Fetch and inspect: no database access.\<close>

definition fetch_and_inspect ::
    "fetch_env \<Rightarrow> extension \<Rightarrow> exn + (extension_metadata \<times> package_analysis option)" where
  "fetch_and_inspect env x =
     (case get_fetcher env (x_store x) of
        Inl e \<Rightarrow> Inl e
      | Inr fetch \<Rightarrow>
          (case fetch (x_extension_id x) of
             Inl e \<Rightarrow> Inl e
           | Inr (md, pkg_bytes, package_complete) \<Rightarrow>
               (case pkg_bytes of
                  Some (b # bs) \<Rightarrow>
                    (case fe_inspect env (b # bs) of
                       Inl (InspectorError _) \<Rightarrow> Inr (md, None)
                     | Inl (InspectorOther m) \<Rightarrow> Inl (OtherError m)
                     | Inr a \<Rightarrow> Inr (md, Some (a\<lparr>pa_analysis_complete := package_complete\<rparr>)))
                | _ \<Rightarrow> Inr (md, None))))"

definition add_fetch_log ::
    "instant \<Rightarrow> int \<Rightarrow> bool \<Rightarrow> bool \<Rightarrow> string option \<Rightarrow> int option \<Rightarrow> int option \<Rightarrow> db \<Rightarrow> db" where
  "add_fetch_log now ext_id success store_outage error before after d =
     d\<lparr>db_fetch_logs := db_fetch_logs d @
         [\<lparr>fl_id = db_next_id d, fl_extension_id = ext_id, fl_fetched_at = now,
           fl_success = success, fl_store_outage = store_outage, fl_error_message = error,
           fl_risk_score_before = before, fl_risk_score_after = after\<rparr>],
       db_next_id := db_next_id d + 1\<rparr>"

definition degraded_filter :: "package_analysis option \<Rightarrow> change_event list \<Rightarrow> change_event list" where
  "degraded_filter analysis events =
     (case analysis of
        Some a \<Rightarrow>
          if \<not> pa_analysis_complete a
          then filter (\<lambda>e. ev_type e = ''publisher_change'' \<or> ev_type e = ''new_version'') events
          else events
      | None \<Rightarrow> events)"

definition score_fetch ::
    "fetch_env \<Rightarrow> instant \<Rightarrow> extension_metadata \<Rightarrow> package_analysis option \<Rightarrow>
       effective_values \<Rightarrow> int list \<Rightarrow> risk_detail" where
  "score_fetch env now md analysis eff history =
     compute_risk_score (fe_psl env) now
       \<lparr>ri_permissions = ef_permissions eff, ri_host_permissions = ef_host_permissions eff,
        ri_install_count = ef_install_count eff, ri_install_history = history,
        ri_publisher = ef_publisher eff, ri_publisher_changed = ef_publisher_changed eff,
        ri_publisher_verified = md_publisher_verified md,
        ri_last_updated = ef_last_updated eff, ri_analysis = analysis\<rparr> False"

text \<open>The locked transaction after the fetch; \<open>x\<close> is the row re-read under the lock. The
  source guards \<open>detect_changes\<close> against any exception; the model's is total.\<close>

definition store_fetch ::
    "fetch_env \<Rightarrow> instant \<Rightarrow> extension_metadata \<Rightarrow> package_analysis option \<Rightarrow> extension \<Rightarrow> db \<Rightarrow>
       extension \<times> change_event list \<times> db" where
  "store_fetch env now md analysis x d =
     (let entries = threat_entries d x;
          x0 = x\<lparr>x_threat_match := (entries \<noteq> [])\<rparr>;
          (history, d1) = stage_install_reading now x0 md d;
          eff = effective_values_of x0 md analysis;
          risk = score_fetch env now md analysis eff history;
          x1 = apply_threat_finding (apply_fetch_results now x0 md analysis eff risk) entries;
          ((cap_old, cap_diff), d2) = capture_package_snapshot now x1 analysis d1;
          d3 = add_fetch_log now (x_id x) True False None (x_risk_score x) (x_risk_score x1) d2;
          events = degraded_filter analysis
                     (detect_changes x x1 cap_old cap_diff (Some (threat_detail entries)))
      in merge_pending_events x1 events d3)"

definition fetch_and_store ::
    "fetch_env \<Rightarrow> instant \<Rightarrow> extension \<Rightarrow> db \<Rightarrow> exn + (extension \<times> change_event list \<times> db)" where
  "fetch_and_store env now x d =
     (case fetch_and_inspect env x of
        Inl e \<Rightarrow> Inl e
      | Inr (md, analysis) \<Rightarrow>
          (case get_extension d (x_id x) of
             None \<Rightarrow> Inl (FetchError ''extension disappeared during refresh'')
           | Some locked \<Rightarrow> Inr (store_fetch env now md analysis locked d)))"

section \<open>Laws\<close>

lemma put_row_snapshots: "db_snapshots (put_extension x d) = db_snapshots d" by simp

lemma host_permissions_of_set_findings [simp]:
  "host_permissions_of (Some (dict_set d ''findings'' v)) = host_permissions_of (Some d)"
  by (simp add: host_permissions_of_def dict_get_set)

lemma host_permissions_of_findings [simp]: "host_permissions_of (Some [(''findings'', v)]) = []"
  by (simp add: host_permissions_of_def dict_get_def)

lemma host_permissions_of_None [simp]: "host_permissions_of None = []"
  by (simp add: host_permissions_of_def)

lemma host_permissions_apply [simp]:
  "host_permissions_list (apply_threat_finding x es) = host_permissions_list x"
  by (cases "analysis_dict x")
     (auto simp: host_permissions_list_def apply_threat_finding_def Let_def analysis_dict_def)

lemma permissions_list_apply [simp]:
  "permissions_list (apply_threat_finding x es) = permissions_list x"
  by (simp add: permissions_list_def)

lemma host_permissions_marker [simp]:
  "host_permissions_list (x\<lparr>x_pending_alert_events := m\<rparr>) = host_permissions_list x"
  by (simp add: host_permissions_list_def analysis_dict_def)

lemma permissions_list_marker [simp]:
  "permissions_list (x\<lparr>x_pending_alert_events := m\<rparr>) = permissions_list x"
  by (simp add: permissions_list_def)

lemma findings_of_marker [simp]: "findings_of (x\<lparr>x_pending_alert_events := m\<rparr>) = findings_of x"
  by (simp add: findings_of_def analysis_dict_def)

text \<open>The row a fetch stores, before its events are merged.\<close>

definition fetched_row ::
    "fetch_env \<Rightarrow> instant \<Rightarrow> extension_metadata \<Rightarrow> package_analysis option \<Rightarrow> extension \<Rightarrow> db \<Rightarrow> extension" where
  "fetched_row env now md analysis x d =
     (let entries = threat_entries d x;
          x0 = x\<lparr>x_threat_match := (entries \<noteq> [])\<rparr>;
          eff = effective_values_of x0 md analysis;
          risk = score_fetch env now md analysis eff (fst (stage_install_reading now x0 md d))
      in apply_threat_finding (apply_fetch_results now x0 md analysis eff risk) entries)"

lemma apply_fetch_results_frame [simp]:
  "x_id (apply_fetch_results now x md a eff r) = x_id x"
  "x_threat_match (apply_fetch_results now x md a eff r) = x_threat_match x"
  "x_risk_override (apply_fetch_results now x md a eff r) = x_risk_override x"
  "x_pending_alert_events (apply_fetch_results now x md a eff r) = x_pending_alert_events x"
  "x_user_id (apply_fetch_results now x md a eff r) = x_user_id x"
  "x_publisher (apply_fetch_results now x md a eff r) = ef_publisher eff"
  "x_version (apply_fetch_results now x md a eff r) =
     (if observed_version md a \<noteq> [] then observed_version md a else x_version x)"
  "x_last_fetched_at (apply_fetch_results now x md a eff r) = Some now"
  "x_heuristic_risk_score (apply_fetch_results now x md a eff r) = Some (rd_total r)"
  "x_risk_score (apply_fetch_results now x md a eff r) =
     effective_risk_score (Some (rd_total r)) (x_threat_match x) (x_risk_override x)"
  "x_install_count (apply_fetch_results now x md a eff r) = ef_install_count eff"
  "x_permissions (apply_fetch_results now x md a eff r) =
     (case a of Some _ \<Rightarrow> json_dumps (json_strs (ef_permissions eff)) | None \<Rightarrow> x_permissions x)"
  by (simp_all add: apply_fetch_results_def Let_def set_posture_def)

lemma fetched_row_id [simp]: "x_id (fetched_row env now md a x d) = x_id x"
  by (simp add: fetched_row_def Let_def)

lemma store_fetch_decompose:
  assumes "store_fetch env now md analysis x d = (x', new, d')"
  shows "\<exists>d3 caps.
     merge_pending_events (fetched_row env now md analysis x d)
       (degraded_filter analysis
         (detect_changes x (fetched_row env now md analysis x d) (fst caps) (snd caps)
           (Some (threat_detail (threat_entries d x))))) d3 = (x', new, d') \<and>
     caps = fst (capture_package_snapshot now (fetched_row env now md analysis x d) analysis
                   (snd (stage_install_reading now x md d))) \<and>
     d3 = add_fetch_log now (x_id x) True False None (x_risk_score x)
            (x_risk_score (fetched_row env now md analysis x d))
            (snd (capture_package_snapshot now (fetched_row env now md analysis x d) analysis
                    (snd (stage_install_reading now x md d))))"
proof -
  have stage: "snd (stage_install_reading now (x\<lparr>x_threat_match := b\<rparr>) md d)
      = snd (stage_install_reading now x md d)" for b
    by (simp add: stage_install_reading_def split: option.split)
  show ?thesis
    using assms
    by (simp add: store_fetch_def fetched_row_def Let_def stage split: prod.splits)
       (metis fst_conv snd_conv stage)
qed

lemma stage_frame [simp]:
  "db_extensions (snd (stage_install_reading now x md d)) = db_extensions d"
  "db_snapshots (snd (stage_install_reading now x md d)) = db_snapshots d"
  "db_fetch_logs (snd (stage_install_reading now x md d)) = db_fetch_logs d"
  "db_alert_logs (snd (stage_install_reading now x md d)) = db_alert_logs d"
  "db_rules (snd (stage_install_reading now x md d)) = db_rules d"
  "db_destinations (snd (stage_install_reading now x md d)) = db_destinations d"
  by (simp_all add: stage_install_reading_def split: option.split)

lemma insert_snapshot_frame [simp]:
  "db_extensions (snd (insert_snapshot now x a d)) = db_extensions d"
  "db_fetch_logs (snd (insert_snapshot now x a d)) = db_fetch_logs d"
  "db_alert_logs (snd (insert_snapshot now x a d)) = db_alert_logs d"
  "db_rules (snd (insert_snapshot now x a d)) = db_rules d"
  "db_destinations (snd (insert_snapshot now x a d)) = db_destinations d"
  by (simp_all add: insert_snapshot_def)

lemma capture_db:
  "snd (capture_package_snapshot now x analysis d) =
     (case analysis of None \<Rightarrow> d
      | Some a \<Rightarrow> if \<not> pa_analysis_complete a \<or> x_version x = [] then d
                 else snd (insert_snapshot now x a d))"
  by (simp add: capture_package_snapshot_def Let_def split: option.splits prod.splits)

lemma capture_frame [simp]:
  "db_extensions (snd (capture_package_snapshot now x a d)) = db_extensions d"
  "db_fetch_logs (snd (capture_package_snapshot now x a d)) = db_fetch_logs d"
  "db_alert_logs (snd (capture_package_snapshot now x a d)) = db_alert_logs d"
  "db_rules (snd (capture_package_snapshot now x a d)) = db_rules d"
  "db_destinations (snd (capture_package_snapshot now x a d)) = db_destinations d"
  by (simp_all add: capture_db split: option.split)

lemma add_fetch_log_frame [simp]:
  "db_extensions (add_fetch_log now i s so e b a d) = db_extensions d"
  "db_snapshots (add_fetch_log now i s so e b a d) = db_snapshots d"
  "db_alert_logs (add_fetch_log now i s so e b a d) = db_alert_logs d"
  "db_rules (add_fetch_log now i s so e b a d) = db_rules d"
  "db_destinations (add_fetch_log now i s so e b a d) = db_destinations d"
  by (simp_all add: add_fetch_log_def)

section \<open>Properties\<close>

lemma merge_pending_new_sub:
  assumes "merge_pending_events x events d = (x', new, d')"
  shows "set new \<subseteq> set events"
proof -
  have "\<exists>mk. new = snd (merge_marker events mk)"
    using assms by (auto simp: merge_pending_events_def Let_def split: prod.splits) (metis snd_conv)
  then show ?thesis using mq.merge_new [of events] by auto
qed

lemma install_count_apply [simp]:
  "x_install_count (apply_threat_finding x es) = x_install_count x"
  by (simp add: apply_threat_finding_def Let_def split: option.splits)

lemma without_threat_apply [simp]:
  "without_threat (findings_of (apply_threat_finding x es)) = without_threat (findings_of x)"
  by (cases "es = []") (simp_all add: findings_apply_match findings_apply_none, simp add: without_threat_def)

lemma analysis_dict_match_flag [simp]:
  "analysis_dict (x\<lparr>x_threat_match := b\<rparr>) = analysis_dict x"
  "permissions_list (x\<lparr>x_threat_match := b\<rparr>) = permissions_list x"
  "host_permissions_list (x\<lparr>x_threat_match := b\<rparr>) = host_permissions_list x"
  by (simp_all add: analysis_dict_def permissions_list_def host_permissions_list_def)

lemma apply_results_None [simp]:
  "analysis_dict (apply_fetch_results now x md None eff r) = analysis_dict x"
  "permissions_list (apply_fetch_results now x md None eff r) = permissions_list x"
  "host_permissions_list (apply_fetch_results now x md None eff r) = host_permissions_list x"
  "findings_of (apply_fetch_results now x md None eff r) = findings_of x"
proof -
  show *: "analysis_dict (apply_fetch_results now x md None eff r) = analysis_dict x"
    by (simp add: apply_fetch_results_def Let_def analysis_dict_def set_posture_def)
  then show "host_permissions_list (apply_fetch_results now x md None eff r) = host_permissions_list x"
    "findings_of (apply_fetch_results now x md None eff r) = findings_of x"
    by (simp_all add: host_permissions_list_def findings_of_def)
qed (simp add: permissions_list_def)

lemma fetched_row_None:
  "permissions_list (fetched_row env now md None x d) = permissions_list x"
  "host_permissions_list (fetched_row env now md None x d) = host_permissions_list x"
  "without_threat (findings_of (fetched_row env now md None x d)) = without_threat (findings_of x)"
  "x_publisher (fetched_row env now md None x d) =
     (if md_publisher md \<noteq> [] then md_publisher md else x_publisher x)"
  "x_version (fetched_row env now md None x d) =
     (if md_version md \<noteq> [] then md_version md else x_version x)"
  "x_install_count (fetched_row env now md None x d) =
     (case md_install_count md of Some n \<Rightarrow> Some n | None \<Rightarrow> x_install_count x)"
  by (simp_all add: fetched_row_def Let_def effective_values_of_def observed_version_def
      split: option.split)

text \<open>C8: a fetch that yields less never erases what is known. Without a package to analyse, the
  stored permissions, hosts and findings stay, an empty publisher or version or an unknown
  install count keeps the stored one, no snapshot is taken, and no event claims a change of
  permissions, capabilities, publisher or version that was not read.\<close>

theorem partial_fetch_keeps_row:
  assumes "store_fetch env now md None x d = (x', new, d')"
  shows "permissions_list x' = permissions_list x \<and> host_permissions_list x' = host_permissions_list x \<and>
    without_threat (findings_of x') = without_threat (findings_of x) \<and>
    x_publisher x' = (if md_publisher md \<noteq> [] then md_publisher md else x_publisher x) \<and>
    x_version x' = (if md_version md \<noteq> [] then md_version md else x_version x) \<and>
    x_install_count x' = (case md_install_count md of Some n \<Rightarrow> Some n | None \<Rightarrow> x_install_count x) \<and>
    db_snapshots d' = db_snapshots d \<and>
    (\<forall>e \<in> set new. ev_type e \<notin> {''permission_change'', ''capability_change''} \<and>
       (md_publisher md = [] \<longrightarrow> ev_type e \<noteq> ''publisher_change'') \<and>
       (md_version md = [] \<longrightarrow> ev_type e \<noteq> ''new_version''))"
proof -
  let ?x1 = "fetched_row env now md None x d"
  obtain d3 where m: "merge_pending_events ?x1
      (detect_changes x ?x1 None None (Some (threat_detail (threat_entries d x)))) d3 = (x', new, d')"
    and d3: "db_snapshots d3 = db_snapshots d"
    using store_fetch_decompose [OF assms]
    by (auto simp: degraded_filter_def capture_package_snapshot_def)
  from merge_pending_frame [OF m] obtain mk where x': "x' = ?x1\<lparr>x_pending_alert_events := mk\<rparr>"
    and d': "d' = put_extension x' d3" by metis
  have perms: "set (perms_of ?x1) = set (perms_of x)"
    by (simp add: perms_of_def fetched_row_None)
  have ev: "ev_type e \<notin> {''permission_change'', ''capability_change''} \<and>
       (md_publisher md = [] \<longrightarrow> ev_type e \<noteq> ''publisher_change'') \<and>
       (md_version md = [] \<longrightarrow> ev_type e \<noteq> ''new_version'')" if "e \<in> set new" for e
    using that merge_pending_new_sub [OF m] perms
    by (auto simp: detect_changes_def risk_events_def string_events_def permission_events_def
        capability_events_def threat_event_def fetched_row_None split: option.splits if_splits)
  show ?thesis
    using ev d3 by (simp add: x' d' fetched_row_None)
qed

definition sample_metadata :: extension_metadata where
  "sample_metadata = \<lparr>md_name = ''Tabs'', md_publisher = [], md_description = None, md_version = [],
     md_install_count = None, md_last_updated = None, md_store_url = [], md_publisher_verified = None\<rparr>"

definition sample_fetch :: fetch_env where
  "sample_fetch = \<lparr>fe_psl = (\<lambda>h. h), fe_fetch = (\<lambda>_ _. Inr (sample_metadata, None, True)),
                   fe_inspect = (\<lambda>_. Inl (InspectorError ''bad zip''))\<rparr>"

lemma partial_fetch_keeps_row_witness:
  "x_publisher (fst (store_fetch sample_fetch 5 sample_metadata None sample_extension empty_db)) = ''Acme''"
  using partial_fetch_keeps_row [of sample_fetch 5 sample_metadata sample_extension empty_db
      "fst (store_fetch sample_fetch 5 sample_metadata None sample_extension empty_db)"
      "fst (snd (store_fetch sample_fetch 5 sample_metadata None sample_extension empty_db))"
      "snd (snd (store_fetch sample_fetch 5 sample_metadata None sample_extension empty_db))"]
  by (simp add: sample_metadata_def sample_extension_def)

text \<open>A degraded package is not trusted for comparisons. When the store served an incomplete
  package, the only events are a publisher change and a new version, and no snapshot is taken.\<close>

theorem degraded_fetch_events:
  assumes "store_fetch env now md (Some a) x d = (x', new, d')" and "\<not> pa_analysis_complete a"
  shows "ev_type ` set new \<subseteq> {''publisher_change'', ''new_version''} \<and> db_snapshots d' = db_snapshots d"
proof -
  let ?x1 = "fetched_row env now md (Some a) x d"
  obtain d3 caps where m: "merge_pending_events ?x1 (degraded_filter (Some a)
      (detect_changes x ?x1 (fst caps) (snd caps) (Some (threat_detail (threat_entries d x))))) d3
        = (x', new, d')"
    and d3: "db_snapshots d3 = db_snapshots d"
    using store_fetch_decompose [OF assms(1)] assms(2) by (auto simp: capture_db)
  from merge_pending_frame [OF m] have "db_snapshots d' = db_snapshots d" using d3 by simp
  moreover have "ev_type ` set new \<subseteq> {''publisher_change'', ''new_version''}"
    using merge_pending_new_sub [OF m] assms(2) by (auto simp: degraded_filter_def)
  ultimately show ?thesis by simp
qed

lemma degraded_fetch_events_witness:
  "db_snapshots (snd (snd (store_fetch sample_fetch 5 sample_metadata
      (Some (empty_analysis\<lparr>pa_analysis_complete := False\<rparr>)) sample_extension empty_db))) = []"
proof -
  obtain x' new d' where s: "store_fetch sample_fetch 5 sample_metadata
      (Some (empty_analysis\<lparr>pa_analysis_complete := False\<rparr>)) sample_extension empty_db = (x', new, d')"
    by (cases "store_fetch sample_fetch 5 sample_metadata
      (Some (empty_analysis\<lparr>pa_analysis_complete := False\<rparr>)) sample_extension empty_db")
  from degraded_fetch_events [OF s] s show ?thesis by (simp add: empty_db_def)
qed

lemma store_fetch_version:
  assumes "store_fetch env now md analysis x d = (x', new, d')"
  shows "x_version x' = (if observed_version md analysis \<noteq> [] then observed_version md analysis
                          else x_version x)"
proof -
  obtain events d3 where m:
    "merge_pending_events (fetched_row env now md analysis x d) events d3 = (x', new, d')"
    using store_fetch_decompose [OF assms] by blast
  have "x_version x' = x_version (fetched_row env now md analysis x d)"
    using arg_cong [OF merge_pending_frame(2) [OF m], of x_version] by simp
  then show ?thesis by (simp add: fetched_row_def Let_def)
qed

definition snapshot_key :: "package_snapshot \<Rightarrow> int \<times> string" where
  "snapshot_key s = (ps_extension_id s, ps_version s)"

lemma insert_snapshot_spec:
  "\<exists>added. db_snapshots (snd (insert_snapshot now x a d)) = db_snapshots d @ added \<and> length added \<le> 1 \<and>
     (added \<noteq> [] \<longleftrightarrow> (x_id x, x_version x) \<notin> snapshot_key ` set (db_snapshots d)) \<and>
     (\<forall>s \<in> set added. snapshot_key s = (x_id x, x_version x) \<and> ps_captured_at s = now \<and>
        ps_analysis_json s = json_dumps (JObj (to_json_dict a)))"
proof -
  have "list_ex (\<lambda>s. ps_extension_id s = x_id x \<and> ps_version s = x_version x) (db_snapshots d) \<longleftrightarrow>
      (x_id x, x_version x) \<in> snapshot_key ` set (db_snapshots d)"
    unfolding list_ex_iff snapshot_key_def image_iff by (metis prod.inject)
  then show ?thesis by (auto simp: insert_snapshot_def snapshot_key_def)
qed

text \<open>The package history is append-only. A fetch never changes a stored snapshot and adds at
  most one, for this extension's version, exactly when a complete analysis of a known version
  was made that has none yet; so no extension ever has two snapshots of one version.\<close>

theorem snapshots_append_only:
  assumes "store_fetch env now md analysis x d = (x', new, d')"
  shows "\<exists>added. db_snapshots d' = db_snapshots d @ added \<and> length added \<le> 1 \<and>
    (added \<noteq> [] \<longleftrightarrow> (\<exists>a. analysis = Some a \<and> pa_analysis_complete a) \<and> x_version x' \<noteq> [] \<and>
                   (x_id x, x_version x') \<notin> snapshot_key ` set (db_snapshots d)) \<and>
    (\<forall>s \<in> set added. snapshot_key s = (x_id x, x_version x') \<and> ps_captured_at s = now) \<and>
    (distinct (map snapshot_key (db_snapshots d)) = distinct (map snapshot_key (db_snapshots d')))"
proof -
  let ?x1 = "fetched_row env now md analysis x d"
  let ?d1 = "snd (stage_install_reading now x md d)"
  obtain d3 events where m: "merge_pending_events ?x1 events d3 = (x', new, d')"
    and d3: "db_snapshots d3 = db_snapshots (snd (capture_package_snapshot now ?x1 analysis ?d1))"
    using store_fetch_decompose [OF assms] by auto
  from merge_pending_frame [OF m] obtain mk where x': "x' = ?x1\<lparr>x_pending_alert_events := mk\<rparr>"
    and d': "d' = put_extension x' d3" by metis
  have snaps: "db_snapshots d' = db_snapshots (snd (capture_package_snapshot now ?x1 analysis ?d1))"
    by (simp add: d' d3)
  have v: "x_version x' = x_version ?x1" by (simp add: x')
  have "\<exists>added. db_snapshots d' = db_snapshots d @ added \<and> length added \<le> 1 \<and>
    (added \<noteq> [] \<longleftrightarrow> (\<exists>a. analysis = Some a \<and> pa_analysis_complete a) \<and> x_version x' \<noteq> [] \<and>
                   (x_id x, x_version x') \<notin> snapshot_key ` set (db_snapshots d)) \<and>
    (\<forall>s \<in> set added. snapshot_key s = (x_id x, x_version x') \<and> ps_captured_at s = now)"
  proof (cases "(\<exists>a. analysis = Some a \<and> pa_analysis_complete a) \<and> x_version ?x1 \<noteq> []")
    case False
    then have "db_snapshots d' = db_snapshots d"
      by (auto simp: snaps capture_db split: option.split)
    with False v show ?thesis by (intro exI [of _ "[]"]) auto
  next
    case True
    then obtain a where a: "analysis = Some a" "pa_analysis_complete a" "x_version ?x1 \<noteq> []" by blast
    with insert_snapshot_spec [of now ?x1 a ?d1] v show ?thesis
      by (auto simp: snaps capture_db)
  qed
  then obtain added where ad: "db_snapshots d' = db_snapshots d @ added" "length added \<le> 1"
    "added \<noteq> [] \<longleftrightarrow> (\<exists>a. analysis = Some a \<and> pa_analysis_complete a) \<and> x_version x' \<noteq> [] \<and>
                   (x_id x, x_version x') \<notin> snapshot_key ` set (db_snapshots d)"
    "\<forall>s \<in> set added. snapshot_key s = (x_id x, x_version x') \<and> ps_captured_at s = now" by blast
  have "distinct (map snapshot_key (db_snapshots d)) = distinct (map snapshot_key (db_snapshots d'))"
  proof (cases added)
    case (Cons s rest)
    then have "rest = []" "snapshot_key s \<notin> snapshot_key ` set (db_snapshots d)" using ad by auto
    then show ?thesis using Cons ad(1) by simp
  qed (use ad in simp)
  with ad show ?thesis by blast
qed

lemma snapshots_append_only_witness:
  "\<exists>s. db_snapshots (snd (snd (store_fetch sample_fetch 5 sample_metadata (Some empty_analysis)
      sample_extension empty_db))) = [s] \<and> snapshot_key s = (7, ''1.0'')"
proof -
  obtain x' new d' where s: "store_fetch sample_fetch 5 sample_metadata (Some empty_analysis)
      sample_extension empty_db = (x', new, d')"
    by (cases "store_fetch sample_fetch 5 sample_metadata (Some empty_analysis) sample_extension empty_db")
  have "x_version x' = ''1.0''"
    using store_fetch_version [OF s]
    by (simp add: observed_version_def sample_metadata_def empty_analysis_def sample_extension_def)
  with snapshots_append_only [OF s] obtain added where
    "db_snapshots d' = added" "length added \<le> 1" "added \<noteq> []"
    "\<forall>s \<in> set added. snapshot_key s = (7, ''1.0'')"
    by (auto simp: empty_db_def empty_analysis_def sample_extension_def)
  then show ?thesis using s by (cases added) auto
qed

end
