(* ===== verification/Delivery.thy ===== *)
theory Delivery
  imports Pipeline
begin

text \<open>
  Delivery after the commit: \<open>fire_pending_alerts\<close> and \<open>recover_pending_alerts\<close> of
  \<open>app/services.py\<close>, and the protocol they form with the refreshes of one extension when
  calls overlap, deliveries fail and the process crashes.
\<close>

section \<open>The functions\<close>

definition fire_pending_alerts ::
    "delivery_env \<Rightarrow> instant \<Rightarrow> change_event list \<Rightarrow> extension \<Rightarrow> jtext option \<Rightarrow> db \<Rightarrow> db" where
  "fire_pending_alerts env now events x expected_marker d =
     (if events = [] then d
      else
        let (delivered, d') = fire_alerts env now events x d
        in if \<not> delivered then d'
           else (case expected_marker of
                   Some m \<Rightarrow> clear_pending_alerts (Some (x_id x)) m d'
                 | None \<Rightarrow> ack_pending_events (Some (x_id x)) events d'))"

definition recover_one :: "delivery_env \<Rightarrow> instant \<Rightarrow> int \<Rightarrow> db \<Rightarrow> db" where
  "recover_one env now ext_id d =
     (case get_extension d ext_id of
        None \<Rightarrow> d
      | Some x \<Rightarrow>
          (case x_pending_alert_events x of
             None \<Rightarrow> d
           | Some raw \<Rightarrow>
               let events = parse_pending_events (Some raw)
               in if events = [] then clear_pending_alerts (Some ext_id) raw d
                  else fire_pending_alerts env now events x (Some raw) d))"

definition pending_ids :: "db \<Rightarrow> int list" where
  "pending_ids d = map x_id (filter (\<lambda>x. x_pending_alert_events x \<noteq> None) (db_extensions d))"

text \<open>Each extension is isolated, so each has its own delivery environment.\<close>

definition recover_pending_alerts :: "(int \<Rightarrow> delivery_env) \<Rightarrow> instant \<Rightarrow> db \<Rightarrow> db" where
  "recover_pending_alerts env now d = fold (\<lambda>i. recover_one (env i) now i) (pending_ids d) d"

section \<open>Markers under delivery\<close>

text \<open>What a finished delivery does to the marker.\<close>

definition settle_marker ::
    "change_event list \<Rightarrow> jtext option \<Rightarrow> jtext option \<Rightarrow> jtext option" where
  "settle_marker events expected marker =
     (case expected of
        Some raw \<Rightarrow> clear_marker raw marker
      | None \<Rightarrow> ack_marker events marker)"

definition marker_at :: "db \<Rightarrow> int \<Rightarrow> jtext option" where
  "marker_at d i = (case get_extension d i of Some x \<Rightarrow> x_pending_alert_events x | None \<Rightarrow> None)"

lemma marker_at_put:
  "get_extension d (x_id x) \<noteq> None \<Longrightarrow>
     marker_at (put_extension x d) i =
       (if i = x_id x then x_pending_alert_events x else marker_at d i)"
  by (auto simp: marker_at_def get_put_extension split: option.splits)

lemma marker_at_clear:
  "marker_at (clear_pending_alerts (Some i) raw d) j =
     (if j = i then clear_marker raw (marker_at d j) else marker_at d j)"
proof (cases "get_extension d i")
  case None
  then show ?thesis by (simp add: clear_pending_alerts_def marker_at_def clear_marker_def)
next
  case (Some x)
  then have "x_id x = i" by (rule get_extension_id)
  with Some show ?thesis
    by (auto simp: clear_pending_alerts_def marker_at_def get_put_extension split: option.splits)
qed

lemma marker_at_ack:
  "events \<noteq> [] \<Longrightarrow> get_extension d i \<noteq> None \<Longrightarrow>
   marker_at (ack_pending_events (Some i) events d) j =
     (if j = i then ack_marker events (marker_at d j) else marker_at d j)"
  by (auto simp: ack_pending_events_def marker_at_def get_put_extension
      dest: get_extension_id split: option.splits)

lemma clear_pending_frame [simp]:
  "db_alert_logs (clear_pending_alerts i raw d) = db_alert_logs d"
  "db_rules (clear_pending_alerts i raw d) = db_rules d"
  "db_destinations (clear_pending_alerts i raw d) = db_destinations d"
  "extension_ids (clear_pending_alerts i raw d) = extension_ids d"
  by (simp_all add: clear_pending_alerts_def split: option.splits)

lemma ack_pending_frame [simp]:
  "db_alert_logs (ack_pending_events i es d) = db_alert_logs d"
  "extension_ids (ack_pending_events i es d) = extension_ids d"
  by (simp_all add: ack_pending_events_def split: option.splits)

lemma extension_ids_cong: "db_extensions d = db_extensions e \<Longrightarrow> extension_ids d = extension_ids e"
  by (simp add: extension_ids_def)

lemma marker_at_fire_alerts [simp]:
  "marker_at (snd (fire_alerts env now events x d)) = marker_at d"
  by (simp add: marker_at_def fun_eq_iff)

lemma fire_alerts_ok: "de_commit_ok env \<Longrightarrow> fst (fire_alerts env now events x d)"
  by (simp add: fire_alerts_def Let_def)

lemma marker_at_fire_pending:
  assumes "events \<noteq> []" and "get_extension d (x_id x) \<noteq> None"
  shows "marker_at (fire_pending_alerts env now events x expected d) j =
           (if j = x_id x \<and> fst (fire_alerts env now events x d)
            then settle_marker events expected (marker_at d j) else marker_at d j)"
proof (cases "fire_alerts env now events x d")
  case (Pair ok d')
  from Pair have m: "marker_at d' = marker_at d"
    using marker_at_fire_alerts [of env now events x d] by simp
  from Pair have g: "get_extension d' = get_extension d"
    using get_extension_fire_alerts [of env now events x d] by simp
  show ?thesis
    using assms Pair
    by (auto simp: fire_pending_alerts_def settle_marker_def marker_at_clear marker_at_ack m g
        split: option.splits)
qed

section \<open>The protocol on one extension\<close>

text \<open>
  \<open>ds_marker\<close> is the committed marker and \<open>ds_calls\<close> the delivery calls in flight. A call is
  \<open>Firing\<close> until \<open>fire_alerts\<close> has returned and \<open>Fired\<close> until it has settled the marker;
  the second argument is the raw marker a recovery was started from. \<open>ds_detected\<close> and
  \<open>ds_fired\<close> record every event a committed refresh detected and every event processed.
\<close>

datatype call =
    Firing "change_event list" "jtext option"
  | Fired "change_event list" "jtext option"

record delivery_state =
  ds_marker :: "jtext option"
  ds_calls :: "call list"
  ds_detected :: "change_event set"
  ds_fired :: "change_event set"

inductive delivery_step :: "delivery_state \<Rightarrow> delivery_state \<Rightarrow> bool" where
  refresh: "merge_marker es (ds_marker s) = (m, new) \<Longrightarrow>
     delivery_step s (s\<lparr>ds_marker := m,
                        ds_calls := ds_calls s @ (if new = [] then [] else [Firing new None]),
                        ds_detected := ds_detected s \<union> set es\<rparr>)"
| recover: "ds_marker s = Some raw \<Longrightarrow> parse_pending_events (Some raw) = es \<Longrightarrow> es \<noteq> [] \<Longrightarrow>
     delivery_step s (s\<lparr>ds_calls := ds_calls s @ [Firing es (Some raw)]\<rparr>)"
| recover_junk: "ds_marker s = Some raw \<Longrightarrow> parse_pending_events (Some raw) = [] \<Longrightarrow>
     delivery_step s (s\<lparr>ds_marker := clear_marker raw (ds_marker s)\<rparr>)"
| fire_ok: "ds_calls s = cs @ Firing es expected # cs' \<Longrightarrow>
     delivery_step s (s\<lparr>ds_calls := cs @ Fired es expected # cs',
                        ds_fired := ds_fired s \<union> set es\<rparr>)"
| fire_fail: "ds_calls s = cs @ Firing es expected # cs' \<Longrightarrow>
     delivery_step s (s\<lparr>ds_calls := cs @ cs'\<rparr>)"
| settle: "ds_calls s = cs @ Fired es expected # cs' \<Longrightarrow>
     delivery_step s (s\<lparr>ds_calls := cs @ cs',
                        ds_marker := settle_marker es expected (ds_marker s)\<rparr>)"
| crash: "delivery_step s (s\<lparr>ds_calls := []\<rparr>)"

definition delivery_init :: "jtext option \<Rightarrow> delivery_state" where
  "delivery_init marker =
     \<lparr>ds_marker = marker, ds_calls = [], ds_detected = {}, ds_fired = {}\<rparr>"

abbreviation delivery_reach :: "jtext option \<Rightarrow> delivery_state \<Rightarrow> bool" where
  "delivery_reach m0 s \<equiv> delivery_step\<^sup>*\<^sup>* (delivery_init m0) s"

fun call_ok :: "delivery_state \<Rightarrow> call \<Rightarrow> bool" where
  "call_ok s (Firing es expected) =
     (case expected of None \<Rightarrow> True | Some raw \<Rightarrow> parse_pending_events (Some raw) = es)"
| "call_ok s (Fired es expected) =
     (set es \<subseteq> ds_fired s \<and>
      (case expected of None \<Rightarrow> True | Some raw \<Rightarrow> parse_pending_events (Some raw) = es))"

text \<open>Nothing detected, and nothing pending at the start, is ever lost.\<close>

definition delivery_inv :: "jtext option \<Rightarrow> delivery_state \<Rightarrow> bool" where
  "delivery_inv m0 s \<longleftrightarrow>
     set (parse_pending_events m0) \<union> ds_detected s
       \<subseteq> set (parse_pending_events (ds_marker s)) \<union> ds_fired s \<and>
     (\<forall>c \<in> set (ds_calls s). call_ok s c)"

text \<open>Nothing is pending or processed that was not detected or pending at the start.\<close>

fun call_events :: "call \<Rightarrow> change_event set" where
  "call_events (Firing es _) = set es"
| "call_events (Fired es _) = set es"

definition delivery_sound :: "jtext option \<Rightarrow> delivery_state \<Rightarrow> bool" where
  "delivery_sound m0 s \<longleftrightarrow>
     set (parse_pending_events (ds_marker s)) \<union> ds_fired s \<union> \<Union> (call_events ` set (ds_calls s))
       \<subseteq> set (parse_pending_events m0) \<union> ds_detected s"

lemma settle_keeps:
  assumes "call_ok s (Fired es expected)" and "e \<in> set (parse_pending_events m)" and "e \<notin> ds_fired s"
  shows "e \<in> set (parse_pending_events (settle_marker es expected m))"
proof (cases expected)
  case None
  with assms show ?thesis by (auto simp: settle_marker_def intro: mq.ack_keeps_others)
next
  case (Some raw)
  with assms have "e \<notin> set (parse_pending_events (Some raw))" by auto
  with assms(2) have "e \<in> set (parse_pending_events (clear_marker_opt (Some raw) m))"
    by (rule mq.clear_keeps_others)
  with Some show ?thesis by (simp add: settle_marker_def clear_marker_opt_def)
qed

lemma settle_only:
  "set (parse_pending_events (settle_marker es expected m)) \<subseteq> set (parse_pending_events m)"
  using mq.ack_only [of es m]
  by (auto simp: settle_marker_def clear_marker_def split: option.splits if_splits)

lemma call_ok_mono:
  "call_ok s c \<Longrightarrow> ds_fired s \<subseteq> ds_fired t \<Longrightarrow> call_ok t c"
  by (cases c) auto

lemma delivery_inv_init: "delivery_inv m0 (delivery_init m0)"
  by (simp add: delivery_inv_def delivery_init_def)

lemma delivery_step_inv [invariants]:
  assumes "delivery_step s t" and "delivery_inv m0 s"
  shows "delivery_inv m0 t"
  using assms
proof (induction rule: delivery_step.induct)
  case (refresh es s m new)
  have "set es \<subseteq> set (parse_pending_events m)"
    and "set (parse_pending_events (ds_marker s)) \<subseteq> set (parse_pending_events m)"
    using mq.merge_all_pending [of es "ds_marker s"] mq.merge_keeps [of _ "ds_marker s" es]
      refresh.hyps by auto
  with refresh.prems show ?case
    by (auto simp: delivery_inv_def intro: call_ok_mono)
next
  case (recover s raw es)
  then show ?case by (auto simp: delivery_inv_def intro: call_ok_mono)
next
  case (recover_junk s raw)
  then show ?case by (auto simp: delivery_inv_def clear_marker_def intro: call_ok_mono)
next
  case (fire_ok s cs es expected cs')
  then have calls: "\<forall>c \<in> set (cs @ cs'). call_ok s c" "call_ok s (Firing es expected)"
    by (simp_all add: delivery_inv_def)
  with fire_ok.prems show ?case by (auto simp: delivery_inv_def intro: call_ok_mono)
next
  case (fire_fail s cs es expected cs')
  then have "\<forall>c \<in> set (cs @ cs'). call_ok s c" by (simp add: delivery_inv_def)
  with fire_fail.prems show ?case by (auto simp: delivery_inv_def intro: call_ok_mono)
next
  case (settle s cs es expected cs')
  then have ok: "call_ok s (Fired es expected)"
    and inv: "set (parse_pending_events m0) \<union> ds_detected s
                \<subseteq> set (parse_pending_events (ds_marker s)) \<union> ds_fired s"
    and calls: "\<forall>c \<in> set (cs @ cs'). call_ok s c"
    by (simp_all add: delivery_inv_def)
  have "set (parse_pending_events (ds_marker s))
          \<subseteq> set (parse_pending_events (settle_marker es expected (ds_marker s))) \<union> ds_fired s"
    using settle_keeps [OF ok] by blast
  with inv have "set (parse_pending_events m0) \<union> ds_detected s
      \<subseteq> set (parse_pending_events (settle_marker es expected (ds_marker s))) \<union> ds_fired s"
    by blast
  then show ?case using calls by (auto simp: delivery_inv_def intro: call_ok_mono)
next
  case (crash s)
  then show ?case by (simp add: delivery_inv_def)
qed

lemma delivery_reach_inv: "delivery_reach m0 s \<Longrightarrow> delivery_inv m0 s"
  by (induction rule: rtranclp_induct) (auto simp: delivery_inv_init intro: delivery_step_inv)

lemma delivery_step_sound [invariants]:
  assumes "delivery_step s t" and "delivery_sound m0 s"
  shows "delivery_sound m0 t"
  using assms
proof (induction rule: delivery_step.induct)
  case (refresh es s m new)
  have "set (parse_pending_events m) \<subseteq> set (parse_pending_events (ds_marker s)) \<union> set es"
    and "set new \<subseteq> set es"
    using mq.merge_only [of es "ds_marker s"] mq.merge_new [of es "ds_marker s"] refresh.hyps
    by auto
  with refresh.prems show ?case
    unfolding delivery_sound_def by (cases "new = []") (simp, blast)+
next
  case (fire_ok s cs es expected cs')
  then show ?case unfolding delivery_sound_def by simp
next
  case (fire_fail s cs es expected cs')
  then show ?case unfolding delivery_sound_def by simp
next
  case (settle s cs es expected cs')
  then have *: "set (parse_pending_events (ds_marker s)) \<union> ds_fired s
                 \<union> \<Union> (call_events ` set (cs @ cs')) \<subseteq> set (parse_pending_events m0) \<union> ds_detected s"
    by (simp add: delivery_sound_def)
  from settle_only [of es expected "ds_marker s"] *
  have "set (parse_pending_events (settle_marker es expected (ds_marker s)))
          \<subseteq> set (parse_pending_events m0) \<union> ds_detected s"
    by (meson Un_subset_iff subset_trans)
  with * show ?case unfolding delivery_sound_def by simp
next
  case (recover s raw es)
  then have "set es = set (parse_pending_events (ds_marker s))" by simp
  with recover.prems show ?case unfolding delivery_sound_def by simp
next
  case (recover_junk s raw)
  then show ?case unfolding delivery_sound_def clear_marker_def by simp
next
  case (crash s)
  then show ?case unfolding delivery_sound_def by simp
qed

lemma delivery_sound_init: "delivery_sound m0 (delivery_init m0)"
  by (simp add: delivery_sound_def delivery_init_def)

lemma delivery_reach_sound: "delivery_reach m0 s \<Longrightarrow> delivery_sound m0 s"
  by (induction rule: rtranclp_induct) (auto simp: delivery_sound_init intro: delivery_step_sound)

text \<open>One recovery that is allowed to finish processes everything pending.\<close>

lemma recover_progress:
  assumes "e \<in> set (parse_pending_events (ds_marker s))"
  shows "\<exists>t. delivery_step\<^sup>*\<^sup>* s t \<and> e \<in> ds_fired t \<and> ds_detected t = ds_detected s"
proof -
  from assms obtain raw where raw: "ds_marker s = Some raw" by (cases "ds_marker s") auto
  let ?es = "parse_pending_events (Some raw)"
  let ?s1 = "s\<lparr>ds_calls := ds_calls s @ [Firing ?es (Some raw)]\<rparr>"
  let ?s2 = "?s1\<lparr>ds_calls := ds_calls s @ Fired ?es (Some raw) # [], ds_fired := ds_fired ?s1 \<union> set ?es\<rparr>"
  from assms raw have "?es \<noteq> []" by auto
  with raw have "delivery_step s ?s1" by (intro delivery_step.recover) auto
  moreover have "delivery_step ?s1 ?s2" by (rule delivery_step.fire_ok) simp
  ultimately have "delivery_step\<^sup>*\<^sup>* s ?s2"
    by (rule converse_rtranclp_into_rtranclp [OF _ r_into_rtranclp])
  with assms raw show ?thesis by (intro exI [of _ ?s2]) auto
qed

section \<open>Properties\<close>

text \<open>C1: no alert is lost. In every state the delivery protocol can reach, with refreshes,
  recoveries, failed deliveries and crashes in any order, each event a committed refresh
  detected, and each event pending at the start, is still pending or has been processed.\<close>

theorem no_alert_lost:
  assumes "delivery_reach m0 s" and "e \<in> ds_detected s \<union> set (parse_pending_events m0)"
  shows "e \<in> set (parse_pending_events (ds_marker s)) \<union> ds_fired s"
  using delivery_reach_inv [OF assms(1)] assms(2) by (auto simp: delivery_inv_def)

lemma no_alert_lost_witness:
  "delivery_reach None \<lparr>ds_marker = marker_of [threat_event None], ds_calls = [],
      ds_detected = {threat_event None}, ds_fired = {}\<rparr> \<and>
   threat_event None \<in> set (parse_pending_events (marker_of [threat_event None])) \<union> {}"
proof -
  let ?e = "threat_event None" and ?start = "delivery_init None"
  let ?mid = "\<lparr>ds_marker = marker_of [?e], ds_calls = [Firing [?e] None],
                ds_detected = {?e}, ds_fired = {}\<rparr>"
  let ?final = "\<lparr>ds_marker = marker_of [?e], ds_calls = [], ds_detected = {?e}, ds_fired = {}\<rparr>"
  have "merge_marker [?e] (ds_marker ?start) = (marker_of [?e], [?e])"
    by (simp add: merge_marker_def delivery_init_def)
  from delivery_step.refresh [OF this] have "delivery_step ?start ?mid"
    by (simp add: delivery_init_def)
  moreover have "delivery_step ?mid ?final" using delivery_step.crash [of ?mid] by simp
  ultimately have "delivery_reach None ?final"
    by (rule converse_rtranclp_into_rtranclp [OF _ r_into_rtranclp])
  then show ?thesis using no_alert_lost [of None ?final ?e] by simp
qed



section \<open>The code follows the protocol\<close>

lemma store_fetch_marker:
  assumes row: "get_extension d (x_id x) = Some row"
    and "store_fetch env now md analysis x d = (x', new, d')"
  shows "\<exists>es. merge_marker es (x_pending_alert_events row) = (marker_at d' (x_id x), new)"
    and "get_extension d' (x_id x) = Some x'"
    and "\<forall>j. j \<noteq> x_id x \<longrightarrow> get_extension d' j = get_extension d j"
    and "db_alert_logs d' = db_alert_logs d" and "db_rules d' = db_rules d"
    and "db_destinations d' = db_destinations d" and "x_user_id x' = x_user_id x" and "x_id x' = x_id x"
proof -
  let ?x1 = "fetched_row env now md analysis x d"
  obtain d3 events where m: "merge_pending_events ?x1 events d3 = (x', new, d')"
    and ext: "db_extensions d3 = db_extensions d"
    and other: "db_alert_logs d3 = db_alert_logs d" "db_rules d3 = db_rules d"
      "db_destinations d3 = db_destinations d"
    using store_fetch_decompose [OF assms(2)] by auto
  have row3: "get_extension d3 (x_id ?x1) = Some row"
    using row get_extension_cong [OF ext] by simp
  from merge_pending_row [OF m row3]
  have x': "x' = ?x1\<lparr>x_pending_alert_events := fst (merge_marker events (x_pending_alert_events row))\<rparr>"
    and new: "new = snd (merge_marker events (x_pending_alert_events row))"
    and d': "d' = put_extension x' d3" by simp_all
  show id: "x_id x' = x_id x" by (simp add: x')
  have d3: "get_extension d3 = get_extension d" using ext by (rule get_extension_cong)
  show get: "get_extension d' (x_id x) = Some x'"
    using row id by (simp add: d' get_put_extension d3)
  show "\<exists>es. merge_marker es (x_pending_alert_events row) = (marker_at d' (x_id x), new)"
    by (intro exI [of _ events]) (simp add: marker_at_def get, simp add: x' new)
  show "\<forall>j. j \<noteq> x_id x \<longrightarrow> get_extension d' j = get_extension d j"
    using id by (simp add: d' get_put_extension d3 split: option.split)
  show "db_alert_logs d' = db_alert_logs d" "db_rules d' = db_rules d"
    "db_destinations d' = db_destinations d" by (simp_all add: d' other)
  show "x_user_id x' = x_user_id x" by (simp add: x' fetched_row_def Let_def)
qed

lemma fetch_and_store_marker:
  assumes "get_extension d (x_id x) = Some x" and "fetch_and_store env now x d = Inr (x', new, d')"
  shows "\<exists>es. merge_marker es (x_pending_alert_events x) = (marker_at d' (x_id x), new)"
    and "get_extension d' (x_id x) = Some x'"
    and "\<forall>j. j \<noteq> x_id x \<longrightarrow> get_extension d' j = get_extension d j"
    and "db_alert_logs d' = db_alert_logs d" and "db_rules d' = db_rules d"
    and "db_destinations d' = db_destinations d" and "x_user_id x' = x_user_id x" and "x_id x' = x_id x"
proof -
  obtain md analysis where "store_fetch env now md analysis x d = (x', new, d')"
    using assms by (auto simp: fetch_and_store_def split: sum.splits)
  from store_fetch_marker [OF assms(1) this]
  show "\<exists>es. merge_marker es (x_pending_alert_events x) = (marker_at d' (x_id x), new)"
    "get_extension d' (x_id x) = Some x'"
    "\<forall>j. j \<noteq> x_id x \<longrightarrow> get_extension d' j = get_extension d j"
    "db_alert_logs d' = db_alert_logs d" "db_rules d' = db_rules d"
    "db_destinations d' = db_destinations d" "x_user_id x' = x_user_id x" "x_id x' = x_id x" by blast+
qed

text \<open>C4: the fetch transaction refines the protocol. A committed fetch of an extension is one
  refresh step on its marker: it merges the detected events into the marker of the locked row,
  hands exactly the appended ones to its delivery call, and touches no other extension.\<close>

theorem fetch_refines_refresh:
  assumes "get_extension d (x_id x) = Some x" and "fetch_and_store env now x d = Inr (x', new, d')"
    and "ds_marker s = marker_at d (x_id x)"
  shows "\<exists>t. delivery_step s t \<and> ds_marker t = marker_at d' (x_id x) \<and>
    ds_calls t = ds_calls s @ (if new = [] then [] else [Firing new None]) \<and>
    set new \<subseteq> ds_detected t \<and> get_extension d' (x_id x) = Some x' \<and>
    (\<forall>j. j \<noteq> x_id x \<longrightarrow> get_extension d' j = get_extension d j)"
proof -
  obtain es where es: "merge_marker es (x_pending_alert_events x) = (marker_at d' (x_id x), new)"
    using fetch_and_store_marker(1) [OF assms(1,2)] by blast
  have "ds_marker s = x_pending_alert_events x" using assms(1,3) by (simp add: marker_at_def)
  with es have "merge_marker es (ds_marker s) = (marker_at d' (x_id x), new)" by simp
  from delivery_step.refresh [OF this] have "delivery_step s
      (s\<lparr>ds_marker := marker_at d' (x_id x),
         ds_calls := ds_calls s @ (if new = [] then [] else [Firing new None]),
         ds_detected := ds_detected s \<union> set es\<rparr>)" .
  moreover have "set new \<subseteq> set es" using mq.merge_new [of es] es by (metis Diff_subset snd_conv)
  ultimately show ?thesis
    using fetch_and_store_marker(2,3) [OF assms(1,2)] by (intro exI conjI) auto
qed

lemma fetch_refines_refresh_witness:
  "\<exists>t. delivery_step (delivery_init None) t"
proof -
  let ?d = "empty_db\<lparr>db_extensions := [sample_extension]\<rparr>"
  have get: "get_extension ?d (x_id sample_extension) = Some sample_extension"
    by (simp add: get_extension_def)
  have "fetch_and_inspect sample_fetch sample_extension = Inr (sample_metadata, None)"
    by (simp add: fetch_and_inspect_def get_fetcher_def sample_extension_def sample_fetch_def)
  then obtain x' new d' where f: "fetch_and_store sample_fetch 5 sample_extension ?d = Inr (x', new, d')"
    using get by (cases "store_fetch sample_fetch 5 sample_metadata None sample_extension ?d")
      (simp add: fetch_and_store_def)
  have "ds_marker (delivery_init None) = marker_at ?d (x_id sample_extension)"
    using get by (simp add: delivery_init_def marker_at_def sample_extension_def)
  from fetch_refines_refresh [OF get f this] show ?thesis by blast
qed

text \<open>C5: a delivery call refines the protocol. When \<open>fire_pending_alerts\<close> returns, the marker is what
  the protocol makes of a call that fired and settled, or of one that failed, and the events
  count as processed exactly when \<open>fire_alerts\<close> returned.\<close>

theorem fire_refines_delivery:
  assumes "get_extension d (x_id x) \<noteq> None" and "events \<noteq> []"
    and "ds_marker s = marker_at d (x_id x)" and "ds_calls s = cs @ Firing events expected # cs'"
  shows "\<exists>t. delivery_step\<^sup>*\<^sup>* s t \<and> ds_calls t = cs @ cs' \<and>
    ds_marker t = marker_at (fire_pending_alerts env now events x expected d) (x_id x) \<and>
    ds_fired t = ds_fired s \<union> (if fst (fire_alerts env now events x d) then set events else {}) \<and>
    ds_detected t = ds_detected s"
proof (cases "fst (fire_alerts env now events x d)")
  case False
  then have "marker_at (fire_pending_alerts env now events x expected d) (x_id x) = marker_at d (x_id x)"
    using marker_at_fire_pending [OF assms(2,1)] by simp
  with False assms(3) delivery_step.fire_fail [OF assms(4)] show ?thesis
    by (intro exI [of _ "s\<lparr>ds_calls := cs @ cs'\<rparr>"]) auto
next
  case True
  let ?mid = "s\<lparr>ds_calls := cs @ Fired events expected # cs', ds_fired := ds_fired s \<union> set events\<rparr>"
  let ?final = "?mid\<lparr>ds_calls := cs @ cs', ds_marker := settle_marker events expected (ds_marker ?mid)\<rparr>"
  have "delivery_step s ?mid" using delivery_step.fire_ok [OF assms(4)] .
  moreover have "delivery_step ?mid ?final" by (rule delivery_step.settle) simp
  ultimately have "delivery_step\<^sup>*\<^sup>* s ?final"
    by (rule converse_rtranclp_into_rtranclp [OF _ r_into_rtranclp])
  moreover have "marker_at (fire_pending_alerts env now events x expected d) (x_id x)
      = settle_marker events expected (marker_at d (x_id x))"
    using marker_at_fire_pending [OF assms(2,1)] True by simp
  ultimately show ?thesis using True assms(3) by (intro exI [of _ ?final]) simp
qed

lemma fire_refines_delivery_witness:
  "\<exists>t. ds_calls t = [] \<and> delivery_step\<^sup>*\<^sup>*
     ((delivery_init (marker_of [threat_event None]))\<lparr>ds_calls := [Firing [threat_event None] None]\<rparr>) t"
proof -
  let ?x = "sample_extension\<lparr>x_pending_alert_events := marker_of [threat_event None]\<rparr>"
  let ?d = "empty_db\<lparr>db_extensions := [?x]\<rparr>"
  have "get_extension ?d (x_id ?x) \<noteq> None" "marker_at ?d (x_id ?x) = marker_of [threat_event None]"
    by (simp_all add: get_extension_def marker_at_def)
  from fire_refines_delivery [OF this(1), of "[threat_event None]"
      "(delivery_init (marker_of [threat_event None]))\<lparr>ds_calls := [Firing [threat_event None] None]\<rparr>" "[]"
      None "[]" sample_delivery 3] this(2)
  show ?thesis by (auto simp: delivery_init_def)
qed

lemma alert_logs_recover:
  assumes "get_extension d i = Some x" and "x_pending_alert_events x = Some raw"
    and "parse_pending_events (Some raw) = events" and "de_commit_ok env"
    and "(e, r, dest) \<in> set (delivery_targets events x d)" and "x_user_id x \<noteq> None"
  shows "\<exists>k. alert_log_row env now x (db_next_id d) (k, e, r, dest)
           \<in> set (db_alert_logs (recover_one env now i d))"
proof -
  have ne: "events \<noteq> []" using assms(5) by (auto simp: delivery_targets_def)
  obtain d1 where fa: "fire_alerts env now events x d = (True, d1)"
    using fire_alerts_ok [OF assms(4), of now events x d] by (cases "fire_alerts env now events x d") auto
  have d1: "db_alert_logs d1 = db_alert_logs d @ map (alert_log_row env now x (db_next_id d))
         (enumerate 0 (delivery_targets events x d))"
    using fire_alerts_rows [OF assms(4) ne assms(6), of now d] fa by simp
  have "db_alert_logs (recover_one env now i d) = db_alert_logs d1"
    using assms(1,2,3) ne fa by (simp add: recover_one_def fire_pending_alerts_def)
  moreover obtain k where "k < length (delivery_targets events x d)"
    "delivery_targets events x d ! k = (e, r, dest)"
    using assms(5) by (auto simp: in_set_conv_nth)
  then have "(k, e, r, dest) \<in> set (enumerate 0 (delivery_targets events x d))"
    by (force simp: in_set_enumerate_eq)
  ultimately show ?thesis by (auto simp: d1)
qed



end
