(* ===== verification/Threat_Ingest.thy ===== *)
theory Threat_Ingest
  imports Threat_Match
begin

text \<open>
  Storing threat entries: the upsert and re-read that \<open>refresh_threat_feed\<close>
  (\<open>app/scheduler.py\<close>) and \<open>ingest_threatlist\<close> (\<open>app/routes/api.py\<close>) share.
\<close>

definition same_entry :: "threat_entry_input \<Rightarrow> threat_list_entry \<Rightarrow> bool" where
  "same_entry item e \<longleftrightarrow>
     tl_store e = te_store item \<and> tl_extension_id e = te_extension_id item \<and>
     tl_source e = te_source item"

text \<open>\<open>INSERT ... ON CONFLICT (store, extension_id, source)\<close>: do nothing when the new reason
  is null, otherwise update the reason.\<close>

definition upsert_threat :: "instant \<Rightarrow> threat_entry_input \<Rightarrow> db \<Rightarrow> db" where
  "upsert_threat now item d =
     (if list_ex (same_entry item) (db_threats d)
      then (case te_reason item of
              None \<Rightarrow> d
            | Some r \<Rightarrow>
                d\<lparr>db_threats := map (\<lambda>e. if same_entry item e then e\<lparr>tl_reason := Some r\<rparr> else e)
                                  (db_threats d)\<rparr>)
      else d\<lparr>db_threats := db_threats d @
               [\<lparr>tl_id = db_next_id d, tl_store = te_store item,
                 tl_extension_id = te_extension_id item, tl_source = te_source item,
                 tl_reason = te_reason item, tl_added_at = now\<rparr>],
             db_next_id := db_next_id d + 1\<rparr>)"

definition stored_entries :: "threat_entry_input list \<Rightarrow> db \<Rightarrow> threat_list_entry list" where
  "stored_entries items d = concat (map (\<lambda>item. filter (same_entry item) (db_threats d)) items)"

definition ingest_entries ::
    "instant \<Rightarrow> threat_entry_input list \<Rightarrow> db \<Rightarrow> (extension \<times> change_event list) list \<times> db" where
  "ingest_entries now items d =
     (let d1 = fold (upsert_threat now) items d
      in apply_threat_matches (stored_entries items d1) d1)"

section \<open>Laws\<close>

definition threats_distinct :: "db \<Rightarrow> bool" where
  "threats_distinct d \<longleftrightarrow>
     distinct (map (\<lambda>e. (tl_store e, tl_extension_id e, tl_source e)) (db_threats d))"

lemma upsert_frame [simp]:
  "db_extensions (upsert_threat now item d) = db_extensions d"
  "db_fetch_logs (upsert_threat now item d) = db_fetch_logs d"
  "db_alert_logs (upsert_threat now item d) = db_alert_logs d"
  by (simp_all add: upsert_threat_def split: option.splits)

lemma fold_upsert_frame [simp]:
  "db_extensions (fold (upsert_threat now) items d) = db_extensions d"
  by (induction items arbitrary: d) simp_all

lemma upsert_keys:
  "map (\<lambda>e. (tl_store e, tl_extension_id e, tl_source e)) (db_threats (upsert_threat now item d)) =
     (let keys = map (\<lambda>e. (tl_store e, tl_extension_id e, tl_source e)) (db_threats d) in
      if entry_identity item \<in> set keys then keys else keys @ [entry_identity item])"
proof -
  have ex: "list_ex (same_entry item) (db_threats d) \<longleftrightarrow>
      entry_identity item \<in> set (map (\<lambda>e. (tl_store e, tl_extension_id e, tl_source e)) (db_threats d))"
    by (force simp: list_ex_iff same_entry_def entry_identity_def)
  show ?thesis
    by (simp add: upsert_threat_def Let_def ex) (auto simp: entry_identity_def split: option.splits)
qed

lemma upsert_distinct [invariants]:
  "threats_distinct d \<Longrightarrow> threats_distinct (upsert_threat now item d)"
  by (simp add: threats_distinct_def upsert_keys Let_def)

lemma fold_upsert_distinct:
  "threats_distinct d \<Longrightarrow> threats_distinct (fold (upsert_threat now) items d)"
  by (induction items arbitrary: d) (auto intro: upsert_distinct)

lemma fold_upsert_keys:
  "set (map (\<lambda>e. (tl_store e, tl_extension_id e, tl_source e)) (db_threats (fold (upsert_threat now) items d)))
     = set (map (\<lambda>e. (tl_store e, tl_extension_id e, tl_source e)) (db_threats d))
       \<union> entry_identity ` set items"
proof (induction items arbitrary: d)
  case (Cons item items)
  have "set (map (\<lambda>e. (tl_store e, tl_extension_id e, tl_source e)) (db_threats (upsert_threat now item d)))
      = insert (entry_identity item)
          (set (map (\<lambda>e. (tl_store e, tl_extension_id e, tl_source e)) (db_threats d)))"
    by (subst upsert_keys) (auto simp: Let_def)
  with Cons [of "upsert_threat now item d"] show ?case by simp
qed simp

section \<open>Properties\<close>

lemma upsert_reason:
  "e \<in> set (db_threats (upsert_threat now item d)) \<Longrightarrow>
     (\<exists>e' \<in> set (db_threats d). e = e' \<or> (\<exists>r. te_reason item = Some r \<and> e = e'\<lparr>tl_reason := Some r\<rparr>))
     \<or> (same_entry item e \<and> tl_reason e = te_reason item)"
  by (auto simp: upsert_threat_def same_entry_def split: option.splits if_splits)

text \<open>The stored threat list only grows. Ingesting entries keeps one row for each store,
  extension and source, and the identities stored afterwards are those stored before together
  with the new ones, so an outage or a shorter feed never forgets a known-bad extension.\<close>

theorem ingest_only_adds:
  assumes "threats_distinct d"
  shows "threats_distinct (fold (upsert_threat now) items d) \<and>
    (\<lambda>e. (tl_store e, tl_extension_id e, tl_source e)) ` set (db_threats (fold (upsert_threat now) items d))
      = (\<lambda>e. (tl_store e, tl_extension_id e, tl_source e)) ` set (db_threats d) \<union> entry_identity ` set items \<and>
    (\<forall>item \<in> set items. \<exists>e \<in> set (stored_entries items (fold (upsert_threat now) items d)).
        same_entry item e)"
proof (intro conjI ballI)
  let ?id = "\<lambda>e. (tl_store e, tl_extension_id e, tl_source e)"
  let ?d = "fold (upsert_threat now) items d"
  show "threats_distinct ?d" using fold_upsert_distinct [OF assms] .
  show ids: "?id ` set (db_threats ?d) = ?id ` set (db_threats d) \<union> entry_identity ` set items"
    using fold_upsert_keys [of now items d] by simp
  fix item assume item: "item \<in> set items"
  then have "entry_identity item \<in> ?id ` set (db_threats ?d)" using ids by blast
  then obtain e where "e \<in> set (db_threats ?d)" "same_entry item e"
    by (auto simp: entry_identity_def same_entry_def)
  with item show "\<exists>e \<in> set (stored_entries items ?d). same_entry item e"
    by (auto simp: stored_entries_def intro!: bexI [of _ e] bexI [of _ item])
qed

lemma ingest_only_adds_witness:
  "let item = \<lparr>te_store = ''edge'', te_extension_id = ''a'', te_source = ''op'', te_reason = None\<rparr>
   in (\<lambda>e. (tl_store e, tl_extension_id e, tl_source e)) ` set (db_threats (fold (upsert_threat 0) [item] empty_db))
        = {(''edge'', ''a'', ''op'')}"
  using ingest_only_adds [of empty_db 0
      "[\<lparr>te_store = ''edge'', te_extension_id = ''a'', te_source = ''op'', te_reason = None\<rparr>]"]
  by (simp add: threats_distinct_def empty_db_def entry_identity_def)

end
