(* ===== verification/Scheduler.thy ===== *)
theory Scheduler
  imports Delivery Threat_Ingest
begin

text \<open>
  \<open>app/scheduler.py\<close>: the refresh cycle over the watchlist with its per-store circuit
  breaker, the failure and outage logs, the threat-feed refresh and the job table, and the
  heartbeat of \<open>app/scheduler_state.py\<close>.

  The model runs one cycle against a database no other session changes meanwhile; the
  interleavings with other refreshes are those of the delivery protocol. \<open>asyncio\<close>'s task set
  (\<open>_inflight\<close>, \<open>drain_inflight\<close>) is not modelled.
\<close>

section \<open>The circuit breaker\<close>

datatype outcome = SUCCESS | FAILED | GONE | ERROR

record breaker =
  cb_threshold :: int
  cb_consecutive :: "string \<Rightarrow> int option"
  cb_open :: "string set"

definition new_breaker :: "int \<Rightarrow> breaker" where
  "new_breaker threshold = \<lparr>cb_threshold = threshold, cb_consecutive = (\<lambda>_. None), cb_open = {}\<rparr>"

definition is_open :: "breaker \<Rightarrow> string \<Rightarrow> bool" where
  "is_open b store \<longleftrightarrow> store \<in> cb_open b"

definition breaker_record :: "string \<Rightarrow> outcome \<Rightarrow> breaker \<Rightarrow> breaker" where
  "breaker_record store outc b =
     (case outc of
        SUCCESS \<Rightarrow> b\<lparr>cb_consecutive := (cb_consecutive b)(store := Some 0)\<rparr>
      | FAILED \<Rightarrow>
          let n = (case cb_consecutive b store of Some k \<Rightarrow> k | None \<Rightarrow> 0) + 1;
              b' = b\<lparr>cb_consecutive := (cb_consecutive b)(store := Some n)\<rparr>
          in if cb_threshold b > 0 \<and> n \<ge> cb_threshold b
             then b'\<lparr>cb_open := insert store (cb_open b')\<rparr> else b'
      | _ \<Rightarrow> b)"

section \<open>Refreshing one extension\<close>

record cycle_env =
  ce_fetch :: "int \<Rightarrow> fetch_env"
  ce_recover :: "int \<Rightarrow> delivery_env"
  ce_posture :: "int \<Rightarrow> delivery_env"
  ce_deliver :: "int \<Rightarrow> delivery_env"
  ce_scrub :: "string \<Rightarrow> string"
  ce_log_ok :: "int \<Rightarrow> bool"

definition exn_text :: "exn \<Rightarrow> string" where
  "exn_text e = (case e of FetchError m \<Rightarrow> m | TransportError m \<Rightarrow> m | OtherError m \<Rightarrow> m)"

definition is_store_failure :: "exn \<Rightarrow> bool" where
  "is_store_failure e = (case e of OtherError _ \<Rightarrow> False | _ \<Rightarrow> True)"

definition refresh_one :: "cycle_env \<Rightarrow> instant \<Rightarrow> int \<Rightarrow> db \<Rightarrow> outcome \<times> db" where
  "refresh_one env now ext_id d =
     (case get_extension d ext_id of
        None \<Rightarrow> (GONE, d)
      | Some x \<Rightarrow>
          if \<not> x_watchlist x then (GONE, d)
          else
            let score_before = x_risk_score x;
                (posture_events, d1) = apply_existing_threat_posture x d
            in case get_extension d1 ext_id of
                 None \<Rightarrow> (ERROR, d1)
               | Some x1 \<Rightarrow>
                   let d2 = fire_pending_alerts (ce_posture env ext_id) now posture_events x1 None d1
                   in case fetch_and_store (ce_fetch env ext_id) now x1 d2 of
                        Inl e \<Rightarrow>
                          if is_store_failure e
                          then (FAILED,
                                if ce_log_ok env ext_id
                                then add_fetch_log now ext_id False False
                                       (Some (ce_scrub env (exn_text e))) score_before None d2
                                else d2)
                          else (ERROR, d2)
                      | Inr (x2, events, d3) \<Rightarrow>
                          (case get_extension d3 ext_id of
                             None \<Rightarrow> (GONE, d3)
                           | Some x3 \<Rightarrow>
                               (SUCCESS,
                                fire_pending_alerts (ce_deliver env ext_id) now events x3 None d3)))"

definition outage_text :: "string \<Rightarrow> string" where
  "outage_text store =
     ''Skipped: '' @ store @ '' appears unavailable (store circuit open this cycle)''"

definition record_store_outage :: "cycle_env \<Rightarrow> instant \<Rightarrow> int \<Rightarrow> string \<Rightarrow> db \<Rightarrow> db" where
  "record_store_outage env now ext_id store d =
     (case get_extension d ext_id of
        None \<Rightarrow> d
      | Some x \<Rightarrow>
          if \<not> x_watchlist x then d
          else if ce_log_ok env ext_id
          then add_fetch_log now ext_id False True (Some (outage_text store)) (x_risk_score x) None d
          else d)"

section \<open>The cycle\<close>

fun cycle_loop ::
    "cycle_env \<Rightarrow> instant \<Rightarrow> (int \<times> string) list \<Rightarrow> breaker \<Rightarrow> nat \<Rightarrow> db \<Rightarrow> breaker \<times> nat \<times> db" where
  "cycle_loop env now [] b skipped d = (b, skipped, d)"
| "cycle_loop env now ((ext_id, store) # rows) b skipped d =
     (if is_open b store
      then cycle_loop env now rows b (Suc skipped) (record_store_outage env now ext_id store d)
      else
        let (outc, d') = refresh_one env now ext_id d
        in cycle_loop env now rows (breaker_record store outc b) skipped d')"

definition watchlist_rows :: "db \<Rightarrow> (int \<times> string) list" where
  "watchlist_rows d = map (\<lambda>x. (x_id x, x_store x)) (filter x_watchlist (db_extensions d))"

text \<open>The process state the cycle touches: the database and the heartbeat.\<close>

record sched_state =
  st_db :: db
  st_last_run :: "instant option"

definition mark_scheduler_run :: "instant \<Rightarrow> sched_state \<Rightarrow> sched_state" where
  "mark_scheduler_run now s = s\<lparr>st_last_run := Some now\<rparr>"

definition last_scheduler_run :: "sched_state \<Rightarrow> instant option" where
  "last_scheduler_run s = st_last_run s"

definition refresh_watchlist ::
    "cycle_env \<Rightarrow> int \<Rightarrow> instant \<Rightarrow> sched_state \<Rightarrow> nat \<times> sched_state" where
  "refresh_watchlist env threshold now s =
     (let d1 = recover_pending_alerts (ce_recover env) now (st_db s);
          (b, skipped, d2) = cycle_loop env now (watchlist_rows d1) (new_breaker threshold) 0 d1
      in (skipped, mark_scheduler_run now (s\<lparr>st_db := d2\<rparr>)))"

section \<open>The threat feed\<close>

text \<open>\<open>feed\<close> is the outcome of \<open>fetch_threat_feed\<close>; any exception leaves the stored list.\<close>

definition fire_transitions ::
    "(int \<Rightarrow> delivery_env) \<Rightarrow> instant \<Rightarrow> (extension \<times> change_event list) list \<Rightarrow> db \<Rightarrow> db" where
  "fire_transitions env now transitions d =
     fold (\<lambda>(x, events) d.
             case get_extension d (x_id x) of
               None \<Rightarrow> d
             | Some row \<Rightarrow> fire_pending_alerts (env (x_id x)) now events row None d)
       transitions d"

definition refresh_threat_feed ::
    "string \<Rightarrow> (unit + threat_entry_input list) \<Rightarrow> (int \<Rightarrow> delivery_env) \<Rightarrow> instant \<Rightarrow> db \<Rightarrow> db" where
  "refresh_threat_feed feed_url feed env now d =
     (if feed_url = [] then d
      else (case feed of
              Inl _ \<Rightarrow> d
            | Inr inputs \<Rightarrow>
                let (transitions, d') = ingest_entries now inputs d
                in fire_transitions env now transitions d'))"

section \<open>Jobs\<close>

record job =
  jb_id :: string
  jb_minutes :: int
  jb_at_startup :: bool

record sched_settings =
  ss_fetch_interval_minutes :: int
  ss_threat_feed_url :: string
  ss_threat_feed_interval_hours :: int
  ss_retention_days :: int
  ss_inventory_freshness_days :: int

definition create_scheduler :: "sched_settings \<Rightarrow> job list" where
  "create_scheduler s =
     [\<lparr>jb_id = ''watchlist_refresh'', jb_minutes = ss_fetch_interval_minutes s, jb_at_startup = False\<rparr>]
     @ (if ss_threat_feed_url s \<noteq> []
        then [\<lparr>jb_id = ''threat_feed_refresh'', jb_minutes = 60 * ss_threat_feed_interval_hours s,
               jb_at_startup = True\<rparr>] else [])
     @ (if ss_retention_days s > 0
        then [\<lparr>jb_id = ''retention_prune'', jb_minutes = 60 * 24, jb_at_startup = True\<rparr>] else [])
     @ (if ss_inventory_freshness_days s > 0
        then [\<lparr>jb_id = ''footprint_refresh'', jb_minutes = 60 * 24, jb_at_startup = True\<rparr>] else [])"

section \<open>The breaker against its specification\<close>

text \<open>The failures of one store since its last success; the neutral outcomes are skipped.\<close>

fun trailing_failures :: "outcome list \<Rightarrow> int" where
  "trailing_failures [] = 0"
| "trailing_failures (outc # outcs) =
     (case outc of
        SUCCESS \<Rightarrow> 0
      | FAILED \<Rightarrow> 1 + trailing_failures outcs
      | _ \<Rightarrow> trailing_failures outcs)"

text \<open>Histories are newest first. A circuit is open when some moment of its store's history
  ended in enough failures.\<close>

definition breaker_run :: "int \<Rightarrow> (string \<times> outcome) list \<Rightarrow> breaker" where
  "breaker_run threshold history =
     foldr (\<lambda>(store, outc). breaker_record store outc) history (new_breaker threshold)"

definition store_history :: "string \<Rightarrow> (string \<times> outcome) list \<Rightarrow> outcome list" where
  "store_history store history = map snd (filter (\<lambda>(s, _). s = store) history)"

lemma breaker_record_threshold [simp]: "cb_threshold (breaker_record s outc b) = cb_threshold b"
  by (simp add: breaker_record_def Let_def split: outcome.splits)

lemma breaker_record_other:
  "t \<noteq> s \<Longrightarrow> cb_consecutive (breaker_record s outc b) t = cb_consecutive b t"
  "t \<noteq> s \<Longrightarrow> is_open (breaker_record s outc b) t = is_open b t"
  by (simp_all add: breaker_record_def is_open_def Let_def split: outcome.splits)

definition failures_of :: "breaker \<Rightarrow> string \<Rightarrow> int" where
  "failures_of b s = (case cb_consecutive b s of Some k \<Rightarrow> k | None \<Rightarrow> 0)"

lemma failures_of_record:
  "failures_of (breaker_record s outc b) t =
     (if t = s then (case outc of SUCCESS \<Rightarrow> 0 | FAILED \<Rightarrow> failures_of b t + 1 | _ \<Rightarrow> failures_of b t)
      else failures_of b t)"
  by (auto simp: failures_of_def breaker_record_def Let_def split: outcome.splits)

lemma is_open_record:
  "is_open (breaker_record s outc b) t \<longleftrightarrow>
     is_open b t \<or> (t = s \<and> outc = FAILED \<and> cb_threshold b > 0 \<and> failures_of b t + 1 \<ge> cb_threshold b)"
  by (auto simp: is_open_def failures_of_def breaker_record_def Let_def split: outcome.splits)

lemma breaker_run_threshold [simp]: "cb_threshold (breaker_run th h) = th"
  by (induction h) (auto simp: breaker_run_def new_breaker_def)

lemma breaker_run_Cons:
  "breaker_run th ((s, outc) # h) = breaker_record s outc (breaker_run th h)"
  by (simp add: breaker_run_def)

lemma breaker_run_failures:
  "failures_of (breaker_run th h) s = trailing_failures (store_history s h)"
proof (induction h)
  case Nil
  then show ?case by (simp add: breaker_run_def new_breaker_def failures_of_def store_history_def)
next
  case (Cons so h)
  then show ?case
    by (cases so) (auto simp: breaker_run_Cons failures_of_record store_history_def split: outcome.splits)
qed

lemma trailing_nonneg: "0 \<le> trailing_failures outcs"
  by (induction outcs) (auto split: outcome.splits)

section \<open>Properties\<close>

lemma breaker_run_open:
  "is_open (breaker_run th h) s \<longleftrightarrow>
     th > 0 \<and> (\<exists>k. trailing_failures (drop k (store_history s h)) \<ge> th)"
proof (induction h)
  case Nil
  then show ?case by (auto simp: breaker_run_def new_breaker_def is_open_def store_history_def)
next
  case (Cons so h)
  obtain s' outc where so: "so = (s', outc)" by force
  show ?case
  proof (cases "s' = s")
    case False
    then show ?thesis
      using Cons by (simp add: so breaker_run_Cons is_open_record store_history_def)
  next
    case True
    let ?old = "store_history s h"
    have hist: "store_history s ((s', outc) # h) = outc # ?old" by (simp add: True store_history_def)
    have ex: "(\<exists>k. trailing_failures (drop k (outc # ?old)) \<ge> th) \<longleftrightarrow>
        trailing_failures (outc # ?old) \<ge> th \<or> (\<exists>k. trailing_failures (drop k ?old) \<ge> th)"
      by (metis drop0 drop_Suc_Cons not0_implies_Suc)
    have now: "trailing_failures ?old \<ge> th \<Longrightarrow> \<exists>k. trailing_failures (drop k ?old) \<ge> th"
      by (rule exI [of _ 0]) simp
    have step: "is_open (breaker_run th ((s', outc) # h)) s \<longleftrightarrow> is_open (breaker_run th h) s \<or>
        (outc = FAILED \<and> th > 0 \<and> trailing_failures ?old + 1 \<ge> th)"
      using True by (simp add: breaker_run_Cons is_open_record breaker_run_failures)
    show ?thesis
      unfolding so hist ex step Cons using now trailing_nonneg [of ?old] by (cases outc) auto
  qed
qed

text \<open>The circuit of a store is open exactly when, at some moment of the cycle, the store had
  failed as often as the threshold since its last success. Failures of other stores, errors on
  our side and rows that disappeared never count, an open circuit never closes within the cycle,
  and a threshold of zero disables it.\<close>

theorem breaker_opens_iff:
  "(is_open (breaker_run th history) store \<longleftrightarrow>
      th > 0 \<and> (\<exists>k. trailing_failures (drop k (store_history store history)) \<ge> th)) \<and>
   (is_open (breaker_run th history) store \<longrightarrow> is_open (breaker_run th (later @ history)) store) \<and>
   store_history store ((other, outc) # history) =
     (if other = store then outc # store_history store history else store_history store history)"
proof (intro conjI impI)
  show "is_open (breaker_run th history) store \<longleftrightarrow>
      th > 0 \<and> (\<exists>k. trailing_failures (drop k (store_history store history)) \<ge> th)"
    by (rule breaker_run_open)
  show "is_open (breaker_run th (later @ history)) store" if "is_open (breaker_run th history) store"
    using that by (induction later) (auto simp: breaker_run_Cons is_open_record)
qed (simp add: store_history_def)

lemma breaker_opens_iff_witness:
  "is_open (breaker_run 2 ([(''edge'', SUCCESS)] @ [(''edge'', FAILED), (''edge'', ERROR), (''edge'', FAILED)]))
     ''edge''"
proof -
  have "\<exists>k. trailing_failures (drop k (store_history ''edge''
      [(''edge'', FAILED), (''edge'', ERROR), (''edge'', FAILED)])) \<ge> 2"
    by (rule exI [of _ 0]) (simp add: store_history_def)
  moreover have "(2 :: int) > 0" by simp
  ultimately show ?thesis
    using breaker_opens_iff [of 2 "[(''edge'', FAILED), (''edge'', ERROR), (''edge'', FAILED)]" "''edge''"
        "[(''edge'', SUCCESS)]"] by blast
qed

lemma record_store_outage_logs:
  "db_extensions (record_store_outage env now i store d) = db_extensions d \<and>
   (\<exists>logs. db_fetch_logs (record_store_outage env now i store d) = db_fetch_logs d @ logs \<and>
      length logs \<le> 1 \<and>
      (\<forall>l \<in> set logs. fl_extension_id l = i \<and> fl_store_outage l \<and> \<not> fl_success l \<and>
         fl_error_message l = Some (outage_text store) \<and> fl_risk_score_after l = None))"
  by (auto simp: record_store_outage_def add_fetch_log_def split: option.split)


definition sample_cycle :: cycle_env where
  "sample_cycle = \<lparr>ce_fetch = (\<lambda>_. sample_fetch), ce_recover = (\<lambda>_. sample_delivery),
                   ce_posture = (\<lambda>_. sample_delivery), ce_deliver = (\<lambda>_. sample_delivery),
                   ce_scrub = (\<lambda>s. s), ce_log_ok = (\<lambda>_. True)\<rparr>"


end
