(* ===== verification/Extension_Queries.thy ===== *)
theory Extension_Queries
  imports Scoring "HOL-Library.Product_Lexorder" "HOL-Library.Multiset"
begin

text \<open>
  \<open>app/extension_queries.py\<close>: the filter, sort and count layer behind the extension list, the
  export and the dashboard. A SELECT is a function of the stored rows: the WHERE clauses are
  a predicate, ORDER BY a sort, with SQL's NULL handling written out.

  Text columns are ordered by character code (the database's collation may order them
  differently), and \<open>ILIKE\<close> folds ASCII case only.
\<close>

section \<open>Bands\<close>

text \<open>\<open>RISK_BANDS\<close>, derived from the thresholds as the source derives it: the upper end of a
  band is the lower end of the one before it.\<close>

fun bands_of :: "int option \<Rightarrow> (string \<times> int) list \<Rightarrow> (string \<times> (int \<times> int option)) list" where
  "bands_of high [] = []"
| "bands_of high ((band, low) # rest) = (band, (low, high)) # bands_of (Some low) rest"

definition RISK_BANDS :: "(string \<times> (int \<times> int option)) list" where
  "RISK_BANDS = bands_of None RISK_LEVEL_THRESHOLDS"

section \<open>Search terms\<close>

fun escape_like :: "string \<Rightarrow> string" where
  "escape_like [] = []"
| "escape_like (c # s) =
     (if c = CHR 0x5C \<or> c = CHR ''%'' \<or> c = CHR ''_'' then [CHR 0x5C, c] else [c]) @ escape_like s"

text \<open>SQL's \<open>LIKE ... ESCAPE '\'\<close>; a pattern ending in a bare escape matches nothing.\<close>

fun like_match :: "string \<Rightarrow> string \<Rightarrow> bool" where
  "like_match [] s = (s = [])"
| "like_match (p # ps) s =
     (if p = CHR ''%'' then
        (like_match ps s \<or> (case s of [] \<Rightarrow> False | _ # s' \<Rightarrow> like_match (p # ps) s'))
      else if p = CHR ''_'' then
        (case s of [] \<Rightarrow> False | _ # s' \<Rightarrow> like_match ps s')
      else if p = CHR 0x5C then
        (case ps of [] \<Rightarrow> False
         | q # qs \<Rightarrow> (case s of [] \<Rightarrow> False | c # s' \<Rightarrow> c = q \<and> like_match qs s'))
      else (case s of [] \<Rightarrow> False | c # s' \<Rightarrow> c = p \<and> like_match ps s'))"

definition ilike :: "string \<Rightarrow> string \<Rightarrow> bool" where
  "ilike column pat = like_match (lower pat) (lower column)"

section \<open>Filters and order\<close>

definition exposure :: "int option \<Rightarrow> int option \<Rightarrow> int option" where
  "exposure risk_score install_footprint =
     (case (risk_score, install_footprint) of (Some r, Some f) \<Rightarrow> Some (r * f) | _ \<Rightarrow> None)"

record extension_filters =
  xf_store :: "string option"
  xf_risk :: "string option"
  xf_triage :: "string option"
  xf_publisher :: "string option"
  xf_q :: "string option"
  xf_sort :: string
  xf_order :: string

definition default_filters :: extension_filters where
  "default_filters =
     \<lparr>xf_store = None, xf_risk = None, xf_triage = None, xf_publisher = None, xf_q = None,
      xf_sort = ''risk_score'', xf_order = ''desc''\<rparr>"

text \<open>\<open>if filters.f: where column = filters.f\<close>\<close>

definition eq_filter :: "string option \<Rightarrow> string \<Rightarrow> bool" where
  "eq_filter f column = (case f of Some (c # s) \<Rightarrow> column = c # s | _ \<Rightarrow> True)"

definition risk_filter :: "string option \<Rightarrow> extension \<Rightarrow> bool" where
  "risk_filter f x =
     (let allowed = (x_risk_override x = ''allow'' \<and> \<not> x_threat_match x) in
      case f of
        None \<Rightarrow> True
      | Some band \<Rightarrow>
          if band = ''suppressed'' then allowed
          else (case map_of RISK_BANDS band of
                  None \<Rightarrow> True
                | Some (low, high) \<Rightarrow>
                    (case x_risk_score x of
                       None \<Rightarrow> False
                     | Some r \<Rightarrow> r \<ge> low \<and> \<not> allowed \<and>
                                  (case high of None \<Rightarrow> True | Some h \<Rightarrow> r < h))))"

definition search_filter :: "string option \<Rightarrow> extension \<Rightarrow> bool" where
  "search_filter f x =
     (case f of
        Some (c # s) \<Rightarrow>
          let like = ''%'' @ escape_like (c # s) @ ''%''
          in ilike (x_name x) like \<or> ilike (x_publisher x) like \<or> ilike (x_extension_id x) like
      | _ \<Rightarrow> True)"

definition row_matches :: "int \<Rightarrow> extension_filters \<Rightarrow> extension \<Rightarrow> bool" where
  "row_matches user_id f x \<longleftrightarrow>
     x_user_id x = Some user_id \<and> eq_filter (xf_store f) (x_store x) \<and> risk_filter (xf_risk f) x \<and>
     eq_filter (xf_triage f) (x_triage_status x) \<and> eq_filter (xf_publisher f) (x_publisher x) \<and>
     search_filter (xf_q f) x"

text \<open>A value of a sort column.\<close>

datatype sort_value = SNull | SInt int | SStr string

definition sort_int :: "int option \<Rightarrow> sort_value" where
  "sort_int v = (case v of None \<Rightarrow> SNull | Some i \<Rightarrow> SInt i)"

definition sort_column :: "string \<Rightarrow> extension \<Rightarrow> sort_value" where
  "sort_column name x =
     (if name = ''name'' then SStr (x_name x)
      else if name = ''publisher'' then SStr (x_publisher x)
      else if name = ''install_count'' then sort_int (x_install_count x)
      else if name = ''last_updated'' then sort_int (map_option utc_of (x_last_updated x))
      else if name = ''added_at'' then SInt (x_added_at x)
      else if name = ''exposure'' then sort_int (exposure (x_risk_score x) (x_install_footprint x))
      else sort_int (x_risk_score x))"

text \<open>\<open>asc().nullsfirst()\<close> order of one column; \<open>desc().nullslast()\<close> is its reverse.\<close>

fun value_le :: "sort_value \<Rightarrow> sort_value \<Rightarrow> bool" where
  "value_le SNull _ = True"
| "value_le (SInt i) SNull = False"
| "value_le (SInt i) (SInt j) = (i \<le> j)"
| "value_le (SInt i) (SStr t) = True"
| "value_le (SStr s) (SStr t) = (s \<le> t)"
| "value_le (SStr s) _ = False"

definition row_before :: "extension_filters \<Rightarrow> extension \<Rightarrow> extension \<Rightarrow> bool" where
  "row_before f x y =
     (let a = sort_column (xf_sort f) x; b = sort_column (xf_sort f) y
      in if a = b then x_id x \<le> x_id y
         else if xf_order f = ''desc'' then value_le b a else value_le a b)"

fun insert_row :: "('a \<Rightarrow> 'a \<Rightarrow> bool) \<Rightarrow> 'a \<Rightarrow> 'a list \<Rightarrow> 'a list" where
  "insert_row le x [] = [x]"
| "insert_row le x (y # ys) = (if le x y then x # y # ys else y # insert_row le x ys)"

definition build_extension_query :: "int \<Rightarrow> extension_filters \<Rightarrow> db \<Rightarrow> extension list" where
  "build_extension_query user_id f d =
     foldr (insert_row (row_before f)) (filter (row_matches user_id f) (db_extensions d)) []"

definition count_rows :: "'a list \<Rightarrow> nat" where
  "count_rows stmt = length stmt"

section \<open>Sorting\<close>

lemma set_insert_row [simp]: "set (insert_row le x ys) = insert x (set ys)"
  by (induction ys) auto

lemma mset_insert_row [simp]: "mset (insert_row le x ys) = add_mset x (mset ys)"
  by (induction ys) auto

lemma mset_foldr_insert [simp]: "mset (foldr (insert_row le) xs []) = mset xs"
  by (induction xs) auto

lemma sorted_insert_row:
  assumes total: "\<And>a b. le a b \<or> le b a" and trans: "\<And>a b c. le a b \<Longrightarrow> le b c \<Longrightarrow> le a c"
  shows "sorted_wrt le ys \<Longrightarrow> sorted_wrt le (insert_row le x ys)"
proof (induction ys)
  case (Cons y ys)
  then show ?case using total [of x y] trans [of x y] by auto
qed simp

lemma sorted_foldr_insert:
  assumes "\<And>a b. le a b \<or> le b a" and "\<And>a b c. le a b \<Longrightarrow> le b c \<Longrightarrow> le a c"
  shows "sorted_wrt le (foldr (insert_row le) xs [])"
proof (induction xs)
  case (Cons x xs)
  then show ?case by simp (rule sorted_insert_row [OF assms])
qed simp

lemma value_le_total: "value_le a b \<or> value_le b a"
  by (cases a; cases b) auto

lemma value_le_trans: "value_le a b \<Longrightarrow> value_le b c \<Longrightarrow> value_le a c"
  by (cases a; cases b; cases c) auto

lemma value_le_antisym: "value_le a b \<Longrightarrow> value_le b a \<Longrightarrow> a = b"
  by (cases a; cases b) auto

lemma row_before_total: "row_before f x y \<or> row_before f y x"
  using value_le_total by (auto simp: row_before_def Let_def)

lemma row_before_trans: "row_before f x y \<Longrightarrow> row_before f y z \<Longrightarrow> row_before f x z"
  unfolding row_before_def Let_def
  by (smt (verit, best) order_trans value_le_antisym value_le_trans)

section \<open>Patterns\<close>

lemma split_Cons_iff:
  "(\<exists>u v. c # s = u @ v \<and> P v) \<longleftrightarrow> P (c # s) \<or> (\<exists>u v. s = u @ v \<and> P v)"
  by (metis append_Cons append_Nil append_eq_Cons_conv)

lemma like_match_percent:
  "like_match (CHR ''%'' # ps) s \<longleftrightarrow> (\<exists>u v. s = u @ v \<and> like_match ps v)"
proof (induction s)
  case (Cons c s)
  have "like_match (CHR ''%'' # ps) (c # s) \<longleftrightarrow> like_match ps (c # s) \<or> like_match (CHR ''%'' # ps) s"
    by simp
  then show ?case unfolding split_Cons_iff [of c s "like_match ps"] Cons .
qed simp

lemma like_match_literal:
  "like_match (escape_like q @ ps) s \<longleftrightarrow> (\<exists>v. s = q @ v \<and> like_match ps v)"
  by (induction q arbitrary: s) (auto split: list.splits)

lemma lower_char_special:
  "lower_char c = CHR 0x5C \<longleftrightarrow> c = CHR 0x5C"
  "lower_char c = CHR ''%'' \<longleftrightarrow> c = CHR ''%''"
  "lower_char c = CHR ''_'' \<longleftrightarrow> c = CHR ''_''"
proof -
  have "lower_char c \<notin> {CHR 0x5C, CHR ''%'', CHR ''_''}" if "is_upper_ascii c"
  proof -
    have "of_char (lower_char c) = (of_char c :: nat) + 32" "65 \<le> (of_char c :: nat)"
      using that by (simp_all add: lower_char_def of_char_upper_ascii)
    then have "97 \<le> (of_char (lower_char c) :: nat)" by simp
    then show ?thesis by (auto simp: of_char_eq_iff)
  qed
  moreover have "lower_char c = c" if "\<not> is_upper_ascii c" using that by (simp add: lower_char_def)
  moreover have "\<not> is_upper_ascii (CHR 0x5C)" "\<not> is_upper_ascii (CHR ''%'')" "\<not> is_upper_ascii (CHR ''_'')"
    by (simp_all add: of_char_upper_ascii)
  ultimately show "lower_char c = CHR 0x5C \<longleftrightarrow> c = CHR 0x5C"
    "lower_char c = CHR ''%'' \<longleftrightarrow> c = CHR ''%''" "lower_char c = CHR ''_'' \<longleftrightarrow> c = CHR ''_''"
    by (metis insertCI)+
qed

lemma lower_escape_like: "lower (escape_like q) = escape_like (lower q)"
  by (induction q) (auto simp: lower_def lower_char_special)

lemma ilike_literal: "ilike column (''%'' @ escape_like q @ ''%'') \<longleftrightarrow> contains (lower column) (lower q)"
proof -
  have "lower (''%'' @ escape_like q @ ''%'') = CHR ''%'' # escape_like (lower q) @ [CHR ''%'']"
    using lower_escape_like [of q] by (simp add: lower_def lower_char_special)
  then show ?thesis
    by (simp only: ilike_def like_match_percent like_match_literal contains_iff) auto
qed

section \<open>Bands as an ordered type\<close>

text \<open>The abstract reading of \<open>risk_level\<close>: four bands, ordered by severity.\<close>

datatype band = Low | Medium | High | Critical

fun band_rank :: "band \<Rightarrow> nat" where
  "band_rank Low = 0" | "band_rank Medium = 1" | "band_rank High = 2" | "band_rank Critical = 3"

instantiation band :: linorder
begin

definition "a \<le> b \<longleftrightarrow> band_rank a \<le> band_rank b"
definition "a < b \<longleftrightarrow> band_rank a < band_rank b"

instance
proof
  show "a \<le> b \<Longrightarrow> b \<le> a \<Longrightarrow> a = b" for a b :: band
    by (cases a; cases b) (simp_all add: less_eq_band_def)
qed (auto simp: less_eq_band_def less_band_def)

end

fun band_name :: "band \<Rightarrow> string" where
  "band_name Low = ''low''" | "band_name Medium = ''medium''"
| "band_name High = ''high''" | "band_name Critical = ''critical''"

definition band_of :: "int \<Rightarrow> band" where
  "band_of s = (if s \<ge> 75 then Critical else if s \<ge> 50 then High else if s \<ge> 25 then Medium else Low)"

lemma band_name_inj [simp]: "band_name a = band_name b \<longleftrightarrow> a = b"
  by (cases a; cases b) auto

lemma risk_level_band: "risk_level s = band_name (band_of s)"
  by (simp add: risk_level_cases band_of_def)

lemma risk_bands_eq:
  "RISK_BANDS = [(''critical'', 75, None), (''high'', 50, Some 75), (''medium'', 25, Some 50),
                 (''low'', 0, Some 25)]"
  by (simp add: RISK_BANDS_def RISK_LEVEL_THRESHOLDS_def)

section \<open>Properties\<close>

lemma band_of_mono: "s \<le> t \<Longrightarrow> band_of s \<le> band_of t"
  by (auto simp: band_of_def less_eq_band_def)

lemma risk_filter_band:
  assumes "0 \<le> r" and "x_risk_score x = Some r"
  shows "risk_filter (Some (band_name b)) x \<longleftrightarrow>
           \<not> (x_risk_override x = ''allow'' \<and> \<not> x_threat_match x) \<and> band_of r = b"
  using assms by (cases b) (auto simp: risk_filter_def Let_def risk_bands_eq band_of_def)

lemma risk_filter_unscored:
  "x_risk_score x = None \<Longrightarrow> \<not> risk_filter (Some (band_name b)) x"
  by (cases b) (auto simp: risk_filter_def Let_def risk_bands_eq)

text \<open>C17: the risk filter of the list, the export and the dashboard selects exactly the rows
  shown with that level: a band filter keeps a row when its effective level is the band, and
  ''suppressed'' keeps the rows an allow hides.\<close>

theorem risk_filter_effective_level:
  assumes "\<And>r. x_risk_score x = Some r \<Longrightarrow> 0 \<le> r"
  shows "(risk_filter (Some (band_name b)) x \<longleftrightarrow>
            effective_risk_level (x_risk_score x) (x_threat_match x) (x_risk_override x)
              = Some (band_name b)) \<and>
         (risk_filter (Some ''suppressed'') x \<longleftrightarrow>
            effective_risk_level (x_risk_score x) (x_threat_match x) (x_risk_override x)
              = Some ''suppressed'')"
proof
  have name: "''suppressed'' \<noteq> band_name c" "band_name c \<noteq> ''suppressed''" for c
    by (cases c, auto)+
  show "risk_filter (Some (band_name b)) x \<longleftrightarrow>
          effective_risk_level (x_risk_score x) (x_threat_match x) (x_risk_override x)
            = Some (band_name b)"
    using assms name [of b] risk_filter_unscored [of x b] risk_filter_band [of _ x b]
    by (cases "x_risk_score x")
       (auto simp: effective_risk_level_def risk_level_opt_def risk_level_band)
  show "risk_filter (Some ''suppressed'') x \<longleftrightarrow>
          effective_risk_level (x_risk_score x) (x_threat_match x) (x_risk_override x)
            = Some ''suppressed''"
    by (auto simp: risk_filter_def Let_def effective_risk_level_def risk_level_opt_def name
        risk_level_band split: option.splits)
qed

lemma risk_filter_effective_level_witness:
  "(risk_filter (Some (band_name High)) sample_extension \<longleftrightarrow>
      effective_risk_level (Some 60) False ''none'' = Some (band_name High)) \<and>
   (risk_filter (Some ''suppressed'') sample_extension \<longleftrightarrow>
      effective_risk_level (Some 60) False ''none'' = Some ''suppressed'')"
  using risk_filter_effective_level [of sample_extension High] by (simp add: sample_extension_def)


end
