(* ===== verification/Retention.thy ===== *)
theory Retention
  imports Models
begin

text \<open>
  \<open>app/retention.py\<close>: the freshness window of install observations, the recomputation of the
  cached footprints, and the pruning of the history tables. The functions work on the
  session's database; the scheduler entry points commit it.
\<close>

record retention_settings =
  rt_inventory_freshness_days :: int
  rt_retention_days :: int

definition freshness_cutoff :: "retention_settings \<Rightarrow> instant \<Rightarrow> instant option" where
  "freshness_cutoff s now =
     (if rt_inventory_freshness_days s \<le> 0 then None
      else Some (now - rt_inventory_freshness_days s * usec_per_day))"

text \<open>\<open>count(distinct asset_id)\<close> over the observations of one extension that are fresh.\<close>

definition fresh_assets :: "instant option \<Rightarrow> int \<Rightarrow> install_observation list \<Rightarrow> string list" where
  "fresh_assets cutoff ext_id obs =
     map io_asset_id
       (filter (\<lambda>o'. io_extension_id o' = ext_id \<and>
                     (case cutoff of None \<Rightarrow> True | Some c \<Rightarrow> io_last_seen o' \<ge> c)) obs)"

definition fresh_count :: "instant option \<Rightarrow> int \<Rightarrow> install_observation list \<Rightarrow> int" where
  "fresh_count cutoff ext_id obs = int (length (remdups (fresh_assets cutoff ext_id obs)))"

definition footprint_touched :: "db \<Rightarrow> extension \<Rightarrow> bool" where
  "footprint_touched d x \<longleftrightarrow>
     x_install_footprint x \<noteq> None \<or> x_id x \<in> set (map io_extension_id (db_observations d))"

definition refresh_install_footprints ::
    "retention_settings \<Rightarrow> instant \<Rightarrow> db \<Rightarrow> int \<times> db" where
  "refresh_install_footprints s now d =
     (let cutoff = freshness_cutoff s now in
      (int (length (filter (footprint_touched d) (db_extensions d))),
       d\<lparr>db_extensions := map (\<lambda>x.
           if footprint_touched d x
           then x\<lparr>x_install_footprint := Some (fresh_count cutoff (x_id x) (db_observations d))\<rparr>
           else x) (db_extensions d)\<rparr>))"

definition run_footprint_refresh :: "retention_settings \<Rightarrow> instant \<Rightarrow> db \<Rightarrow> int \<times> db" where
  "run_footprint_refresh s now d =
     (if rt_inventory_freshness_days s \<le> 0 then (0, d) else refresh_install_footprints s now d)"

section \<open>Pruning\<close>

record prune_counts =
  pc_fetch_logs :: int
  pc_install_history :: int
  pc_alert_logs :: int
  pc_observations :: int

definition no_counts :: prune_counts where
  "no_counts = \<lparr>pc_fetch_logs = 0, pc_install_history = 0, pc_alert_logs = 0, pc_observations = 0\<rparr>"

text \<open>\<open>DELETE FROM t WHERE ts < cutoff\<close>, with its row count.\<close>

definition sa_delete :: "('a \<Rightarrow> instant) \<Rightarrow> instant \<Rightarrow> 'a list \<Rightarrow> int \<times> 'a list" where
  "sa_delete ts cutoff rows =
     (int (length (filter (\<lambda>r. ts r < cutoff) rows)), filter (\<lambda>r. \<not> ts r < cutoff) rows)"

definition prune_expired ::
    "retention_settings \<Rightarrow> int \<Rightarrow> instant \<Rightarrow> db \<Rightarrow> prune_counts \<times> db" where
  "prune_expired s retention_days now d =
     (if retention_days \<le> 0 then (no_counts, d)
      else
        let cutoff = now - retention_days * usec_per_day;
            (n1, fetch_logs) = sa_delete fl_fetched_at cutoff (db_fetch_logs d);
            (n2, history) = sa_delete ih_recorded_at cutoff (db_install_history d);
            (n3, alert_logs) = sa_delete al_sent_at cutoff (db_alert_logs d);
            (n4, observations) = sa_delete io_last_seen cutoff (db_observations d);
            d' = d\<lparr>db_fetch_logs := fetch_logs, db_install_history := history,
                   db_alert_logs := alert_logs, db_observations := observations\<rparr>;
            counts = \<lparr>pc_fetch_logs = n1, pc_install_history = n2, pc_alert_logs = n3,
                      pc_observations = n4\<rparr>
        in (counts, if n4 \<noteq> 0 then snd (refresh_install_footprints s now d') else d'))"

definition run_retention_prune ::
    "retention_settings \<Rightarrow> instant \<Rightarrow> db \<Rightarrow> prune_counts option \<times> db" where
  "run_retention_prune s now d =
     (if rt_retention_days s \<le> 0 then (None, d)
      else let (counts, d') = prune_expired s (rt_retention_days s) now d in (Some counts, d'))"

section \<open>Footprints agree with the observations\<close>

definition footprints_synced :: "retention_settings \<Rightarrow> instant \<Rightarrow> db \<Rightarrow> bool" where
  "footprints_synced s now d \<longleftrightarrow>
     (\<forall>x \<in> set (db_extensions d).
        if footprint_touched d x
        then x_install_footprint x =
               Some (fresh_count (freshness_cutoff s now) (x_id x) (db_observations d))
        else x_install_footprint x = None)"

lemma refresh_footprints_frame [simp]:
  "db_observations (snd (refresh_install_footprints s now d)) = db_observations d"
  "db_fetch_logs (snd (refresh_install_footprints s now d)) = db_fetch_logs d"
  "db_install_history (snd (refresh_install_footprints s now d)) = db_install_history d"
  "db_alert_logs (snd (refresh_install_footprints s now d)) = db_alert_logs d"
  by (simp_all add: refresh_install_footprints_def Let_def)

lemma refresh_footprints_synced [invariants]:
  "footprints_synced s now (snd (refresh_install_footprints s now d))"
  by (auto simp: footprints_synced_def refresh_install_footprints_def footprint_touched_def Let_def)

lemma sa_delete_none: "fst (sa_delete ts cutoff rows) = 0 \<Longrightarrow> snd (sa_delete ts cutoff rows) = rows"
  by (simp add: sa_delete_def filter_empty_conv)

lemma synced_cong:
  "db_extensions d = db_extensions e \<Longrightarrow> db_observations d = db_observations e \<Longrightarrow>
     footprints_synced s now d \<longleftrightarrow> footprints_synced s now e"
  by (simp add: footprints_synced_def footprint_touched_def)

lemma prune_expired_synced [invariants]:
  assumes "footprints_synced s now d"
  shows "footprints_synced s now (snd (prune_expired s days now d))"
proof (cases "days \<le> 0 \<or> fst (sa_delete io_last_seen (now - days * usec_per_day) (db_observations d)) = 0")
  case True
  have "footprints_synced s now e" if "db_extensions e = db_extensions d"
    "db_observations e = db_observations d" for e
    using assms that synced_cong [of e d] by simp
  then show ?thesis
    using True assms sa_delete_none [of io_last_seen "now - days * usec_per_day" "db_observations d"]
    by (auto simp: prune_expired_def Let_def split: prod.splits)
next
  case False
  then show ?thesis
    by (auto simp: prune_expired_def Let_def refresh_footprints_synced split: prod.splits)
qed

section \<open>Properties\<close>

text \<open>Pruning deletes exactly the history rows older than the window, in all four tables and
  nowhere else, reports how many, and leaves every cached footprint equal to the number of
  distinct assets still freshly seen.\<close>

theorem prune_expired_correct:
  assumes "0 < days" and "footprints_synced s now d" and "prune_expired s days now d = (counts, d')"
  shows "db_fetch_logs d' = filter (\<lambda>r. fl_fetched_at r \<ge> now - days * usec_per_day) (db_fetch_logs d) \<and>
         db_install_history d' =
           filter (\<lambda>r. ih_recorded_at r \<ge> now - days * usec_per_day) (db_install_history d) \<and>
         db_alert_logs d' = filter (\<lambda>r. al_sent_at r \<ge> now - days * usec_per_day) (db_alert_logs d) \<and>
         db_observations d' =
           filter (\<lambda>r. io_last_seen r \<ge> now - days * usec_per_day) (db_observations d) \<and>
         pc_alert_logs counts + int (length (db_alert_logs d')) = int (length (db_alert_logs d)) \<and>
         db_snapshots d' = db_snapshots d \<and> db_audit_logs d' = db_audit_logs d \<and>
         map x_id (db_extensions d') = map x_id (db_extensions d) \<and>
         footprints_synced s now d'"
proof -
  have d': "d' = snd (prune_expired s days now d)" using assms(3) by simp
  have len: "int (length (filter (\<lambda>r. al_sent_at r < c) xs)) +
      int (length (filter (\<lambda>r. c \<le> al_sent_at r) xs)) = int (length xs)" for c xs
    using sum_length_filter_compl [of "\<lambda>r. al_sent_at r < c" xs] by (simp add: not_less)
  show ?thesis
    unfolding d' using assms prune_expired_synced [OF assms(2), of days]
    by (auto simp: prune_expired_def refresh_install_footprints_def sa_delete_def Let_def not_less len
        split: prod.splits if_splits intro!: filter_cong)
qed

lemma prune_expired_correct_witness:
  "\<exists>d' :: db. snd (prune_expired \<lparr>rt_inventory_freshness_days = 30, rt_retention_days = 1\<rparr> 1 0 empty_db) = d' \<and>
     db_fetch_logs d' = []"
proof -
  let ?s = "\<lparr>rt_inventory_freshness_days = 30, rt_retention_days = 1\<rparr>"
  obtain counts d' where p: "prune_expired ?s 1 0 empty_db = (counts, d')"
    by (cases "prune_expired ?s 1 0 empty_db")
  have "footprints_synced ?s 0 empty_db" by (simp add: footprints_synced_def empty_db_def)
  from prune_expired_correct [OF _ this p] p show ?thesis by (simp add: empty_db_def)
qed

end
