(* ===== verification/Ratelimit.thy ===== *)
theory Ratelimit
  imports Prelude Complex_Main
begin

text \<open>
  \<open>app/ratelimit.py\<close>: the failure-keyed login lockout and the token-bucket request limiter.

  Times and tokens are floats in the source; the model computes with exact rationals. A
  dictionary is an association list in insertion order. Each method reads the clock where
  the source does: \<open>now\<close> at its start and \<open>later\<close> when pruning.
\<close>

section \<open>Dictionaries\<close>

fun assoc_put :: "'k \<Rightarrow> 'v \<Rightarrow> ('k \<times> 'v) list \<Rightarrow> ('k \<times> 'v) list" where
  "assoc_put k v [] = [(k, v)]"
| "assoc_put k v ((k', v') # es) = (if k' = k then (k, v) # es else (k', v') # assoc_put k v es)"

definition assoc_pop :: "'k \<Rightarrow> ('k \<times> 'v) list \<Rightarrow> ('k \<times> 'v) list" where
  "assoc_pop k es = filter (\<lambda>e. fst e \<noteq> k) es"

lemma map_of_assoc_put [simp]: "map_of (assoc_put k v es) = (map_of es)(k \<mapsto> v)"
  by (induction k v es rule: assoc_put.induct) auto

lemma keys_assoc_put:
  "fst ` set (assoc_put k v es) = insert k (fst ` set es)"
  by (induction k v es rule: assoc_put.induct) auto

lemma length_assoc_put:
  "length (assoc_put k v es) = (if k \<in> fst ` set es then length es else Suc (length es))"
  by (induction k v es rule: assoc_put.induct) auto

lemma distinct_assoc_put:
  "distinct (map fst es) \<Longrightarrow> distinct (map fst (assoc_put k v es))"
  by (induction k v es rule: assoc_put.induct) (auto simp: keys_assoc_put)

lemma map_of_assoc_pop [simp]: "map_of (assoc_pop k es) k' = (if k' = k then None else map_of es k')"
  by (induction es) (auto simp: assoc_pop_def)

section \<open>Pruning\<close>

definition MAX_ENTRIES :: nat where "MAX_ENTRIES = 10000"

text \<open>Both limiters prune the same way: over budget, drop the entries that carry no state any
  more, then the oldest until the budget is met.\<close>

definition maybe_prune :: "('v \<Rightarrow> bool) \<Rightarrow> ('v \<Rightarrow> rat) \<Rightarrow> ('k \<times> 'v) list \<Rightarrow> ('k \<times> 'v) list" where
  "maybe_prune stale age es =
     (if length es \<le> MAX_ENTRIES then es
      else
        let es1 = filter (\<lambda>e. \<not> stale (snd e)) es
        in if length es1 > MAX_ENTRIES
           then
             let victims = map fst (take (length es1 - MAX_ENTRIES) (sort_key (\<lambda>e. age (snd e)) es1))
             in filter (\<lambda>e. fst e \<notin> set victims) es1
           else es1)"

lemma maybe_prune_small: "length es \<le> MAX_ENTRIES \<Longrightarrow> maybe_prune stale age es = es"
  by (simp add: maybe_prune_def)

lemma maybe_prune_sub: "set (maybe_prune stale age es) \<subseteq> set es"
  by (auto simp: maybe_prune_def Let_def)

lemma length_filter_not_in_keys:
  assumes "distinct (map fst es)" and "set vs \<subseteq> fst ` set es" and "distinct vs"
  shows "length (filter (\<lambda>e. fst e \<notin> set vs) es) = length es - length vs"
proof -
  have d: "distinct es" using assms(1) by (simp add: distinct_map)
  have inj: "inj_on fst (set es)" using assms(1) by (simp add: distinct_map)
  have "card (fst ` {e \<in> set es. fst e \<in> set vs}) = card {e \<in> set es. fst e \<in> set vs}"
    by (rule card_image) (rule inj_on_subset [OF inj], auto)
  moreover have "fst ` {e \<in> set es. fst e \<in> set vs} = set vs" using assms(2) by auto
  ultimately have v: "card {e \<in> set es. fst e \<in> set vs} = length vs"
    using assms(3) by (simp add: distinct_card)
  have "length (filter (\<lambda>e. fst e \<in> set vs) es) = card {e \<in> set es. fst e \<in> set vs}"
    using d by (metis distinct_card distinct_filter set_filter)
  with v sum_length_filter_compl [of "\<lambda>e. fst e \<in> set vs" es] show ?thesis by simp
qed

lemma maybe_prune_bound:
  assumes "distinct (map fst es)"
  shows "length (maybe_prune stale age es) \<le> MAX_ENTRIES"
proof -
  let ?es1 = "filter (\<lambda>e. \<not> stale (snd e)) es"
  let ?vs = "map fst (take (length ?es1 - MAX_ENTRIES) (sort_key (\<lambda>e. age (snd e)) ?es1))"
  have d1: "distinct (map fst ?es1)" using assms by (simp add: distinct_map_filter)
  then have ds: "distinct (map fst (sort_key (\<lambda>e. age (snd e)) ?es1))"
    by (simp add: distinct_map)
  have "distinct ?vs"
    using ds by (metis distinct_take take_map)
  moreover have "set ?vs \<subseteq> fst ` set ?es1"
    using image_mono [OF set_take_subset, of fst _ "sort_key (\<lambda>e. age (snd e)) ?es1"] by simp
  ultimately have "length (filter (\<lambda>e. fst e \<notin> set ?vs) ?es1) = length ?es1 - length ?vs"
    by (rule length_filter_not_in_keys [OF d1, rotated 1])
  then have "length ?es1 > MAX_ENTRIES \<Longrightarrow>
      length (filter (\<lambda>e. fst e \<notin> set ?vs) ?es1) \<le> MAX_ENTRIES" by simp
  then show ?thesis by (auto simp: maybe_prune_def Let_def)
qed

section \<open>The login limiter\<close>

record login_entry =
  le_failures :: int
  le_window_start :: rat
  le_locked_until :: rat

record login_limiter =
  ll_max_attempts :: int
  ll_window_seconds :: rat
  ll_lockout_seconds :: rat
  ll_entries :: "(string \<times> login_entry) list"

definition new_login_limiter :: "int \<Rightarrow> rat \<Rightarrow> rat \<Rightarrow> login_limiter" where
  "new_login_limiter max_attempts window lockout =
     \<lparr>ll_max_attempts = max_attempts, ll_window_seconds = window, ll_lockout_seconds = lockout,
      ll_entries = []\<rparr>"

definition limiter_key :: "string option \<Rightarrow> string \<Rightarrow> string" where
  "limiter_key ip username =
     (case ip of Some (c # s) \<Rightarrow> c # s | _ \<Rightarrow> ''-'') @ ''|'' @ lower username"

text \<open>\<open>int(r) + 1\<close> of a positive number.\<close>

definition retry_after :: "string \<Rightarrow> rat \<Rightarrow> login_limiter \<Rightarrow> int option" where
  "retry_after key now l =
     (case map_of (ll_entries l) key of
        None \<Rightarrow> None
      | Some e \<Rightarrow>
          let remaining = le_locked_until e - now
          in if remaining > 0 then Some (\<lfloor>remaining\<rfloor> + 1) else None)"

definition fail_entry :: "login_limiter \<Rightarrow> rat \<Rightarrow> login_entry option \<Rightarrow> login_entry" where
  "fail_entry l now entry =
     (let fresh = \<lparr>le_failures = 0, le_window_start = now, le_locked_until = 0\<rparr>;
          e = (case entry of
                 None \<Rightarrow> fresh
               | Some e \<Rightarrow> if now - le_window_start e > ll_window_seconds l then fresh else e);
          e' = e\<lparr>le_failures := le_failures e + 1\<rparr>
      in if le_failures e' \<ge> ll_max_attempts l
         then e'\<lparr>le_locked_until := now + ll_lockout_seconds l\<rparr> else e')"

definition login_stale :: "login_limiter \<Rightarrow> rat \<Rightarrow> login_entry \<Rightarrow> bool" where
  "login_stale l now e \<longleftrightarrow>
     le_locked_until e \<le> now \<and> now - le_window_start e > ll_window_seconds l"

definition record_failure :: "string \<Rightarrow> rat \<Rightarrow> rat \<Rightarrow> login_limiter \<Rightarrow> login_limiter" where
  "record_failure key now later l =
     l\<lparr>ll_entries :=
         maybe_prune (login_stale l later) le_window_start
           (assoc_put key (fail_entry l now (map_of (ll_entries l) key)) (ll_entries l))\<rparr>"

definition login_reset :: "string \<Rightarrow> login_limiter \<Rightarrow> login_limiter" where
  "login_reset key l = l\<lparr>ll_entries := assoc_pop key (ll_entries l)\<rparr>"

section \<open>The token bucket\<close>

record bucket =
  bk_tokens :: rat
  bk_updated :: rat

record request_limiter =
  rl_per_minute :: int
  rl_burst :: int
  rl_buckets :: "(string \<times> bucket) list"

definition new_request_limiter :: "int \<Rightarrow> int \<Rightarrow> request_limiter" where
  "new_request_limiter per_minute burst =
     \<lparr>rl_per_minute = per_minute, rl_burst = burst, rl_buckets = []\<rparr>"

definition rate_per_second :: "request_limiter \<Rightarrow> rat" where
  "rate_per_second l = of_int (rl_per_minute l) / 60"

text \<open>A rate of zero makes the \<open>Retry-After\<close> quotient raise \<open>ZeroDivisionError\<close>.\<close>

datatype decision = Allowed | RetryAfter int | DivisionByZero

definition refill :: "request_limiter \<Rightarrow> rat \<Rightarrow> bucket option \<Rightarrow> bucket" where
  "refill l now b =
     (case b of
        None \<Rightarrow> \<lparr>bk_tokens = of_int (rl_burst l), bk_updated = now\<rparr>
      | Some b \<Rightarrow>
          \<lparr>bk_tokens = min (of_int (rl_burst l)) (bk_tokens b + (now - bk_updated b) * rate_per_second l),
           bk_updated = now\<rparr>)"

text \<open>\<open>int\<close> truncates towards zero.\<close>

definition py_int :: "rat \<Rightarrow> int" where
  "py_int r = (if r \<ge> 0 then \<lfloor>r\<rfloor> else \<lceil>r\<rceil>)"

definition bucket_check :: "request_limiter \<Rightarrow> rat \<Rightarrow> bucket option \<Rightarrow> decision \<times> bucket" where
  "bucket_check l now bucket =
     (let b = refill l now bucket in
      if bk_tokens b \<ge> 1 then (Allowed, b\<lparr>bk_tokens := bk_tokens b - 1\<rparr>)
      else if rate_per_second l = 0 then (DivisionByZero, b)
      else (RetryAfter (py_int ((1 - bk_tokens b) / rate_per_second l) + 1), b))"

definition bucket_full :: "request_limiter \<Rightarrow> rat \<Rightarrow> bucket \<Rightarrow> bool" where
  "bucket_full l now b \<longleftrightarrow>
     bk_tokens b + (now - bk_updated b) * rate_per_second l \<ge> of_int (rl_burst l)"

definition request_check ::
    "string \<Rightarrow> rat \<Rightarrow> rat \<Rightarrow> request_limiter \<Rightarrow> decision \<times> request_limiter" where
  "request_check key now later l =
     (let (outc, b) = bucket_check l now (map_of (rl_buckets l) key);
          buckets = assoc_put key b (rl_buckets l)
      in (outc, l\<lparr>rl_buckets := (if outc = Allowed
                                  then maybe_prune (bucket_full l later) bk_updated buckets
                                  else buckets)\<rparr>))"

section \<open>The meter interface\<close>

text \<open>What any token meter promises: a level that grows with time at most at the rate and never
  passes the capacity, and a request that takes one unit when it is allowed and none when it is
  not. The bound on every window of requests follows from these laws alone.\<close>

locale token_meter =
  fixes level :: "'s \<Rightarrow> rat \<Rightarrow> rat"
    and take_one :: "rat \<Rightarrow> 's \<Rightarrow> bool \<times> 's"
    and rate :: rat and capacity :: rat
  assumes rate_nonneg: "0 \<le> rate"
    and level_capacity: "level s t \<le> capacity"
    and level_grows: "t \<le> t' \<Longrightarrow> level s t' \<le> level s t + rate * (t' - t)"
    and take_allowed: "take_one t s = (True, s') \<Longrightarrow> level s' t \<le> level s t - 1 \<and> 1 \<le> level s t"
    and take_refused: "take_one t s = (False, s') \<Longrightarrow> level s' t \<le> level s t"
begin

fun allowed :: "rat list \<Rightarrow> 's \<Rightarrow> nat" where
  "allowed [] s = 0"
| "allowed (t # ts) s =
     (let (ok, s') = take_one t s in (if ok then 1 else 0) + allowed ts s')"

lemma allowed_level:
  assumes "sorted (t # ts)"
  shows "rat_of_nat (allowed (t # ts) s) \<le> max 0 (level s t) + rate * (last (t # ts) - t)"
  using assms
proof (induction ts arbitrary: t s)
  case Nil
  show ?case
    using take_allowed [of t s] by (cases "take_one t s") (fastforce simp: max_def)
next
  case (Cons t' ts)
  obtain ok s' where step: "take_one t s = (ok, s')" by force
  from Cons.prems have tt: "t \<le> t'" and st: "sorted (t' # ts)" by auto
  have IH: "rat_of_nat (allowed (t' # ts) s') \<le> max 0 (level s' t') + rate * (last (t' # ts) - t')"
    using Cons.IH [OF st] .
  have lv: "level s' t' \<le> level s' t + rate * (t' - t)" using level_grows [OF tt] .
  have after: "level s' t \<le> level s t - (if ok then 1 else 0)" "ok \<Longrightarrow> 1 \<le> level s t"
    using step take_allowed [of t s s'] take_refused [of t s s'] by (cases ok; simp)+
  have split: "rate * (last (t' # ts) - t) = rate * (last (t' # ts) - t') + rate * (t' - t)"
    by (simp add: algebra_simps)
  have nn: "0 \<le> rate * (t' - t)" using rate_nonneg tt by simp
  show ?case
    using IH lv after split nn step by (cases ok) (auto simp: max_def split: if_splits)
qed

lemma allowed_window:
  assumes "sorted (t # ts)"
  shows "rat_of_nat (allowed (t # ts) s) \<le> max 0 capacity + rate * (last (t # ts) - t)"
  using allowed_level [OF assms, of s] level_capacity [of s t] by (auto simp: max_def split: if_splits)

end

section \<open>The bucket is such a meter\<close>

definition bucket_level :: "request_limiter \<Rightarrow> bucket option \<Rightarrow> rat \<Rightarrow> rat" where
  "bucket_level l s t = bk_tokens (refill l t s)"

definition bucket_take :: "request_limiter \<Rightarrow> rat \<Rightarrow> bucket option \<Rightarrow> bool \<times> bucket option" where
  "bucket_take l t s = (let (outc, b) = bucket_check l t s in (outc = Allowed, Some b))"

lemma refill_cong:
  "rl_per_minute l = rl_per_minute l' \<Longrightarrow> rl_burst l = rl_burst l' \<Longrightarrow> refill l = refill l'"
  by (simp add: refill_def rate_per_second_def fun_eq_iff split: option.splits)

lemma bucket_check_cong:
  "rl_per_minute l = rl_per_minute l' \<Longrightarrow> rl_burst l = rl_burst l' \<Longrightarrow> bucket_check l = bucket_check l'"
  using refill_cong [of l l'] by (simp add: bucket_check_def rate_per_second_def fun_eq_iff Let_def)

lemma refill_same [simp]: "bk_updated (refill l t s) = t"
  by (simp add: refill_def split: option.splits)

lemma refill_le_burst: "bk_tokens (refill l t s) \<le> of_int (rl_burst l)"
  by (simp add: refill_def split: option.splits)

lemma refill_after_take:
  "0 \<le> k \<Longrightarrow> bk_tokens (refill l t (Some ((refill l t s)\<lparr>bk_tokens := bk_tokens (refill l t s) - k\<rparr>)))
     = bk_tokens (refill l t s) - k"
  using refill_le_burst [of l t s] by (subst refill_def) simp

lemma refill_again: "bk_tokens (refill l t (Some (refill l t s))) = bk_tokens (refill l t s)"
  using refill_le_burst [of l t s] by (subst refill_def) simp

lemma min_add_grow: "0 \<le> (d :: rat) \<Longrightarrow> min b (x + d) \<le> min b x + d"
  by (simp add: min_def)

interpretation tb: token_meter "bucket_level (new_request_limiter (int n) burst)"
    "bucket_take (new_request_limiter (int n) burst)"
    "rate_per_second (new_request_limiter (int n) burst)" "of_int burst"
  for n :: nat and burst :: int
proof
  let ?l = "new_request_limiter (int n) burst"
  let ?r = "rate_per_second ?l"
  show r: "0 \<le> ?r" by (simp add: rate_per_second_def new_request_limiter_def)
  show "bucket_level ?l s t \<le> of_int burst" for s t
    using refill_le_burst [of ?l t s] by (simp add: bucket_level_def new_request_limiter_def)
  show "bucket_level ?l s t' \<le> bucket_level ?l s t + ?r * (t' - t)" if "t \<le> t'" for s t t'
  proof (cases s)
    case None
    then show ?thesis using r that by (simp add: bucket_level_def refill_def)
  next
    case (Some b)
    have e: "bk_tokens b + (t' - bk_updated b) * ?r
            = (bk_tokens b + (t - bk_updated b) * ?r) + ?r * (t' - t)" by (simp add: algebra_simps)
    show ?thesis
      using r that min_add_grow [of "?r * (t' - t)"] by (simp add: Some bucket_level_def refill_def e)
  qed
  show "bucket_level ?l s' t \<le> bucket_level ?l s t - 1 \<and> 1 \<le> bucket_level ?l s t"
    if "bucket_take ?l t s = (True, s')" for s s' t
    using that refill_after_take [of 1 ?l t s]
    by (auto simp: bucket_take_def bucket_check_def bucket_level_def Let_def split: if_splits)
  show "bucket_level ?l s' t \<le> bucket_level ?l s t"
    if "bucket_take ?l t s = (False, s')" for s s' t
    using that refill_again [of ?l t s]
    by (auto simp: bucket_take_def bucket_check_def bucket_level_def Let_def split: if_splits)
qed

section \<open>Runs of the request limiter\<close>

fun run_requests :: "(string \<times> rat \<times> rat) list \<Rightarrow> request_limiter \<Rightarrow> request_limiter" where
  "run_requests [] l = l"
| "run_requests ((key, now, later) # reqs) l = run_requests reqs (snd (request_check key now later l))"

fun allowed_for :: "string \<Rightarrow> (string \<times> rat \<times> rat) list \<Rightarrow> request_limiter \<Rightarrow> nat" where
  "allowed_for k [] l = 0"
| "allowed_for k ((key, now, later) # reqs) l =
     (let (outc, l') = request_check key now later l
      in (if key = k \<and> outc = Allowed then 1 else 0) + allowed_for k reqs l')"

definition times_of :: "string \<Rightarrow> (string \<times> rat \<times> rat) list \<Rightarrow> rat list" where
  "times_of k reqs = map (fst \<circ> snd) (filter (\<lambda>r. fst r = k) reqs)"

definition limiter_room :: "string set \<Rightarrow> request_limiter \<Rightarrow> bool" where
  "limiter_room K l \<longleftrightarrow> distinct (map fst (rl_buckets l)) \<and> fst ` set (rl_buckets l) \<subseteq> K"

lemma request_check_room:
  assumes "limiter_room K l" and "finite K" and "card K \<le> MAX_ENTRIES" and "key \<in> K"
  shows "request_check key now later l =
           (let (outc, b) = bucket_check l now (map_of (rl_buckets l) key)
            in (outc, l\<lparr>rl_buckets := assoc_put key b (rl_buckets l)\<rparr>))"
    and "limiter_room K (snd (request_check key now later l))"
    and "rl_per_minute (snd (request_check key now later l)) = rl_per_minute l"
    and "rl_burst (snd (request_check key now later l)) = rl_burst l"
proof -
  have sub: "fst ` set (assoc_put key b (rl_buckets l)) \<subseteq> K" for b
    using assms by (auto simp: keys_assoc_put limiter_room_def)
  have dis: "distinct (map fst (assoc_put key b (rl_buckets l)))" for b
    using assms by (simp add: distinct_assoc_put limiter_room_def)
  have "length (assoc_put key b (rl_buckets l)) \<le> MAX_ENTRIES" for b
    using card_mono [OF assms(2) sub [of b]] dis [of b] assms(3)
    by (metis distinct_card le_trans length_map list.set_map)
  then show *: "request_check key now later l =
           (let (outc, b) = bucket_check l now (map_of (rl_buckets l) key)
            in (outc, l\<lparr>rl_buckets := assoc_put key b (rl_buckets l)\<rparr>))"
    by (simp add: request_check_def maybe_prune_small Let_def split: prod.splits)
  show "limiter_room K (snd (request_check key now later l))"
    "rl_per_minute (snd (request_check key now later l)) = rl_per_minute l"
    "rl_burst (snd (request_check key now later l)) = rl_burst l"
    using sub dis by (simp_all add: * limiter_room_def split: prod.splits)
qed

lemma run_requests_room:
  assumes "limiter_room K l" and "finite K" and "card K \<le> MAX_ENTRIES" and "fst ` set reqs \<subseteq> K"
  shows "limiter_room K (run_requests reqs l)"
    and "rl_per_minute (run_requests reqs l) = rl_per_minute l"
    and "rl_burst (run_requests reqs l) = rl_burst l"
proof -
  have "limiter_room K (run_requests reqs l) \<and>
      rl_per_minute (run_requests reqs l) = rl_per_minute l \<and>
      rl_burst (run_requests reqs l) = rl_burst l"
    using assms
  proof (induction reqs l rule: run_requests.induct)
    case (2 key now later reqs l)
    then show ?case using request_check_room [of K l key now later] by simp
  qed simp
  then show "limiter_room K (run_requests reqs l)"
    and "rl_per_minute (run_requests reqs l) = rl_per_minute l"
    and "rl_burst (run_requests reqs l) = rl_burst l" by simp_all
qed

lemma allowed_for_meter:
  assumes "limiter_room K l" and "finite K" and "card K \<le> MAX_ENTRIES" and "fst ` set reqs \<subseteq> K"
    and "rl_per_minute l = int n" and "rl_burst l = burst"
  shows "allowed_for k reqs l = tb.allowed n burst (times_of k reqs) (map_of (rl_buckets l) k)"
  using assms
proof (induction k reqs l rule: allowed_for.induct)
  case (2 k key now later reqs l)
  let ?l0 = "new_request_limiter (int n) burst"
  have cong: "bucket_check l = bucket_check ?l0"
    using "2.prems" by (intro bucket_check_cong) (simp_all add: new_request_limiter_def)
  obtain outc b where c: "bucket_check l now (map_of (rl_buckets l) key) = (outc, b)" by force
  have step: "request_check key now later l = (outc, l\<lparr>rl_buckets := assoc_put key b (rl_buckets l)\<rparr>)"
    using request_check_room(1) [of K l key now later] "2.prems" c by simp
  have room: "limiter_room K (l\<lparr>rl_buckets := assoc_put key b (rl_buckets l)\<rparr>)"
    using request_check_room(2) [of K l key now later] "2.prems" step by simp
  have IH: "allowed_for k reqs (l\<lparr>rl_buckets := assoc_put key b (rl_buckets l)\<rparr>) =
      tb.allowed n burst (times_of k reqs) (map_of (assoc_put key b (rl_buckets l)) k)"
    using "2.IH" [OF step [symmetric] refl] "2.prems" room by simp
  have take: "bucket_take ?l0 now (map_of (rl_buckets l) key) = (outc = Allowed, Some b)"
    using c by (simp add: bucket_take_def cong [symmetric])
  show ?case
    using step IH take by (simp add: times_of_def)
qed (simp add: times_of_def)

section \<open>Properties\<close>



lemma refused_then_allowed:
  assumes "0 < rl_per_minute l" and "1 \<le> rl_burst l"
    and "bucket_check l now s = (RetryAfter r, b)" and "now + of_int r \<le> now'"
  shows "fst (bucket_check l now' (Some b)) = Allowed"
proof -
  let ?rate = "rate_per_second l"
  have rate: "0 < ?rate" using assms(1) by (simp add: rate_per_second_def)
  have b: "b = refill l now s" and lt: "bk_tokens b < 1"
    and r: "r = py_int ((1 - bk_tokens b) / ?rate) + 1"
    using assms(3) by (auto simp: bucket_check_def Let_def split: if_splits)
  have "(1 - bk_tokens b) / ?rate \<le> of_int r"
    using rate lt unfolding r py_int_def by (simp add: less_imp_le) linarith
  then have need: "1 - bk_tokens b \<le> of_int r * ?rate"
    using rate by (simp add: divide_le_eq)
  have "of_int r * ?rate \<le> (now' - now) * ?rate"
    using assms(4) rate by (intro mult_right_mono) auto
  with need have "1 \<le> bk_tokens b + (now' - bk_updated b) * ?rate"
    by (simp add: b)
  moreover have "1 \<le> (of_int (rl_burst l) :: rat)" using assms(2) by simp
  ultimately have "1 \<le> bk_tokens (refill l now' (Some b))" by (simp add: refill_def)
  then show ?thesis by (simp add: bucket_check_def Let_def)
qed

text \<open>Waiting out the advertised delay is enough. When a request is refused with \<open>Retry-After\<close> r
  and the same client asks again r seconds later, it is allowed.\<close>

theorem request_limiter_retry_after:
  assumes "0 < rl_per_minute l" and "1 \<le> rl_burst l"
    and "request_check k now later l = (RetryAfter r, l')" and "now + of_int r \<le> now'"
  shows "fst (request_check k now' later' l') = Allowed"
proof -
  obtain b where b: "bucket_check l now (map_of (rl_buckets l) k) = (RetryAfter r, b)"
    and l': "l' = l\<lparr>rl_buckets := assoc_put k b (rl_buckets l)\<rparr>"
    using assms(3) by (auto simp: request_check_def Let_def split: prod.splits)
  have "bucket_check l' = bucket_check l" by (rule bucket_check_cong) (simp_all add: l')
  then have "fst (bucket_check l' now' (map_of (rl_buckets l') k)) = Allowed"
    using refused_then_allowed [OF assms(1,2) b assms(4)] by (simp add: l')
  then show ?thesis by (auto simp: request_check_def Let_def split: prod.splits)
qed

lemma request_limiter_retry_after_witness:
  "fst (request_check ''a'' 3 3
      (snd (request_check ''a'' 1 1 (snd (request_check ''a'' 1 1 (new_request_limiter 60 1)))))) = Allowed"
  by (rule request_limiter_retry_after
      [of "snd (request_check ''a'' 1 1 (new_request_limiter 60 1))" "''a''" 1 1 2 _ 3])
     (simp_all add: request_check_def new_request_limiter_def bucket_check_def refill_def
        rate_per_second_def maybe_prune_def MAX_ENTRIES_def py_int_def Let_def)

section \<open>Lockouts\<close>

text \<open>The failures of one key, without the pruning.\<close>

fun record_failures :: "string \<Rightarrow> (rat \<times> rat) list \<Rightarrow> login_limiter \<Rightarrow> login_limiter" where
  "record_failures key [] l = l"
| "record_failures key ((now, later) # ts) l = record_failures key ts (record_failure key now later l)"

lemma record_failure_cfg [simp]:
  "ll_max_attempts (record_failure k now later l) = ll_max_attempts l"
  "ll_window_seconds (record_failure k now later l) = ll_window_seconds l"
  "ll_lockout_seconds (record_failure k now later l) = ll_lockout_seconds l"
  by (simp_all add: record_failure_def)

lemma record_failure_small:
  assumes "length (ll_entries l) < MAX_ENTRIES \<or>
           (length (ll_entries l) \<le> MAX_ENTRIES \<and> k \<in> fst ` set (ll_entries l))"
  shows "ll_entries (record_failure k now later l) =
           assoc_put k (fail_entry l now (map_of (ll_entries l) k)) (ll_entries l)"
proof -
  have "length (assoc_put k e (ll_entries l)) \<le> MAX_ENTRIES" for e
    using assms by (cases "k \<in> fst ` set (ll_entries l)") (auto simp: length_assoc_put)
  then show ?thesis by (simp add: record_failure_def maybe_prune_small)
qed

text \<open>An entry that has counted \<open>n\<close> failures since \<open>start\<close>, the latest at \<open>latest\<close>.\<close>

definition counted :: "login_limiter \<Rightarrow> rat \<Rightarrow> rat \<Rightarrow> nat \<Rightarrow> login_entry \<Rightarrow> bool" where
  "counted l start latest n e \<longleftrightarrow>
     le_failures e = int n \<and> le_window_start e = start \<and>
     le_locked_until e = (if int n \<ge> ll_max_attempts l then latest + ll_lockout_seconds l else 0)"

lemma record_failures_counted:
  assumes "map_of (ll_entries l) key = Some e" and "counted l start latest n e"
    and "length (ll_entries l) \<le> MAX_ENTRIES"
    and "\<forall>t \<in> fst ` set ts. t - start \<le> ll_window_seconds l"
  shows "\<exists>e'. map_of (ll_entries (record_failures key ts l)) key = Some e' \<and>
              counted l start (last (latest # map fst ts)) (n + length ts) e'"
  using assms
proof (induction key ts l arbitrary: e n latest rule: record_failures.induct)
  case (2 key now later ts l)
  let ?l = "record_failure key now later l"
  have mem: "key \<in> fst ` set (ll_entries l)" using "2.prems"(1) by (force dest: map_of_SomeD)
  have ents: "ll_entries ?l = assoc_put key (fail_entry l now (Some e)) (ll_entries l)"
    using record_failure_small [of l key] mem "2.prems"(1,3) by simp
  have c: "counted l start now (Suc n) (fail_entry l now (Some e))"
    using "2.prems"(2,4) by (auto simp: fail_entry_def counted_def Let_def)
  have some: "map_of (ll_entries ?l) key = Some (fail_entry l now (Some e))" by (simp add: ents)
  have c': "counted ?l start now (Suc n) (fail_entry l now (Some e))"
    using c by (simp add: counted_def)
  have len: "length (ll_entries ?l) \<le> MAX_ENTRIES"
    using mem "2.prems"(3) by (simp add: ents length_assoc_put)
  have win: "\<forall>t \<in> fst ` set ts. t - start \<le> ll_window_seconds ?l" using "2.prems"(4) by simp
  have "\<exists>e'. map_of (ll_entries (record_failures key ts ?l)) key = Some e' \<and>
              counted ?l start (last (now # map fst ts)) (Suc n + length ts) e'"
    by (rule "2.IH" [OF some c' len win])
  moreover have "counted ?l = counted l" by (simp add: counted_def fun_eq_iff)
  ultimately show ?case by simp
qed auto

text \<open>A first failure and the ones after it, for a key with no entry.\<close>

lemma record_failures_fresh:
  assumes "length (ll_entries l) < MAX_ENTRIES" and "map_of (ll_entries l) key = None"
    and "\<forall>u \<in> fst ` set ts. u - t \<le> ll_window_seconds l"
  shows "\<exists>e. map_of (ll_entries (record_failures key ((t, t') # ts) l)) key = Some e \<and>
             counted l t (last (t # map fst ts)) (1 + length ts) e"
proof -
  let ?l = "record_failure key t t' l" and ?e = "fail_entry l t None"
  have ents: "ll_entries ?l = assoc_put key ?e (ll_entries l)"
    using record_failure_small [of l key] assms(1,2) by simp
  have c: "counted ?l t t 1 ?e"
    by (auto simp: fail_entry_def counted_def Let_def)
  have "\<exists>e'. map_of (ll_entries (record_failures key ts ?l)) key = Some e' \<and>
             counted ?l t (last (t # map fst ts)) (1 + length ts) e'"
    using ents c assms(1,3) by (intro record_failures_counted) (auto simp: length_assoc_put)
  moreover have "counted ?l = counted l" by (simp add: counted_def fun_eq_iff)
  ultimately show ?thesis by simp
qed

text \<open>The lockout counts exactly. For a client with no entry, a series of failures inside one
  window locks the pair out precisely when it has reached the limit, from the last failure on
  for the lockout time, and the advertised delay is at least the time that remains.\<close>

theorem login_lockout:
  assumes "length (ll_entries l) < MAX_ENTRIES" and "map_of (ll_entries l) key = None"
    and "\<forall>u \<in> fst ` set ts. u - t \<le> ll_window_seconds l"
    and "0 \<le> ll_window_seconds l" and "1 \<le> ll_max_attempts l" and "0 \<le> now"
    and "now < last (map fst ((t, t') # ts)) + ll_lockout_seconds l"
  shows "(case retry_after key now (record_failures key ((t, t') # ts) l) of
            None \<Rightarrow> int (length ((t, t') # ts)) < ll_max_attempts l
          | Some r \<Rightarrow> int (length ((t, t') # ts)) \<ge> ll_max_attempts l \<and>
                      last (map fst ((t, t') # ts)) + ll_lockout_seconds l \<le> now + of_int r)"
proof -
  obtain e' where e': "map_of (ll_entries (record_failures key ((t, t') # ts) l)) key = Some e'"
    "counted l t (last (t # map fst ts)) (1 + length ts) e'"
    using record_failures_fresh [OF assms(1-3)] by blast
  define until where "until = last (t # map fst ts) + ll_lockout_seconds l"
  have until: "now < until" using assms(7) by (simp add: until_def)
  have retry: "retry_after key now (record_failures key ((t, t') # ts) l) =
      (if le_locked_until e' - now > 0 then Some (\<lfloor>le_locked_until e' - now\<rfloor> + 1) else None)"
    using e'(1) by (simp add: retry_after_def Let_def)
  have locked: "le_locked_until e' =
      (if int (length ((t, t') # ts)) \<ge> ll_max_attempts l then until else 0)"
    using e'(2) by (simp add: counted_def until_def)
  have "until \<le> now + of_int (\<lfloor>until - now\<rfloor> + 1)" by linarith
  then show ?thesis
    using until assms(6) unfolding retry by (simp add: locked until_def)
qed

lemma login_lockout_witness:
  "(case retry_after ''-|bob'' 3
           (record_failures ''-|bob'' [(0, 0), (1, 1), (2, 2)] (new_login_limiter 3 300 300)) of
      None \<Rightarrow> int (length [(0 :: rat, 0 :: rat), (1, 1), (2, 2)]) < 3
    | Some r \<Rightarrow> int (length [(0 :: rat, 0 :: rat), (1, 1), (2, 2)]) \<ge> 3 \<and>
        last (map fst [(0 :: rat, 0 :: rat), (1, 1), (2, 2)]) + 300 \<le> 3 + of_int r)"
  using login_lockout [of "new_login_limiter 3 300 300" "''-|bob''" "[(1, 1), (2, 2)]" 0 3 0]
  by (simp add: new_login_limiter_def MAX_ENTRIES_def del: record_failures.simps split: option.splits)

end
