(* ===== verification/Audit_Trail.thy ===== *)
theory Audit_Trail
  imports Models "HOL-Library.Product_Lexorder" "HOL-Library.Multiset"
begin

text \<open>
  The audit trail: \<open>app/audit.py\<close>, which stages a row on the caller's session, and the read side
  \<open>app/routes/audit.py\<close>. Staging is a function on the session's database; the caller's commit
  keeps it together with the change it describes.
\<close>

record audit_actor =
  aa_id :: "int option"
  aa_username :: string
  aa_ip :: "string option"

text \<open>\<open>client_ip\<close>: the peer's host, when the request and its client are known.\<close>

definition client_ip :: "string option option \<Rightarrow> string option" where
  "client_ip request = (case request of None \<Rightarrow> None | Some client \<Rightarrow> client)"

definition actor_from_request :: "user \<Rightarrow> string option option \<Rightarrow> audit_actor" where
  "actor_from_request u request =
     \<lparr>aa_id = Some (u_id u), aa_username = u_username u, aa_ip = client_ip request\<rparr>"

text \<open>\<open>json.dumps(..., sort_keys=True)\<close> sorts the keys of every object. A value that is no JSON
  value is written with \<open>str\<close>; the details here are built from JSON values only.\<close>

function sort_keys :: "json \<Rightarrow> json" where
  "sort_keys (JObj d) = JObj (map (\<lambda>(k, v). (k, sort_keys v)) (sort_key fst d))"
| "sort_keys (JArr xs) = JArr (map sort_keys xs)"
| "sort_keys JNull = JNull"
| "sort_keys (JBool b) = JBool b"
| "sort_keys (JInt i) = JInt i"
| "sort_keys (JFloat r) = JFloat r"
| "sort_keys (JStr s) = JStr s"
  by pat_completeness auto
termination
proof (relation "measure size")
  show "(v, JObj d) \<in> measure size" if "x \<in> set (sort_key fst d)" "(k, v) = x" for d x k v
  proof -
    have "(k, v) \<in> set d" using that by simp
    then have "size v < size (JObj d)"
      by (induction d) (auto simp: size_prod_simp)
    then show ?thesis by simp
  qed
qed (auto simp: less_Suc_eq_le size_list_estimation')

definition audit_build ::
    "instant \<Rightarrow> int \<Rightarrow> audit_actor \<Rightarrow> string \<Rightarrow> string \<Rightarrow> string option \<Rightarrow> jobject \<Rightarrow> audit_log" where
  "audit_build now row_id actor action target_type target_id detail =
     \<lparr>au_id = row_id, au_actor_id = aa_id actor, au_actor = aa_username actor,
      au_action = action, au_target_type = target_type, au_target_id = target_id,
      au_detail = (if detail = [] then None else Some (json_dumps (sort_keys (JObj detail)))),
      au_ip = aa_ip actor, au_at = now\<rparr>"

definition audit_record ::
    "instant \<Rightarrow> audit_actor \<Rightarrow> string \<Rightarrow> string \<Rightarrow> string option \<Rightarrow> jobject \<Rightarrow> db \<Rightarrow> db" where
  "audit_record now actor action target_type target_id detail d =
     d\<lparr>db_audit_logs := db_audit_logs d @
          [audit_build now (db_next_id d) actor action target_type target_id detail],
        db_next_id := db_next_id d + 1\<rparr>"

section \<open>Reading the trail\<close>

definition DEFAULT_LIMIT :: nat where "DEFAULT_LIMIT = 100"
definition MAX_LIMIT :: nat where "MAX_LIMIT = 500"

record audit_query =
  aq_actor :: "string option"
  aq_action :: "string option"
  aq_target_type :: "string option"
  aq_target_id :: "string option"
  aq_since :: "instant option"

definition opt_eq :: "'a option \<Rightarrow> 'a \<Rightarrow> bool" where
  "opt_eq f v = (case f of None \<Rightarrow> True | Some w \<Rightarrow> v = w)"

definition audit_matches :: "audit_query \<Rightarrow> audit_log \<Rightarrow> bool" where
  "audit_matches q r \<longleftrightarrow>
     opt_eq (aq_actor q) (au_actor r) \<and> opt_eq (aq_action q) (au_action r) \<and>
     opt_eq (aq_target_type q) (au_target_type r) \<and>
     (case aq_target_id q of None \<Rightarrow> True | Some t \<Rightarrow> au_target_id r = Some t) \<and>
     (case aq_since q of None \<Rightarrow> True | Some t \<Rightarrow> au_at r \<ge> t)"

record audit_out =
  ao_id :: int
  ao_at :: instant
  ao_actor_id :: "int option"
  ao_actor :: string
  ao_action :: string
  ao_target_type :: string
  ao_target_id :: "string option"
  ao_detail :: jobject
  ao_ip :: "string option"

definition audit_out_from_db :: "audit_log \<Rightarrow> audit_out" where
  "audit_out_from_db r =
     \<lparr>ao_id = au_id r, ao_at = au_at r, ao_actor_id = au_actor_id r, ao_actor = au_actor r,
      ao_action = au_action r, ao_target_type = au_target_type r, ao_target_id = au_target_id r,
      ao_detail = detail_dict r, ao_ip = au_ip r\<rparr>"

definition list_audit_log :: "audit_query \<Rightarrow> nat \<Rightarrow> nat \<Rightarrow> db \<Rightarrow> audit_out list" where
  "list_audit_log q limit offset d =
     map audit_out_from_db
       (take limit (drop offset
         (rev (sort_key (\<lambda>r. (au_at r, au_id r)) (filter (audit_matches q) (db_audit_logs d))))))"

section \<open>Laws\<close>

lemma audit_record_frame [simp]:
  "db_users (audit_record now a act tt ti det d) = db_users d"
  "db_extensions (audit_record now a act tt ti det d) = db_extensions d"
  "db_destinations (audit_record now a act tt ti det d) = db_destinations d"
  "db_rules (audit_record now a act tt ti det d) = db_rules d"
  "db_api_keys (audit_record now a act tt ti det d) = db_api_keys d"
  "db_alert_logs (audit_record now a act tt ti det d) = db_alert_logs d"
  "db_fetch_logs (audit_record now a act tt ti det d) = db_fetch_logs d"
  "db_install_history (audit_record now a act tt ti det d) = db_install_history d"
  "db_observations (audit_record now a act tt ti det d) = db_observations d"
  "db_snapshots (audit_record now a act tt ti det d) = db_snapshots d"
  "db_threats (audit_record now a act tt ti det d) = db_threats d"
  by (simp_all add: audit_record_def)

lemma audit_record_logs [simp]:
  "db_audit_logs (audit_record now a act tt ti det d) =
     db_audit_logs d @ [audit_build now (db_next_id d) a act tt ti det]"
  by (simp add: audit_record_def)

lemma get_extension_audit_record [simp]:
  "get_extension (audit_record now a act tt ti det d) = get_extension d"
  by (rule get_extension_cong) simp

lemma sort_keys_obj: "\<exists>e. sort_keys (JObj d) = JObj e"
  by simp

lemma detail_dict_build:
  "detail_dict (audit_build now i a act tt ti det) =
     (if det = [] then [] else (case sort_keys (JObj det) of JObj e \<Rightarrow> e | _ \<Rightarrow> []))"
  by (simp add: detail_dict_def audit_build_def)

lemma concat_pages:
  "concat (map (\<lambda>i. take n (drop (i * n) xs)) [0..<k]) = take (k * n) xs"
proof (induction k)
  case (Suc k)
  have "Suc k * n = k * n + n" by simp
  with Suc show ?case by (simp only: take_add) simp
qed simp

section \<open>The contract of a mutating handler\<close>

text \<open>A handler takes one request and the state; an error is the left side of its response. The
  requests of a history run one after the other.\<close>

fun run_requests_of :: "('i \<Rightarrow> 's \<Rightarrow> ('e + 'a) \<times> 's) \<Rightarrow> 'i list \<Rightarrow> 's \<Rightarrow> ('e + 'a) list \<times> 's" where
  "run_requests_of handler [] s = ([], s)"
| "run_requests_of handler (i # is) s =
     (let (r, s1) = handler i s; (rs, s2) = run_requests_of handler is s1 in (r # rs, s2))"

definition audit_count :: "db \<Rightarrow> nat" where
  "audit_count d = length (db_audit_logs d)"

text \<open>\<open>audited\<close>: a change and its audit row share one transaction, so a response without error
  left exactly one row and an error left none. \<open>view\<close> is the database within the state.\<close>

locale audited =
  fixes handler :: "'i \<Rightarrow> 's \<Rightarrow> ('e + 'a) \<times> 's"
    and view :: "'s \<Rightarrow> db"
  assumes success_recorded: "handler i s = (Inr r, s') \<Longrightarrow> audit_count (view s') = Suc (audit_count (view s))"
    and error_unrecorded: "handler i s = (Inl e, s') \<Longrightarrow> audit_count (view s') = audit_count (view s)"
begin

lemma step_count:
  "handler i s = (r, s') \<Longrightarrow> audit_count (view s') = audit_count (view s) + (if isl r then 0 else 1)"
  using success_recorded error_unrecorded by (cases r) fastforce+

lemma history_count:
  "run_requests_of handler is s = (rs, s') \<Longrightarrow>
     audit_count (view s') = audit_count (view s) + length (filter (\<lambda>r. \<not> isl r) rs) \<and>
     length rs = length is"
proof (induction "is" arbitrary: s rs s')
  case (Cons i js)
  obtain r s1 where h: "handler i s = (r, s1)" by (cases "handler i s")
  obtain rs1 s2 where t: "run_requests_of handler js s1 = (rs1, s2)"
    by (cases "run_requests_of handler js s1")
  show ?case using Cons.IH [OF t] Cons.prems step_count [OF h] h t by auto
qed simp

end

section \<open>Properties\<close>

text \<open>Reading the trail page by page, newest first, shows every matching row exactly once: the
  pages at consecutive offsets concatenate to the beginning of one list that is a permutation
  of the matching rows in descending order of time.\<close>

theorem list_audit_log_pages:
  "\<exists>rows. concat (map (\<lambda>i. list_audit_log q n (i * n) d) [0..<k]) =
            map audit_out_from_db (take (k * n) rows) \<and>
          mset rows = mset (filter (audit_matches q) (db_audit_logs d)) \<and>
          sorted_wrt (\<lambda>r s. (au_at s, au_id s) \<le> (au_at r, au_id r)) rows"
proof (intro exI conjI)
  let ?rows = "rev (sort_key (\<lambda>r. (au_at r, au_id r)) (filter (audit_matches q) (db_audit_logs d)))"
  show "concat (map (\<lambda>i. list_audit_log q n (i * n) d) [0..<k]) =
          map audit_out_from_db (take (k * n) ?rows)"
    unfolding concat_pages [symmetric] list_audit_log_def by (simp add: map_concat comp_def)
  show "mset ?rows = mset (filter (audit_matches q) (db_audit_logs d))" by simp
  have "sorted (map (\<lambda>r. (au_at r, au_id r))
          (sort_key (\<lambda>r. (au_at r, au_id r)) (filter (audit_matches q) (db_audit_logs d))))"
    by (rule sorted_sort_key)
  then show "sorted_wrt (\<lambda>r s. (au_at s, au_id s) \<le> (au_at r, au_id r)) ?rows"
    by (simp add: sorted_wrt_rev sorted_map)
qed

end
