(* ===== verification/Auth.thy ===== *)
theory Auth
  imports Audit_Trail
begin

text \<open>
  \<open>app/auth.py\<close> and the owner gate of \<open>app/deps.py\<close>: password checks, signed session cookies,
  API keys and role gates.

  SHA-256, bcrypt and the itsdangerous serializer are arguments: \<open>ae_hash_key\<close> the digest of an
  API key, \<open>ae_hashpw\<close>/\<open>ae_checkpw\<close> bcrypt, and \<open>ae_loads max_age now cookie\<close> the signed payload
  with its time of issue, \<open>None\<close> when the signature is bad or expired. An HTTP error or a
  redirect is the left side of a result; \<open>ServerError\<close> is an exception no handler catches.
\<close>

datatype http_error =
    HttpError int string
  | RedirectTo string
  | ServerError string

record auth_settings =
  as_session_cookie_name :: string
  as_session_max_age :: int
  as_oidc_session_max_age :: int
  as_api_key_sso_max_age_days :: int
  as_api_key_last_used_throttle_seconds :: int
  as_admin_username :: string
  as_admin_password :: string

record auth_env =
  ae_settings :: auth_settings
  ae_loads :: "int \<Rightarrow> instant \<Rightarrow> string \<Rightarrow> (json \<times> instant) option"
  ae_dumps :: "instant \<Rightarrow> json \<Rightarrow> string"
  ae_hash_key :: "string \<Rightarrow> string"
  ae_hashpw :: "string \<Rightarrow> string"
  ae_checkpw :: "string \<Rightarrow> string \<Rightarrow> bool"

record request =
  rq_method :: string
  rq_cookies :: "(string \<times> string) list"
  rq_authorization :: string
  rq_client :: "string option"

section \<open>Passwords\<close>

definition MAX_PASSWORD_BYTES :: nat where "MAX_PASSWORD_BYTES = 72"

text \<open>\<open>None\<close> is \<open>PasswordTooLongError\<close>.\<close>

definition hash_password :: "auth_env \<Rightarrow> string \<Rightarrow> string option" where
  "hash_password env password =
     (if length password > MAX_PASSWORD_BYTES then None else Some (ae_hashpw env password))"

definition verify_password :: "auth_env \<Rightarrow> string \<Rightarrow> string \<Rightarrow> bool" where
  "verify_password env password hashed =
     (if length password > MAX_PASSWORD_BYTES then False else ae_checkpw env password hashed)"

definition DUMMY_HASH :: "auth_env \<Rightarrow> string" where
  "DUMMY_HASH env = ae_hashpw env ''dummy''"

definition find_user :: "db \<Rightarrow> string \<Rightarrow> user option" where
  "find_user d username = find (\<lambda>u. u_username u = username) (db_users d)"

definition verify_credentials :: "auth_env \<Rightarrow> string \<Rightarrow> string \<Rightarrow> db \<Rightarrow> user option" where
  "verify_credentials env username password d =
     (let user = find_user d username;
          stored_hash = (case user of None \<Rightarrow> None | Some u \<Rightarrow> u_password_hash u);
          valid = verify_password env password
                    (case stored_hash of Some (c # h) \<Rightarrow> c # h | _ \<Rightarrow> DUMMY_HASH env)
      in case (user, stored_hash) of
           (Some u, Some (c # h)) \<Rightarrow> if valid then Some u else None
         | _ \<Rightarrow> None)"

section \<open>Sessions\<close>

definition create_session_cookie :: "auth_env \<Rightarrow> instant \<Rightarrow> string \<Rightarrow> string" where
  "create_session_cookie env now username = ae_dumps env now (JObj [(''u'', JStr username)])"

text \<open>A payload that is no object makes \<open>data["u"]\<close> raise a \<open>TypeError\<close>, which is not caught. The
  serializer only ever signed a user name under that key, so the value is read as a string.\<close>

definition get_session_claims ::
    "auth_env \<Rightarrow> instant \<Rightarrow> request \<Rightarrow> http_error + (string \<times> instant) option" where
  "get_session_claims env now req =
     (case map_of (rq_cookies req) (as_session_cookie_name (ae_settings env)) of
        Some (c # cs) \<Rightarrow>
          (case ae_loads env (as_session_max_age (ae_settings env)) now (c # cs) of
             None \<Rightarrow> Inr None
           | Some (JObj data, issued_at) \<Rightarrow>
               (case dict_get data ''u'' of
                  None \<Rightarrow> Inr None
                | Some (JStr u) \<Rightarrow> Inr (Some (u, issued_at))
                | Some _ \<Rightarrow> Inr None)
           | Some (_, _) \<Rightarrow> Inl (ServerError ''TypeError''))
      | _ \<Rightarrow> Inr None)"

definition session_after_password_change :: "user \<Rightarrow> instant \<Rightarrow> bool" where
  "session_after_password_change u issued_at =
     (case u_password_changed_at u of
        None \<Rightarrow> True
      | Some changed \<Rightarrow> issued_at \<ge> utc_of changed - usec_per_sec)"

definition api_key_after_password_change :: "user \<Rightarrow> instant \<Rightarrow> bool" where
  "api_key_after_password_change u created_at =
     (case u_password_changed_at u of None \<Rightarrow> True | Some changed \<Rightarrow> created_at \<ge> utc_of changed)"

definition session_within_sso_max_age :: "auth_env \<Rightarrow> instant \<Rightarrow> user \<Rightarrow> instant \<Rightarrow> bool" where
  "session_within_sso_max_age env now u issued_at =
     (if u_oidc_subject u = None then True
      else now - issued_at \<le> as_oidc_session_max_age (ae_settings env) * usec_per_sec)"

definition authenticate_session ::
    "auth_env \<Rightarrow> instant \<Rightarrow> request \<Rightarrow> db \<Rightarrow> http_error + user option" where
  "authenticate_session env now req d =
     (case get_session_claims env now req of
        Inl e \<Rightarrow> Inl e
      | Inr None \<Rightarrow> Inr None
      | Inr (Some (username, issued_at)) \<Rightarrow>
          (case find_user d username of
             None \<Rightarrow> Inr None
           | Some u \<Rightarrow>
               if \<not> session_after_password_change u issued_at then Inr None
               else if \<not> session_within_sso_max_age env now u issued_at then Inr None
               else Inr (Some u)))"

definition require_auth :: "auth_env \<Rightarrow> instant \<Rightarrow> request \<Rightarrow> db \<Rightarrow> http_error + user" where
  "require_auth env now req d =
     (case authenticate_session env now req d of
        Inl e \<Rightarrow> Inl e
      | Inr None \<Rightarrow> Inl (RedirectTo ''/login'')
      | Inr (Some u) \<Rightarrow> Inr u)"

definition require_session_user :: "auth_env \<Rightarrow> instant \<Rightarrow> request \<Rightarrow> db \<Rightarrow> http_error + user" where
  "require_session_user env now req d =
     (case authenticate_session env now req d of
        Inl e \<Rightarrow> Inl e
      | Inr None \<Rightarrow> Inl (HttpError 401 ''Session authentication required'')
      | Inr (Some u) \<Rightarrow> Inr u)"

section \<open>API keys\<close>

text \<open>FastAPI's \<open>get_authorization_scheme_param\<close>: \<open>partition\<close> at the first space.\<close>

definition scheme_param :: "string \<Rightarrow> string \<times> string" where
  "scheme_param header =
     (case header of
        [] \<Rightarrow> ([], [])
      | _ \<Rightarrow> (takeWhile (\<lambda>c. c \<noteq> CHR '' '') header, tl (dropWhile (\<lambda>c. c \<noteq> CHR '' '') header)))"

definition put_api_key :: "api_key \<Rightarrow> db \<Rightarrow> db" where
  "put_api_key k d = d\<lparr>db_api_keys := map (\<lambda>l. if ak_id l = ak_id k then k else l) (db_api_keys d)\<rparr>"

definition require_bearer ::
    "auth_env \<Rightarrow> instant \<Rightarrow> string \<Rightarrow> string \<Rightarrow> db \<Rightarrow> (http_error + user) \<times> db" where
  "require_bearer env now meth raw_key d =
     (case find (\<lambda>k. ak_key_hash k = ae_hash_key env raw_key) (db_api_keys d) of
        None \<Rightarrow> (Inl (HttpError 401 ''Invalid API key''), d)
      | Some k \<Rightarrow>
          if ak_readonly k \<and> meth \<noteq> ''GET'' \<and> meth \<noteq> ''HEAD''
          then (Inl (HttpError 403 ''Read-only API key''), d)
          else
            let created_at = utc_of (ak_created_at k) in
            (case get_user d (ak_user_id k) of
               None \<Rightarrow> (Inl (HttpError 401 ''Invalid API key''), d)
             | Some u \<Rightarrow>
                 if \<not> api_key_after_password_change u created_at
                 then (Inl (HttpError 401 ''API key revoked''), d)
                 else if u_oidc_subject u \<noteq> None \<and> as_api_key_sso_max_age_days (ae_settings env) > 0 \<and>
                         now - created_at > as_api_key_sso_max_age_days (ae_settings env) * usec_per_day
                 then (Inl (HttpError 401 ''API key expired''), d)
                 else
                   let stale = (case ak_last_used_at k of
                                  None \<Rightarrow> True
                                | Some t \<Rightarrow> now - utc_of t \<ge>
                                    as_api_key_last_used_throttle_seconds (ae_settings env) * usec_per_sec)
                   in (Inr u, if stale then put_api_key (k\<lparr>ak_last_used_at := Some (Aware now)\<rparr>) d else d)))"

definition require_api_auth ::
    "auth_env \<Rightarrow> instant \<Rightarrow> request \<Rightarrow> db \<Rightarrow> (http_error + user) \<times> db" where
  "require_api_auth env now req d =
     (let (scheme, raw_key) = scheme_param (rq_authorization req) in
      if lower scheme = ''bearer'' \<and> raw_key \<noteq> []
      then require_bearer env now (rq_method req) raw_key d
      else (case authenticate_session env now req d of
              Inl e \<Rightarrow> (Inl e, d)
            | Inr (Some u) \<Rightarrow> (Inr u, d)
            | Inr None \<Rightarrow> (Inl (HttpError 401 ''Authentication required''), d)))"

section \<open>Roles\<close>

definition role_label :: "role list \<Rightarrow> string" where
  "role_label roles = join '' or '' (map role_value roles)"

text \<open>The dependency itself; building one from no role is a \<open>ValueError\<close> at import time.\<close>

definition require_role ::
    "role list \<Rightarrow> auth_env \<Rightarrow> instant \<Rightarrow> request \<Rightarrow> db \<Rightarrow> (http_error + user) \<times> db" where
  "require_role roles env now req d =
     (case require_api_auth env now req d of
        (Inl e, d') \<Rightarrow> (Inl e, d')
      | (Inr u, d') \<Rightarrow>
          (if u_role u \<notin> set (map role_value roles)
           then Inl (HttpError 403 (role_label roles @ '' access required'')) else Inr u, d'))"

definition require_role_ui ::
    "role list \<Rightarrow> auth_env \<Rightarrow> instant \<Rightarrow> request \<Rightarrow> db \<Rightarrow> http_error + user" where
  "require_role_ui roles env now req d =
     (case require_auth env now req d of
        Inl e \<Rightarrow> Inl e
      | Inr u \<Rightarrow> if u_role u \<notin> set (map role_value roles) then Inl (RedirectTo ''/'') else Inr u)"

section \<open>Seeding and ownership\<close>

definition new_user ::
    "int \<Rightarrow> instant \<Rightarrow> string \<Rightarrow> string option \<Rightarrow> string option \<Rightarrow> string \<Rightarrow> user" where
  "new_user i now username hashed email role =
     \<lparr>u_id = i, u_username = username, u_password_hash = hashed, u_email = email, u_role = role,
      u_auth_provider = ''local'', u_oidc_issuer = None, u_oidc_subject = None,
      u_auth_tenant = None, u_role_managed_by_idp = False, u_created_at = now,
      u_password_changed_at = Some (Aware now)\<rparr>"

definition add_user :: "user \<Rightarrow> db \<Rightarrow> db" where
  "add_user u d = d\<lparr>db_users := db_users d @ [u], db_next_id := db_next_id d + 1\<rparr>"

definition seed_admin :: "auth_env \<Rightarrow> instant \<Rightarrow> db \<Rightarrow> http_error + db" where
  "seed_admin env now d =
     (if db_users d \<noteq> [] then Inr d
      else (case hash_password env (as_admin_password (ae_settings env)) of
              None \<Rightarrow> Inl (ServerError ''PasswordTooLongError'')
            | Some h \<Rightarrow>
                Inr (add_user (new_user (db_next_id d) now (as_admin_username (ae_settings env))
                                 (Some h) None (role_value ADMIN)) d)))"

text \<open>\<open>get_owned_or_404\<close> for a table whose rows carry an id and an owner.\<close>

definition get_owned_or_404 ::
    "('a \<Rightarrow> int) \<Rightarrow> ('a \<Rightarrow> int option) \<Rightarrow> 'a list \<Rightarrow> int \<Rightarrow> int \<Rightarrow> string \<Rightarrow> http_error + 'a" where
  "get_owned_or_404 row_id owner rows obj_id user_id detail =
     (case find (\<lambda>r. row_id r = obj_id) rows of
        None \<Rightarrow> Inl (HttpError 404 detail)
      | Some r \<Rightarrow> if owner r \<noteq> Some user_id then Inl (HttpError 404 detail) else Inr r)"

section \<open>Laws\<close>

lemma find_user_username: "find_user d n = Some u \<Longrightarrow> u \<in> set (db_users d) \<and> u_username u = n"
  by (auto simp: find_user_def find_Some_iff)

lemma get_user_id: "get_user d i = Some u \<Longrightarrow> u \<in> set (db_users d) \<and> u_id u = i"
  by (auto simp: get_user_def find_Some_iff)

lemma put_api_key_frame [simp]:
  "db_users (put_api_key k d) = db_users d"
  "db_extensions (put_api_key k d) = db_extensions d"
  "db_audit_logs (put_api_key k d) = db_audit_logs d"
  "map ak_id (db_api_keys (put_api_key k d)) = map ak_id (db_api_keys d)"
  by (simp_all add: put_api_key_def)

lemma authenticate_session_Some:
  "authenticate_session env now req d = Inr (Some u) \<longleftrightarrow>
     (\<exists>username issued_at.
        get_session_claims env now req = Inr (Some (username, issued_at)) \<and>
        find_user d username = Some u \<and> session_after_password_change u issued_at \<and>
        session_within_sso_max_age env now u issued_at)"
  by (auto simp: authenticate_session_def split: sum.splits option.splits)

lemma get_session_claims_Some:
  "get_session_claims env now req = Inr (Some (username, issued_at)) \<Longrightarrow>
     \<exists>cookie data. map_of (rq_cookies req) (as_session_cookie_name (ae_settings env)) = Some cookie \<and>
       ae_loads env (as_session_max_age (ae_settings env)) now cookie = Some (JObj data, issued_at) \<and>
       dict_get data ''u'' = Some (JStr username)"
  by (auto simp: get_session_claims_def split: option.splits list.splits json.splits prod.splits)

lemma get_owned_iff:
  "get_owned_or_404 row_id owner rows i u msg = Inr r \<longleftrightarrow>
     find (\<lambda>r. row_id r = i) rows = Some r \<and> owner r = Some u"
  by (auto simp: get_owned_or_404_def split: option.splits)

lemma require_bearer_db:
  "snd (require_bearer env now meth raw_key d) = d \<or>
   (\<exists>k \<in> set (db_api_keys d). \<exists>t.
      snd (require_bearer env now meth raw_key d) = put_api_key (k\<lparr>ak_last_used_at := t\<rparr>) d)"
proof (cases "find (\<lambda>k. ak_key_hash k = ae_hash_key env raw_key) (db_api_keys d)")
  case (Some k)
  then have "k \<in> set (db_api_keys d)" by (auto simp: find_Some_iff)
  moreover have "snd (require_bearer env now meth raw_key d) = d \<or>
      (\<exists>t. snd (require_bearer env now meth raw_key d) = put_api_key (k\<lparr>ak_last_used_at := t\<rparr>) d)"
    by (simp add: require_bearer_def Some Let_def split: option.split) blast
  ultimately show ?thesis by blast
qed (simp add: require_bearer_def)

text \<open>Authentication writes nothing but the time a key was last used.\<close>

lemma require_api_auth_frame:
  "require_api_auth env now req d = (r, d') \<Longrightarrow> \<exists>ks. d' = d\<lparr>db_api_keys := ks\<rparr>"
proof -
  have same: "\<exists>ks. d = d\<lparr>db_api_keys := ks\<rparr>" by (rule exI [of _ "db_api_keys d"]) simp
  have key: "\<exists>ks. put_api_key k d = d\<lparr>db_api_keys := ks\<rparr>" for k by (auto simp: put_api_key_def)
  have bearer: "\<exists>ks. snd (require_bearer env now m k d) = d\<lparr>db_api_keys := ks\<rparr>" for m k
    using require_bearer_db [of env now m k d] same key by metis
  assume "require_api_auth env now req d = (r, d')"
  then show ?thesis
    using bearer same
    by (auto simp: require_api_auth_def split: prod.splits if_splits sum.splits option.splits; metis snd_conv)
qed

lemma require_role_frame:
  "require_role roles env now req d = (r, d') \<Longrightarrow> \<exists>ks. d' = d\<lparr>db_api_keys := ks\<rparr>"
  by (auto simp: require_role_def split: prod.splits sum.splits dest: require_api_auth_frame)

lemma require_role_ok:
  "require_role roles env now req d = (Inr u, d') \<longleftrightarrow>
     require_api_auth env now req d = (Inr u, d') \<and> u_role u \<in> set (map role_value roles)"
  by (auto simp: require_role_def split: prod.splits sum.splits)

section \<open>Examples\<close>

text \<open>A concrete environment: one signed token, and hash functions that are injective.\<close>

definition sample_auth_env :: auth_env where
  "sample_auth_env =
     \<lparr>ae_settings = \<lparr>as_session_cookie_name = ''sid'', as_session_max_age = 86400,
        as_oidc_session_max_age = 3600, as_api_key_sso_max_age_days = 30,
        as_api_key_last_used_throttle_seconds = 60, as_admin_username = ''admin'',
        as_admin_password = ''changeme''\<rparr>,
      ae_loads = (\<lambda>m t c. if c = ''tok'' \<and> t \<le> m * usec_per_sec
                            then Some (JObj [(''u'', JStr ''ann'')], 0) else None),
      ae_dumps = (\<lambda>_ _. ''tok''), ae_hash_key = (\<lambda>k. ''h'' @ k), ae_hashpw = (\<lambda>p. ''b'' @ p),
      ae_checkpw = (\<lambda>p h. h = ''b'' @ p)\<rparr>"

definition sample_user :: user where
  "sample_user = (new_user 1 0 ''ann'' (Some ''bsecret99'') None ''admin'')"

definition sample_request :: request where
  "sample_request =
     \<lparr>rq_method = ''POST'', rq_cookies = [(''sid'', ''tok'')], rq_authorization = [], rq_client = None\<rparr>"

definition sample_db :: db where
  "sample_db = empty_db\<lparr>db_users := [sample_user, new_user 2 0 ''bob'' None None ''analyst''],
                         db_extensions := [sample_extension\<lparr>x_user_id := Some 2\<rparr>]\<rparr>"

lemmas sample_defs =
  sample_auth_env_def sample_user_def sample_request_def sample_db_def new_user_def empty_db_def

lemma sample_auth:
  "require_api_auth sample_auth_env 9 sample_request sample_db = (Inr sample_user, sample_db)"
  by (simp add: sample_defs require_api_auth_def scheme_param_def authenticate_session_def
      get_session_claims_def find_user_def dict_get_def session_after_password_change_def
      session_within_sso_max_age_def usec_per_sec_def lower_def)

lemma sample_admin: "require_role [ADMIN] sample_auth_env 9 sample_request sample_db = (Inr sample_user, sample_db)"
  by (simp add: require_role_ok sample_auth) (simp add: sample_defs)

section \<open>Properties\<close>

text \<open>An accepted session names an existing user and is recent enough for every cutoff: the
  cookie's signature and age were checked, it was issued no more than a second before the last
  password change, and for an SSO account within the shorter SSO lifetime.\<close>

theorem authenticate_session_sound:
  assumes "\<And>m t c j i. ae_loads env m t c = Some (j, i) \<Longrightarrow> t - i \<le> m * usec_per_sec"
    and "authenticate_session env now req d = Inr (Some u)"
  shows "u \<in> set (db_users d) \<and>
    (\<exists>cookie data issued_at.
       map_of (rq_cookies req) (as_session_cookie_name (ae_settings env)) = Some cookie \<and>
       ae_loads env (as_session_max_age (ae_settings env)) now cookie = Some (JObj data, issued_at) \<and>
       dict_get data ''u'' = Some (JStr (u_username u)) \<and>
       now - issued_at \<le> as_session_max_age (ae_settings env) * usec_per_sec \<and>
       (\<forall>changed. u_password_changed_at u = Some changed \<longrightarrow> utc_of changed \<le> issued_at + usec_per_sec) \<and>
       (u_oidc_subject u \<noteq> None \<longrightarrow>
          now - issued_at \<le> as_oidc_session_max_age (ae_settings env) * usec_per_sec))"
proof -
  obtain username issued_at where claims: "get_session_claims env now req = Inr (Some (username, issued_at))"
    and u: "find_user d username = Some u" "session_after_password_change u issued_at"
      "session_within_sso_max_age env now u issued_at"
    using assms(2) authenticate_session_Some by blast
  obtain cookie data where c:
      "map_of (rq_cookies req) (as_session_cookie_name (ae_settings env)) = Some cookie"
      "ae_loads env (as_session_max_age (ae_settings env)) now cookie = Some (JObj data, issued_at)"
      "dict_get data ''u'' = Some (JStr username)"
    using get_session_claims_Some [OF claims] by blast
  have "u \<in> set (db_users d)" "u_username u = username" using find_user_username [OF u(1)] by auto
  moreover have "now - issued_at \<le> as_session_max_age (ae_settings env) * usec_per_sec"
    using assms(1) [OF c(2)] .
  moreover have "\<forall>changed. u_password_changed_at u = Some changed \<longrightarrow> utc_of changed \<le> issued_at + usec_per_sec"
    using u(2) by (auto simp: session_after_password_change_def)
  moreover have "u_oidc_subject u \<noteq> None \<longrightarrow>
      now - issued_at \<le> as_oidc_session_max_age (ae_settings env) * usec_per_sec"
    using u(3) by (auto simp: session_within_sso_max_age_def)
  ultimately show ?thesis using c by blast
qed

lemma authenticate_session_sound_witness:
  "sample_user \<in> set (db_users sample_db) \<and>
    (\<exists>cookie data issued_at.
       map_of (rq_cookies sample_request) ''sid'' = Some cookie \<and>
       ae_loads sample_auth_env 86400 5 cookie = Some (JObj data, issued_at) \<and>
       dict_get data ''u'' = Some (JStr ''ann'') \<and> 5 - issued_at \<le> 86400 * usec_per_sec)"
proof -
  have "u_username sample_user = ''ann''" "as_session_cookie_name (ae_settings sample_auth_env) = ''sid''"
    "as_session_max_age (ae_settings sample_auth_env) = 86400"
    by (simp_all add: sample_defs)
  moreover have "\<And>m t c j i. ae_loads sample_auth_env m t c = Some (j, i) \<Longrightarrow> t - i \<le> m * usec_per_sec"
    by (auto simp: sample_auth_env_def split: if_splits)
  moreover have "authenticate_session sample_auth_env 5 sample_request sample_db = Inr (Some sample_user)"
    by (simp add: sample_defs authenticate_session_def get_session_claims_def find_user_def dict_get_def
        session_after_password_change_def session_within_sso_max_age_def usec_per_sec_def)
  ultimately show ?thesis
    using authenticate_session_sound [of sample_auth_env 5 sample_request sample_db sample_user]
    by (metis (no_types, lifting))
qed

text \<open>A bearer key is accepted exactly when its digest is stored, a read-only key is used on a
  safe method only, its owner exists, it is not older than the last password change, and an SSO
  owner's key is within its lifetime. A refusal changes nothing, and an acceptance changes no
  row but the key's own time of last use.\<close>

theorem require_bearer_iff:
  assumes "distinct (map ak_id (db_api_keys d))"
  shows "(fst (require_bearer env now meth raw_key d) = Inr u \<longleftrightarrow>
      (\<exists>k. find (\<lambda>k. ak_key_hash k = ae_hash_key env raw_key) (db_api_keys d) = Some k \<and>
           (ak_readonly k \<longrightarrow> meth \<in> {''GET'', ''HEAD''}) \<and>
           get_user d (ak_user_id k) = Some u \<and>
           (\<forall>changed. u_password_changed_at u = Some changed \<longrightarrow>
              utc_of changed \<le> utc_of (ak_created_at k)) \<and>
           (u_oidc_subject u \<noteq> None \<and> as_api_key_sso_max_age_days (ae_settings env) > 0 \<longrightarrow>
              now - utc_of (ak_created_at k)
                \<le> as_api_key_sso_max_age_days (ae_settings env) * usec_per_day))) \<and>
   (\<forall>e. fst (require_bearer env now meth raw_key d) = Inl e \<longrightarrow>
        snd (require_bearer env now meth raw_key d) = d) \<and>
   (\<exists>keys. snd (require_bearer env now meth raw_key d) = d\<lparr>db_api_keys := keys\<rparr> \<and>
      map (\<lambda>k. k\<lparr>ak_last_used_at := None\<rparr>) keys
        = map (\<lambda>k. k\<lparr>ak_last_used_at := None\<rparr>) (db_api_keys d))"
proof (intro conjI)
  show "fst (require_bearer env now meth raw_key d) = Inr u \<longleftrightarrow>
      (\<exists>k. find (\<lambda>k. ak_key_hash k = ae_hash_key env raw_key) (db_api_keys d) = Some k \<and>
           (ak_readonly k \<longrightarrow> meth \<in> {''GET'', ''HEAD''}) \<and>
           get_user d (ak_user_id k) = Some u \<and>
           (\<forall>changed. u_password_changed_at u = Some changed \<longrightarrow>
              utc_of changed \<le> utc_of (ak_created_at k)) \<and>
           (u_oidc_subject u \<noteq> None \<and> as_api_key_sso_max_age_days (ae_settings env) > 0 \<longrightarrow>
              now - utc_of (ak_created_at k)
                \<le> as_api_key_sso_max_age_days (ae_settings env) * usec_per_day))"
    by (auto simp: require_bearer_def Let_def api_key_after_password_change_def not_less
        split: option.splits if_splits)
  show "\<forall>e. fst (require_bearer env now meth raw_key d) = Inl e \<longrightarrow>
        snd (require_bearer env now meth raw_key d) = d"
    by (auto simp: require_bearer_def Let_def split: option.splits)
  have same: "map (\<lambda>l. l\<lparr>ak_last_used_at := None\<rparr>)
      (db_api_keys (put_api_key (k\<lparr>ak_last_used_at := t\<rparr>) d)) =
      map (\<lambda>k. k\<lparr>ak_last_used_at := None\<rparr>) (db_api_keys d)" if "k \<in> set (db_api_keys d)" for k t
    using that assms by (auto simp: put_api_key_def distinct_map inj_on_def)
  show "\<exists>keys. snd (require_bearer env now meth raw_key d) = d\<lparr>db_api_keys := keys\<rparr> \<and>
      map (\<lambda>k. k\<lparr>ak_last_used_at := None\<rparr>) keys
        = map (\<lambda>k. k\<lparr>ak_last_used_at := None\<rparr>) (db_api_keys d)"
  proof (cases "snd (require_bearer env now meth raw_key d) = d")
    case True
    then show ?thesis by (intro exI [of _ "db_api_keys d"]) simp
  next
    case False
    then obtain k t where "k \<in> set (db_api_keys d)"
      and put: "snd (require_bearer env now meth raw_key d) = put_api_key (k\<lparr>ak_last_used_at := t\<rparr>) d"
      using require_bearer_db [of env now meth raw_key d] by blast
    then show ?thesis
      using same [of k t]
      by (intro exI [of _ "db_api_keys (put_api_key (k\<lparr>ak_last_used_at := t\<rparr>) d)"])
         (simp add: put_api_key_def)
  qed
qed

definition sample_key :: api_key where
  "sample_key =
     \<lparr>ak_id = 3, ak_user_id = 1, ak_label = ''ci'', ak_key_hash = ''hk1'', ak_key_prefix = ''k1'',
      ak_key_suffix = ''k1'', ak_readonly = True, ak_created_at = Aware 5, ak_last_used_at = None\<rparr>"

lemma require_bearer_iff_witness:
  "fst (require_bearer sample_auth_env 9 ''GET'' ''k1'' (sample_db\<lparr>db_api_keys := [sample_key]\<rparr>))
     = Inr sample_user"
  using require_bearer_iff [of "sample_db\<lparr>db_api_keys := [sample_key]\<rparr>" sample_auth_env 9 "''GET''"
      "''k1''" sample_user]
  by (simp add: sample_defs sample_key_def get_user_def)

end
