(* ===== verification/Accounts.thy ===== *)
theory Accounts
  imports Auth
begin

text \<open>
  The credential and account routes, \<open>app/routes/keys.py\<close> and \<open>app/routes/users.py\<close>. A handler
  takes the request, resolves the caller as its dependency does and returns its response with
  the committed database; an error response leaves the database of the dependency. Request
  bodies are validated as their pydantic models do (422). Randomness and the clock are
  arguments. Foreign-key actions of the database are written out.
\<close>

section \<open>API keys\<close>

record key_out =
  ko_id :: int
  ko_label :: string
  ko_key_prefix :: string
  ko_key_suffix :: string
  ko_readonly :: bool
  ko_created_at :: datetime
  ko_last_used_at :: "datetime option"

definition key_out_of :: "api_key \<Rightarrow> key_out" where
  "key_out_of k =
     \<lparr>ko_id = ak_id k, ko_label = ak_label k, ko_key_prefix = ak_key_prefix k,
      ko_key_suffix = ak_key_suffix k, ko_readonly = ak_readonly k,
      ko_created_at = ak_created_at k, ko_last_used_at = ak_last_used_at k\<rparr>"

definition list_keys ::
    "auth_env \<Rightarrow> instant \<Rightarrow> request \<Rightarrow> db \<Rightarrow> (http_error + key_out list) \<times> db" where
  "list_keys env now req d =
     (case require_api_auth env now req d of
        (Inl e, d') \<Rightarrow> (Inl e, d')
      | (Inr u, d') \<Rightarrow>
          (Inr (map key_out_of (sort_key (\<lambda>k. utc_of (ak_created_at k))
                 (filter (\<lambda>k. ak_user_id k = u_id u) (db_api_keys d')))), d'))"

text \<open>\<open>"ebs_" + secrets.token_urlsafe(32)\<close>\<close>

definition generate_api_key :: "string \<Rightarrow> string" where
  "generate_api_key token = ''ebs_'' @ token"

definition last_chars :: "nat \<Rightarrow> string \<Rightarrow> string" where
  "last_chars n s = drop (length s - n) s"

definition new_api_key :: "auth_env \<Rightarrow> instant \<Rightarrow> int \<Rightarrow> int \<Rightarrow> string \<Rightarrow> bool \<Rightarrow> string \<Rightarrow> api_key" where
  "new_api_key env now i user_id label readonly raw_key =
     \<lparr>ak_id = i, ak_user_id = user_id, ak_label = label, ak_key_hash = ae_hash_key env raw_key,
      ak_key_prefix = take 12 raw_key, ak_key_suffix = last_chars 4 raw_key,
      ak_readonly = readonly, ak_created_at = Aware now, ak_last_used_at = None\<rparr>"

definition create_key ::
    "auth_env \<Rightarrow> instant \<Rightarrow> string \<Rightarrow> request \<Rightarrow> string \<Rightarrow> bool \<Rightarrow> db \<Rightarrow>
       (http_error + key_out \<times> string) \<times> db" where
  "create_key env now token req label readonly d =
     (case require_session_user env now req d of
        Inl e \<Rightarrow> (Inl e, d)
      | Inr u \<Rightarrow>
          if label = [] \<or> length label > 100 then (Inl (HttpError 422 ''label''), d)
          else
            let raw_key = generate_api_key token;
                k = new_api_key env now (db_next_id d) (u_id u) label readonly raw_key;
                d1 = d\<lparr>db_api_keys := db_api_keys d @ [k], db_next_id := db_next_id d + 1\<rparr>;
                d2 = audit_record now (actor_from_request u (Some (rq_client req))) ''apikey.create''
                       ''apikey'' (Some (show_int (ak_id k)))
                       [(''label'', JStr label), (''readonly'', JBool readonly),
                        (''key_prefix'', JStr (ak_key_prefix k)),
                        (''key_suffix'', JStr (ak_key_suffix k))] d1
            in (Inr (key_out_of k, raw_key), d2))"

definition revoke_key ::
    "auth_env \<Rightarrow> instant \<Rightarrow> request \<Rightarrow> int \<Rightarrow> db \<Rightarrow> (http_error + unit) \<times> db" where
  "revoke_key env now req key_id d =
     (case require_api_auth env now req d of
        (Inl e, d') \<Rightarrow> (Inl e, d')
      | (Inr u, d') \<Rightarrow>
          (case get_owned_or_404 ak_id (\<lambda>k. Some (ak_user_id k)) (db_api_keys d') key_id (u_id u)
                  ''Not found'' of
             Inl e \<Rightarrow> (Inl e, d')
           | Inr k \<Rightarrow>
               let d1 = audit_record now (actor_from_request u (Some (rq_client req))) ''apikey.revoke''
                          ''apikey'' (Some (show_int key_id))
                          [(''label'', JStr (ak_label k)), (''key_prefix'', JStr (ak_key_prefix k)),
                           (''key_suffix'', JStr (ak_key_suffix k))] d'
               in (Inr (), d1\<lparr>db_api_keys := filter (\<lambda>l. ak_id l \<noteq> ak_id k) (db_api_keys d1)\<rparr>)))"

section \<open>Users\<close>

definition MAX_USERNAME_LENGTH :: nat where "MAX_USERNAME_LENGTH = 128"
definition MAX_EMAIL_LENGTH :: nat where "MAX_EMAIL_LENGTH = 254"

record user_out =
  uo_id :: int
  uo_username :: string
  uo_email :: "string option"
  uo_role :: string
  uo_auth_provider :: string

definition user_out_of :: "user \<Rightarrow> user_out" where
  "user_out_of u =
     \<lparr>uo_id = u_id u, uo_username = u_username u, uo_email = u_email u, uo_role = u_role u,
      uo_auth_provider = u_auth_provider u\<rparr>"

definition reject_over_long_password :: "string \<Rightarrow> bool" where
  "reject_over_long_password v \<longleftrightarrow> length v > MAX_PASSWORD_BYTES"

record create_user_in =
  ui_username :: string
  ui_password :: string
  ui_email :: "string option"
  ui_role :: role

text \<open>\<open>CreateUserIn\<close>: white space stripped, lengths checked, a blank address stored as none.\<close>

definition parse_create_user :: "create_user_in \<Rightarrow> create_user_in option" where
  "parse_create_user b =
     (let username = strip (ui_username b); email = map_option strip (ui_email b) in
      if username = [] \<or> length username > MAX_USERNAME_LENGTH then None
      else if length (ui_password b) < 8 \<or> reject_over_long_password (ui_password b) then None
      else if (case email of None \<Rightarrow> False | Some e \<Rightarrow> length e > MAX_EMAIL_LENGTH) then None
      else Some (b\<lparr>ui_username := username, ui_email := (if email = Some [] then None else email)\<rparr>))"

definition list_users ::
    "auth_env \<Rightarrow> instant \<Rightarrow> request \<Rightarrow> db \<Rightarrow> (http_error + user_out list) \<times> db" where
  "list_users env now req d =
     (case require_role [ADMIN] env now req d of
        (Inl e, d') \<Rightarrow> (Inl e, d')
      | (Inr _, d') \<Rightarrow> (Inr (map user_out_of (sort_key u_created_at (db_users d'))), d'))"

definition create_user ::
    "auth_env \<Rightarrow> instant \<Rightarrow> request \<Rightarrow> create_user_in \<Rightarrow> db \<Rightarrow> (http_error + user_out) \<times> db" where
  "create_user env now req body d =
     (case require_role [ADMIN] env now req d of
        (Inl e, d') \<Rightarrow> (Inl e, d')
      | (Inr admin, d') \<Rightarrow>
          (case parse_create_user body of
             None \<Rightarrow> (Inl (HttpError 422 ''body''), d')
           | Some b \<Rightarrow>
               if find_user d' (ui_username b) \<noteq> None
               then (Inl (HttpError 409 ''Username already taken''), d')
               else (case hash_password env (ui_password b) of
                       None \<Rightarrow> (Inl (ServerError ''PasswordTooLongError''), d')
                     | Some h \<Rightarrow>
                         let u = new_user (db_next_id d') now (ui_username b) (Some h) (ui_email b)
                                   (role_value (ui_role b));
                             d2 = audit_record now (actor_from_request admin (Some (rq_client req)))
                                    ''user.create'' ''user'' (Some (show_int (u_id u)))
                                    [(''username'', JStr (u_username u)), (''role'', JStr (u_role u)),
                                     (''email'', json_opt_str (u_email u))] (add_user u d')
                         in (Inr (user_out_of u), d2))))"

text \<open>The foreign keys that point at a user row: \<open>CASCADE\<close> for destinations (and with them the
  rules that use them), rules and API keys; \<open>SET NULL\<close> for extensions and the two trails.\<close>

definition delete_user_row :: "int \<Rightarrow> db \<Rightarrow> db" where
  "delete_user_row i d =
     (let dests = map ad_id (filter (\<lambda>a. ad_user_id a = i) (db_destinations d));
          gone = (\<lambda>r. ar_user_id r = i \<or> ar_destination_id r \<in> set dests);
          rules = map ar_id (filter gone (db_rules d));
          null_in = (\<lambda>ids v. case v of Some k \<Rightarrow> if k \<in> set ids then None else Some k | None \<Rightarrow> None)
      in d\<lparr>db_users := filter (\<lambda>u. u_id u \<noteq> i) (db_users d),
           db_destinations := filter (\<lambda>a. ad_user_id a \<noteq> i) (db_destinations d),
           db_rules := filter (\<lambda>r. \<not> gone r) (db_rules d),
           db_api_keys := filter (\<lambda>k. ak_user_id k \<noteq> i) (db_api_keys d),
           db_extensions := map (\<lambda>x. if x_user_id x = Some i then x\<lparr>x_user_id := None\<rparr> else x)
                              (db_extensions d),
           db_alert_logs := map (\<lambda>l. l\<lparr>al_rule_id := null_in rules (al_rule_id l),
                                       al_destination_id := null_in dests (al_destination_id l),
                                       al_user_id := null_in [i] (al_user_id l)\<rparr>) (db_alert_logs d),
           db_audit_logs := map (\<lambda>l. l\<lparr>au_actor_id := null_in [i] (au_actor_id l)\<rparr>)
                              (db_audit_logs d)\<rparr>)"

definition orphan_extensions :: "int \<Rightarrow> db \<Rightarrow> db" where
  "orphan_extensions i d =
     d\<lparr>db_extensions := map (\<lambda>x. if x_user_id x = Some i
                                   then x\<lparr>x_user_id := None, x_watchlist := False\<rparr> else x)
                          (db_extensions d)\<rparr>"

definition delete_user ::
    "auth_env \<Rightarrow> instant \<Rightarrow> request \<Rightarrow> int \<Rightarrow> db \<Rightarrow> (http_error + unit) \<times> db" where
  "delete_user env now req user_id d =
     (case require_role [ADMIN] env now req d of
        (Inl e, d') \<Rightarrow> (Inl e, d')
      | (Inr admin, d') \<Rightarrow>
          if user_id = u_id admin then (Inl (HttpError 400 ''Cannot delete your own account''), d')
          else (case get_user d' user_id of
                  None \<Rightarrow> (Inl (HttpError 404 ''User not found''), d')
                | Some target \<Rightarrow>
                    let d1 = audit_record now (actor_from_request admin (Some (rq_client req)))
                               ''user.delete'' ''user'' (Some (show_int user_id))
                               [(''username'', JStr (u_username target)), (''role'', JStr (u_role target)),
                                (''auth_provider'', JStr (u_auth_provider target))] d'
                    in (Inr (), delete_user_row user_id (orphan_extensions user_id d1))))"

definition put_user :: "user \<Rightarrow> db \<Rightarrow> db" where
  "put_user u d = d\<lparr>db_users := map (\<lambda>v. if u_id v = u_id u then u else v) (db_users d)\<rparr>"

definition change_password ::
    "auth_env \<Rightarrow> instant \<Rightarrow> request \<Rightarrow> string \<Rightarrow> string \<Rightarrow> db \<Rightarrow> (http_error + unit) \<times> db" where
  "change_password env now req current_password new_password d =
     (case require_api_auth env now req d of
        (Inl e, d') \<Rightarrow> (Inl e, d')
      | (Inr u, d') \<Rightarrow>
          if length new_password < 8 \<or> reject_over_long_password new_password
          then (Inl (HttpError 422 ''new_password''), d')
          else (case u_password_hash u of
                  Some (c # h) \<Rightarrow>
                    if \<not> verify_password env current_password (c # h)
                    then (Inl (HttpError 400 ''Current password is incorrect''), d')
                    else (case hash_password env new_password of
                            None \<Rightarrow> (Inl (ServerError ''PasswordTooLongError''), d')
                          | Some h' \<Rightarrow>
                              let u' = u\<lparr>u_password_hash := Some h',
                                         u_password_changed_at := Some (Aware now)\<rparr>;
                                  d1 = put_user u' d';
                                  d2 = d1\<lparr>db_api_keys := filter (\<lambda>k. ak_user_id k \<noteq> u_id u)
                                                          (db_api_keys d1)\<rparr>
                              in (Inr (), audit_record now (actor_from_request u (Some (rq_client req)))
                                            ''user.password_change'' ''user'' (Some (show_int (u_id u))) [] d2))
                | _ \<Rightarrow> (Inl (HttpError 400
                       ''This account signs in via SSO and has no local password''), d')))"

section \<open>Laws\<close>

lemma put_user_frame [simp]:
  "db_api_keys (put_user u d) = db_api_keys d" "db_extensions (put_user u d) = db_extensions d"
  "db_audit_logs (put_user u d) = db_audit_logs d"
  by (simp_all add: put_user_def)

lemma put_user_mem: "v \<in> set (db_users (put_user u d)) \<Longrightarrow> u_id v = u_id u \<Longrightarrow> v = u"
  by (auto simp: put_user_def split: if_splits)

lemma change_password_ok:
  assumes "require_api_auth env now req d = (Inr u, d0)"
    and "change_password env now req old new d = (Inr (), d')"
  shows "\<exists>h. hash_password env new = Some h \<and>
     db_users d' = db_users (put_user (u\<lparr>u_password_hash := Some h,
                                        u_password_changed_at := Some (Aware now)\<rparr>) d0) \<and>
     db_api_keys d' = filter (\<lambda>k. ak_user_id k \<noteq> u_id u) (db_api_keys d0)"
  using assms by (auto simp: change_password_def Let_def split: if_splits option.splits list.splits)

lemma find_append:
  "find P (xs @ ys) = (case find P xs of Some x \<Rightarrow> Some x | None \<Rightarrow> find P ys)"
  by (induction xs) auto

section \<open>Properties\<close>

text \<open>C15: a password change ends every older credential of the account: none of its API keys
  remains, no session cookie issued more than a second before the change is accepted again,
  and no older key would be.\<close>

theorem change_password_revokes:
  assumes "require_api_auth env now req d = (Inr u, d0)"
    and "change_password env now req old new d = (Inr (), d')"
  shows "(\<forall>k \<in> set (db_api_keys d'). ak_user_id k \<noteq> u_id u) \<and>
     (\<forall>env' now' req' v. authenticate_session env' now' req' d' = Inr (Some v) \<and> u_id v = u_id u \<longrightarrow>
        (\<exists>name issued_at. get_session_claims env' now' req' = Inr (Some (name, issued_at)) \<and>
           now - usec_per_sec \<le> issued_at)) \<and>
     (\<forall>v \<in> set (db_users d'). \<forall>t. u_id v = u_id u \<longrightarrow>
        (api_key_after_password_change v t \<longleftrightarrow> now \<le> t))"
proof -
  obtain h where users: "db_users d' = db_users (put_user (u\<lparr>u_password_hash := Some h,
                                        u_password_changed_at := Some (Aware now)\<rparr>) d0)"
    and keys: "db_api_keys d' = filter (\<lambda>k. ak_user_id k \<noteq> u_id u) (db_api_keys d0)"
    using change_password_ok [OF assms] by blast
  have row: "u_password_changed_at v = Some (Aware now)" if "v \<in> set (db_users d')" "u_id v = u_id u" for v
    using put_user_mem [of v "u\<lparr>u_password_hash := Some h, u_password_changed_at := Some (Aware now)\<rparr>" d0]
      that users by simp
  have "\<exists>name issued_at. get_session_claims env' now' req' = Inr (Some (name, issued_at)) \<and>
           now - usec_per_sec \<le> issued_at"
    if s: "authenticate_session env' now' req' d' = Inr (Some v)" "u_id v = u_id u" for env' now' req' v
  proof -
    obtain name issued_at where c: "get_session_claims env' now' req' = Inr (Some (name, issued_at))"
      "find_user d' name = Some v" "session_after_password_change v issued_at"
      using s authenticate_session_Some by blast
    with row [of v] s find_user_username [OF c(2)] show ?thesis
      by (simp add: session_after_password_change_def)
  qed
  then show ?thesis
    using row by (auto simp: keys api_key_after_password_change_def)
qed

lemma change_password_revokes_witness:
  "\<exists>d'. change_password sample_auth_env 9 sample_request ''secret99'' ''newsecret'' sample_db = (Inr (), d') \<and>
        (\<forall>k \<in> set (db_api_keys d'). ak_user_id k \<noteq> 1)"
proof -
  have auth: "require_api_auth sample_auth_env 9 sample_request sample_db = (Inr sample_user, sample_db)"
    by (simp add: sample_defs require_api_auth_def scheme_param_def authenticate_session_def
        get_session_claims_def find_user_def dict_get_def session_after_password_change_def
        session_within_sso_max_age_def usec_per_sec_def lower_def)
  have "\<exists>d'. change_password sample_auth_env 9 sample_request ''secret99'' ''newsecret'' sample_db = (Inr (), d')"
    by (simp add: change_password_def auth)
       (simp add: sample_defs reject_over_long_password_def MAX_PASSWORD_BYTES_def
          hash_password_def verify_password_def)
  then obtain d' where
    cp: "change_password sample_auth_env 9 sample_request ''secret99'' ''newsecret'' sample_db = (Inr (), d')" ..
  have "u_id sample_user = 1" by (simp add: sample_defs)
  with change_password_revokes [OF auth cp] cp show ?thesis by auto
qed

text \<open>A key works from the moment it is minted, and only its digest is stored. The raw key the
  caller is shown once authenticates as its owner on the next request, within the lifetime.\<close>

theorem create_key_then_use:
  assumes "create_key env now token req label ro d = (Inr (out, raw_key), d')"
    and "require_session_user env now req d = Inr u" and "get_user d (u_id u) = Some u"
    and "\<forall>k \<in> set (db_api_keys d). ak_key_hash k \<noteq> ae_hash_key env raw_key"
    and "\<forall>c. u_password_changed_at u = Some c \<longrightarrow> utc_of c \<le> now"
    and "now' - now \<le> as_api_key_sso_max_age_days (ae_settings env) * usec_per_day"
    and "ro \<longrightarrow> meth \<in> {''GET'', ''HEAD''}"
  shows "fst (require_bearer env now' meth raw_key d') = Inr u \<and>
         raw_key = ''ebs_'' @ token \<and>
         (\<exists>k. db_api_keys d' = db_api_keys d @ [k] \<and> ak_user_id k = u_id u \<and>
              ak_key_hash k = ae_hash_key env raw_key \<and> ak_readonly k = ro \<and>
              ak_key_prefix k = take 12 raw_key \<and> ak_key_suffix k = last_chars 4 raw_key) \<and>
         length (db_audit_logs d') = Suc (length (db_audit_logs d))"
proof -
  let ?k = "new_api_key env now (db_next_id d) (u_id u) label ro raw_key"
  have raw: "raw_key = ''ebs_'' @ token" and keys: "db_api_keys d' = db_api_keys d @ [?k]"
    and users: "db_users d' = db_users d"
    and logs: "length (db_audit_logs d') = Suc (length (db_audit_logs d))"
    using assms(1,2) by (auto simp: create_key_def generate_api_key_def Let_def split: if_splits)
  have "find (\<lambda>k. ak_key_hash k = ae_hash_key env raw_key) (db_api_keys d) = None"
    using assms(4) by (auto simp: find_None_iff)
  then have found: "find (\<lambda>k. ak_key_hash k = ae_hash_key env raw_key) (db_api_keys d') = Some ?k"
    by (simp add: keys find_append new_api_key_def)
  have user: "get_user d' (u_id u) = Some u" using assms(3) users by (simp add: get_user_def)
  have k: "ak_user_id ?k = u_id u" "utc_of (ak_created_at ?k) = now" "ak_readonly ?k = ro"
    by (simp_all add: new_api_key_def)
  have "api_key_after_password_change u now"
    using assms(5) by (simp add: api_key_after_password_change_def split: option.split)
  then have "fst (require_bearer env now' meth raw_key d') = Inr u"
    using assms(6,7) user k by (auto simp: require_bearer_def found Let_def)
  then show ?thesis using raw keys logs by (simp add: new_api_key_def)
qed

lemma create_key_then_use_witness:
  "fst (require_bearer sample_auth_env 7 ''GET'' ''ebs_xyz''
      (snd (create_key sample_auth_env 5 ''xyz'' sample_request ''ci'' True sample_db))) = Inr sample_user"
proof -
  have user: "require_session_user sample_auth_env 5 sample_request sample_db = Inr sample_user"
    by (simp add: sample_defs require_session_user_def authenticate_session_def
        get_session_claims_def find_user_def dict_get_def session_after_password_change_def
        session_within_sso_max_age_def usec_per_sec_def)
  obtain out raw where ck: "create_key sample_auth_env 5 ''xyz'' sample_request ''ci'' True sample_db
      = (Inr (out, raw), snd (create_key sample_auth_env 5 ''xyz'' sample_request ''ci'' True sample_db))"
    and raw: "raw = ''ebs_xyz''"
    by (simp add: create_key_def user Let_def generate_api_key_def)
  have "get_user sample_db (u_id sample_user) = Some sample_user"
    "\<forall>k \<in> set (db_api_keys sample_db). ak_key_hash k \<noteq> ae_hash_key sample_auth_env raw"
    "\<forall>c. u_password_changed_at sample_user = Some c \<longrightarrow> utc_of c \<le> 5"
    "7 - 5 \<le> as_api_key_sso_max_age_days (ae_settings sample_auth_env) * usec_per_day"
    by (simp_all add: sample_defs get_user_def usec_per_day_def)
  from create_key_then_use [OF ck user this(1-4), of "''GET''"] raw show ?thesis by simp
qed

lemma null_in_None [simp]:
  "(case v of None \<Rightarrow> None | Some k \<Rightarrow> if k \<in> set [i] then None else Some k) \<noteq> Some i"
  by (simp split: option.split)

text \<open>Deleting an account removes its credentials, rules and destinations and orphans its
  extensions off the watchlist, but keeps the history: no extension, alert record or audit
  record disappears, only their links to the account are cut, and the deletion itself is
  recorded under the administrator's name.\<close>

theorem delete_user_keeps_history:
  assumes "require_role [ADMIN] env now req d = (Inr admin, d0)"
    and "delete_user env now req i d = (Inr (), d')"
  shows "(\<forall>u \<in> set (db_users d'). u_id u \<noteq> i) \<and> (\<forall>k \<in> set (db_api_keys d'). ak_user_id k \<noteq> i) \<and>
    (\<forall>a \<in> set (db_destinations d'). ad_user_id a \<noteq> i) \<and> (\<forall>r \<in> set (db_rules d'). ar_user_id r \<noteq> i) \<and>
    map x_id (db_extensions d') = map x_id (db_extensions d0) \<and>
    (\<forall>x \<in> set (db_extensions d'). x_user_id x \<noteq> Some i) \<and>
    (\<forall>x \<in> set (db_extensions d0). x_user_id x = Some i \<longrightarrow>
       x\<lparr>x_user_id := None, x_watchlist := False\<rparr> \<in> set (db_extensions d')) \<and>
    map al_event_type (db_alert_logs d') = map al_event_type (db_alert_logs d0) \<and>
    map al_extension_id (db_alert_logs d') = map al_extension_id (db_alert_logs d0) \<and>
    (\<forall>l \<in> set (db_alert_logs d'). al_user_id l \<noteq> Some i) \<and>
    map au_actor (db_audit_logs d') = map au_actor (db_audit_logs d0) @ [u_username admin] \<and>
    map au_action (db_audit_logs d') = map au_action (db_audit_logs d0) @ [''user.delete''] \<and>
    u_id admin \<noteq> i"
proof -
  have "\<exists>detail. i \<noteq> u_id admin \<and> d' = delete_user_row i (orphan_extensions i
      (audit_record now (actor_from_request admin (Some (rq_client req))) ''user.delete'' ''user''
        (Some (show_int i)) detail d0))"
    using assms by (cases "get_user d0 i") (auto simp: delete_user_def Let_def split: if_splits)
  then obtain detail where ne: "i \<noteq> u_id admin" and d': "d' = delete_user_row i (orphan_extensions i
      (audit_record now (actor_from_request admin (Some (rq_client req))) ''user.delete'' ''user''
        (Some (show_int i)) detail d0))" by blast
  show ?thesis
    unfolding d' delete_user_row_def orphan_extensions_def Let_def
    using ne by (auto simp: audit_build_def actor_from_request_def image_iff comp_def simp del: set_simps)
qed

lemma delete_user_keeps_history_witness:
  "\<exists>d'. delete_user sample_auth_env 9 sample_request 2 sample_db = (Inr (), d') \<and>
        map au_action (db_audit_logs d') = [''user.delete''] \<and>
        map x_id (db_extensions d') = map x_id (db_extensions sample_db)"
proof -
  have admin: "require_role [ADMIN] sample_auth_env 9 sample_request sample_db = (Inr sample_user, sample_db)"
    by (simp add: sample_defs require_role_def require_api_auth_def scheme_param_def
        authenticate_session_def get_session_claims_def find_user_def dict_get_def
        session_after_password_change_def session_within_sso_max_age_def usec_per_sec_def lower_def)
  have "\<exists>d'. delete_user sample_auth_env 9 sample_request 2 sample_db = (Inr (), d')"
    by (simp add: delete_user_def admin Let_def) (simp add: sample_defs get_user_def)
  then obtain d' where del: "delete_user sample_auth_env 9 sample_request 2 sample_db = (Inr (), d')" ..
  have "db_audit_logs sample_db = []" by (simp add: sample_defs)
  with delete_user_keeps_history [OF admin del] del show ?thesis by auto
qed

end
