(* ===== verification/Webhooks.thy ===== *)
theory Webhooks
  imports Url Json
begin

text \<open>
  \<open>app/webhooks.py\<close> and the request of \<open>app/threat_feed.py\<close>: validation of an outbound URL
  against server-side request forgery, and requests pinned to a validated address.

  Name resolution is an argument: what \<open>getaddrinfo\<close> answers for a host and port at the time
  of the call. The request handed to the HTTP client is the result.
\<close>

section \<open>Validation\<close>

datatype resolution =
    Resolved "string list"
  | GaiError
  | ResolveError string

datatype webhook_exn =
    WebhookValidationError string
  | UncaughtError string

type_synonym resolver = "string \<Rightarrow> nat option \<Rightarrow> resolution"

definition BLOCKED_HOSTNAMES :: "string list" where
  "BLOCKED_HOSTNAMES = [''localhost'', ''localtest.me'']"

text \<open>The addresses \<open>_check_ip_allowed\<close> lets through.\<close>

definition public_ip :: "ip_addr \<Rightarrow> bool" where
  "public_ip a \<longleftrightarrow>
     ip_is_global a \<and> \<not> ip_is_loopback a \<and> \<not> ip_is_link_local a \<and> \<not> ip_is_reserved a"

definition check_ip_allowed :: "string \<Rightarrow> webhook_exn + unit" where
  "check_ip_allowed ip_str =
     (case ip_address ip_str of
        None \<Rightarrow> Inl (UncaughtError ''ValueError'')
      | Some addr \<Rightarrow>
          if \<not> ip_is_global addr \<or> ip_is_loopback addr \<or> ip_is_link_local addr \<or> ip_is_reserved addr
          then Inl (WebhookValidationError ''Webhook URL must not point to a private or reserved address'')
          else Inr ())"

fun check_all :: "string list \<Rightarrow> webhook_exn + unit" where
  "check_all [] = Inr ()"
| "check_all (ip # ips) = (case check_ip_allowed ip of Inl e \<Rightarrow> Inl e | Inr _ \<Rightarrow> check_all ips)"

definition resolve_host :: "resolver \<Rightarrow> string \<Rightarrow> nat option \<Rightarrow> resolution" where
  "resolve_host getaddrinfo hostname port =
     (case getaddrinfo hostname port of Resolved infos \<Rightarrow> Resolved (unique infos) | r \<Rightarrow> r)"

definition blocked_hostname :: "string \<Rightarrow> bool" where
  "blocked_hostname h \<longleftrightarrow>
     h \<in> set BLOCKED_HOSTNAMES \<or> list_ex (\<lambda>b. ends_with h (''.'' @ b)) BLOCKED_HOSTNAMES"

definition truthy_str :: "string option \<Rightarrow> bool" where
  "truthy_str v = (case v of Some (_ # _) \<Rightarrow> True | _ \<Rightarrow> False)"

definition validate_webhook_url :: "resolver \<Rightarrow> string \<Rightarrow> webhook_exn + string list" where
  "validate_webhook_url getaddrinfo url =
     (case urlparse url of
        None \<Rightarrow> Inl (WebhookValidationError ''Invalid webhook URL'')
      | Some parsed \<Rightarrow>
          let (username, password) = url_userinfo parsed;
              hostname = lower (case url_hostname parsed of Some h \<Rightarrow> h | None \<Rightarrow> [])
          in if ur_scheme parsed \<noteq> ''http'' \<and> ur_scheme parsed \<noteq> ''https''
             then Inl (WebhookValidationError ''Webhook URL must use http or https'')
             else if truthy_str username \<or> truthy_str password
             then Inl (WebhookValidationError
                    ''Webhook URL must not contain embedded credentials (user:pass@host)'')
             else if hostname = [] then Inl (WebhookValidationError ''Webhook URL has no hostname'')
             else (case url_port parsed of
                     None \<Rightarrow> Inl (WebhookValidationError ''Webhook URL port is invalid'')
                   | Some port \<Rightarrow>
                       if blocked_hostname hostname
                       then Inl (WebhookValidationError ''Webhook URL hostname is not allowed'')
                       else if ip_address hostname \<noteq> None
                       then (case check_ip_allowed hostname of
                               Inl e \<Rightarrow> Inl e | Inr _ \<Rightarrow> Inr [hostname])
                       else (case resolve_host getaddrinfo hostname port of
                               ResolveError e \<Rightarrow> Inl (UncaughtError e)
                             | GaiError \<Rightarrow>
                                 Inl (WebhookValidationError ''Webhook URL hostname could not be resolved'')
                             | Resolved ips \<Rightarrow>
                                 if ips = []
                                 then Inl (WebhookValidationError
                                        ''Webhook URL hostname could not be resolved'')
                                 else (case check_all ips of Inl e \<Rightarrow> Inl e | Inr _ \<Rightarrow> Inr ips))))"

section \<open>Pinned requests\<close>

definition authority :: "string \<Rightarrow> nat option \<Rightarrow> string" where
  "authority host port =
     (let bracketed = (if CHR '':'' \<in> set host then ''['' @ host @ '']'' else host)
      in case port of
           Some p \<Rightarrow> if p \<noteq> 0 then bracketed @ '':'' @ show_nat p else bracketed
         | None \<Rightarrow> bracketed)"

fun str_dict_set :: "(string \<times> string) list \<Rightarrow> string \<Rightarrow> string \<Rightarrow> (string \<times> string) list" where
  "str_dict_set [] k v = [(k, v)]"
| "str_dict_set ((k', v') # d) k v = (if k' = k then (k, v) # d else (k', v') # str_dict_set d k v)"

record pinned_request =
  pr_method :: string
  pr_url :: string
  pr_headers :: "(string \<times> string) list"
  pr_json :: "json option"
  pr_follow_redirects :: bool
  pr_sni_hostname :: "string option"

definition merge_headers :: "string \<Rightarrow> (string \<times> string) list \<Rightarrow> (string \<times> string) list" where
  "merge_headers host_value headers =
     foldl (\<lambda>h (key, value). if lower key = ''host'' then h else str_dict_set h key value)
       [(''Host'', host_value)] headers"

text \<open>The parsed URL with its authority replaced by the validated address.\<close>

definition pin_url :: "url \<Rightarrow> string \<Rightarrow> nat option \<Rightarrow> string" where
  "pin_url parsed ip port = urlunparse (parsed\<lparr>ur_netloc := authority ip port\<rparr>)"

definition send_pinned_request ::
    "resolver \<Rightarrow> string \<Rightarrow> json \<Rightarrow> (string \<times> string) list \<Rightarrow> webhook_exn + pinned_request" where
  "send_pinned_request getaddrinfo url body headers =
     (case validate_webhook_url getaddrinfo url of
        Inl e \<Rightarrow> Inl e
      | Inr validated_ips \<Rightarrow>
          (case urlparse url of
             None \<Rightarrow> Inl (UncaughtError ''ValueError'')
           | Some parsed \<Rightarrow>
               (case url_hostname parsed of
                  None \<Rightarrow> Inl (WebhookValidationError ''Webhook URL has no host'')
                | Some host \<Rightarrow>
                    (case url_port parsed of
                       None \<Rightarrow> Inl (UncaughtError ''ValueError'')
                     | Some port \<Rightarrow>
                         Inr \<lparr>pr_method = ''POST'',
                              pr_url = pin_url parsed (hd validated_ips) port,
                              pr_headers = merge_headers (authority host port) headers,
                              pr_json = Some body, pr_follow_redirects = False,
                              pr_sni_hostname =
                                (if ur_scheme parsed = ''https'' then Some host else None)\<rparr>))))"

text \<open>The request of \<open>fetch_threat_feed\<close>.\<close>

definition threat_feed_request :: "resolver \<Rightarrow> string \<Rightarrow> webhook_exn + pinned_request" where
  "threat_feed_request getaddrinfo url =
     (case validate_webhook_url getaddrinfo url of
        Inl e \<Rightarrow> Inl e
      | Inr ips \<Rightarrow>
          (case urlparse url of
             None \<Rightarrow> Inl (UncaughtError ''ValueError'')
           | Some parsed \<Rightarrow>
               (case (url_hostname parsed, url_port parsed) of
                  (None, _) \<Rightarrow> Inl (UncaughtError ''threat feed URL has no host'')
                | (_, None) \<Rightarrow> Inl (UncaughtError ''ValueError'')
                | (Some host, Some port) \<Rightarrow>
                    Inr \<lparr>pr_method = ''GET'', pr_url = pin_url parsed (hd ips) port,
                         pr_headers = [(''Host'', authority host port), (''Accept'', ''application/json'')],
                         pr_json = None, pr_follow_redirects = False,
                         pr_sni_hostname =
                           (if ur_scheme parsed = ''https'' then Some host else None)\<rparr>)))"

section \<open>Laws\<close>

lemma check_ip_allowed_iff:
  "check_ip_allowed s = Inr u \<longleftrightarrow> (\<exists>a. ip_address s = Some a \<and> public_ip a)"
  by (auto simp: check_ip_allowed_def public_ip_def split: option.splits)

lemma check_all_iff:
  "check_all ips = Inr u \<longleftrightarrow> (\<forall>ip \<in> set ips. \<exists>a. ip_address ip = Some a \<and> public_ip a)"
proof (induction ips)
  case (Cons ip ips)
  show ?case
  proof (cases "check_ip_allowed ip")
    case (Inl e)
    then have "\<not> (\<exists>a. ip_address ip = Some a \<and> public_ip a)"
      using check_ip_allowed_iff [of ip "()"] by auto
    with Inl show ?thesis by auto
  next
    case (Inr v)
    with Cons check_ip_allowed_iff [of ip v] show ?thesis by auto
  qed
qed simp

lemma truthy_str_Some: "\<not> truthy_str (Some s) \<longleftrightarrow> s = []"
  by (cases s) (simp_all add: truthy_str_def)

lemma validate_webhook_url_cases:
  assumes "validate_webhook_url g s = Inr ips"
  obtains p port host where "urlparse s = Some p" "ur_scheme p = ''http'' \<or> ur_scheme p = ''https''"
    "\<not> truthy_str (fst (url_userinfo p))" "\<not> truthy_str (snd (url_userinfo p))"
    "url_hostname p = Some host" "host \<noteq> []" "\<not> blocked_hostname (lower host)"
    "url_port p = Some port" "ips \<noteq> []"
    "\<forall>ip \<in> set ips. \<exists>a. ip_address ip = Some a \<and> public_ip a"
    "ip_address (lower host) \<noteq> None \<longrightarrow> ips = [lower host]"
proof -
  obtain p where p: "urlparse s = Some p"
    using assms by (auto simp: validate_webhook_url_def split: option.splits)
  obtain un pw where ui: "url_userinfo p = (un, pw)" by (cases "url_userinfo p")
  let ?h = "lower (case url_hostname p of Some h \<Rightarrow> h | None \<Rightarrow> [])"
  have v: "validate_webhook_url g s = Inr ips" by (rule assms)
  note v = v [unfolded validate_webhook_url_def p option.case ui Let_def prod.case]
  have sch: "ur_scheme p = ''http'' \<or> ur_scheme p = ''https''"
    and cred: "\<not> truthy_str un \<and> \<not> truthy_str pw" and h: "?h \<noteq> []"
    using v by (auto split: if_splits)
  then obtain host where host: "url_hostname p = Some host" "host \<noteq> []"
    by (cases "url_hostname p") auto
  obtain port where port: "url_port p = Some port"
    using v sch cred h by (cases "url_port p") (auto split: if_splits)
  have nb: "\<not> blocked_hostname (lower host)"
    using v sch cred h host port by (auto split: if_splits)
  show thesis
  proof (cases "ip_address (lower host)")
    case (Some a)
    then have "check_ip_allowed (lower host) = Inr ()" "ips = [lower host]"
      using v sch cred h host port nb by (auto split: sum.splits if_splits)
    with that [OF p sch _ _ host nb port] cred ui show thesis
      using check_ip_allowed_iff by simp
  next
    case None
    then obtain rs where "resolve_host g (lower host) port = Resolved rs" "rs \<noteq> []"
      "check_all rs = Inr ()" "ips = rs"
      using v sch cred h host port nb
      by (auto split: resolution.splits sum.splits if_splits)
    with that [OF p sch _ _ host nb port] cred ui None show thesis
      using check_all_iff by simp
  qed
qed

section \<open>The authority of a validated address\<close>

lemma url_parts_authority:
  assumes "ip_address ip = Some a" "CHR ''%'' \<notin> set ip" "ur_netloc u = authority ip port"
    and "\<And>p. port = Some p \<Longrightarrow> p \<le> 65535"
  shows "netloc_ok (ur_netloc u) \<and> url_hostname u = Some (lower ip) \<and>
    url_port u = Some (if port = Some 0 then None else port) \<and>
    url_userinfo u = (None, None) \<and>
    (\<forall>c \<in> set (ur_netloc u). \<not> is_unsafe_url_char c \<and> \<not> is_netloc_end c)"
proof -
  have chars: "is_ip_char c" if "c \<in> set ip" for c using ip_address_chars [OF assms(1,2) that] .
  have ip: "CHR ''@'' \<notin> set ip" "CHR ''['' \<notin> set ip" "CHR '']'' \<notin> set ip"
    "\<forall>c \<in> set ip. \<not> is_unsafe_url_char c \<and> \<not> is_netloc_end c"
    using chars is_ip_char_not by blast+
  have "ip \<noteq> []"
    using assms(1) by (auto simp: ip_address_def ipv4_of_string_def split_scope_id_def ipv6_of_string_def
        parse_octet_def is_digits_def)
  define ps where "ps = (case port of Some p \<Rightarrow> if p \<noteq> 0 then show_nat p else [] | None \<Rightarrow> [])"
  have ps: "\<forall>c \<in> set ps. is_digit_ascii c"
    by (auto simp: ps_def show_nat_chars split: option.splits if_splits)
  then have psn: "c \<notin> set ps" if "\<not> is_digit_ascii c" for c using that by blast
  have nd: "\<not> is_digit_ascii (CHR ''@'')" "\<not> is_digit_ascii (CHR ''['')" "\<not> is_digit_ascii (CHR '']'')"
    "\<not> is_digit_ascii (CHR '':'')"
    by (simp_all add: is_digit_ascii_def less_eq_char_def)
  have port: "url_port u = Some (if port = Some 0 then None else port)" if "snd (url_hostinfo u) = ps"
    using digits_show_nat assms(4) that
    by (auto simp: url_port_def ps_def Let_def is_digits_def split: option.splits if_splits)
  have low: "lower_host ip = lower ip" using assms(2) by (simp add: lower_host_def)
  have auth: "authority ip port =
    (if CHR '':'' \<in> set ip then ''['' @ ip @ '']'' else ip) @ (if ps = [] then [] else CHR '':'' # ps)"
    by (auto simp: authority_def ps_def Let_def split: option.splits)
  have digit: "\<not> is_unsafe_url_char c \<and> \<not> is_netloc_end c" if "is_digit_ascii c" for c
    using is_ip_char_not [of c] digit_is_hex [OF that] by (simp add: is_ip_char_def)
  have safe: "\<forall>c \<in> set (ur_netloc u). \<not> is_unsafe_url_char c \<and> \<not> is_netloc_end c"
  proof -
    have "set (ur_netloc u) \<subseteq> set ip \<union> set ps \<union> {CHR ''['', CHR '']'', CHR '':''}"
      using assms(3) auth by auto
    moreover have "\<forall>c \<in> {CHR ''['', CHR '']'', CHR '':''}. \<not> is_unsafe_url_char c \<and> \<not> is_netloc_end c"
      by (simp add: is_unsafe_url_char_def is_netloc_end_def)
    ultimately show ?thesis using ip(4) ps digit by blast
  qed
  show ?thesis
  proof (cases "CHR '':'' \<in> set ip")
    case False
    then have netloc: "ur_netloc u = ip @ (if ps = [] then [] else CHR '':'' # ps)"
      using assms(3) auth by simp
    then have hi: "url_hostinfo u = (ip, ps)"
      using ip False psn nd by (auto simp: url_hostinfo_def Let_def)
    have no: "CHR ''['' \<notin> set (ur_netloc u)" "CHR '']'' \<notin> set (ur_netloc u)" "CHR ''@'' \<notin> set (ur_netloc u)"
      using netloc ip psn nd by auto
    then have "netloc_ok (ur_netloc u)" "url_userinfo u = (None, None)"
      by (simp_all add: netloc_ok_def url_userinfo_def)
    moreover have "url_hostname u = Some (lower ip)"
      using hi low \<open>ip \<noteq> []\<close> by (simp add: url_hostname_def)
    moreover have "url_port u = Some (if port = Some 0 then None else port)" using port hi by simp
    ultimately show ?thesis using safe by simp
  next
    case True
    define rest where "rest = (if ps = [] then [] else CHR '':'' # ps)"
    have netloc: "ur_netloc u = CHR ''['' # ip @ CHR '']'' # rest"
      using True assms(3) auth by (simp add: rest_def)
    have at: "CHR ''@'' \<notin> set (ur_netloc u)"
      using netloc ip psn nd by (auto simp: rest_def)
    have hi: "url_hostinfo u = (ip, ps)"
      using at ip unfolding url_hostinfo_def netloc by (simp add: rest_def Let_def)
    have v6: "\<exists>w. a = IPv6 w None"
    proof (cases "ipv4_of_string ip")
      case (Some w)
      with True ipv4_chars [OF Some True] show ?thesis by (simp add: is_digit_ascii_def less_eq_char_def)
    next
      case None
      with assms(1,2) show ?thesis by (auto simp: ip_address_def split_scope_id_def split: if_splits)
    qed
    have "\<not> starts_with ip ''v''"
      using chars [of "CHR ''v''"] by (cases ip) (auto simp: starts_with_def is_ip_char_def hex_value_def)
    then have "check_bracketed_host ip" using v6 assms(1) by (auto simp: check_bracketed_host_def)
    then have "check_bracketed_netloc (ur_netloc u)"
      using at ip unfolding check_bracketed_netloc_def netloc
      by (simp add: rest_def starts_with_def)
    then have "netloc_ok (ur_netloc u)" using netloc by (simp add: netloc_ok_def)
    moreover have "url_userinfo u = (None, None)" using at by (simp add: url_userinfo_def)
    moreover have "url_hostname u = Some (lower ip)"
      using hi low \<open>ip \<noteq> []\<close> by (simp add: url_hostname_def)
    moreover have "url_port u = Some (if port = Some 0 then None else port)" using port hi by simp
    ultimately show ?thesis using safe by simp
  qed
qed

lemma authority_not_Nil: "ip \<noteq> [] \<Longrightarrow> authority ip port \<noteq> []"
  by (simp add: authority_def Let_def split: option.split)

text \<open>A pinned URL parses back to the validated address.\<close>

lemma pin_url_parses:
  assumes "ip_address ip = Some a" "CHR ''%'' \<notin> set ip"
    and "ur_scheme p = ''http'' \<or> ur_scheme p = ''https''"
    and "\<And>n. port = Some n \<Longrightarrow> n \<le> 65535"
  shows "\<exists>q. urlparse (pin_url p ip port) = Some q \<and> ur_scheme q = ur_scheme p \<and>
     url_hostname q = Some (lower ip) \<and> url_port q = Some (if port = Some 0 then None else port) \<and>
     url_userinfo q = (None, None)"
proof -
  have "ip \<noteq> []"
    using assms(1) by (auto simp: ip_address_def ipv4_of_string_def split_scope_id_def ipv6_of_string_def
        parse_octet_def is_digits_def)
  let ?u = "p\<lparr>ur_netloc := authority ip port\<rparr>"
  have n: "ur_netloc ?u = authority ip port" by simp
  note parts = url_parts_authority [OF assms(1,2) n assms(4)]
  obtain rest where rest: "urlunparse ?u = ur_scheme p @ '':'' @ ''//'' @ authority ip port @ rest"
    "rest = [] \<or> is_netloc_end (hd rest)"
    using urlunparse_authority [of ?u] authority_not_Nil [OF \<open>ip \<noteq> []\<close>] assms(3) by auto
  obtain q where q: "urlsplit (urlunparse ?u) = Some q" "ur_scheme q = ur_scheme p"
    "ur_netloc q = authority ip port"
    using urlsplit_authority [OF assms(3) _ _ rest(2), of "authority ip port"] parts rest(1) by auto
  obtain q' where q': "urlparse (urlunparse ?u) = Some q'" "ur_scheme q' = ur_scheme p"
    "ur_netloc q' = authority ip port"
    using q by (simp add: urlparse_def)
  show ?thesis
    using url_parts_authority [OF assms(1,2) q'(3) assms(4)] q' by (simp add: pin_url_def)
qed

lemma map_of_str_dict_set [simp]: "map_of (str_dict_set d k v) = (map_of d)(k \<mapsto> v)"
  by (induction d k v rule: str_dict_set.induct) auto

lemma merge_headers_host:
  "map_of (merge_headers host headers) k =
     (if k = ''Host'' then Some host
      else if lower k = ''host'' then None else map_of (merge_headers host headers) k)"
proof -
  have "map_of h ''Host'' = Some host \<and> (\<forall>k. lower k = ''host'' \<longrightarrow> k \<noteq> ''Host'' \<longrightarrow> map_of h k = None) \<Longrightarrow>
    (let r = foldl (\<lambda>h (key, value). if lower key = ''host'' then h else str_dict_set h key value) h headers
     in map_of r ''Host'' = Some host \<and> (\<forall>k. lower k = ''host'' \<longrightarrow> k \<noteq> ''Host'' \<longrightarrow> map_of r k = None))" for h
  proof (induction headers arbitrary: h)
    case (Cons x xs)
    obtain key val where x: "x = (key, val)" by (cases x)
    show ?case
    proof (cases "lower key = ''host''")
      case True
      with Cons show ?thesis by (simp add: x)
    next
      case False
      moreover have "lower ''Host'' = ''host''" by code_simp
      ultimately have "key \<noteq> ''Host''" by auto
      with False Cons.prems have "map_of (str_dict_set h key val) ''Host'' = Some host \<and>
          (\<forall>k. lower k = ''host'' \<longrightarrow> k \<noteq> ''Host'' \<longrightarrow> map_of (str_dict_set h key val) k = None)"
        by auto
      from Cons.IH [OF this] False show ?thesis by (simp add: x)
    qed
  qed (simp add: Let_def)
  from this [of "[(''Host'', host)]"] show ?thesis by (auto simp: merge_headers_def Let_def)
qed

section \<open>Properties\<close>

text \<open>C19: whatever the URL and whatever name resolution answers, a delivery is only ever sent to a
  public address. The request's URL carries an address that was checked when it was sent; read
  back, it has the scheme, that address and the port of the URL given and no credentials. The
  \<open>Host\<close> header names the URL's own host whatever headers the caller adds, and redirects are off.\<close>

theorem pinned_request_public:
  assumes "send_pinned_request g s body headers = Inr rq"
  shows "\<exists>ip a p host port. ip_address ip = Some a \<and> public_ip a \<and> urlparse s = Some p \<and>
     url_hostname p = Some host \<and> url_port p = Some port \<and> pr_url rq = pin_url p ip port \<and>
     (CHR ''%'' \<notin> set ip \<longrightarrow>
       (\<exists>q. urlparse (pr_url rq) = Some q \<and> ur_scheme q = ur_scheme p \<and>
            url_hostname q = Some (lower ip) \<and>
            url_port q = Some (if port = Some 0 then None else port) \<and>
            url_userinfo q = (None, None))) \<and>
     map_of (pr_headers rq) ''Host'' = Some (authority host port) \<and>
     (\<forall>k. lower k = ''host'' \<and> k \<noteq> ''Host'' \<longrightarrow> map_of (pr_headers rq) k = None) \<and>
     \<not> pr_follow_redirects rq"
proof -
  obtain ips where v: "validate_webhook_url g s = Inr ips"
    using assms by (auto simp: send_pinned_request_def split: sum.splits)
  obtain p port host where p: "urlparse s = Some p" "ur_scheme p = ''http'' \<or> ur_scheme p = ''https''"
    "url_hostname p = Some host" "url_port p = Some port" "ips \<noteq> []"
    "\<forall>ip \<in> set ips. \<exists>a. ip_address ip = Some a \<and> public_ip a"
    using validate_webhook_url_cases [OF v] by metis
  then obtain a where a: "ip_address (hd ips) = Some a" "public_ip a" by (meson list.set_sel(1))
  have rq: "pr_url rq = pin_url p (hd ips) port" "\<not> pr_follow_redirects rq"
    "pr_headers rq = merge_headers (authority host port) headers"
    using assms v p by (auto simp: send_pinned_request_def)
  have "n \<le> 65535" if "port = Some n" for n using url_port_le p(4) that by blast
  then have "CHR ''%'' \<notin> set (hd ips) \<longrightarrow>
       (\<exists>q. urlparse (pr_url rq) = Some q \<and> ur_scheme q = ur_scheme p \<and>
            url_hostname q = Some (lower (hd ips)) \<and>
            url_port q = Some (if port = Some 0 then None else port) \<and>
            url_userinfo q = (None, None))"
    using pin_url_parses [OF a(1) _ p(2)] rq(1) by simp
  moreover have "\<forall>k. lower k = ''host'' \<and> k \<noteq> ''Host'' \<longrightarrow> map_of (pr_headers rq) k = None"
    "map_of (pr_headers rq) ''Host'' = Some (authority host port)"
    using merge_headers_host [of "authority host port" headers] rq(3) by metis+
  ultimately show ?thesis using a p rq by blast
qed

lemma pinned_request_public_witness:
  "\<exists>rq. send_pinned_request (\<lambda>_ _. GaiError) ''http://8.8.8.8/x'' JNull [(''host'', ''a'')] = Inr rq \<and>
        \<not> pr_follow_redirects rq"
proof -
  have "\<not> isl (send_pinned_request (\<lambda>_ _. GaiError) ''http://8.8.8.8/x'' JNull [(''host'', ''a'')])"
    by code_simp
  then obtain rq where
    rq: "send_pinned_request (\<lambda>_ _. GaiError) ''http://8.8.8.8/x'' JNull [(''host'', ''a'')] = Inr rq"
    by (metis sum.collapse(2))
  from pinned_request_public [OF this] rq show ?thesis by blast
qed

text \<open>No address that validation accepts lies in a private or special-purpose IPv4 block,
  also when it is written as an IPv4-mapped IPv6 address: not in this-network, 10/8, loopback,
  the shared 100.64/10, link-local with the cloud metadata address, 172.16/12, 192.168/16, the
  benchmark 198.18/15, or the reserved 240/4.\<close>

theorem webhook_ips_not_private:
  assumes "validate_webhook_url g s = Inr ips" "ip \<in> set ips"
    and "ip_address ip = Some (IPv4 w) \<or> (\<exists>v scope. ip_address ip = Some (IPv6 v scope) \<and> ipv4_mapped v = Some w)"
    and "octets_of w = [a, b, c, d]"
  shows "a \<notin> {0, 10, 127} \<and> a < 240 \<and> (a, b) \<noteq> (169, 254) \<and> (a, b) \<noteq> (192, 168) \<and>
    \<not> (a = 172 \<and> 16 \<le> b \<and> b < 32) \<and> \<not> (a = 100 \<and> 64 \<le> b \<and> b < 128) \<and>
    \<not> (a = 198 \<and> (b = 18 \<or> b = 19))"
proof -
  obtain adr where "ip_address ip = Some adr" "public_ip adr"
    using validate_webhook_url_cases [OF assms(1)] assms(2) by metis
  then have "is_global4 w" using assms(3) by (auto simp: public_ip_def)
  then show ?thesis using assms(4) by (rule is_global4_octets)
qed

lemma webhook_ips_not_private_witness:
  "validate_webhook_url (\<lambda>_ _. GaiError) ''http://8.8.8.8/x'' = Inr [''8.8.8.8''] \<and> (8 :: nat) < 240"
proof -
  have v: "validate_webhook_url (\<lambda>_ _. GaiError) ''http://8.8.8.8/x'' = Inr [''8.8.8.8'']" by code_simp
  have i: "ip_address ''8.8.8.8'' = Some (IPv4 (word_of_octets 8 8 8 8))" by code_simp
  have o: "octets_of (word_of_octets 8 8 8 8) = [8, 8, 8, 8]"
    by (simp add: octets_of_def word_of_octets_def)
  from webhook_ips_not_private [OF v _ _ o, of "''8.8.8.8''"] i v show ?thesis by simp
qed

end
