(* ===== verification/Proxy.thy ===== *)
theory Proxy
  imports Webhooks
begin

text \<open>
  \<open>app/proxy.py\<close>: the outbound-proxy decision for a target URL, the injection of the
  environment's credentials, the start-up check of the environment settings and the redaction
  of credentials from error texts.

  The process environment is a function from variable names to values (\<open>[]\<close> when unset); the
  three proxy settings of \<open>app/config.py\<close> are fields. \<open>None\<close> as an outer result is the
  \<open>ValueError\<close> of a malformed URL.
\<close>

record proxy_env =
  pe_username :: string
  pe_password :: string
  pe_environ :: "string \<Rightarrow> string"

datatype proxy_mode = NONE | SYSTEM | EXPLICIT

fun mode_value :: "proxy_mode \<Rightarrow> string" where
  "mode_value NONE = ''NONE''"
| "mode_value SYSTEM = ''SYSTEM''"
| "mode_value EXPLICIT = ''EXPLICIT''"

text \<open>\<open>ProxyMode(s)\<close>; \<open>None\<close> is the \<open>ValueError\<close>.\<close>

definition proxy_mode_of :: "string \<Rightarrow> proxy_mode option" where
  "proxy_mode_of s = find (\<lambda>m. mode_value m = s) [NONE, SYSTEM, EXPLICIT]"

definition PROXY_URL_SCHEMES :: "string list" where
  "PROXY_URL_SCHEMES = [''http'', ''https'']"

record proxy_config =
  pg_mode :: string
  pg_proxy_url :: string
  pg_no_proxy :: string

section \<open>Routing\<close>

definition parse_no_proxy :: "string \<Rightarrow> string list" where
  "parse_no_proxy value = filter (\<lambda>t. t \<noteq> []) (map strip (split_on (CHR '','') value))"

text \<open>The loop of \<open>_should_bypass\<close> over the entries; \<open>ip\<close> is the host read as an address.\<close>

fun bypass_entries :: "string \<Rightarrow> ip_addr option \<Rightarrow> string list \<Rightarrow> bool" where
  "bypass_entries host ip [] = False"
| "bypass_entries host ip (entry # entries) =
     (if entry = ''*'' then True
      else (case (CHR ''/'' \<in> set entry, ip) of
              (True, Some addr) \<Rightarrow>
                (case ip_network entry of
                   Some net \<Rightarrow> if in_network addr net then True else bypass_entries host ip entries
                 | None \<Rightarrow> bypass_entries host ip entries)
            | _ \<Rightarrow>
                let target = lstrip_by (\<lambda>c. c = CHR ''.'') (lower entry)
                in if host = target \<or> ends_with host (''.'' @ target) then True
                   else bypass_entries host ip entries))"

definition should_bypass :: "string option \<Rightarrow> string list \<Rightarrow> bool" where
  "should_bypass host entries =
     (case host of
        Some (c # h) \<Rightarrow> bypass_entries (lower (c # h)) (ip_address (lower (c # h))) entries
      | _ \<Rightarrow> True)"

text \<open>The non-empty values among the names, each in lower and upper case, in order.\<close>

definition env_first :: "proxy_env \<Rightarrow> string list \<Rightarrow> string" where
  "env_first env names =
     (case filter (\<lambda>v. v \<noteq> [])
             (map (\<lambda>n. strip (pe_environ env n)) (concat (map (\<lambda>n. [n, upper n]) names))) of
        [] \<Rightarrow> [] | v # _ \<Rightarrow> v)"

definition system_proxy_for :: "proxy_env \<Rightarrow> string \<Rightarrow> string option option" where
  "system_proxy_for env url =
     (case urlsplit url of
        None \<Rightarrow> None
      | Some parsed \<Rightarrow>
          if should_bypass (url_hostname parsed) (parse_no_proxy (env_first env [''no_proxy'']))
          then Some None
          else
            let proxy = env_first env
                  [if ur_scheme parsed = ''https'' then ''https_proxy'' else ''http_proxy'', ''all_proxy'']
            in Some (if proxy = [] then None else Some proxy))"

definition with_credentials :: "proxy_env \<Rightarrow> string \<Rightarrow> string option" where
  "with_credentials env proxy_url =
     (if pe_username env = [] then Some proxy_url
      else (case urlsplit proxy_url of
              None \<Rightarrow> None
            | Some parsed \<Rightarrow>
                (case url_hostname parsed of
                   None \<Rightarrow> Some proxy_url
                 | Some hostname \<Rightarrow>
                     let userinfo = quote (pe_username env) @
                           (if pe_password env \<noteq> [] then '':'' @ quote (pe_password env) else [])
                     in case url_port parsed of
                          None \<Rightarrow> None
                        | Some p \<Rightarrow>
                            let port = (case p of
                                          Some n \<Rightarrow> if n \<noteq> 0 then '':'' @ show_nat n else []
                                        | None \<Rightarrow> [])
                            in Some (urlunsplit
                                 (parsed\<lparr>ur_netloc := userinfo @ ''@'' @ hostname @ port\<rparr>)))))"

definition resolve_proxy_url :: "proxy_env \<Rightarrow> proxy_config \<Rightarrow> string \<Rightarrow> string option option" where
  "resolve_proxy_url env cfg url =
     (let mode = (case proxy_mode_of (upper (pg_mode cfg)) of Some m \<Rightarrow> m | None \<Rightarrow> SYSTEM) in
      if mode = SYSTEM then system_proxy_for env url
      else if mode = EXPLICIT \<and> pg_proxy_url cfg \<noteq> [] then
        (case urlsplit url of
           None \<Rightarrow> None
         | Some parsed \<Rightarrow>
             if should_bypass (url_hostname parsed) (parse_no_proxy (pg_no_proxy cfg)) then Some None
             else map_option Some (with_credentials env (pg_proxy_url cfg)))
      else Some None)"

definition route_for :: "proxy_env \<Rightarrow> proxy_config option \<Rightarrow> string \<Rightarrow> string option option" where
  "route_for env cfg url =
     (case cfg of Some c \<Rightarrow> resolve_proxy_url env c url | None \<Rightarrow> Some None)"

section \<open>Start-up check\<close>

datatype startup_error = BadProxyMode | MissingProxyUrl | BadProxyUrl | ProxyUrlCredentials | StartupValueError

definition has_credentials :: "url \<Rightarrow> bool" where
  "has_credentials u \<longleftrightarrow> truthy_str (fst (url_userinfo u)) \<or> truthy_str (snd (url_userinfo u))"

definition validate_proxy_settings :: "string \<Rightarrow> string \<Rightarrow> startup_error + unit" where
  "validate_proxy_settings proxy_mode proxy_url =
     (let mode = lower (strip proxy_mode); url = strip proxy_url in
      if mode \<notin> {''none'', ''system'', ''explicit''} then Inl BadProxyMode
      else if mode = ''explicit'' \<and> url = [] then Inl MissingProxyUrl
      else if url = [] then Inr ()
      else (case urlsplit url of
              None \<Rightarrow> Inl StartupValueError
            | Some parsed \<Rightarrow>
                if ur_scheme parsed \<notin> set PROXY_URL_SCHEMES \<or> url_hostname parsed = None
                then Inl BadProxyUrl
                else if has_credentials parsed then Inl ProxyUrlCredentials
                else Inr ()))"

section \<open>Redaction\<close>

text \<open>\<open>_URL_USERINFO_RE.sub("***", text)\<close>: a maximal run without slash, at sign and white space
  that follows \<open>://\<close> and is followed by an at sign. \<open>pre\<close> is the text already passed.\<close>

definition is_userinfo_char :: "char \<Rightarrow> bool" where
  "is_userinfo_char c \<longleftrightarrow> c \<noteq> CHR ''/'' \<and> c \<noteq> CHR ''@'' \<and> \<not> is_py_space c"

definition userinfo_run :: "string \<Rightarrow> string" where
  "userinfo_run s = takeWhile is_userinfo_char s"

function redact_userinfo :: "string \<Rightarrow> string \<Rightarrow> string" where
  "redact_userinfo pre [] = []"
| "redact_userinfo pre (c # s) =
     (let run = userinfo_run (c # s); rest = drop (length run) (c # s) in
      if ends_with pre ''://'' \<and> run \<noteq> [] \<and> starts_with rest ''@''
      then ''***'' @ redact_userinfo (pre @ run) rest
      else c # redact_userinfo (pre @ [c]) s)"
  by pat_completeness auto
termination by (relation "measure (\<lambda>(pre, s). length s)") auto

text \<open>\<open>text.replace(old, new)\<close> for a non-empty \<open>old\<close>.\<close>

function replace_all :: "'a list \<Rightarrow> 'a list \<Rightarrow> 'a list \<Rightarrow> 'a list" where
  "replace_all old new [] = []"
| "replace_all old new (c # s) =
     (if old \<noteq> [] \<and> starts_with (c # s) old
      then new @ replace_all old new (drop (length old) (c # s))
      else c # replace_all old new s)"
  by pat_completeness auto
termination by (relation "measure (\<lambda>(old, new, s). length s)") auto

text \<open>The spellings of a secret that \<open>_redact_secret\<close> replaces.\<close>

definition secret_forms :: "bool \<Rightarrow> string \<Rightarrow> string list" where
  "secret_forms decoded secret = [secret, quote secret] @ (if decoded then [unquote secret] else [])"

definition redact_secret :: "bool \<Rightarrow> string \<Rightarrow> string \<Rightarrow> string" where
  "redact_secret decoded secret text =
     (if secret = [] then text
      else fold (\<lambda>form t. replace_all form ''***'' t) (secret_forms decoded secret) text)"

definition env_secrets :: "string \<Rightarrow> string list" where
  "env_secrets raw =
     (if raw = [] then []
      else (case urlsplit raw of
              None \<Rightarrow> []
            | Some parsed \<Rightarrow>
                concat (map (\<lambda>s. case s of Some v \<Rightarrow> [v] | None \<Rightarrow> [])
                  [snd (url_userinfo parsed), fst (url_userinfo parsed)])))"

definition PROXY_ENV_NAMES :: "string list" where
  "PROXY_ENV_NAMES =
     [''HTTP_PROXY'', ''HTTPS_PROXY'', ''ALL_PROXY'', ''http_proxy'', ''https_proxy'', ''all_proxy'']"

definition environ_secrets :: "proxy_env \<Rightarrow> string list" where
  "environ_secrets env = concat (map (\<lambda>n. env_secrets (strip (pe_environ env n))) PROXY_ENV_NAMES)"

definition scrub :: "proxy_env \<Rightarrow> string \<Rightarrow> string" where
  "scrub env text =
     (let t0 = redact_userinfo [] text;
          t1 = fold (redact_secret False) [pe_password env, pe_username env] t0
      in fold (redact_secret True) (environ_secrets env) t1)"

section \<open>Laws of redaction\<close>

lemma replace_all_hit:
  "old \<noteq> [] \<and> starts_with (c # s) old \<Longrightarrow>
     replace_all old new (c # s) = new @ replace_all old new (drop (length old) (c # s))"
  by simp

lemma replace_all_miss:
  "\<not> (old \<noteq> [] \<and> starts_with (c # s) old) \<Longrightarrow> replace_all old new (c # s) = c # replace_all old new s"
  by auto

declare replace_all.simps(2) [simp del]

lemma replace_all_prefix:
  "new \<noteq> [] \<Longrightarrow> set p \<inter> set new = {} \<Longrightarrow> prefix p (replace_all old new s) \<Longrightarrow> prefix p s"
proof (induction old new s arbitrary: p rule: replace_all.induct)
  case (2 old new c s)
  show ?case
  proof (cases p)
    case (Cons x p')
    show ?thesis
    proof (cases "old \<noteq> [] \<and> starts_with (c # s) old")
      case True
      with 2 Cons show ?thesis by (cases new) (auto simp: replace_all_hit)
    next
      case False
      with 2 Cons show ?thesis by (auto simp: replace_all_miss [OF False])
    qed
  qed simp
qed simp

lemma contains_Cons: "contains (c # s) p \<longleftrightarrow> starts_with (c # s) p \<or> contains s p"
  by (simp add: contains_def)

lemma contains_append_fresh:
  "p \<noteq> [] \<Longrightarrow> set p \<inter> set new = {} \<Longrightarrow> contains (new @ s) p \<Longrightarrow> contains s p"
proof (induction new)
  case (Cons x xs)
  then have "\<not> starts_with (x # xs @ s) p" by (cases p) (auto simp: starts_with_def)
  with Cons show ?case by (simp add: contains_Cons)
qed simp

lemma contains_drop: "contains (drop n s) p \<Longrightarrow> contains s p"
  by (induction s arbitrary: n) (auto simp: contains_Cons drop_Cons split: nat.splits)

text \<open>Replacing introduces no occurrence of a text that shares no character with the
  replacement, and leaves none of the text it replaces.\<close>

lemma replace_all_no_new:
  assumes "new \<noteq> []" "p \<noteq> []" "set p \<inter> set new = {}"
  shows "contains (replace_all old new s) p \<Longrightarrow> contains s p"
  using assms
proof (induction old new s rule: replace_all.induct)
  case (2 old new c s)
  show ?case
  proof (cases "old \<noteq> [] \<and> starts_with (c # s) old")
    case True
    then have "contains (replace_all old new (drop (length old) (c # s))) p"
      using 2 contains_append_fresh replace_all_hit [OF True] by metis
    then have "contains (drop (length old) (c # s)) p" using 2 True by blast
    then show ?thesis by (rule contains_drop)
  next
    case False
    then have "starts_with (c # replace_all old new s) p \<or> contains (replace_all old new s) p"
      using 2 by (simp add: contains_Cons replace_all_miss [OF False])
    then show ?thesis
    proof
      assume "starts_with (c # replace_all old new s) p"
      then have "prefix p (replace_all old new (c # s))"
        by (simp add: starts_with_prefix replace_all_miss [OF False])
      then have "prefix p (c # s)" using replace_all_prefix 2 by blast
      then show ?thesis by (simp add: contains_Cons starts_with_prefix)
    next
      assume "contains (replace_all old new s) p"
      with 2 False show ?thesis by (auto simp: contains_Cons)
    qed
  qed
qed simp

lemma replace_all_gone:
  assumes "new \<noteq> []" "old \<noteq> []" "set old \<inter> set new = {}"
  shows "\<not> contains (replace_all old new s) old"
  using assms
proof (induction old new s rule: replace_all.induct)
  case (1 old new)
  then show ?case by (simp add: contains_def)
next
  case (2 old new c s)
  show ?case
  proof (cases "starts_with (c # s) old")
    case True
    then have hit: "old \<noteq> [] \<and> starts_with (c # s) old" using 2 by simp
    show ?thesis using 2 hit contains_append_fresh unfolding replace_all_hit [OF hit] by metis
  next
    case False
    then have miss: "\<not> (old \<noteq> [] \<and> starts_with (c # s) old)" by simp
    have "\<not> starts_with (c # replace_all old new s) old"
      using False replace_all_prefix [of new old old "c # s"] 2
      unfolding replace_all_miss [OF miss] starts_with_prefix by blast
    with 2 miss show ?thesis by (simp add: contains_Cons replace_all_miss [OF miss])
  qed
qed

lemma fold_replace_no_new:
  assumes "p \<noteq> []" "CHR ''*'' \<notin> set p"
  shows "contains (fold (\<lambda>form t. replace_all form ''***'' t) fs s) p \<Longrightarrow> contains s p"
proof (induction fs arbitrary: s)
  case (Cons f fs)
  then have "contains (replace_all f ''***'' s) p" by simp
  with assms show ?case using replace_all_no_new [of "''***''" p f s] by simp
qed simp

lemma redact_secret_no_new:
  assumes "p \<noteq> []" "CHR ''*'' \<notin> set p"
  shows "contains (redact_secret b secret s) p \<Longrightarrow> contains s p"
  using fold_replace_no_new [OF assms] unfolding redact_secret_def by (cases "secret = []") simp_all

lemma redact_secret_gone:
  assumes "secret \<noteq> []" "form \<in> set (secret_forms b secret)" "form \<noteq> []" "CHR ''*'' \<notin> set form"
  shows "\<not> contains (redact_secret b secret s) form"
proof -
  have "form \<in> set fs \<Longrightarrow> \<not> contains (fold (\<lambda>form t. replace_all form ''***'' t) fs s) form" for fs
  proof (induction fs arbitrary: s)
    case (Cons f fs)
    note keep = fold_replace_no_new [OF assms(3,4)]
    show ?case
    proof (cases "f = form")
      case True
      then have "\<not> contains (replace_all f ''***'' s) form"
        using replace_all_gone [of "''***''" form s] assms True by simp
      with keep show ?thesis by auto
    qed (use Cons in auto)
  qed simp
  with assms(1,2) show ?thesis by (simp add: redact_secret_def)
qed

lemma fold_redact_gone:
  assumes "secret \<in> set secrets" "secret \<noteq> []" "form \<in> set (secret_forms b secret)"
    "form \<noteq> []" "CHR ''*'' \<notin> set form"
  shows "\<not> contains (fold (redact_secret b) secrets s) form"
  using assms(1)
proof (induction secrets arbitrary: s)
  case (Cons t secrets)
  have keep: "contains (fold (redact_secret b) secrets u) form \<Longrightarrow> contains u form" for u
    using assms(4,5) by (induction secrets arbitrary: u) (auto dest: redact_secret_no_new)
  show ?case
  proof (cases "t = secret")
    case True
    with keep redact_secret_gone [OF assms(2-5)] show ?thesis by auto
  qed (use Cons in auto)
qed simp

section \<open>Properties\<close>

text \<open>C20: a scrubbed error text contains no proxy credential. Neither the configured user name
  and password nor a credential carried by a proxy variable of the environment remains, in its
  raw, percent-encoded or (from the environment) decoded spelling, provided the spelling has no
  asterisk, the character of the mask.\<close>

theorem scrub_leaks_nothing:
  assumes "secret \<noteq> []" "form \<noteq> []" "CHR ''*'' \<notin> set form"
    and "secret \<in> {pe_password env, pe_username env} \<and> form \<in> set (secret_forms False secret) \<or>
         secret \<in> set (environ_secrets env) \<and> form \<in> set (secret_forms True secret)"
  shows "\<not> contains (scrub env text) form"
  using assms(4)
proof
  assume "secret \<in> {pe_password env, pe_username env} \<and> form \<in> set (secret_forms False secret)"
  then have "\<not> contains (fold (redact_secret False) [pe_password env, pe_username env] t) form" for t
    using fold_redact_gone [of secret "[pe_password env, pe_username env]" form False] assms by auto
  moreover have "contains (fold (redact_secret True) ss u) form \<Longrightarrow> contains u form" for ss u
    using assms(2,3) by (induction ss arbitrary: u) (auto dest: redact_secret_no_new)
  ultimately show ?thesis unfolding scrub_def Let_def by blast
next
  assume "secret \<in> set (environ_secrets env) \<and> form \<in> set (secret_forms True secret)"
  then show ?thesis
    using fold_redact_gone [of secret "environ_secrets env" form True] assms
    by (simp add: scrub_def Let_def)
qed

lemma scrub_leaks_nothing_witness:
  "\<not> contains (scrub \<lparr>pe_username = ''bob'', pe_password = ''s3/t'', pe_environ = (\<lambda>n. [])\<rparr>
                  ''dial http://bob:s3%2Ft@p failed'') ''s3%2Ft''"
  by (rule scrub_leaks_nothing [where secret = "''s3/t''"]) (code_simp, code_simp, code_simp, simp add: secret_forms_def, code_simp)

section \<open>Laws of the injected credentials\<close>

lemma hex_value_char: "n < 16 \<Longrightarrow> hex_value (hex_char n) = Some n"
  by (auto simp: hex_value_def hex_char_def Let_def)

lemma quote_char_cases:
  obtains "is_unreserved c" "quote_char c = [c]"
  | a b where "\<not> is_unreserved c" "quote_char c = [CHR ''%'', hex_char a, hex_char b]"
      "a < 16" "b < 16" "(of_char c :: nat) = 16 * a + b"
proof (cases "is_unreserved c")
  case False
  have "(of_char c :: nat) < 256" by simp
  then have "(of_char c :: nat) div 16 < 16" by (simp add: less_mult_imp_div_less)
  then show thesis
    by (intro that(2) [of "of_char c div 16" "of_char c mod 16"]) (use False in \<open>simp_all add: quote_char_def Let_def\<close>)
qed (simp add: that(1) quote_char_def)

lemma percent_not_unreserved: "\<not> is_unreserved (CHR ''%'')"
  by (simp add: is_unreserved_def is_letter_ascii_def is_lower_ascii_def is_upper_ascii_def
      is_digit_ascii_def less_eq_char_def)

lemma unquote_Cons: "c \<noteq> CHR ''%'' \<Longrightarrow> unquote (c # s) = c # unquote s"
  by (cases s rule: unquote.cases) auto

text \<open>\<open>unquote(quote(s, safe="")) == s\<close>\<close>

lemma unquote_quote: "unquote (quote s) = s"
proof (induction s)
  case (Cons c s)
  show ?case
  proof (cases rule: quote_char_cases [of c])
    case 1
    then have "c \<noteq> CHR ''%''" using percent_not_unreserved by auto
    with 1 Cons show ?thesis by (simp add: quote_def unquote_Cons)
  next
    case (2 a b)
    then have "char_of (16 * a + b) = c" by (metis char_of_char)
    with 2 Cons show ?thesis by (simp add: quote_def hex_value_char)
  qed
qed (simp add: quote_def)

lemma quote_chars:
  assumes "c \<in> set (quote s)"
  shows "is_unreserved c \<or> c = CHR ''%''"
proof -
  have hex: "is_unreserved (hex_char n)" if "n < 16" for n
    using that by (auto simp: is_unreserved_def hex_char_def is_letter_ascii_def is_upper_ascii_def
        is_digit_ascii_def less_eq_char_def)
  obtain x where "x \<in> set s" "c \<in> set (quote_char x)" using assms by (auto simp: quote_def)
  then show ?thesis by (cases rule: quote_char_cases [of x]) (auto simp: hex)
qed

lemma rpartition_at_sep [simp]: "c \<notin> set y \<Longrightarrow> rpartition_at c (x @ c # y) = (x, True, y)"
  using while_neq_append [of c "rev y" "c # rev x"] by (simp add: rpartition_at_def)

lemma urlsplit_params: "urlsplit s = Some u \<Longrightarrow> ur_params u = []"
  by (auto simp: urlsplit_def Let_def split: prod.splits if_splits)

lemma lower_host_Nil [simp]: "lower_host h = [] \<longleftrightarrow> h = []"
proof (cases "CHR ''%'' \<in> set h")
  case True
  then show ?thesis by (auto simp: lower_host_def partition_at_def)
qed (simp add: lower_host_def)

lemma hostname_lower: "url_hostname u = Some h \<Longrightarrow> CHR ''%'' \<notin> set h \<Longrightarrow> lower h = h"
  by (auto simp: url_hostname_def lower_host_def Let_def split: if_splits prod.splits)

lemma unreserved_plain:
  "is_unreserved c \<Longrightarrow> \<not> is_unsafe_url_char c \<and> \<not> is_netloc_end c \<and>
     c \<notin> {CHR ''@'', CHR '':'', CHR ''['', CHR '']''}"
  by (auto simp: is_unreserved_def is_unsafe_url_char_def is_netloc_end_def is_letter_ascii_def
      is_lower_ascii_def is_upper_ascii_def is_digit_ascii_def less_eq_char_def)

definition is_host_char :: "char \<Rightarrow> bool" where
  "is_host_char c \<longleftrightarrow> is_letter_ascii c \<or> is_digit_ascii c \<or> c = CHR ''.'' \<or> c = CHR ''-''"

lemma quote_plain:
  "c \<in> set (quote s) \<Longrightarrow> \<not> is_unsafe_url_char c \<and> \<not> is_netloc_end c \<and>
     c \<notin> {CHR ''@'', CHR '':'', CHR ''['', CHR '']''}"
  using quote_chars [of c s] unreserved_plain [of c]
  by (auto simp: is_unsafe_url_char_def is_netloc_end_def)

text \<open>Injecting the proxy credentials changes nothing but the credentials. For a proxy host
  that is a name or an IPv4 address, the URL handed to the HTTP client reads back to the same
  scheme, host and port, and its user info decodes to exactly the configured user name and
  password, whatever characters they contain.\<close>

theorem credentials_roundtrip:
  assumes "urlsplit s = Some p" "ur_scheme p = ''http'' \<or> ur_scheme p = ''https''"
    and "url_hostname p = Some h" "\<forall>c \<in> set h. is_host_char c" "url_port p = Some port"
    and "pe_username env \<noteq> []"
  shows "\<exists>v q name pw. with_credentials env s = Some v \<and> urlsplit v = Some q \<and>
     ur_scheme q = ur_scheme p \<and> url_hostname q = Some h \<and>
     url_port q = Some (if port = Some 0 then None else port) \<and>
     url_userinfo q = (Some name, pw) \<and> unquote name = pe_username env \<and>
     (if pe_password env = [] then pw = None
      else map_option unquote pw = Some (pe_password env))"
proof -
  have "h \<noteq> []" using assms(3) by (auto simp: url_hostname_def Let_def split: if_splits)
  have plain: "\<not> is_unsafe_url_char c \<and> \<not> is_netloc_end c \<and> c \<notin> {CHR ''@'', CHR '':'', CHR ''['', CHR '']'', CHR ''%''}"
    if "is_host_char c" for c
    using that unreserved_plain [of c] percent_not_unreserved
    by (auto simp: is_host_char_def is_unreserved_def)
  define ps where "ps = (case port of Some n \<Rightarrow> if n \<noteq> 0 then show_nat n else [] | None \<Rightarrow> [])"
  have ps: "\<forall>c \<in> set ps. is_host_char c"
    by (auto simp: ps_def is_host_char_def dest: show_nat_chars split: option.splits if_splits)
  define pp where "pp = (if ps = [] then [] else CHR '':'' # ps)"
  define ui where "ui = quote (pe_username env) @
    (if pe_password env \<noteq> [] then '':'' @ quote (pe_password env) else [])"
  define u where "u = p\<lparr>ur_netloc := ui @ ''@'' @ h @ pp\<rparr>"
  have n: "ur_netloc u = ui @ CHR ''@'' # h @ pp" by (simp add: u_def)
  have v: "with_credentials env s = Some (urlunsplit u)"
    using assms by (auto simp: with_credentials_def u_def ui_def pp_def ps_def Let_def split: option.split)
  define ok where "ok c \<longleftrightarrow> \<not> is_unsafe_url_char c \<and> \<not> is_netloc_end c \<and> c \<notin> {CHR ''['', CHR '']''}" for c
  have sep: "ok (CHR '':'')" "ok (CHR ''@'')"
    by (simp_all add: ok_def is_unsafe_url_char_def is_netloc_end_def)
  have "ok c" if "c \<in> set (quote x)" for c x using quote_plain [OF that] by (simp add: ok_def)
  then have "\<forall>c \<in> set ui. ok c" using sep by (auto simp: ui_def)
  moreover have hp: "ok c \<and> c \<noteq> CHR ''@''" if "c \<in> set (h @ pp)" for c
  proof -
    have "is_host_char c \<or> c = CHR '':''" using that assms(4) ps by (auto simp: pp_def split: if_splits)
    then show ?thesis using plain [of c] sep by (auto simp: ok_def)
  qed
  ultimately have ok: "\<forall>c \<in> set (ur_netloc u). ok c" using sep unfolding n by auto
  have at: "CHR ''@'' \<notin> set (h @ pp)" using hp by blast
  have nb: "CHR ''['' \<notin> set (ur_netloc u)" "CHR '']'' \<notin> set (ur_netloc u)"
    and safe: "\<forall>c \<in> set (ur_netloc u). \<not> is_unsafe_url_char c \<and> \<not> is_netloc_end c"
    using ok by (auto simp: ok_def)
  have "urlunparse u = urlunsplit u"
    using urlsplit_params [OF assms(1)] by (simp add: urlunparse_def u_def)
  then obtain rest where r: "urlunsplit u = ur_scheme p @ '':'' @ ''//'' @ ur_netloc u @ rest"
    "rest = [] \<or> is_netloc_end (hd rest)"
    using urlunparse_authority [of u] n assms(2) by (auto simp: u_def)
  obtain q where q: "urlsplit (urlunsplit u) = Some q" "ur_scheme q = ur_scheme p"
    "ur_netloc q = ui @ CHR ''@'' # h @ pp"
    using urlsplit_authority [OF assms(2) _ safe r(2)] nb r(1) n by (auto simp: netloc_ok_def)
  have hc: "CHR '':'' \<notin> set h" "CHR ''['' \<notin> set (h @ pp)" "CHR ''%'' \<notin> set h"
    using assms(4) plain nb n by auto
  have hi: "url_hostinfo q = (h, ps)"
    using at hc by (simp add: url_hostinfo_def q(3) pp_def Let_def)
  have "url_hostname q = Some h"
    using hi \<open>h \<noteq> []\<close> hostname_lower [OF assms(3) hc(3)] hc(3)
    by (simp add: url_hostname_def lower_host_def)
  moreover have "url_port q = Some (if port = Some 0 then None else port)"
    using hi digits_show_nat url_port_le assms(5)
    by (auto simp: url_port_def [of q] ps_def Let_def is_digits_def split: option.splits if_splits)
  moreover have "CHR '':'' \<notin> set (quote (pe_username env))" using quote_plain by blast
  then have "url_userinfo q = (Some (quote (pe_username env)),
      if pe_password env = [] then None else Some (quote (pe_password env)))"
    using rpartition_at_sep [OF at, of ui] by (simp add: url_userinfo_def q(3) ui_def)
  ultimately show ?thesis using v q(1,2) by (auto simp: unquote_quote)
qed

lemma credentials_roundtrip_witness:
  "\<exists>v. with_credentials \<lparr>pe_username = ''b@b'', pe_password = ''p:w'', pe_environ = (\<lambda>n. [])\<rparr>
         ''http://proxy.corp:3128'' = Some v"
proof -
  let ?env = "\<lparr>pe_username = ''b@b'', pe_password = ''p:w'', pe_environ = (\<lambda>n. [])\<rparr>"
  let ?p = "\<lparr>ur_scheme = ''http'', ur_netloc = ''proxy.corp:3128'', ur_path = [], ur_params = [],
             ur_query = [], ur_fragment = []\<rparr>"
  have "urlsplit ''http://proxy.corp:3128'' = Some ?p" by code_simp
  moreover have "url_hostname ?p = Some ''proxy.corp''" by code_simp
  moreover have "url_port ?p = Some (Some 3128)"
    by (simp add: url_port_def url_hostinfo_def rpartition_at_def partition_at_def is_digits_def
        is_digit_ascii_def less_eq_char_def nat_of_digits_def digit_value_def)
  moreover have "\<forall>c \<in> set ''proxy.corp''. is_host_char c" by code_simp
  ultimately show ?thesis using credentials_roundtrip [of "''http://proxy.corp:3128''" ?p "''proxy.corp''" "Some 3128" ?env] by auto
qed

text \<open>An IPv6 proxy host loses its brackets, and the result no longer names a host.\<close>

lemma ipv6_loopback: "\<exists>w. ip_address ''::1'' = Some (IPv6 w None)"
  by (simp add: ip_address_def ipv4_of_string_def split_scope_id_def ipv6_of_string_def
      hextet_groups_def groups_word_def parse_hextet_def parse_octet_def is_digits_def is_digit_ascii_def
      less_eq_char_def hex_value_def Let_def upt_rec)

lemma credentials_break_ipv6:
  "with_credentials \<lparr>pe_username = ''u'', pe_password = [], pe_environ = (\<lambda>n. [])\<rparr> ''http://[::1]''
     = Some ''http://u@::1'' \<and>
   map_option url_hostname (urlsplit ''http://u@::1'') = Some None"
proof
  have "check_bracketed_host ''::1''"
    using ipv6_loopback by (auto simp: check_bracketed_host_def starts_with_def)
  then have "netloc_ok ''[::1]''"
    by (simp add: netloc_ok_def check_bracketed_netloc_def rpartition_at_def partition_at_def starts_with_def)
  moreover have "split_scheme ''http://[::1]'' = (''http'', ''//[::1]'')"
    "split_netloc ''//[::1]'' = (''[::1]'', [])" by code_simp+
  ultimately have "urlsplit ''http://[::1]'' = Some \<lparr>ur_scheme = ''http'', ur_netloc = ''[::1]'',
    ur_path = [], ur_params = [], ur_query = [], ur_fragment = []\<rparr>"
    by (simp add: urlsplit_def is_c0_or_space_def is_unsafe_url_char_def)
  then show "with_credentials \<lparr>pe_username = ''u'', pe_password = [], pe_environ = (\<lambda>n. [])\<rparr> ''http://[::1]''
     = Some ''http://u@::1''"
    by (simp add: with_credentials_def url_hostname_def url_hostinfo_def rpartition_at_def partition_at_def
        lower_host_def lower_def lower_char_def is_upper_ascii_def less_eq_char_def url_port_def
        urlunsplit_def quote_def quote_char_def is_unreserved_def is_letter_ascii_def is_lower_ascii_def)
  show "map_option url_hostname (urlsplit ''http://u@::1'') = Some None" by code_simp
qed

end
