(* ===== verification/Proxy_Admin.thy ===== *)
theory Proxy_Admin
  imports Proxy Auth
begin

text \<open>
  \<open>app/proxy_settings.py\<close> and \<open>app/routes/proxy.py\<close>: the singleton row of the routing
  configuration, its in-memory snapshot, and the admin routes that change and test it.

  The row (\<open>None\<close> before it is seeded) and the snapshot are a state of their own beside the
  database. Writers hold the row's lock from their read to their commit, so an update is one
  step. The CHECK constraints of the table reject a row by the predicate \<open>proxy_row_ok\<close>.
\<close>

record proxy_store =
  st_row :: "proxy_settings option"
  st_snapshot :: "proxy_config option"

text \<open>The \<open>ICEBERG_EBS_PROXY_*\<close> defaults of \<open>app/config.py\<close>.\<close>

record proxy_defaults =
  pd_mode :: string
  pd_url :: string
  pd_no_proxy :: string

definition EDITABLE_FIELDS :: "string list" where
  "EDITABLE_FIELDS = [''mode'', ''proxy_url'', ''no_proxy'']"

definition to_config :: "proxy_settings \<Rightarrow> proxy_config" where
  "to_config row = \<lparr>pg_mode = px_mode row, pg_proxy_url = px_proxy_url row, pg_no_proxy = px_no_proxy row\<rparr>"

definition seed_mode :: "proxy_defaults \<Rightarrow> string" where
  "seed_mode s =
     mode_value (case proxy_mode_of (upper (strip (pd_mode s))) of Some m \<Rightarrow> m | None \<Rightarrow> SYSTEM)"

text \<open>\<open>None\<close> is the \<open>IntegrityError\<close> that is re-raised when no other writer seeded the row.\<close>

definition ensure_seeded :: "proxy_defaults \<Rightarrow> instant \<Rightarrow> proxy_store \<Rightarrow> (proxy_settings \<times> proxy_store) option" where
  "ensure_seeded s now st =
     (case st_row st of
        Some row \<Rightarrow> Some (row, st)
      | None \<Rightarrow>
          let row = \<lparr>px_mode = seed_mode s, px_proxy_url = pd_url s, px_no_proxy = pd_no_proxy s,
                     px_updated_at = now\<rparr>
          in if proxy_row_ok row then Some (row, st\<lparr>st_row := Some row\<rparr>) else None)"

definition get_settings :: "proxy_store \<Rightarrow> http_error + proxy_settings" where
  "get_settings st =
     (case st_row st of
        None \<Rightarrow> Inl (ServerError ''ProxySettings singleton missing'')
      | Some row \<Rightarrow> Inr row)"

text \<open>A patch is a dictionary from field names to values, \<open>None\<close> for null.\<close>

type_synonym patch = "(string \<times> string option) list"

definition patch_value :: "patch \<Rightarrow> string \<Rightarrow> string option" where
  "patch_value changes key = (case map_of changes key of Some v \<Rightarrow> v | None \<Rightarrow> None)"

definition or_keep :: "string option \<Rightarrow> string \<Rightarrow> string" where
  "or_keep v old = (case v of Some w \<Rightarrow> w | None \<Rightarrow> old)"

datatype update_error = InvalidMode | ExplicitNeedsUrl | InvalidSettings | SeedFailed

text \<open>The error leaves the store as it was after seeding: the patch is rolled back.\<close>

definition update_settings ::
    "proxy_defaults \<Rightarrow> instant \<Rightarrow> patch \<Rightarrow> proxy_store \<Rightarrow> (update_error + proxy_settings) \<times> proxy_store" where
  "update_settings s now changes st =
     (case ensure_seeded s now st of
        None \<Rightarrow> (Inl SeedFailed, st)
      | Some (row, st1) \<Rightarrow>
          (let mode = map_option (\<lambda>v. proxy_mode_of (upper (strip v))) (patch_value changes ''mode'') in
           if mode = Some None then (Inl InvalidMode, st1)
           else
             let row1 = row\<lparr>px_mode := (case mode of Some (Some m) \<Rightarrow> mode_value m | _ \<Rightarrow> px_mode row),
                            px_proxy_url := or_keep (patch_value changes ''proxy_url'') (px_proxy_url row),
                            px_no_proxy := or_keep (patch_value changes ''no_proxy'') (px_no_proxy row)\<rparr>
             in if px_mode row1 = mode_value EXPLICIT \<and> strip (px_proxy_url row1) = []
                then (Inl ExplicitNeedsUrl, st1)
                else
                  let row2 = row1\<lparr>px_updated_at := now\<rparr>
                  in if \<not> proxy_row_ok row2 then (Inl InvalidSettings, st1)
                     else (Inr row2, st1\<lparr>st_row := Some row2, st_snapshot := Some (to_config row2)\<rparr>)))"

definition refresh_cache :: "proxy_defaults \<Rightarrow> instant \<Rightarrow> proxy_store \<Rightarrow> proxy_store option" where
  "refresh_cache s now st =
     map_option (\<lambda>(row, st1). st1\<lparr>st_snapshot := Some (to_config row)\<rparr>) (ensure_seeded s now st)"

section \<open>Routes\<close>

text \<open>\<open>ProxySettingsUpdate\<close>: the validated patch, or \<open>None\<close> for a 422.\<close>

definition valid_mode :: "string \<Rightarrow> string option" where
  "valid_mode v = map_option mode_value (proxy_mode_of (upper (strip v)))"

definition valid_proxy_url :: "string \<Rightarrow> string option" where
  "valid_proxy_url v =
     (let u = strip v in
      if u = [] then Some []
      else (case urlsplit u of
              None \<Rightarrow> None
            | Some parsed \<Rightarrow>
                if ur_scheme parsed \<notin> set PROXY_URL_SCHEMES \<or> url_hostname parsed = None then None
                else if has_credentials parsed then None
                else Some u))"

fun valid_entry :: "string \<times> string option \<Rightarrow> (string \<times> string option) option" where
  "valid_entry (key, None) = (if key \<in> set EDITABLE_FIELDS then Some (key, None) else None)"
| "valid_entry (key, Some v) =
     map_option (\<lambda>w. (key, Some w))
       (if key = ''mode'' then valid_mode v
        else if key = ''proxy_url'' then valid_proxy_url v
        else if key = ''no_proxy'' then Some v else None)"

definition parse_proxy_update :: "patch \<Rightarrow> patch option" where
  "parse_proxy_update body = all_some (map valid_entry body)"

definition get_proxy_settings ::
    "auth_env \<Rightarrow> instant \<Rightarrow> request \<Rightarrow> db \<times> proxy_store \<Rightarrow> (http_error + proxy_settings) \<times> db \<times> proxy_store" where
  "get_proxy_settings env now req s =
     (case require_role [ADMIN] env now req (fst s) of
        (Inl e, d) \<Rightarrow> (Inl e, d, snd s)
      | (Inr _, d) \<Rightarrow> (get_settings (snd s), d, snd s))"

definition json_opt :: "string option \<Rightarrow> json" where
  "json_opt v = (case v of Some s \<Rightarrow> JStr s | None \<Rightarrow> JNull)"

definition update_detail :: "patch \<Rightarrow> jobject" where
  "update_detail changes =
     [(''fields'', JArr (map JStr (sort (map fst changes)))),
      (''mode'', json_opt (patch_value changes ''mode''))]"

text \<open>The audit row commits with the change: an error drops both.\<close>

definition put_proxy_settings ::
    "auth_env \<Rightarrow> proxy_defaults \<Rightarrow> instant \<Rightarrow> request \<Rightarrow> patch \<Rightarrow> db \<times> proxy_store \<Rightarrow>
       (http_error + proxy_settings) \<times> db \<times> proxy_store" where
  "put_proxy_settings env s now req body w =
     (case require_role [ADMIN] env now req (fst w) of
        (Inl e, d) \<Rightarrow> (Inl e, d, snd w)
      | (Inr admin, d) \<Rightarrow>
          (case parse_proxy_update body of
             None \<Rightarrow> (Inl (HttpError 422 ''body''), d, snd w)
           | Some changes \<Rightarrow>
               (case update_settings s now changes (snd w) of
                  (Inl SeedFailed, st) \<Rightarrow> (Inl (ServerError ''IntegrityError''), d, st)
                | (Inl _, st) \<Rightarrow> (Inl (HttpError 422 ''invalid proxy settings''), d, st)
                | (Inr row, st) \<Rightarrow>
                    (Inr row,
                     audit_record now (actor_from_request admin (Some (rq_client req)))
                       ''settings.proxy.update'' ''settings'' (Some ''proxy'') (update_detail changes) d,
                     st))))"

section \<open>The connectivity test\<close>

record egress_target =
  et_url :: string
  et_is_webhook :: bool

definition STORE_TARGETS :: "(string \<times> egress_target) list" where
  "STORE_TARGETS =
     map (\<lambda>(l, u). (l, \<lparr>et_url = u, et_is_webhook = False\<rparr>))
       [(''Chrome Web Store (detail pages)'', ''https://chromewebstore.google.com''),
        (''Chrome Web Store (CRX download)'', ''https://clients2.google.com''),
        (''Edge Add-ons (details API)'', ''https://microsoftedge.microsoft.com''),
        (''Edge Add-ons (CRX download)'', ''https://edge.microsoft.com''),
        (''VS Code Marketplace'', ''https://marketplace.visualstudio.com'')]"

definition origin :: "string \<Rightarrow> string option" where
  "origin url =
     map_option (\<lambda>p. urlunsplit \<lparr>ur_scheme = ur_scheme p, ur_netloc = ur_netloc p, ur_path = ''/'',
                               ur_params = [], ur_query = [], ur_fragment = []\<rparr>) (urlsplit url)"

fun dict_put :: "('k \<times> 'v) list \<Rightarrow> 'k \<Rightarrow> 'v \<Rightarrow> ('k \<times> 'v) list" where
  "dict_put [] k v = [(k, v)]"
| "dict_put ((k', v') # d) k v = (if k' = k then (k, v) # d else (k', v') # dict_put d k v)"

definition destination_label :: "alert_destination \<Rightarrow> string" where
  "destination_label a = ''Webhook: '' @ ad_label a @ '' (#'' @ show_int (ad_id a) @ '')''"

text \<open>One more labelled target; the providers are the enabled ones of the SSO configuration, as
  display name and metadata URL. A malformed URL is a \<open>ValueError\<close>.\<close>

definition add_target ::
    "string \<times> string \<times> bool \<Rightarrow> (string \<times> egress_target) list option \<Rightarrow> (string \<times> egress_target) list option" where
  "add_target t targets =
     (case t of (label, url, hook) \<Rightarrow>
        (case (targets, origin url) of
           (Some ts, Some u) \<Rightarrow> Some (dict_put ts label \<lparr>et_url = u, et_is_webhook = hook\<rparr>)
         | _ \<Rightarrow> None))"

definition egress_targets :: "(string \<times> string) list \<Rightarrow> db \<Rightarrow> (string \<times> egress_target) list option" where
  "egress_targets providers d =
     fold add_target
       (map (\<lambda>a. (destination_label a, ad_target a, True)) (filter ad_enabled (db_destinations d)) @
        map (\<lambda>(name, url). (''SSO: '' @ name @ '' (IdP)'', url, False)) providers)
       (Some STORE_TARGETS)"

definition get_proxy_targets ::
    "auth_env \<Rightarrow> (string \<times> string) list \<Rightarrow> instant \<Rightarrow> request \<Rightarrow> db \<Rightarrow> (http_error + string list) \<times> db" where
  "get_proxy_targets env providers now req d =
     (case require_role [ADMIN] env now req d of
        (Inl e, d') \<Rightarrow> (Inl e, d')
      | (Inr _, d') \<Rightarrow>
          (case egress_targets providers d' of
             None \<Rightarrow> (Inl (ServerError ''ValueError''), d')
           | Some ts \<Rightarrow> (Inr (sort (map fst ts)), d')))"

text \<open>What the probe dials: the target's URL, for a webhook pinned to a validated address, with
  the \<open>Host\<close> header and the route. The left side is the class of the exception raised, with
  whether a proxy had been chosen by then.\<close>

record probe =
  pb_url :: string
  pb_headers :: "(string \<times> string) list"
  pb_sni :: "string option"
  pb_proxy :: "string option"

definition probe_request ::
    "proxy_env \<Rightarrow> resolver \<Rightarrow> proxy_config \<Rightarrow> egress_target \<Rightarrow> string + probe" where
  "probe_request penv getaddrinfo cfg target =
     (let route = (\<lambda>url headers sni.
            case resolve_proxy_url penv cfg url of
              None \<Rightarrow> Inl ''ValueError''
            | Some decision \<Rightarrow>
                Inr \<lparr>pb_url = url, pb_headers = headers, pb_sni = sni, pb_proxy = decision\<rparr>)
      in if \<not> et_is_webhook target then route (et_url target) [] None
         else (case validate_webhook_url getaddrinfo (et_url target) of
                 Inl (WebhookValidationError _) \<Rightarrow> Inl ''WebhookValidationError''
               | Inl (UncaughtError e) \<Rightarrow> Inl e
               | Inr ips \<Rightarrow>
                   (case urlparse (et_url target) of
                      None \<Rightarrow> Inl ''ValueError''
                    | Some parsed \<Rightarrow>
                        let host = (case url_hostname parsed of Some h \<Rightarrow> h | None \<Rightarrow> [])
                        in (case url_port parsed of
                              None \<Rightarrow> Inl ''ValueError''
                            | Some port \<Rightarrow>
                                route (pin_url parsed (hd ips) port)
                                  [(''Host'', authority host port)]
                                  (if ur_scheme parsed = ''https'' then Some host else None)))))"

text \<open>\<open>dial\<close> is the network: the status of the response, or the class of the exception.\<close>

definition test_proxy ::
    "auth_env \<Rightarrow> proxy_defaults \<Rightarrow> proxy_env \<Rightarrow> resolver \<Rightarrow> (probe \<Rightarrow> string + int) \<Rightarrow>
       (string \<times> string) list \<Rightarrow> instant \<Rightarrow> request \<Rightarrow> string \<Rightarrow> db \<times> proxy_store \<Rightarrow>
       (http_error + bool \<times> string) \<times> db \<times> proxy_store" where
  "test_proxy env s penv getaddrinfo dial providers now req label w =
     (case require_role [ADMIN] env now req (fst w) of
        (Inl e, d) \<Rightarrow> (Inl e, d, snd w)
      | (Inr admin, d) \<Rightarrow>
          (case ensure_seeded s now (snd w) of
             None \<Rightarrow> (Inl (ServerError ''IntegrityError''), d, snd w)
           | Some (row, st1) \<Rightarrow>
               let st = st1\<lparr>st_snapshot := Some (to_config row)\<rparr> in
               case egress_targets providers d of
                 None \<Rightarrow> (Inl (ServerError ''ValueError''), d, st)
               | Some ts \<Rightarrow>
                   (case map_of ts label of
                      None \<Rightarrow> (Inl (HttpError 400 ''Unknown target''), d, st)
                    | Some target \<Rightarrow>
                        let d' = audit_record now (actor_from_request admin (Some (rq_client req)))
                                   ''settings.proxy.test'' ''settings'' (Some ''proxy'')
                                   [(''target'', JStr label)] d
                        in (case probe_request penv getaddrinfo (to_config row) target of
                              Inl e \<Rightarrow> (Inr (False, ''error: '' @ e), d', st)
                            | Inr p \<Rightarrow>
                                (Inr (pb_proxy p \<noteq> None,
                                      case dial p of
                                        Inl e \<Rightarrow> ''error: '' @ e
                                      | Inr status \<Rightarrow> ''ok: HTTP '' @ show_int status), d', st)))))"

section \<open>Laws\<close>

lemma proxy_mode_of_value: "proxy_mode_of s = Some m \<longleftrightarrow> s = mode_value m"
  by (cases m) (auto simp: proxy_mode_of_def split: if_splits)

definition store_ok :: "proxy_store \<Rightarrow> bool" where
  "store_ok st \<longleftrightarrow>
     (case st_row st of
        None \<Rightarrow> False
      | Some row \<Rightarrow> proxy_row_ok row \<and> st_snapshot st = Some (to_config row))"

lemma update_settings_cases:
  assumes "update_settings s now changes st = (r, st')" "store_ok st"
  shows "(case r of Inl e \<Rightarrow> st' = st \<and> e \<noteq> SeedFailed
          | Inr row \<Rightarrow> st' = \<lparr>st_row = Some row, st_snapshot = Some (to_config row)\<rparr> \<and> proxy_row_ok row)"
proof -
  obtain row where row: "st_row st = Some row" "proxy_row_ok row"
    using assms(2) by (auto simp: store_ok_def split: option.splits)
  then have "ensure_seeded s now st = Some (row, st)" by (simp add: ensure_seeded_def)
  with assms(1) show ?thesis
    by (cases st) (auto simp: update_settings_def Let_def split: if_splits)
qed

interpretation proxy_put: audited "\<lambda>(env, s, now, req, body). put_proxy_settings env s now req body" fst
proof
  fix i w r w'
  assume h: "(case i of (env, s, now, req, body) \<Rightarrow> put_proxy_settings env s now req body) w = (Inr r, w')"
  obtain env s now req body where i: "i = (env, s, now, req, body)" by (cases i)
  obtain admin d where a: "require_role [ADMIN] env now req (fst w) = (Inr admin, d)"
    using h i by (auto simp: put_proxy_settings_def split: prod.splits sum.splits)
  then have "db_audit_logs d = db_audit_logs (fst w)" using require_role_frame by fastforce
  with h i a show "audit_count (fst w') = Suc (audit_count (fst w))"
    by (auto simp: put_proxy_settings_def audit_count_def
        split: option.splits prod.splits sum.splits update_error.splits)
next
  fix i w e w'
  assume h: "(case i of (env, s, now, req, body) \<Rightarrow> put_proxy_settings env s now req body) w = (Inl e, w')"
  obtain env s now req body where i: "i = (env, s, now, req, body)" by (cases i)
  obtain r0 d where a: "require_role [ADMIN] env now req (fst w) = (r0, d)" by fastforce
  then have "db_audit_logs d = db_audit_logs (fst w)" using require_role_frame by fastforce
  with h i a show "audit_count (fst w') = audit_count (fst w)"
    by (auto simp: put_proxy_settings_def audit_count_def
        split: option.splits prod.splits sum.splits update_error.splits)
qed

section \<open>Properties\<close>

text \<open>C21: the routing configuration never fails open. Whatever an admin sends, the stored row keeps
  its constraints and the snapshot the transport reads equals it; a refused change leaves both
  untouched and is not in the audit trail, an accepted one leaves one audit row. While the mode
  is explicit, a request to a host that is not excluded is never sent directly.\<close>

theorem proxy_update_fail_closed:
  assumes "put_proxy_settings env s now req body (d, st) = (r, d', st')" "store_ok st"
  shows "store_ok st' \<and>
    (if isl r then st' = st \<and> db_audit_logs d' = db_audit_logs d
     else length (db_audit_logs d') = Suc (length (db_audit_logs d))) \<and>
    (\<forall>row p url penv. st_row st' = Some row \<and> px_mode row = ''EXPLICIT'' \<and> urlsplit url = Some p \<and>
       \<not> should_bypass (url_hostname p) (parse_no_proxy (px_no_proxy row)) \<longrightarrow>
       route_for penv (st_snapshot st') url \<noteq> Some None)"
proof -
  obtain r0 d0 where role: "require_role [ADMIN] env now req d = (r0, d0)" by fastforce
  then have logs: "db_audit_logs d0 = db_audit_logs d" using require_role_frame by fastforce
  have "store_ok st' \<and> (isl r \<longrightarrow> st' = st \<and> db_audit_logs d' = db_audit_logs d)"
  proof (cases "r0")
    case (Inr admin)
    show ?thesis
    proof (cases "parse_proxy_update body")
      case (Some changes)
      obtain u st1 where u: "update_settings s now changes st = (u, st1)" by fastforce
      show ?thesis
        using assms update_settings_cases [OF u assms(2)] u role logs Inr Some
        by (cases u; cases "projl u") (auto simp: put_proxy_settings_def store_ok_def split: update_error.splits)
    qed (use assms role logs Inr in \<open>auto simp: put_proxy_settings_def\<close>)
  qed (use assms role logs in \<open>auto simp: put_proxy_settings_def\<close>)
  moreover have "\<not> isl r \<Longrightarrow> length (db_audit_logs d') = Suc (length (db_audit_logs d))"
    using proxy_put.success_recorded [of "(env, s, now, req, body)" "(d, st)" "projr r" "(d', st')"] assms(1)
    by (cases r) (auto simp: audit_count_def)
  moreover have "route_for penv (st_snapshot st') url \<noteq> Some None"
    if ok: "store_ok st'" and row: "st_row st' = Some row" "px_mode row = ''EXPLICIT''" and p: "urlsplit url = Some p"
      "\<not> should_bypass (url_hostname p) (parse_no_proxy (px_no_proxy row))" for row p url penv
  proof -
    have "upper ''EXPLICIT'' = ''EXPLICIT''" by code_simp
    then have "proxy_mode_of (upper ''EXPLICIT'') = Some EXPLICIT" by (simp add: proxy_mode_of_value)
    moreover have "px_proxy_url row \<noteq> []" "st_snapshot st' = Some (to_config row)"
      using ok row by (auto simp: store_ok_def proxy_row_ok_def)
    ultimately show ?thesis
      using p row by (auto simp: route_for_def resolve_proxy_url_def to_config_def)
  qed
  ultimately show ?thesis by auto
qed

lemma proxy_update_fail_closed_witness:
  "\<exists>r w. put_proxy_settings sample_auth_env \<lparr>pd_mode = [], pd_url = [], pd_no_proxy = []\<rparr> 9 sample_request
          [(''mode'', Some ''explicit''), (''proxy_url'', Some ''http://p:1'')]
          (sample_db, \<lparr>st_row = Some \<lparr>px_mode = ''SYSTEM'', px_proxy_url = [], px_no_proxy = [], px_updated_at = 0\<rparr>,
                       st_snapshot = Some \<lparr>pg_mode = ''SYSTEM'', pg_proxy_url = [], pg_no_proxy = []\<rparr>\<rparr>) = (r, w) \<and>
         store_ok (snd w)"
proof -
  let ?st = "\<lparr>st_row = Some \<lparr>px_mode = ''SYSTEM'', px_proxy_url = [], px_no_proxy = [], px_updated_at = 0\<rparr>,
              st_snapshot = Some \<lparr>pg_mode = ''SYSTEM'', pg_proxy_url = [], pg_no_proxy = []\<rparr>\<rparr>"
  obtain r d' st' where p: "put_proxy_settings sample_auth_env \<lparr>pd_mode = [], pd_url = [], pd_no_proxy = []\<rparr> 9 sample_request
          [(''mode'', Some ''explicit''), (''proxy_url'', Some ''http://p:1'')] (sample_db, ?st) = (r, d', st')"
    by (metis prod_cases3)
  have "store_ok ?st" by (simp add: store_ok_def to_config_def proxy_row_ok_def)
  from proxy_update_fail_closed [OF p this] p show ?thesis by auto
qed

end
