(* ===== verification/Transport.thy ===== *)
theory Transport
  imports Proxy Complex_Main
begin

text \<open>
  \<open>app/fetchers/transport.py\<close>: the retry policy around every outbound request, and the
  transport that routes each request directly or through the configured proxy.

  The wrapped transport is an argument: its outcome at each attempt. So are the random factor
  of the jitter (in 0..1) and the standard library's HTTP-date parser. Seconds are exact
  rationals where the source has floats.
\<close>

section \<open>Retry policy\<close>

definition RETRYABLE_STATUS :: "int list" where
  "RETRYABLE_STATUS = [429, 500, 502, 503, 504]"

definition IDEMPOTENT_METHODS :: "string list" where
  "IDEMPOTENT_METHODS = [''GET'', ''HEAD'', ''OPTIONS'']"

definition MAX_SLEEP_SECONDS :: rat where "MAX_SLEEP_SECONDS = 30"

text \<open>\<open>str.isdigit\<close> is also true of the superscript digits, which \<open>float\<close> refuses.\<close>

definition is_py_digit :: "char \<Rightarrow> bool" where
  "is_py_digit c \<longleftrightarrow> is_digit_ascii c \<or> (of_char c :: nat) \<in> {178, 179, 185}"

definition py_isdigit :: "string \<Rightarrow> bool" where
  "py_isdigit s \<longleftrightarrow> s \<noteq> [] \<and> list_all is_py_digit s"

text \<open>The outer \<open>None\<close> is the \<open>ValueError\<close> of \<open>float\<close>. \<open>parsedate\<close> gives the date in
  microseconds, or \<open>None\<close> when the text is no date.\<close>

definition parse_retry_after ::
    "(string \<Rightarrow> int option) \<Rightarrow> int \<Rightarrow> string \<Rightarrow> rat option option" where
  "parse_retry_after parsedate now header =
     (let value = strip header in
      if value = [] then Some None
      else if py_isdigit value then
        (if list_all is_digit_ascii value then Some (Some (of_nat (nat_of_digits value))) else None)
      else (case parsedate value of
              None \<Rightarrow> Some None
            | Some dt \<Rightarrow> Some (Some (max (of_int (dt - now) / 1000000) 0))))"

record retry_policy =
  rp_max_retries :: int
  rp_backoff_base :: rat
  rp_backoff_cap :: rat

definition backoff_delay :: "retry_policy \<Rightarrow> rat \<Rightarrow> nat \<Rightarrow> rat" where
  "backoff_delay p jitter attempt =
     (let ceiling = min (rp_backoff_cap p) (rp_backoff_base p * 2 ^ attempt)
      in jitter * max ceiling 0)"

definition sleep_delay :: "retry_policy \<Rightarrow> rat \<Rightarrow> nat \<Rightarrow> rat option \<Rightarrow> rat" where
  "sleep_delay p jitter attempt retry_after =
     min (case retry_after of Some s \<Rightarrow> s | None \<Rightarrow> backoff_delay p jitter attempt) MAX_SLEEP_SECONDS"

text \<open>One attempt of the wrapped transport: a response with its \<open>Retry-After\<close> header, an
  \<open>httpx.TransportError\<close>, or another exception.\<close>

datatype attempt_result =
    Response int "string option"
  | TransportFailure string
  | OtherFailure string

record retry_env =
  re_inner :: "nat \<Rightarrow> attempt_result"
  re_jitter :: "nat \<Rightarrow> rat"
  re_now :: "nat \<Rightarrow> int"
  re_parsedate :: "string \<Rightarrow> int option"

definition retryable_request :: "string \<Rightarrow> bool \<Rightarrow> bool" where
  "retryable_request meth opt_in \<longleftrightarrow> meth \<in> set IDEMPOTENT_METHODS \<or> opt_in"

text \<open>The delay a retryable response asks for: only 429 and 503, only a header that is not empty.\<close>

definition response_retry_after :: "retry_env \<Rightarrow> nat \<Rightarrow> int \<Rightarrow> string option \<Rightarrow> rat option option" where
  "response_retry_after env attempt status header =
     (if status = 429 \<or> status = 503 then
        (case header of
           Some (c # h) \<Rightarrow> parse_retry_after (re_parsedate env) (re_now env attempt) (c # h)
         | _ \<Rightarrow> Some None)
      else Some None)"

text \<open>The loop of \<open>handle_async_request\<close> from an attempt on: the final outcome and the sleeps.\<close>

function retry_loop ::
    "retry_env \<Rightarrow> retry_policy \<Rightarrow> bool \<Rightarrow> nat \<Rightarrow> attempt_result \<times> rat list" where
  "retry_loop env p retryable attempt =
     (case re_inner env attempt of
        TransportFailure msg \<Rightarrow>
          if \<not> retryable \<or> int attempt \<ge> rp_max_retries p then (TransportFailure msg, [])
          else
            let (r, ds) = retry_loop env p retryable (Suc attempt)
            in (r, sleep_delay p (re_jitter env attempt) attempt None # ds)
      | Response status header \<Rightarrow>
          if retryable \<and> status \<in> set RETRYABLE_STATUS \<and> int attempt < rp_max_retries p then
            (case response_retry_after env attempt status header of
               None \<Rightarrow> (OtherFailure ''ValueError'', [])
             | Some retry_after \<Rightarrow>
                 let (r, ds) = retry_loop env p retryable (Suc attempt)
                 in (r, sleep_delay p (re_jitter env attempt) attempt retry_after # ds))
          else (Response status header, [])
      | OtherFailure msg \<Rightarrow> (OtherFailure msg, []))"
  by pat_completeness auto
termination
  by (relation "measure (\<lambda>(env, p, retryable, attempt). nat (rp_max_retries p - int attempt))") auto

declare retry_loop.simps [simp del]

definition retry_request ::
    "retry_env \<Rightarrow> retry_policy \<Rightarrow> string \<Rightarrow> bool \<Rightarrow> attempt_result \<times> rat list" where
  "retry_request env p meth opt_in = retry_loop env p (retryable_request meth opt_in) 0"

section \<open>Proxy routing\<close>

text \<open>A transport is the number of its construction by the factory; \<open>rt_next\<close> counts them.\<close>

record routing =
  rt_direct :: nat
  rt_proxied :: "(string \<times> nat) option"
  rt_retired :: "nat list"
  rt_next :: nat

definition new_routing :: routing where
  "new_routing = \<lparr>rt_direct = 0, rt_proxied = None, rt_retired = [], rt_next = 1\<rparr>"

definition transport_for :: "string option \<Rightarrow> routing \<Rightarrow> nat \<times> routing" where
  "transport_for proxy_url t =
     (case proxy_url of
        None \<Rightarrow> (rt_direct t, t)
      | Some url \<Rightarrow>
          (case rt_proxied t of
             Some (u, n) \<Rightarrow>
               if u = url then (n, t)
               else (rt_next t, t\<lparr>rt_retired := rt_retired t @ [n], rt_proxied := Some (url, rt_next t),
                                 rt_next := rt_next t + 1\<rparr>)
           | None \<Rightarrow> (rt_next t, t\<lparr>rt_proxied := Some (url, rt_next t), rt_next := rt_next t + 1\<rparr>)))"

text \<open>A request: the route is decided now, then the chosen transport carries it; a malformed URL is
  a \<open>ValueError\<close>.\<close>

definition route_request ::
    "proxy_env \<Rightarrow> proxy_config option \<Rightarrow> string \<Rightarrow> routing \<Rightarrow> nat option \<times> routing" where
  "route_request env cfg url t =
     (case route_for env cfg url of
        None \<Rightarrow> (None, t)
      | Some proxy_url \<Rightarrow> let (n, t') = transport_for proxy_url t in (Some n, t'))"

text \<open>\<open>aclose\<close>: the transports closed, in order.\<close>

definition routing_aclose :: "routing \<Rightarrow> nat list" where
  "routing_aclose t =
     rt_direct t # (case rt_proxied t of Some (_, n) \<Rightarrow> [n] | None \<Rightarrow> []) @ rt_retired t"

section \<open>Laws\<close>

text \<open>Every transport the factory built is the direct one, the current one or retired, once.\<close>

definition routing_ok :: "routing \<Rightarrow> bool" where
  "routing_ok t \<longleftrightarrow> distinct (routing_aclose t) \<and> set (routing_aclose t) = {..<rt_next t}"

lemma routing_ok_new: "routing_ok new_routing"
  by (auto simp: routing_ok_def new_routing_def routing_aclose_def)

lemma routing_ok_transport_for [invariants]:
  assumes "routing_ok t" "transport_for proxy_url t = (n, t')"
  shows "routing_ok t' \<and> n \<in> set (routing_aclose t')"
proof (cases "proxy_url = None \<or> (\<exists>url m. proxy_url = Some url \<and> rt_proxied t = Some (url, m))")
  case True
  with assms show ?thesis
    by (auto simp: transport_for_def routing_aclose_def split: option.splits)
next
  case False
  then obtain url where url: "proxy_url = Some url" by auto
  have n: "n = rt_next t" "rt_next t' = Suc (rt_next t)" "rt_proxied t' = Some (url, rt_next t)"
    "rt_direct t' = rt_direct t"
    "rt_retired t' = rt_retired t @ (case rt_proxied t of Some (_, m) \<Rightarrow> [m] | None \<Rightarrow> [])"
    using assms(2) False url by (auto simp: transport_for_def split: option.splits if_splits)
  have s: "set (routing_aclose t') = insert (rt_next t) (set (routing_aclose t))"
    using n by (auto simp: routing_aclose_def split: option.splits)
  have "rt_next t \<notin> set (routing_aclose t)" using assms(1) by (auto simp: routing_ok_def)
  then have "distinct (routing_aclose t')"
    using n assms(1) by (auto simp: routing_ok_def routing_aclose_def split: option.splits)
  moreover have "set (routing_aclose t') = {..<rt_next t'}"
    using s n(2) assms(1) by (simp add: routing_ok_def lessThan_Suc)
  ultimately show ?thesis using s n(1) unfolding routing_ok_def by blast
qed

lemma jitter_bounds:
  assumes "0 \<le> j" "j \<le> 1"
  shows "0 \<le> backoff_delay p j n \<and> backoff_delay p j n \<le> max (rp_backoff_cap p) 0"
proof -
  let ?c = "max (min (rp_backoff_cap p) (rp_backoff_base p * 2 ^ n)) 0"
  have "0 \<le> ?c" by simp
  then have "j * ?c \<le> ?c" "0 \<le> j * ?c" using assms by (simp_all add: mult_left_le_one_le)
  moreover have "?c \<le> max (rp_backoff_cap p) 0" by simp
  ultimately show ?thesis unfolding backoff_delay_def Let_def by linarith
qed

lemma sleep_delay_bounds:
  assumes "0 \<le> j" "j \<le> 1" "\<And>s. ra = Some s \<Longrightarrow> 0 \<le> s"
  shows "0 \<le> sleep_delay p j n ra \<and> sleep_delay p j n ra \<le> 30"
  using jitter_bounds [OF assms(1,2)] assms(3)
  by (cases ra) (auto simp: sleep_delay_def MAX_SLEEP_SECONDS_def)

lemma response_retry_after_nonneg:
  "response_retry_after env n status h = Some (Some s) \<Longrightarrow> 0 \<le> s"
  by (auto simp: response_retry_after_def parse_retry_after_def Let_def
      split: if_splits option.splits list.splits)

definition transient :: "attempt_result \<Rightarrow> bool" where
  "transient r \<longleftrightarrow> (case r of TransportFailure _ \<Rightarrow> True | Response s _ \<Rightarrow> s \<in> set RETRYABLE_STATUS | OtherFailure _ \<Rightarrow> False)"

text \<open>What one run of the loop from an attempt on did: which attempts it retried, how long it
  slept, and why it stopped.\<close>

definition loop_spec :: "retry_env \<Rightarrow> retry_policy \<Rightarrow> bool \<Rightarrow> nat \<Rightarrow> attempt_result \<times> rat list \<Rightarrow> bool" where
  "loop_spec env p retryable n out \<longleftrightarrow>
     (let k = length (snd out); r = fst out in
      (k > 0 \<longrightarrow> retryable \<and> int (n + k) \<le> rp_max_retries p) \<and>
      (\<forall>i < k. transient (re_inner env (n + i))) \<and>
      (\<forall>d \<in> set (snd out). 0 \<le> d \<and> d \<le> 30) \<and>
      (r = re_inner env (n + k) \<and> (transient r \<and> retryable \<longrightarrow> rp_max_retries p \<le> int (n + k)) \<or>
       r = OtherFailure ''ValueError'' \<and> retryable \<and> transient (re_inner env (n + k))))"

lemma loop_spec_retry:
  assumes "loop_spec env p retryable (Suc n) (r, ds)" "retryable" "int n < rp_max_retries p"
    "transient (re_inner env n)" "0 \<le> d" "d \<le> 30"
  shows "loop_spec env p retryable n (r, d # ds)"
proof -
  have "\<forall>i < Suc (length ds). transient (re_inner env (n + i))"
    using assms(1,4) by (auto simp: loop_spec_def Let_def less_Suc_eq_0_disj)
  then show ?thesis using assms by (auto simp: loop_spec_def Let_def)
qed

lemma retry_loop_spec:
  assumes "\<And>n. 0 \<le> re_jitter env n \<and> re_jitter env n \<le> 1"
  shows "loop_spec env p retryable n (retry_loop env p retryable n)"
  using assms
proof (induction env p retryable n rule: retry_loop.induct)
  case (1 env p retryable n)
  note loop = retry_loop.simps [of env p retryable n]
  obtain r ds where rec: "retry_loop env p retryable (Suc n) = (r, ds)" by fastforce
  have slp: "0 \<le> sleep_delay p (re_jitter env n) n ra \<and> sleep_delay p (re_jitter env n) n ra \<le> 30"
    if "\<And>s. ra = Some s \<Longrightarrow> 0 \<le> s" for ra
    using sleep_delay_bounds 1(3) that by blast
  show ?case
  proof (cases "re_inner env n")
    case (Response status header)
    show ?thesis
    proof (cases "retryable \<and> status \<in> set RETRYABLE_STATUS \<and> int n < rp_max_retries p")
      case True
      show ?thesis
      proof (cases "response_retry_after env n status header")
        case None
        then have "retry_loop env p retryable n = (OtherFailure ''ValueError'', [])"
          using Response True unfolding loop by simp
        then show ?thesis using Response True by (simp add: loop_spec_def transient_def)
      next
        case (Some ra)
        then have ih: "loop_spec env p retryable (Suc n) (r, ds)"
          using 1(1) [OF Response True Some] 1(3) rec by simp
        have "transient (re_inner env n)" using Response True by (simp add: transient_def)
        moreover have "0 \<le> s" if "ra = Some s" for s using response_retry_after_nonneg Some that by blast
        ultimately have "loop_spec env p retryable n (r, sleep_delay p (re_jitter env n) n ra # ds)"
          using loop_spec_retry [OF ih] slp [of ra] True by blast
        then show ?thesis using Response True Some rec unfolding loop by simp
      qed
    next
      case False
      then show ?thesis using Response by (auto simp: loop loop_spec_def transient_def)
    qed
  next
    case (TransportFailure msg)
    show ?thesis
    proof (cases "\<not> retryable \<or> int n \<ge> rp_max_retries p")
      case True
      then show ?thesis using TransportFailure by (auto simp: loop loop_spec_def transient_def)
    next
      case False
      then have ih: "loop_spec env p retryable (Suc n) (r, ds)"
        using 1(2) [OF TransportFailure False] 1(3) rec by simp
      have "transient (re_inner env n)" using TransportFailure by (simp add: transient_def)
      then have "loop_spec env p retryable n (r, sleep_delay p (re_jitter env n) n None # ds)"
        using loop_spec_retry [OF ih] slp [of None] False by simp
      then show ?thesis using TransportFailure False rec unfolding loop by simp
    qed
  next
    case (OtherFailure msg)
    then show ?thesis by (simp add: loop loop_spec_def transient_def)
  qed
qed

section \<open>Properties\<close>

text \<open>C22: a request stops after at most one attempt more than the configured retries, and a request
  that is neither idempotent nor opted in is sent once. Only transient failures are retried,
  every sleep is between 0 and 30 seconds, and the caller gets the outcome of the last attempt,
  a transient one only when the retries are used up or not allowed. The one exception is a
  \<open>Retry-After\<close> of superscript digits, which raises.\<close>

theorem retry_terminates_bounded:
  assumes "\<And>n. 0 \<le> re_jitter env n \<and> re_jitter env n \<le> 1"
    and "retry_request env p meth opt_in = (r, ds)"
  shows "length ds \<le> nat (rp_max_retries p) \<and>
    (ds \<noteq> [] \<longrightarrow> meth \<in> {''GET'', ''HEAD'', ''OPTIONS''} \<or> opt_in) \<and>
    (\<forall>i < length ds. transient (re_inner env i)) \<and> (\<forall>d \<in> set ds. 0 \<le> d \<and> d \<le> 30) \<and>
    (r = re_inner env (length ds) \<and>
       (transient r \<and> retryable_request meth opt_in \<longrightarrow> length ds = nat (rp_max_retries p)) \<or>
     r = OtherFailure ''ValueError'' \<and> transient (re_inner env (length ds)))"
proof -
  have "loop_spec env p (retryable_request meth opt_in) 0 (r, ds)"
    using retry_loop_spec [OF assms(1)] assms(2) unfolding retry_request_def by metis
  then show ?thesis
    by (cases ds) (auto simp: loop_spec_def Let_def retryable_request_def IDEMPOTENT_METHODS_def)
qed

lemma retry_terminates_bounded_witness:
  "\<exists>r ds. retry_request
     \<lparr>re_inner = (\<lambda>n. if n < 2 then Response 503 (Some ''7'') else Response 200 None),
      re_jitter = (\<lambda>_. 1), re_now = (\<lambda>_. 0), re_parsedate = (\<lambda>_. None)\<rparr>
     \<lparr>rp_max_retries = 3, rp_backoff_base = 1 / 2, rp_backoff_cap = 10\<rparr> ''GET'' False = (r, ds) \<and>
     length ds \<le> 3"
proof -
  let ?env = "\<lparr>re_inner = (\<lambda>n. if n < 2 then Response 503 (Some ''7'') else Response 200 None),
      re_jitter = (\<lambda>_. 1), re_now = (\<lambda>_. 0), re_parsedate = (\<lambda>_. None)\<rparr>"
  let ?p = "\<lparr>rp_max_retries = 3, rp_backoff_base = 1 / 2, rp_backoff_cap = 10\<rparr>"
  obtain r ds where r: "retry_request ?env ?p ''GET'' False = (r, ds)" by fastforce
  have "\<And>n. 0 \<le> re_jitter ?env n \<and> re_jitter ?env n \<le> 1" by simp
  from retry_terminates_bounded [OF this r] r show ?thesis by auto
qed



end
