(* ===== verification/Extension_Ids.thy ===== *)
theory Extension_Ids
  imports Url Models
begin

text \<open>
  The identity helpers of \<open>app/routes/api.py\<close>: taking an id out of a store URL, its validation,
  the store a URL belongs to, and the pasted list of the bulk form. A leading \<open>None\<close> of
  \<open>normalise_extension_id\<close> is the \<open>ValueError\<close> its \<open>urlparse\<close> may raise, which no caller
  catches.
\<close>

section \<open>Validation\<close>

text \<open>\<open>re.match\<close> of a pattern that ends with \<open>$\<close>: the end of the text, or the place before a
  newline at its end.\<close>

definition match_to_end :: "(string \<Rightarrow> bool) \<Rightarrow> string \<Rightarrow> bool" where
  "match_to_end p s \<longleftrightarrow> p s \<or> (s \<noteq> [] \<and> last s = CHR 0x0A \<and> p (butlast s))"

definition is_a_to_p :: "char \<Rightarrow> bool" where
  "is_a_to_p c \<longleftrightarrow> CHR ''a'' \<le> c \<and> c \<le> CHR ''p''"

definition is_alnum_ascii :: "char \<Rightarrow> bool" where
  "is_alnum_ascii c \<longleftrightarrow> is_letter_ascii c \<or> is_digit_ascii c"

text \<open>\<open>^[a-p]{32}$\<close>\<close>

definition CHROME_EDGE_ID_RE :: "string \<Rightarrow> bool" where
  "CHROME_EDGE_ID_RE s \<longleftrightarrow> length s = 32 \<and> list_all is_a_to_p s"

text \<open>\<open>^[a-zA-Z0-9][a-zA-Z0-9_-]*\.[a-zA-Z0-9][a-zA-Z0-9_.-]*$\<close>: the publisher has no dot, so
  it ends at the first one.\<close>

definition is_publisher_char :: "char \<Rightarrow> bool" where
  "is_publisher_char c \<longleftrightarrow> is_alnum_ascii c \<or> c = CHR ''_'' \<or> c = CHR ''-''"

definition is_name_char :: "char \<Rightarrow> bool" where
  "is_name_char c \<longleftrightarrow> is_publisher_char c \<or> c = CHR ''.''"

definition VSCODE_ID_RE :: "string \<Rightarrow> bool" where
  "VSCODE_ID_RE s \<longleftrightarrow>
     (let (publisher, dot, name) = partition_at (CHR ''.'') s in
      dot \<and> publisher \<noteq> [] \<and> is_alnum_ascii (hd publisher) \<and> list_all is_publisher_char publisher \<and>
      name \<noteq> [] \<and> is_alnum_ascii (hd name) \<and> list_all is_name_char name)"

text \<open>The detail of the 422, or \<open>None\<close>. The dash of the source's message is written \<open>-\<close>.\<close>

definition validate_extension_id :: "string \<Rightarrow> string \<Rightarrow> string option" where
  "validate_extension_id store extension_id =
     (if store \<in> {''chrome'', ''edge''} then
        (if match_to_end CHROME_EDGE_ID_RE extension_id then None
         else Some (''Invalid '' @ store @ '' extension ID - expected 32 characters a-p''))
      else if store = ''vscode'' then
        (if match_to_end VSCODE_ID_RE extension_id then None
         else Some ''Invalid VS Code extension ID - expected publisher.name format'')
      else None)"

section \<open>Normalisation\<close>

definition canonical :: "string \<Rightarrow> string \<Rightarrow> string" where
  "canonical store value = (if store = ''vscode'' then lower value else value)"

text \<open>\<open>[p for p in path.split("/") if p]\<close>\<close>

definition path_parts :: "string \<Rightarrow> string list" where
  "path_parts path = filter (\<lambda>p. p \<noteq> []) (split_on (CHR ''/'') path)"

definition normalise_extension_id :: "string \<Rightarrow> string \<Rightarrow> string option" where
  "normalise_extension_id store raw0 =
     (let raw = strip raw0 in
      if \<not> starts_with raw ''http'' then Some (canonical store raw)
      else
        (case urlparse raw of
           None \<Rightarrow> None
         | Some parsed \<Rightarrow>
             let parts = path_parts (ur_path parsed) in
             if store = ''chrome'' then
               (if parts \<noteq> [] \<and> length (last parts) = 32 then Some (last parts)
                else if length parts \<ge> 2 then Some (last parts)
                else Some (canonical store raw))
             else if store = ''vscode'' then
               (case map_of (parse_qsl (ur_query parsed)) ''itemName'' of
                  Some v \<Rightarrow> Some (canonical store v)
                | None \<Rightarrow> Some (canonical store raw))
             else if store = ''edge'' then
               (if parts \<noteq> [] then Some (last parts) else Some (canonical store raw))
             else Some (canonical store raw)))"

definition detect_store :: "string \<Rightarrow> string option" where
  "detect_store value =
     (let v = lower value in
      if contains v ''chromewebstore.google.com'' \<or> contains v ''chrome.google.com/webstore''
      then Some ''chrome''
      else if contains v ''marketplace.visualstudio.com'' then Some ''vscode''
      else if contains v ''microsoftedge.microsoft.com'' then Some ''edge''
      else None)"

section \<open>The pasted list\<close>

text \<open>\<open>str.splitlines()\<close>: the line ends of ASCII are the codes 10-13 and 28-30, and \<open>\r\n\<close> is
  one; no empty line after the last end.\<close>

definition is_line_end :: "char \<Rightarrow> bool" where
  "is_line_end c \<longleftrightarrow>
     (let n = (of_char c :: nat) in (10 \<le> n \<and> n \<le> 13) \<or> (28 \<le> n \<and> n \<le> 30))"

fun splitlines_acc :: "string \<Rightarrow> string \<Rightarrow> string list" where
  "splitlines_acc cur [] = (if cur = [] then [] else [rev cur])"
| "splitlines_acc cur [c] = (if is_line_end c then [rev cur] else [rev (c # cur)])"
| "splitlines_acc cur (c # c' # s) =
     (if c = CHR 0x0D \<and> c' = CHR 0x0A then rev cur # splitlines_acc [] s
      else if is_line_end c then rev cur # splitlines_acc [] (c' # s)
      else splitlines_acc (c # cur) (c' # s))"

definition splitlines :: "string \<Rightarrow> string list" where
  "splitlines s = splitlines_acc [] s"

text \<open>An entry to enrol, or a line whose store could not be determined.\<close>

datatype bulk_entry = Entry string string | Unresolved string

definition parse_bulk_line :: "string \<Rightarrow> bulk_entry option" where
  "parse_bulk_line line0 =
     (let line = strip line0 in
      if line = [] \<or> starts_with line ''#'' then None
      else
        let sep = (if CHR '','' \<in> set line then CHR '','' else CHR '' '');
            (head0, _, rest0) = partition_at sep line;
            head = strip head0;
            rest = strip rest0
        in if lower head \<in> {''chrome'', ''vscode'', ''edge''} \<and> rest \<noteq> []
           then Some (Entry (lower head) rest)
           else (case detect_store line of
                   Some store \<Rightarrow> Some (Entry store line)
                 | None \<Rightarrow> Some (Unresolved line)))"

definition parse_bulk_text :: "string \<Rightarrow> bulk_entry list" where
  "parse_bulk_text text0 = List.map_filter parse_bulk_line (splitlines text0)"

section \<open>Laws\<close>

lemma set_partition_at:
  "partition_at c s = (a, b, r) \<Longrightarrow> set a \<subseteq> set s \<and> set r \<subseteq> set s"
  by (auto simp: partition_at_def dest: set_takeWhileD in_set_dropD set_dropWhileD)

lemma set_rpartition_at:
  "rpartition_at c s = (a, b, r) \<Longrightarrow> set a \<subseteq> set s \<and> set r \<subseteq> set s"
proof -
  have "set (takeWhile p (rev s)) \<subseteq> set s" "set (drop 1 (dropWhile p (rev s))) \<subseteq> set s" for p
    by (auto dest: set_takeWhileD in_set_dropD set_dropWhileD simp flip: set_rev [of s] simp del: set_rev)
  note * = this
  show "rpartition_at c s = (a, b, r) \<Longrightarrow> set a \<subseteq> set s \<and> set r \<subseteq> set s"
    using *(1) [of "\<lambda>x. x \<noteq> c"] *(2) [of "\<lambda>x. x \<noteq> c"]
    by (clarsimp simp: rpartition_at_def split: if_splits)
qed

lemma set_split_scheme: "split_scheme u = (a, r) \<Longrightarrow> set r \<subseteq> set u"
  by (auto simp: split_scheme_def split: prod.splits if_splits dest!: set_partition_at)

lemma set_split_netloc: "split_netloc u = (a, r) \<Longrightarrow> set r \<subseteq> set u"
  by (auto simp: split_netloc_def split: if_splits dest: set_dropWhileD in_set_dropD)

lemma set_split_params: "set (fst (split_params p)) \<subseteq> insert (CHR ''/'') (set p)"
  by (auto simp: split_params_def split: prod.splits if_splits dest!: set_partition_at set_rpartition_at)

text \<open>A tab or newline never reaches the path of a URL.\<close>

lemma urlsplit_path_safe:
  assumes "urlsplit s = Some u" "c \<in> set (ur_path u)"
  shows "\<not> is_unsafe_url_char c"
proof -
  let ?u = "filter (\<lambda>c. \<not> is_unsafe_url_char c) (dropWhile is_c0_or_space s)"
  obtain a u1 b u2 where p: "split_scheme ?u = (a, u1)" "split_netloc u1 = (b, u2)" by fastforce
  obtain u3 b1 f path b2 q where q: "partition_at (CHR ''#'') u2 = (u3, b1, f)"
    "partition_at (CHR ''?'') u3 = (path, b2, q)" by (metis prod_cases3)
  have "ur_path u = path" using assms(1) p q by (auto simp: urlsplit_def Let_def split: if_splits)
  moreover have "set path \<subseteq> set ?u"
    using set_split_scheme [OF p(1)] set_split_netloc [OF p(2)]
      set_partition_at [OF q(1)] set_partition_at [OF q(2)] by blast
  ultimately show ?thesis using assms(2) by auto
qed

lemma urlparse_path_safe:
  assumes "urlparse s = Some u" "c \<in> set (ur_path u)"
  shows "\<not> is_unsafe_url_char c"
proof -
  obtain v where v: "urlsplit s = Some v" and "c \<in> insert (CHR ''/'') (set (ur_path v))"
    using assms set_split_params by (auto simp: urlparse_def split: if_splits) blast+
  then show ?thesis
    using urlsplit_path_safe [OF v] by (auto simp: is_unsafe_url_char_def)
qed

lemma set_in_split_on: "p \<in> set (split_on c s) \<Longrightarrow> set p \<subseteq> set s"
proof (induction s arbitrary: p)
  case (Cons a s)
  obtain w ws where "split_on c s = w # ws" using split_on_not_Nil [of c s] by (cases "split_on c s") auto
  with Cons show ?case by (auto split: if_splits) blast+
qed simp

lemma path_parts_chars: "parts = path_parts p \<Longrightarrow> parts \<noteq> [] \<Longrightarrow> set (last parts) \<subseteq> set p"
proof -
  assume "parts = path_parts p" "parts \<noteq> []"
  then have "last parts \<in> set (split_on (CHR ''/'') p)"
    by (metis (no_types, lifting) filter_is_subset last_in_set path_parts_def subset_iff)
  then show ?thesis by (rule set_in_split_on)
qed

lemma strip_last: "strip s \<noteq> [] \<Longrightarrow> \<not> is_py_space (last (strip s))"
  by (simp add: strip_def strip_by_def rstrip_by_def last_rev hd_dropWhile)

lemma strip_ends: 
  assumes "s \<noteq> []" "\<not> is_py_space (hd s)" "\<not> is_py_space (last s)"
  shows "strip s = s"
proof -
  have "dropWhile is_py_space s = s" using assms(1,2) by (cases s) auto
  moreover have "dropWhile is_py_space (rev s) = rev s"
    using assms(1,3) by (cases s rule: rev_cases) simp_all
  ultimately show ?thesis by (simp add: strip_def strip_by_def rstrip_by_def lstrip_by_def)
qed

lemma canonical_no_newline:
  "canonical store (strip s) \<noteq> [] \<Longrightarrow> last (canonical store (strip s)) \<noteq> CHR 0x0A"
proof -
  assume a: "canonical store (strip s) \<noteq> []"
  then have n: "strip s \<noteq> []" by (cases "strip s") (auto simp: canonical_def lower_def)
  have "is_py_space (last (canonical store (strip s))) = is_py_space (last (strip s))"
    using n by (simp add: canonical_def lower_def last_map)
  then have "\<not> is_py_space (last (canonical store (strip s)))" using strip_last [OF n] by simp
  then show ?thesis by (auto simp: is_py_space_def)
qed

text \<open>Only the query of a Marketplace URL can bring a newline into an id.\<close>

lemma normalise_no_newline:
  assumes "normalise_extension_id store raw = Some i" "store \<noteq> ''vscode''" "i \<noteq> []"
  shows "last i \<noteq> CHR 0x0A"
proof -
  have path: "last (last (path_parts (ur_path p))) \<noteq> CHR 0x0A"
    if "urlparse (strip raw) = Some p" "path_parts (ur_path p) \<noteq> []" for p
  proof -
    let ?l = "last (path_parts (ur_path p))"
    have "?l \<in> set (path_parts (ur_path p))" using that(2) by simp
    then have "?l \<noteq> []" by (simp add: path_parts_def)
    then have "last ?l \<in> set (ur_path p)" using path_parts_chars [OF refl that(2)] by auto
    then have "\<not> is_unsafe_url_char (last ?l)" by (rule urlparse_path_safe [OF that(1)])
    then show ?thesis by (auto simp: is_unsafe_url_char_def)
  qed
  have ne: "path_parts p \<noteq> []" if "2 \<le> length (path_parts p)" for p using that by auto
  show ?thesis
    using assms path ne canonical_no_newline [of store raw]
    by (auto simp: normalise_extension_id_def Let_def split: if_splits option.splits)
qed

lemma name_char_plain:
  "is_name_char c \<Longrightarrow> c \<notin> {CHR '':'', CHR ''/'', CHR ''?'', CHR ''#'', CHR ''&'', CHR ''='', CHR ''['', CHR '']''} \<and>
     \<not> is_unsafe_url_char c \<and> \<not> is_c0_or_space c \<and> \<not> is_py_space c"
  by (auto simp: is_name_char_def is_publisher_char_def is_alnum_ascii_def is_letter_ascii_def
      is_upper_ascii_def is_lower_ascii_def is_digit_ascii_def less_eq_char_def
      is_unsafe_url_char_def is_c0_or_space_def is_py_space_def Let_def)

lemma vscode_id_chars: "VSCODE_ID_RE s \<Longrightarrow> s \<noteq> [] \<and> (\<forall>c \<in> set s. is_name_char c)"
proof -
  assume v: "VSCODE_ID_RE s"
  obtain p d n where p: "partition_at (CHR ''.'') s = (p, d, n)" by (metis prod_cases3)
  have d: d and cs: "list_all is_publisher_char p" "list_all is_name_char n"
    using v p by (auto simp: VSCODE_ID_RE_def)
  have "s = p @ ''.'' @ n"
    using p d unfolding partition_at_def
    by (cases "dropWhile (\<lambda>x. x \<noteq> CHR ''.'') s")
       (auto simp: dropWhile_eq_Nil_conv dest: dropWhile_eq_Cons_conv [THEN iffD1])
  then show ?thesis using cs by (auto simp: list_all_iff is_name_char_def)
qed

text \<open>A text of name characters is a URL that is nothing but a path.\<close>

lemma urlparse_plain:
  assumes "s \<noteq> []" "\<forall>c \<in> set s. is_name_char c"
  shows "\<exists>u. urlparse s = Some u \<and> ur_query u = []"
proof -
  note plain = name_char_plain [OF assms(2) [rule_format]]
  have "dropWhile is_c0_or_space s = s" using assms(1) plain by (cases s) auto
  then have u: "filter (\<lambda>c. \<not> is_unsafe_url_char c) (dropWhile is_c0_or_space s) = s"
    using plain by auto
  have n: "CHR '':'' \<notin> set s" "CHR ''#'' \<notin> set s" "CHR ''?'' \<notin> set s" using plain by auto
  have "split_scheme s = ([], s)" using n by (simp add: split_scheme_def)
  moreover have "split_netloc s = ([], s)"
    using plain assms(1) by (cases s) (auto simp: split_netloc_def starts_with_def)
  ultimately show ?thesis
    using n unfolding urlparse_def urlsplit_def u by (auto simp: Let_def netloc_ok_def)
qed

lemma chrome_id_plain: "CHROME_EDGE_ID_RE s \<Longrightarrow> strip s = s \<and> \<not> starts_with s ''http''"
proof -
  assume c: "CHROME_EDGE_ID_RE s"
  have "\<not> is_py_space c" if "c \<in> set s" for c
    using c that by (auto simp: CHROME_EDGE_ID_RE_def list_all_iff is_a_to_p_def is_py_space_def
        less_eq_char_def Let_def)
  moreover have "s \<noteq> []" using c by (auto simp: CHROME_EDGE_ID_RE_def)
  moreover have "CHR ''t'' \<notin> set s"
    using c by (auto simp: CHROME_EDGE_ID_RE_def list_all_iff is_a_to_p_def less_eq_char_def)
  ultimately show ?thesis by (auto intro!: strip_ends simp: starts_with_iff)
qed

lemma match_to_end_exact: "match_to_end p s \<Longrightarrow> s = [] \<or> last s \<noteq> CHR 0x0A \<Longrightarrow> p s"
  by (auto simp: match_to_end_def)

lemma lower_canonical [simp]: "canonical store (canonical store s) = canonical store s"
  by (simp add: canonical_def)

lemma normalise_vscode_lower:
  "normalise_extension_id ''vscode'' raw = Some i \<Longrightarrow> lower i = i"
  by (auto simp: normalise_extension_id_def canonical_def Let_def split: if_splits option.splits)

section \<open>Properties\<close>

text \<open>An id that passes enrolment is in canonical form: a Chrome or Edge id is exactly 32
  letters a to p and a VS Code id is in lower case, and unless a percent-encoded newline ends
  it, enrolling the stored id again gives the same identity.\<close>

theorem enrolled_id_canonical:
  assumes "normalise_extension_id store raw = Some i" "validate_extension_id store i = None"
    and "store = ''chrome'' \<or> store = ''edge'' \<or> store = ''vscode'' \<and> last i \<noteq> CHR 0x0A"
  shows "(if store = ''vscode'' then lower i = i \<and> VSCODE_ID_RE i
          else length i = 32 \<and> set i \<subseteq> {c. CHR ''a'' \<le> c \<and> c \<le> CHR ''p''}) \<and>
         normalise_extension_id store i = Some i"
proof (cases "store = ''vscode''")
  case True
  then have m: "match_to_end VSCODE_ID_RE i" using assms(2) by (simp add: validate_extension_id_def split: if_splits)
  have v: "VSCODE_ID_RE i" using match_to_end_exact [OF m] assms(3) True by auto
  have l: "lower i = i" using assms(1) True normalise_vscode_lower by simp
  note cs = vscode_id_chars [OF v]
  then have s: "strip i = i" using name_char_plain by (intro strip_ends) auto
  obtain u where "urlparse i = Some u" "ur_query u = []" using urlparse_plain cs by blast
  then have "normalise_extension_id store i = Some i"
    using True s l by (simp add: normalise_extension_id_def canonical_def parse_qsl_def)
  with v l True show ?thesis by simp
next
  case False
  then have st: "store = ''chrome'' \<or> store = ''edge''" using assms(3) by auto
  then have m: "match_to_end CHROME_EDGE_ID_RE i"
    using assms(2) by (auto simp: validate_extension_id_def split: if_splits)
  have v: "CHROME_EDGE_ID_RE i"
    using match_to_end_exact [OF m] normalise_no_newline [OF assms(1) False] by blast
  have "normalise_extension_id store i = Some i"
    using chrome_id_plain [OF v] False by (simp add: normalise_extension_id_def canonical_def)
  with v False show ?thesis by (auto simp: CHROME_EDGE_ID_RE_def list_all_iff is_a_to_p_def)
qed

theorem enrolled_id_canonical_witness:
  "normalise_extension_id ''vscode'' ''acme.tool'' = Some ''acme.tool''"
proof -
  have "normalise_extension_id ''vscode'' '' Acme.Tool'' = Some ''acme.tool''" by code_simp
  moreover have "validate_extension_id ''vscode'' ''acme.tool'' = None" by code_simp
  ultimately show ?thesis
    using enrolled_id_canonical [of "''vscode''" "'' Acme.Tool''" "''acme.tool''"] by simp
qed

text \<open>A percent-encoded newline does end an accepted VS Code id.\<close>

lemma vscode_id_with_newline:
  "normalise_extension_id ''vscode'' ''https://marketplace.visualstudio.com/items?itemName=a.b%0A'' =
     Some (''a.b'' @ [CHR 0x0A]) \<and>
   validate_extension_id ''vscode'' (''a.b'' @ [CHR 0x0A]) = None"
  by code_simp

end
