(* ===== verification/Py_Int.thy ===== *)
theory Py_Int
  imports Extension_Ids
begin

text \<open>
  Python's \<open>int\<close> of a text, which a page number, a response header and a store's counters go
  through, and its law for decimal numerals.
\<close>

text \<open>\<open>int(s)\<close> of ASCII digits: white space around, a sign, single underscores between digits, and
  not more than 4300 digits.\<close>

fun digit_groups :: "string \<Rightarrow> bool" where
  "digit_groups [] = False"
| "digit_groups [c] = is_digit_ascii c"
| "digit_groups (c # c' # s) =
     (is_digit_ascii c \<and> (if c' = CHR ''_'' then digit_groups s else digit_groups (c' # s)))"

definition unsigned_int :: "string \<Rightarrow> int option" where
  "unsigned_int s =
     (let digits = filter is_digit_ascii s in
      if digit_groups s \<and> length digits \<le> 4300 then Some (int (nat_of_digits digits)) else None)"

definition int_of_str :: "string \<Rightarrow> int option" where
  "int_of_str s =
     (case strip s of
        [] \<Rightarrow> None
      | c # cs \<Rightarrow>
          if c = CHR ''-'' then map_option uminus (unsigned_int cs)
          else if c = CHR ''+'' then unsigned_int cs
          else unsigned_int (c # cs))"

section \<open>Laws\<close>

lemma digit_groups_all: "list_all is_digit_ascii s \<Longrightarrow> s \<noteq> [] \<Longrightarrow> digit_groups s"
proof (induction s rule: digit_groups.induct)
  case (3 c c' s)
  have "\<not> is_digit_ascii (CHR ''_'')" by code_simp
  with 3 show ?case by auto
qed simp_all

lemma int_of_show_nat:
  assumes "length (show_nat n) \<le> 4300"
  shows "int_of_str (show_nat n) = Some (int n)"
proof -
  have d: "list_all is_digit_ascii (show_nat n)" "nat_of_digits (show_nat n) = n" using digits_show_nat by auto
  have ns: "\<not> is_py_space c" "c \<noteq> CHR ''-''" "c \<noteq> CHR ''+''" if "is_digit_ascii c" for c
    using that by (auto simp: is_digit_ascii_def is_py_space_def less_eq_char_def)
  have "is_digit_ascii (hd (show_nat n))" "is_digit_ascii (last (show_nat n))"
    using d(1) by (auto simp: list_all_iff hd_in_set last_in_set)
  then have s: "strip (show_nat n) = show_nat n" using ns by (intro strip_ends) auto
  have "filter is_digit_ascii (show_nat n) = show_nat n" using d(1) by (simp add: list_all_iff)
  moreover have "digit_groups (show_nat n)" using d(1) by (rule digit_groups_all) simp
  ultimately have "unsigned_int (show_nat n) = Some (int n)" using assms by (simp add: unsigned_int_def Let_def d(2))
  moreover obtain c cs where "show_nat n = c # cs" by (cases "show_nat n") auto
  moreover have "c \<noteq> CHR ''-''" "c \<noteq> CHR ''+''" if "show_nat n = c # cs" for c cs
    using ns d(1) that by (auto simp: list_all_iff)
  ultimately show ?thesis unfolding int_of_str_def s by (auto split: list.split)
qed

end
