(* ===== verification/Threat_Intel.thy ===== *)
theory Threat_Intel
  imports Url Json
begin

text \<open>
  \<open>app/threat_intel.py\<close>: the lookup links the extension page offers for the hashes, domains
  and URLs of a package analysis. Text is its UTF-8 bytes, so \<open>url.encode()\<close> is the text.
\<close>

section \<open>Link forms\<close>

text \<open>\<open>urlsafe_b64encode\<close>, RFC 4648 with the URL-safe alphabet, and its inverse on a text
  without padding.\<close>

definition b64_char :: "nat \<Rightarrow> char" where
  "b64_char n = (if n < 26 then char_of (n + 65) else if n < 52 then char_of (n + 71)
                 else if n < 62 then char_of (n - 4) else if n = 62 then CHR ''-'' else CHR ''_'')"

fun urlsafe_b64encode :: "string \<Rightarrow> string" where
  "urlsafe_b64encode [] = []"
| "urlsafe_b64encode [a] =
     (let x = (of_char a :: nat)
      in [b64_char (x div 4), b64_char (x mod 4 * 16), CHR ''='', CHR ''=''])"
| "urlsafe_b64encode [a, b] =
     (let x = (of_char a :: nat); y = (of_char b :: nat)
      in [b64_char (x div 4), b64_char (x mod 4 * 16 + y div 16), b64_char (y mod 16 * 4), CHR ''=''])"
| "urlsafe_b64encode (a # b # c # s) =
     (let x = (of_char a :: nat); y = (of_char b :: nat); z = (of_char c :: nat)
      in [b64_char (x div 4), b64_char (x mod 4 * 16 + y div 16),
          b64_char (y mod 16 * 4 + z div 64), b64_char (z mod 64)] @ urlsafe_b64encode s)"

definition b64_value :: "char \<Rightarrow> nat" where
  "b64_value c =
     (let n = (of_char c :: nat) in
      if n = 45 then 62 else if n = 95 then 63 else if n < 58 then n + 4
      else if n < 91 then n - 65 else n - 71)"

fun b64_decode :: "string \<Rightarrow> string" where
  "b64_decode (p # q # r # t # s) =
     (let a = b64_value p; b = b64_value q; c = b64_value r; d = b64_value t
      in [char_of (a * 4 + b div 16), char_of (b mod 16 * 16 + c div 4), char_of (c mod 4 * 64 + d)]
         @ b64_decode s)"
| "b64_decode [p, q, r] =
     (let a = b64_value p; b = b64_value q; c = b64_value r
      in [char_of (a * 4 + b div 16), char_of (b mod 16 * 16 + c div 4)])"
| "b64_decode [p, q] = [char_of (b64_value p * 4 + b64_value q div 16)]"
| "b64_decode s = []"

text \<open>\<open>quote(value, safe=":")\<close> and \<open>quote(value, safe="")\<close>\<close>

definition quote_keeping :: "char set \<Rightarrow> string \<Rightarrow> string" where
  "quote_keeping safe s = concat (map (\<lambda>c. if c \<in> safe then [c] else quote_char c) s)"

definition otx_indicator_url :: "string \<Rightarrow> string \<Rightarrow> string" where
  "otx_indicator_url kind v =
     ''https://otx.alienvault.com/indicator/'' @ kind @ ''/''
     @ quote_keeping (if kind = ''url'' then {CHR '':''} else {}) v"

definition virustotal_url_report_url :: "string \<Rightarrow> string" where
  "virustotal_url_report_url url =
     ''https://www.virustotal.com/gui/url/'' @ rstrip_by (\<lambda>c. c = CHR ''='') (urlsafe_b64encode url)
     @ ''/detection''"

section \<open>Indicators\<close>

definition OTX_LABEL :: string where "OTX_LABEL = ''AlienVault OTX''"
definition CODE_SOURCE_LABEL :: string where "CODE_SOURCE_LABEL = ''Found in code''"
definition NETWORK_CALLOUT_SOURCE_LABEL :: string where
  "NETWORK_CALLOUT_SOURCE_LABEL = ''Network call in code''"
definition MAX_THREAT_INTEL_INDICATORS :: nat where "MAX_THREAT_INTEL_INDICATORS = 100"

definition REFERENCE_NOISE_DOMAINS :: "string set" where
  "REFERENCE_NOISE_DOMAINS = {''fb.me'', ''github.com'', ''reactjs.org'', ''w3.org''}"

record lookup_link =
  lk_label :: string
  lk_url :: string
  lk_requires_copy :: bool

record indicator =
  in_type :: string
  in_section :: string
  in_label :: string
  in_value :: string
  in_source :: string
  in_description :: "string option"
  in_lookups :: "lookup_link list"

definition mk_lookup :: "string \<Rightarrow> string \<Rightarrow> lookup_link" where
  "mk_lookup label url = \<lparr>lk_label = label, lk_url = url, lk_requires_copy = False\<rparr>"

definition mk_indicator ::
    "string \<Rightarrow> string \<Rightarrow> string \<Rightarrow> string \<Rightarrow> string \<Rightarrow> string option \<Rightarrow> lookup_link list \<Rightarrow> indicator" where
  "mk_indicator kind sect label v source description lookups =
     \<lparr>in_type = kind, in_section = sect, in_label = label, in_value = v,
      in_source = source,
      in_description = (case description of Some (c # s) \<Rightarrow> Some (c # s) | _ \<Rightarrow> None),
      in_lookups = lookups\<rparr>"

definition unique_strings :: "json \<Rightarrow> string list" where
  "unique_strings values =
     (case values of JArr vs \<Rightarrow> sorted_set (map py_str (filter truthy vs)) | _ \<Rightarrow> [])"

definition is_reference_noise_url :: "string \<Rightarrow> bool" where
  "is_reference_noise_url url \<longleftrightarrow>
     remove_prefix (domain_from_url url) ''www.'' \<in> REFERENCE_NOISE_DOMAINS"

definition hash_indicator :: "string \<Rightarrow> string option \<Rightarrow> string \<Rightarrow> indicator" where
  "hash_indicator label description hash =
     mk_indicator ''sha256'' ''primary'' label hash ''package'' description
       [mk_lookup ''VirusTotal'' (''https://www.virustotal.com/gui/file/'' @ hash @ ''/detection''),
        mk_lookup OTX_LABEL (otx_indicator_url ''file'' hash)]"

definition domain_indicator :: "string \<Rightarrow> indicator" where
  "domain_indicator domain =
     mk_indicator ''domain'' ''network'' ''Network callout domain'' domain
       NETWORK_CALLOUT_SOURCE_LABEL None
       [mk_lookup ''VirusTotal'' (''https://www.virustotal.com/gui/domain/'' @ quote domain),
        mk_lookup OTX_LABEL (otx_indicator_url ''hostname'' (lower domain))]"

definition url_indicator :: "string \<Rightarrow> string \<Rightarrow> string \<Rightarrow> string \<Rightarrow> indicator" where
  "url_indicator sect label source url =
     mk_indicator ''url'' sect label url source None
       [mk_lookup ''VirusTotal'' (virustotal_url_report_url url),
        mk_lookup OTX_LABEL (otx_indicator_url ''url'' url)]"

definition archive_description :: string where
  "archive_description = ''SHA-256 of the archive payload inside the downloaded package. '' @
     ''This can help when a lookup provider indexed the unpacked archive instead of the signed package.''"

definition get_or_empty :: "jobject \<Rightarrow> string \<Rightarrow> json" where
  "get_or_empty d k = (case dict_get d k of Some v \<Rightarrow> v | None \<Rightarrow> JArr [])"

definition build_threat_intel_indicators :: "jobject option \<Rightarrow> indicator list" where
  "build_threat_intel_indicators package_analysis =
     (case package_analysis of
        None \<Rightarrow> []
      | Some [] \<Rightarrow> []
      | Some d \<Rightarrow>
          let package_sha256 = dict_get_none d ''package_sha256'';
              archive_sha256 = dict_get_none d ''archive_sha256'';
              callouts = unique_strings (get_or_empty d ''network_callout_urls'');
              domains = sorted_set (filter (\<lambda>h. h \<noteq> []) (map domain_from_url callouts));
              referenced = filter (\<lambda>url. url \<notin> set callouts \<and> \<not> is_reference_noise_url url)
                             (unique_strings (get_or_empty d ''external_urls''))
          in take MAX_THREAT_INTEL_INDICATORS
               ((if truthy package_sha256
                 then [hash_indicator ''Package hash'' None (py_str package_sha256)] else [])
                @ (if truthy archive_sha256 \<and> archive_sha256 \<noteq> package_sha256
                   then [hash_indicator ''Archive content hash'' (Some archive_description)
                           (py_str archive_sha256)] else [])
                @ map domain_indicator domains
                @ map (url_indicator ''network'' ''Network callout URL'' NETWORK_CALLOUT_SOURCE_LABEL) callouts
                @ map (url_indicator ''referenced'' ''Referenced URL'' CODE_SOURCE_LABEL) referenced))"

section \<open>Laws\<close>

lemma of_char_lt [simp]: "(of_char c :: nat) < 256"
  using nat_of_char_less_256 by auto

lemma b64_value_char [simp]: "n < 64 \<Longrightarrow> b64_value (b64_char n) = n"
  by (auto simp: b64_value_def b64_char_def Let_def)

lemma b64_char_not_pad: "n < 64 \<Longrightarrow> b64_char n \<noteq> CHR ''=''"
proof -
  assume "n < 64"
  then have "(of_char (b64_char n) :: nat) \<noteq> 61" by (simp add: b64_char_def) arith
  then show ?thesis by auto
qed

lemma regroup:
  fixes x y z :: nat
  assumes "x < 256" "y < 256" "z < 256"
  shows "x div 4 < 64" "x mod 4 * 16 + y div 16 < 64" "y mod 16 * 4 + z div 64 < 64" "z mod 64 < 64"
    "x mod 4 * 16 < 64" "y mod 16 * 4 < 64"
    "x div 4 * 4 + (x mod 4 * 16 + y div 16) div 16 = x"
    "(x mod 4 * 16 + y div 16) mod 16 * 16 + (y mod 16 * 4 + z div 64) div 4 = y"
    "(y mod 16 * 4 + z div 64) mod 4 * 64 + z mod 64 = z"
    "x div 4 * 4 + (x mod 4 * 16) div 16 = x"
    "(x mod 4 * 16 + y div 16) mod 16 * 16 + (y mod 16 * 4) div 4 = y"
proof -
  have w: "y div 16 < 16" "z div 64 < 4" "x div 4 < 64" using assms by simp_all
  have m: "x mod 4 < 4" "y mod 16 < 16" "z mod 64 < 64" by simp_all
  show "x div 4 < 64" "x mod 4 * 16 + y div 16 < 64" "y mod 16 * 4 + z div 64 < 64" "z mod 64 < 64"
    "x mod 4 * 16 < 64" "y mod 16 * 4 < 64" using w m by linarith+
  show "x div 4 * 4 + (x mod 4 * 16 + y div 16) div 16 = x" using w by simp
  have "(x mod 4 * 16 + y div 16) mod 16 = y div 16" "(y mod 16 * 4 + z div 64) div 4 = y mod 16"
    "(y mod 16 * 4 + z div 64) mod 4 = z div 64" using w by simp_all
  then show "(x mod 4 * 16 + y div 16) mod 16 * 16 + (y mod 16 * 4 + z div 64) div 4 = y"
    "(y mod 16 * 4 + z div 64) mod 4 * 64 + z mod 64 = z"
    "(x mod 4 * 16 + y div 16) mod 16 * 16 + (y mod 16 * 4) div 4 = y" by simp_all
  show "x div 4 * 4 + (x mod 4 * 16) div 16 = x" by simp
qed

lemma dropWhile_append_some:
  "\<exists>x \<in> set s. \<not> p x \<Longrightarrow> rstrip_by p (t @ s) = t @ rstrip_by p s"
  by (auto simp: rstrip_by_def dropWhile_append1)

lemma b64_tail: "urlsafe_b64encode s \<noteq> [] \<Longrightarrow> hd (urlsafe_b64encode s) \<noteq> CHR ''=''"
  by (cases s rule: urlsafe_b64encode.cases) (auto simp: Let_def intro!: b64_char_not_pad regroup(1) [of _ 0 0])

abbreviation "unpad \<equiv> rstrip_by (\<lambda>c. c = CHR ''='')"

lemma b64_roundtrip: "b64_decode (unpad (urlsafe_b64encode s)) = s"
proof (induction s rule: urlsafe_b64encode.induct)
  case (2 a)
  let ?x = "of_char a :: nat"
  have "unpad (urlsafe_b64encode [a]) = [b64_char (?x div 4), b64_char (?x mod 4 * 16)]"
    using b64_char_not_pad [of "?x mod 4 * 16"] regroup(5) [of ?x 0 0]
    by (simp add: Let_def rstrip_by_def)
  then show ?case using regroup [of ?x 0 0] by (simp add: Let_def)
next
  case (3 a b)
  let ?x = "of_char a :: nat" and ?y = "of_char b :: nat"
  have "unpad (urlsafe_b64encode [a, b]) =
     [b64_char (?x div 4), b64_char (?x mod 4 * 16 + ?y div 16), b64_char (?y mod 16 * 4)]"
    using b64_char_not_pad [of "?y mod 16 * 4"] regroup(6) [of 0 ?y 0]
    by (simp add: Let_def rstrip_by_def)
  then show ?case using regroup [of ?x ?y 0] by (simp add: Let_def)
next
  case (4 a b c s)
  let ?x = "of_char a :: nat" and ?y = "of_char b :: nat" and ?z = "of_char c :: nat"
  let ?q = "[b64_char (?x div 4), b64_char (?x mod 4 * 16 + ?y div 16),
          b64_char (?y mod 16 * 4 + ?z div 64), b64_char (?z mod 64)]"
  have q: "unpad ?q = ?q" using b64_char_not_pad [of "?z mod 64"] by (simp add: rstrip_by_def)
  have "unpad (?q @ urlsafe_b64encode s) = ?q @ unpad (urlsafe_b64encode s)"
  proof (cases "urlsafe_b64encode s")
    case Nil
    then show ?thesis using q by simp
  next
    case (Cons h t)
    then have "\<exists>x\<in>set (urlsafe_b64encode s). x \<noteq> CHR ''=''" using b64_tail [of s] by auto
    then show ?thesis by (rule dropWhile_append_some)
  qed
  then show ?case using 4 regroup [of ?x ?y ?z] by (simp add: Let_def)
qed (simp add: rstrip_by_def)

lemma b64_in_link:
  "\<exists>i. virustotal_url_report_url url = ''https://www.virustotal.com/gui/url/'' @ i @ ''/detection'' \<and>
     b64_decode i = url"
  by (auto simp: virustotal_url_report_url_def b64_roundtrip)

section \<open>Properties\<close>

definition indicators_of_type :: "string \<Rightarrow> indicator list \<Rightarrow> indicator list" where
  "indicators_of_type kind is = filter (\<lambda>i. in_type i = kind) is"

lemma of_type_simps [simp]:
  "in_type (hash_indicator l ds h) = ''sha256''" "in_type (domain_indicator dm) = ''domain''"
  "in_type (url_indicator s l src u) = ''url''" "in_value (url_indicator s l src u) = u"
  by (simp_all add: hash_indicator_def domain_indicator_def url_indicator_def mk_indicator_def)

lemma distinct_filter_take: "distinct (map f (filter p xs)) \<Longrightarrow> distinct (map f (filter p (take n xs)))"
  by (metis append_take_drop_id distinct_append filter_append map_append)

text \<open>The indicators of a package are at most a hundred, list no URL twice (one the code
  calls is not repeated as a reference), and the report link of each URL decodes to it.\<close>

theorem threat_intel_indicators_sound:
  "length (build_threat_intel_indicators pa) \<le> 100 \<and>
   distinct (map in_value (indicators_of_type ''url'' (build_threat_intel_indicators pa))) \<and>
   list_all (\<lambda>i. \<exists>link. lk_url (hd (in_lookups i)) =
                  ''https://www.virustotal.com/gui/url/'' @ link @ ''/detection'' \<and>
                  b64_decode link = in_value i)
     (indicators_of_type ''url'' (build_threat_intel_indicators pa))"
proof (cases "pa = None \<or> pa = Some []")
  case True
  then have "build_threat_intel_indicators pa = []"
    unfolding build_threat_intel_indicators_def by (elim disjE) (simp_all only: option.case list.case)
  then show ?thesis by (simp add: indicators_of_type_def)
next
  case False
  then obtain d where d: "pa = Some d" "d \<noteq> []" by (cases pa) auto
  define callouts where "callouts = unique_strings (get_or_empty d ''network_callout_urls'')"
  define refs where "refs = filter (\<lambda>url. url \<notin> set callouts \<and> \<not> is_reference_noise_url url)
    (unique_strings (get_or_empty d ''external_urls''))"
  have us: "distinct (unique_strings j)" for j by (simp add: unique_strings_def split: json.split)
  let ?net = "url_indicator ''network'' ''Network callout URL'' NETWORK_CALLOUT_SOURCE_LABEL"
  let ?ref = "url_indicator ''referenced'' ''Referenced URL'' CODE_SOURCE_LABEL"
  define front where "front =
     ((if truthy (dict_get_none d ''package_sha256'')
       then [hash_indicator ''Package hash'' None (py_str (dict_get_none d ''package_sha256''))] else [])
      @ (if truthy (dict_get_none d ''archive_sha256'') \<and>
            dict_get_none d ''archive_sha256'' \<noteq> dict_get_none d ''package_sha256''
         then [hash_indicator ''Archive content hash'' (Some archive_description)
                 (py_str (dict_get_none d ''archive_sha256''))] else [])
      @ map domain_indicator (sorted_set (filter (\<lambda>h. h \<noteq> []) (map domain_from_url callouts))))"
  have b: "build_threat_intel_indicators pa = take 100 (front @ map ?net callouts @ map ?ref refs)"
  proof -
    obtain p q where pq: "d = p # q" using d(2) by (cases d) auto
    show ?thesis
      unfolding build_threat_intel_indicators_def d(1) pq option.case list.case Let_def
        MAX_THREAT_INTEL_INDICATORS_def front_def callouts_def refs_def by (simp only: append_assoc)
  qed
  have front: "\<forall>i \<in> set front. in_type i \<noteq> ''url''"
    unfolding front_def by (auto split: if_splits)
  have e: "filter (\<lambda>i. in_type i = ''url'') front = []" using front by (simp add: filter_empty_conv)
  have "distinct (map in_value (filter (\<lambda>i. in_type i = ''url'') (front @ map ?net callouts @ map ?ref refs)))"
    using us by (auto simp: e filter_map comp_def refs_def callouts_def)
  then have "distinct (map in_value (indicators_of_type ''url'' (build_threat_intel_indicators pa)))"
    unfolding b indicators_of_type_def by (rule distinct_filter_take)
  moreover have "\<exists>link. lk_url (hd (in_lookups i)) =
        ''https://www.virustotal.com/gui/url/'' @ link @ ''/detection'' \<and> b64_decode link = in_value i"
    if "i \<in> set (indicators_of_type ''url'' (build_threat_intel_indicators pa))" for i
  proof -
    have "i \<in> set front \<union> ?net ` set callouts \<union> ?ref ` set refs" "in_type i = ''url''"
      using that set_take_subset by (fastforce simp: b indicators_of_type_def)+
    with front obtain s l src u where "i = url_indicator s l src u" by auto
    then show ?thesis using b64_in_link [of u] by (simp add: url_indicator_def mk_indicator_def mk_lookup_def)
  qed
  ultimately show ?thesis by (simp add: b list_all_iff)
qed

end
