(* ===== verification/Findings_View.thy ===== *)
theory Findings_View
  imports Json
begin

text \<open>
  \<open>app/findings_view.py\<close>: the stored findings grouped for the detail page. A stored finding is
  any JSON object, so its fields are JSON values. A value used in a dictionary key or a set has
  to be hashable: a list or object there is the \<open>TypeError\<close> of \<open>hash\<close>, the value \<open>None\<close> of the
  results here. \<open>True\<close> and 1 are the same key; a float keeps a key of its own.
\<close>

section \<open>Keys\<close>

definition hashable :: "json \<Rightarrow> bool" where
  "hashable v = (case v of JArr _ \<Rightarrow> False | JObj _ \<Rightarrow> False | _ \<Rightarrow> True)"

definition key_of :: "json \<Rightarrow> json" where
  "key_of v = (case v of JBool b \<Rightarrow> JInt (if b then 1 else 0) | _ \<Rightarrow> v)"

text \<open>\<open>a or b\<close>\<close>

definition or_else :: "json \<Rightarrow> json \<Rightarrow> json" where
  "or_else a b = (if truthy a then a else b)"

text \<open>\<open>list(dict.fromkeys(values))\<close>: the first value of each key.\<close>

fun unique_by :: "json list \<Rightarrow> json list \<Rightarrow> json list" where
  "unique_by seen [] = []"
| "unique_by seen (v # vs) =
     (if key_of v \<in> set seen then unique_by seen vs else v # unique_by (key_of v # seen) vs)"

definition unique_values :: "json list \<Rightarrow> json list" where
  "unique_values vs = unique_by [] vs"

section \<open>Rows\<close>

record finding_row =
  fr_location :: json
  fr_detail :: json

definition finding_location :: "jobject \<Rightarrow> json \<Rightarrow> json" where
  "finding_location finding source =
     (let file = dict_get_none finding ''file'' in
      if truthy file then
        (let line = dict_get_none finding ''line'' in
         if line \<noteq> JNull then JStr (py_str file @ '':'' @ py_str line) else JStr (py_str file))
      else source)"

datatype page_section =
    DetailSection json "json list"
  | LocationSection json "json list"

definition finding_sections :: "finding_row list \<Rightarrow> json \<Rightarrow> page_section list \<times> string" where
  "finding_sections rows source =
     (let locations = unique_values (map fr_location rows);
          details = unique_values (filter truthy (map fr_detail rows));
          shown = (\<lambda>l. if key_of l = key_of source then JStr [] else l)
      in if length details = 1 then ([DetailSection (hd details) locations], ''locations'')
         else if length locations = 1 then ([LocationSection (shown (hd locations)) details], ''findings'')
         else if length details \<le> length locations then
           (map (\<lambda>d. DetailSection d
                   (unique_values (map fr_location (filter (\<lambda>r. key_of (fr_detail r) = key_of d) rows))))
              details, ''entries'')
         else
           (map (\<lambda>l. LocationSection (shown l)
                   (unique_values (map fr_detail
                      (filter (\<lambda>r. key_of (fr_location r) = key_of l \<and> truthy (fr_detail r)) rows))))
              locations, ''entries''))"

record finding_group =
  fg_code :: json
  fg_severity :: json
  fg_title :: json
  fg_source :: json
  fg_rows :: "finding_row list"

type_synonym group_key = "json \<times> json \<times> json \<times> json"

definition group_key_of :: "finding_group \<Rightarrow> group_key" where
  "group_key_of g = (key_of (fg_severity g), key_of (fg_source g), key_of (fg_code g), key_of (fg_title g))"

definition row_key :: "finding_row \<Rightarrow> json \<times> json" where
  "row_key r = (key_of (fr_location r), key_of (fr_detail r))"

definition add_row :: "finding_row \<Rightarrow> finding_group \<Rightarrow> finding_group" where
  "add_row r g = (if row_key r \<in> row_key ` set (fg_rows g) then g else g\<lparr>fg_rows := fg_rows g @ [r]\<rparr>)"

text \<open>\<open>grouped.setdefault(key, ...)\<close> and the row: the groups keep the order of their first
  finding.\<close>

fun add_to_groups :: "finding_group \<Rightarrow> finding_row \<Rightarrow> finding_group list \<Rightarrow> finding_group list" where
  "add_to_groups new r [] = [add_row r new]"
| "add_to_groups new r (g # gs) =
     (if group_key_of g = group_key_of new then add_row r g # gs else g # add_to_groups new r gs)"

text \<open>What one object says, with the defaults of blank fields.\<close>

definition group_and_row :: "jobject \<Rightarrow> finding_group \<times> finding_row" where
  "group_and_row finding =
     (let severity = or_else (dict_get_none finding ''severity'') (JStr ''low'');
          source = or_else (dict_get_none finding ''source'') (JStr ''package'');
          code = or_else (dict_get_none finding ''code'') (JStr []);
          title = or_else (or_else (dict_get_none finding ''title'') code) (JStr ''Detection finding'');
          detail = or_else (dict_get_none finding ''detail'') (JStr [])
      in (\<lparr>fg_code = code, fg_severity = severity, fg_title = title, fg_source = source, fg_rows = []\<rparr>,
          \<lparr>fr_location = finding_location finding source, fr_detail = detail\<rparr>))"

fun group_rows :: "json list \<Rightarrow> finding_group list \<Rightarrow> finding_group list option" where
  "group_rows [] gs = Some gs"
| "group_rows (JObj finding # fs) gs =
     (let (new, r) = group_and_row finding in
      if list_all hashable [fg_severity new, fg_source new, fg_code new, fg_title new,
                            fr_location r, fr_detail r]
      then group_rows fs (add_to_groups new r gs)
      else None)"
| "group_rows (_ # fs) gs = group_rows fs gs"

definition group_detection_findings :: "json list \<Rightarrow> (finding_group \<times> page_section list \<times> string) list option" where
  "group_detection_findings findings =
     map_option (map (\<lambda>g. (g, finding_sections (fg_rows g) (fg_source g)))) (group_rows findings [])"

section \<open>Laws\<close>

lemma key_of_truthy: "key_of a = key_of b \<Longrightarrow> truthy a = truthy b"
  by (auto simp: key_of_def split: json.splits if_splits)

lemma unique_by_keys: "key_of ` set (unique_by seen vs) = key_of ` set vs - set seen"
  by (induction seen vs rule: unique_by.induct) auto

lemma unique_values_keys [simp]: "key_of ` set (unique_values vs) = key_of ` set vs"
  by (simp add: unique_values_def unique_by_keys)

lemma unique_by_subset: "set (unique_by seen vs) \<subseteq> set vs"
  by (induction seen vs rule: unique_by.induct) auto

lemma unique_values_subset: "v \<in> set (unique_values vs) \<Longrightarrow> v \<in> set vs"
  using unique_by_subset by (auto simp: unique_values_def)

lemma unique_by_distinct: "distinct (map key_of (unique_by seen vs))"
proof (induction seen vs rule: unique_by.induct)
  case (2 seen v vs)
  then show ?case using unique_by_keys [of "key_of v # seen" vs] by (auto simp: image_iff)
qed simp

lemma unique_values_same: "length (unique_values vs) = 1 \<Longrightarrow> v \<in> set vs \<Longrightarrow> key_of v = key_of (hd (unique_values vs))"
proof -
  assume "length (unique_values vs) = 1" "v \<in> set vs"
  then obtain w where w: "unique_values vs = [w]" by (metis One_nat_def length_0_conv length_Suc_conv)
  have "key_of v \<in> key_of ` set (unique_values vs)" using \<open>v \<in> set vs\<close> by simp
  with w show ?thesis by simp
qed

text \<open>The groups hold exactly the pairs of group and row of the objects read so far.\<close>

definition grouped_rows :: "finding_group list \<Rightarrow> (group_key \<times> json \<times> json) set" where
  "grouped_rows gs = (\<Union>g \<in> set gs. Pair (group_key_of g) ` row_key ` set (fg_rows g))"

definition finding_rows :: "json list \<Rightarrow> (group_key \<times> json \<times> json) set" where
  "finding_rows fs =
     {(group_key_of (fst (group_and_row f)), row_key (snd (group_and_row f))) | f. JObj f \<in> set fs}"

definition groups_ok :: "finding_group list \<Rightarrow> bool" where
  "groups_ok gs \<longleftrightarrow> distinct (map group_key_of gs) \<and>
     (\<forall>g \<in> set gs. fg_rows g \<noteq> [] \<and> distinct (map row_key (fg_rows g)))"

lemma add_row_key [simp]: "group_key_of (add_row r g) = group_key_of g"
  by (simp add: add_row_def group_key_of_def)

lemma add_row_rows: "row_key ` set (fg_rows (add_row r g)) = insert (row_key r) (row_key ` set (fg_rows g))"
  by (auto simp: add_row_def)

lemma add_row_ok:
  "distinct (map row_key (fg_rows g)) \<Longrightarrow>
     fg_rows (add_row r g) \<noteq> [] \<and> distinct (map row_key (fg_rows (add_row r g)))"
  by (auto simp: add_row_def)

lemma add_to_groups_keys:
  "group_key_of ` set (add_to_groups new r gs) = insert (group_key_of new) (group_key_of ` set gs)"
  by (induction new r gs rule: add_to_groups.induct) auto

lemma add_to_groups_ok: "fg_rows new = [] \<Longrightarrow> groups_ok gs \<Longrightarrow> groups_ok (add_to_groups new r gs)"
proof (induction new r gs rule: add_to_groups.induct)
  case (2 new r g gs)
  then show ?case
    using add_row_ok [of g r] add_to_groups_keys [of new r gs]
    by (auto simp: groups_ok_def image_iff)
qed (simp add: groups_ok_def add_row_ok)

lemma add_to_groups_rows:
  "fg_rows new = [] \<Longrightarrow>
     grouped_rows (add_to_groups new r gs) = insert (group_key_of new, row_key r) (grouped_rows gs)"
proof (induction new r gs rule: add_to_groups.induct)
  case (1 new r)
  then show ?case using add_row_rows [of r new] by (simp add: grouped_rows_def)
next
  case (2 new r g gs)
  then show ?case using add_row_rows [of r g] by (auto simp: grouped_rows_def)
qed

lemma group_rows_correct:
  "group_rows fs gs = Some gs' \<Longrightarrow> groups_ok gs \<Longrightarrow>
     groups_ok gs' \<and> grouped_rows gs' = grouped_rows gs \<union> finding_rows fs"
proof (induction fs gs rule: group_rows.induct)
  case (2 f fs gs)
  obtain new r where nr: "group_and_row f = (new, r)" by fastforce
  have e: "fg_rows new = []" using nr by (auto simp: group_and_row_def Let_def)
  have f: "finding_rows (JObj f # fs) = insert (group_key_of new, row_key r) (finding_rows fs)"
    using nr by (auto simp: finding_rows_def) (metis fst_conv snd_conv)+
  show ?case
    using 2 nr add_to_groups_ok [OF e] add_to_groups_rows [OF e] by (auto simp: f split: if_splits)
qed (auto simp: finding_rows_def)


text \<open>What a section shows: pairs of a place and a detail. The name of the source is not repeated
  as a place, so it counts as the empty place.\<close>

definition place :: "json \<Rightarrow> json \<Rightarrow> json" where
  "place source k = (if k = key_of source then JStr [] else k)"

fun section_pairs :: "json \<Rightarrow> page_section \<Rightarrow> (json \<times> json) set" where
  "section_pairs source (DetailSection d ls) = (\<lambda>l. (place source (key_of l), key_of d)) ` set ls"
| "section_pairs source (LocationSection l ds) = (\<lambda>d. (place source (key_of l), key_of d)) ` set ds"

lemma place_shown [simp]:
  "place source (key_of (if key_of l = key_of source then JStr [] else l)) = place source (key_of l)"
  by (auto simp: place_def key_of_def)

lemma unique_values_repr:
  assumes "v \<in> set vs"
  shows "\<exists>w \<in> set (unique_values vs). key_of w = key_of v"
proof -
  have "key_of v \<in> key_of ` set (unique_values vs)" using assms by simp
  then show ?thesis by (metis imageE)
qed

text \<open>A section for each of the values of \<open>outer\<close> lists the matching values of \<open>inner\<close>.\<close>

lemma sections_pairs:
  assumes "\<And>r. r \<in> set rows \<Longrightarrow> outer r \<in> set outs"
  shows "(\<Union>v \<in> set (unique_values outs).
            (\<lambda>w. (key_of v, key_of w)) ` set (unique_values (map inner (filter (\<lambda>r. key_of (outer r) = key_of v) rows)))) =
         (\<lambda>r. (key_of (outer r), key_of (inner r))) ` set rows" (is "?L = ?R")
proof
  show "?L \<subseteq> ?R"
  proof
    fix p assume "p \<in> ?L"
    then obtain v w where v: "p = (key_of v, key_of w)"
      and w: "w \<in> set (unique_values (map inner (filter (\<lambda>r. key_of (outer r) = key_of v) rows)))" by auto
    from unique_values_subset [OF w] obtain r where
      "r \<in> set rows" "key_of (outer r) = key_of v" "w = inner r" by auto
    with v show "p \<in> ?R" by (intro image_eqI [of _ _ r]) simp_all
  qed
  show "?R \<subseteq> ?L"
  proof
    fix p assume "p \<in> ?R"
    then obtain r where r: "r \<in> set rows" "p = (key_of (outer r), key_of (inner r))" by auto
    obtain v where v: "v \<in> set (unique_values outs)" "key_of v = key_of (outer r)"
      using unique_values_repr [OF assms [OF r(1)]] by blast
    have "inner r \<in> set (map inner (filter (\<lambda>r. key_of (outer r) = key_of v) rows))" using r v by auto
    from unique_values_repr [OF this] v r show "p \<in> ?L" by (metis (no_types, lifting) UN_I image_eqI)
  qed
qed

lemma finding_sections_complete:
  assumes det: "\<forall>r \<in> set rows. truthy (fr_detail r)"
  shows "(\<Union>s \<in> set (fst (finding_sections rows source)). section_pairs source s) =
         (\<lambda>r. (place source (key_of (fr_location r)), key_of (fr_detail r))) ` set rows"
proof -
  define locations where "locations = unique_values (map fr_location rows)"
  define details where "details = unique_values (map fr_detail rows)"
  have f: "filter truthy (map fr_detail rows) = map fr_detail rows" using det by simp
  have f': "filter (\<lambda>r. key_of (fr_location r) = key_of l \<and> truthy (fr_detail r)) rows =
      filter (\<lambda>r. key_of (fr_location r) = key_of l) rows" for l
    using det by (intro filter_cong) auto
  have keys: "key_of ` set locations = (\<lambda>r. key_of (fr_location r)) ` set rows"
    "key_of ` set details = (\<lambda>r. key_of (fr_detail r)) ` set rows"
    by (simp_all add: locations_def details_def image_image)
  consider (one_detail) "length details = 1" | (one_location) "length details \<noteq> 1" "length locations = 1"
    | (by_detail) "length details \<noteq> 1" "length locations \<noteq> 1" "length details \<le> length locations"
    | (by_location) "length details \<noteq> 1" "length locations \<noteq> 1" "\<not> length details \<le> length locations"
    by blast
  then show ?thesis
  proof cases
    case one_detail
    have d: "key_of (fr_detail r) = key_of (hd details)" if "r \<in> set rows" for r
      using unique_values_same [of "map fr_detail rows" "fr_detail r"] one_detail that
      unfolding details_def by simp
    have "(\<lambda>k. (place source k, key_of (hd details))) ` key_of ` set locations =
        (\<lambda>r. (place source (key_of (fr_location r)), key_of (fr_detail r))) ` set rows"
      unfolding keys image_image using d by (intro image_cong) auto
    then show ?thesis using one_detail
      by (simp add: finding_sections_def f Let_def image_image flip: details_def locations_def)
  next
    case one_location
    have l: "key_of (fr_location r) = key_of (hd locations)" if "r \<in> set rows" for r
      using unique_values_same [of "map fr_location rows" "fr_location r"] one_location that
      unfolding locations_def by simp
    have "(\<lambda>k. (place source (key_of (hd locations)), k)) ` key_of ` set details =
        (\<lambda>r. (place source (key_of (fr_location r)), key_of (fr_detail r))) ` set rows"
      unfolding keys image_image using l by (intro image_cong) auto
    then show ?thesis using one_location
      by (simp add: finding_sections_def f Let_def image_image del: if_image_distrib flip: details_def locations_def)
  next
    case by_detail
    note p = sections_pairs [where outer = fr_detail and inner = fr_location and rows = rows, of "map fr_detail rows"]
    have "(\<lambda>(d, l). (place source l, d)) ` (\<Union>v \<in> set details.
            (\<lambda>w. (key_of v, key_of w)) ` set (unique_values (map fr_location (filter (\<lambda>r. key_of (fr_detail r) = key_of v) rows)))) =
        (\<lambda>r. (place source (key_of (fr_location r)), key_of (fr_detail r))) ` set rows"
      unfolding details_def by (subst p) (simp_all add: image_image)
    then show ?thesis using by_detail
      by (simp add: finding_sections_def f Let_def image_UN image_image flip: details_def locations_def)
  next
    case by_location
    note p = sections_pairs [where outer = fr_location and inner = fr_detail and rows = rows, of "map fr_location rows"]
    have "(\<lambda>(l, d). (place source l, d)) ` (\<Union>v \<in> set locations.
            (\<lambda>w. (key_of v, key_of w)) ` set (unique_values (map fr_detail (filter (\<lambda>r. key_of (fr_location r) = key_of v) rows)))) =
        (\<lambda>r. (place source (key_of (fr_location r)), key_of (fr_detail r))) ` set rows"
      unfolding locations_def by (subst p) (simp_all add: image_image)
    then show ?thesis using by_location
      by (simp add: finding_sections_def f f' Let_def image_UN image_image del: if_image_distrib flip: details_def locations_def)
  qed
qed


lemma finding_sections_blank:
  "list_ex (\<lambda>r. \<not> truthy (fr_detail r)) rows \<or>
   (\<Union>s \<in> set (fst (finding_sections rows source)). section_pairs source s) =
      (\<lambda>r. (place source (key_of (fr_location r)), key_of (fr_detail r))) ` set rows"
proof (cases "\<forall>r \<in> set rows. truthy (fr_detail r)")
  case True
  then show ?thesis by (intro disjI2 finding_sections_complete)
qed (simp add: list_ex_iff)

section \<open>Properties\<close>

text \<open>Grouping loses and invents nothing: the groups are distinct, each row of a finding is in
  the group of its severity, source, code and title exactly once, and, where every row has a
  detail, the sections of a group show exactly its pairs of place and detail.\<close>

theorem grouping_lossless:
  assumes "group_detection_findings findings = Some shown"
  shows "distinct (map (\<lambda>(g, _). group_key_of g) shown) \<and>
    list_all (\<lambda>(g, _). distinct (map row_key (fg_rows g))) shown \<and>
    grouped_rows (map fst shown) = finding_rows findings \<and>
    list_all (\<lambda>(g, secs, _). list_ex (\<lambda>r. \<not> truthy (fr_detail r)) (fg_rows g) \<or>
        (\<Union>s \<in> set secs. section_pairs (fg_source g) s) =
          (\<lambda>r. (place (fg_source g) (key_of (fr_location r)), key_of (fr_detail r))) ` set (fg_rows g)) shown"
proof -
  obtain gs where gs: "group_rows findings [] = Some gs"
    and shown: "shown = map (\<lambda>g. (g, finding_sections (fg_rows g) (fg_source g))) gs"
    using assms by (auto simp: group_detection_findings_def)
  have ok: "groups_ok gs" "grouped_rows gs = finding_rows findings"
    using group_rows_correct [OF gs] by (simp_all add: groups_ok_def grouped_rows_def)
  have fst: "map fst shown = gs" by (simp add: shown comp_def)
  have a: "distinct (map (\<lambda>(g, _). group_key_of g) shown)"
    using ok(1) by (simp add: shown groups_ok_def comp_def)
  have b: "list_all (\<lambda>(g, _). distinct (map row_key (fg_rows g))) shown"
    using ok(1) by (simp add: shown groups_ok_def list.pred_map comp_def list_all_iff)
  have "list_all (\<lambda>g. list_ex (\<lambda>r. \<not> truthy (fr_detail r)) (fg_rows g) \<or>
      (\<Union>s \<in> set (fst (finding_sections (fg_rows g) (fg_source g))). section_pairs (fg_source g) s) =
        (\<lambda>r. (place (fg_source g) (key_of (fr_location r)), key_of (fr_detail r))) ` set (fg_rows g)) gs"
    unfolding list_all_iff by (intro ballI finding_sections_blank)
  then have c: "list_all (\<lambda>(g, secs, _). list_ex (\<lambda>r. \<not> truthy (fr_detail r)) (fg_rows g) \<or>
        (\<Union>s \<in> set secs. section_pairs (fg_source g) s) =
          (\<lambda>r. (place (fg_source g) (key_of (fr_location r)), key_of (fr_detail r))) ` set (fg_rows g)) shown"
    unfolding shown list.pred_map comp_def case_prod_beta fst_conv snd_conv .
  show ?thesis by (intro conjI a b c) (simp only: fst ok(2))
qed

definition sample_findings :: "json list" where
  "sample_findings =
     [JObj [(''code'', JStr ''eval''), (''severity'', JStr ''high''), (''detail'', JStr ''a''), (''file'', JStr ''x.js'')],
      JObj [(''code'', JStr ''eval''), (''severity'', JStr ''high''), (''detail'', JStr ''b''), (''file'', JStr ''y.js'')],
      JStr ''junk'']"

theorem grouping_lossless_witness:
  "grouped_rows (map fst (the (group_detection_findings sample_findings))) = finding_rows sample_findings"
proof -
  have "group_detection_findings sample_findings \<noteq> None" by code_simp
  then show ?thesis using grouping_lossless [of sample_findings] by auto
qed

text \<open>Two places without a detail are shown by no section, and a severity that is a list stops
  the page.\<close>

lemma blank_details_hide_places:
  "map_option (map (\<lambda>(g, secs, _). (length (fg_rows g), secs)))
     (group_detection_findings
       [JObj [(''code'', JStr ''c''), (''file'', JStr ''a.js'')],
        JObj [(''code'', JStr ''c''), (''file'', JStr ''b.js'')]]) = Some [(2, [])]"
  by code_simp

lemma unhashable_severity_fails:
  "group_detection_findings [JObj [(''severity'', JArr [])]] \<noteq> None \<and>
   group_detection_findings [JObj [(''severity'', JArr [JInt 1])]] = None"
  by code_simp

end
