(* ===== verification/Senders.thy ===== *)
theory Senders
  imports Webhooks Notifications Threat_Intel Extension_Ids "HOL-Library.Product_Lexorder"
begin

text \<open>
  \<open>app/senders\<close>: the delivery adapters of the six destination kinds, with the message facts of
  \<open>content.py\<close>, the HTTP core of \<open>http.py\<close> and the registry of \<open>base.py\<close>.

  The adapter classes are one datatype; a hook a subclass overrides is a case of the function
  of that name. Arguments: the process environment, the SMTP settings, name resolution, the
  standard library's \<open>parseaddr\<close>, and the network (\<open>sv_post\<close> answers a request with a
  transport error or a status, \<open>sv_smtp\<close> delivers a message or fails).
\<close>

section \<open>Contract\<close>

datatype sender = WebhookSender | SlackSender | TeamsSender | EmailSender | JiraSender | ServiceNowSender

record config_field =
  cf_name :: string
  cf_label :: string
  cf_required :: bool
  cf_placeholder :: string
  cf_help :: string

datatype send_exn =
    SenderError string
  | PinnedError webhook_exn
  | TransportFailure string
  | HttpStatusError int
  | HeaderValueError
  | SmtpFailure string

record email_message =
  em_from :: string
  em_to :: string
  em_subject :: string
  em_content :: string

record sender_env =
  sv_environ :: "string \<Rightarrow> string option"
  sv_app_base_url :: string
  sv_smtp_host :: string
  sv_smtp_from :: string
  sv_smtp_username :: string
  sv_parseaddr :: "string \<Rightarrow> string \<times> string"
  sv_resolver :: resolver
  sv_post :: "pinned_request \<Rightarrow> string + int"
  sv_smtp :: "email_message \<Rightarrow> string option"

fun kind_of :: "sender \<Rightarrow> string" where
  "kind_of WebhookSender = ''webhook''"
| "kind_of SlackSender = ''slack''"
| "kind_of TeamsSender = ''teams''"
| "kind_of EmailSender = ''email''"
| "kind_of JiraSender = ''jira''"
| "kind_of ServiceNowSender = ''servicenow''"

text \<open>The registry after the imports of \<open>__init__.py\<close>, in the order they register.\<close>

definition REGISTRY :: "(string \<times> sender) list" where
  "REGISTRY = map (\<lambda>s. (kind_of s, s))
     [EmailSender, SlackSender, TeamsSender, JiraSender, ServiceNowSender, WebhookSender]"

definition sender_for :: "string \<Rightarrow> sender option" where
  "sender_for kind = map_of REGISTRY kind"

fun index_of :: "'a list \<Rightarrow> 'a \<Rightarrow> nat" where
  "index_of [] x = 0"
| "index_of (y # ys) x = (if x = y then 0 else Suc (index_of ys x))"

definition order_key :: "string \<Rightarrow> nat \<times> string" where
  "order_key kind = (index_of KIND_ORDER kind, kind)"

definition sender_kinds :: "string list" where
  "sender_kinds = sort_key order_key (map fst REGISTRY)"

section \<open>Message content\<close>

text \<open>The facts of \<open>content.py\<close>; the arrow is its UTF-8 bytes.\<close>

definition event_facts :: "alert_message \<Rightarrow> (string \<times> string) list" where
  "event_facts m =
     [(''Extension'', am_name m @ '' ('' @ am_store m @ '')''),
      (''Event'', map (\<lambda>c. if c = CHR ''_'' then CHR '' '' else c) (am_event m)),
      (''Change'', py_str (am_old m) @ '' '' @ utf8_arrow @ '' '' @ py_str (am_new m))]
     @ (case am_risk_score m of None \<Rightarrow> [] | Some r \<Rightarrow> [(''Risk score'', show_int r)])"

definition newline :: string where "newline = [CHR 0x0A]"

definition detail_text :: "alert_message \<Rightarrow> string" where
  "detail_text m =
     join newline
       (map (\<lambda>(label, v). label @ '': '' @ v) (event_facts m)
        @ (if am_store_url m \<noteq> [] then [''Store URL: '' @ am_store_url m] else [])
        @ (case am_app_url m of Some (c # s) \<Rightarrow> [''IcebergEBS: '' @ c # s] | _ \<Rightarrow> []))"

definition build_alert_payload :: "sender_env \<Rightarrow> alert_message \<Rightarrow> json" where
  "build_alert_payload env m =
     JObj [(''text'', JStr (am_text m)), (''event'', JStr (am_event m)),
           (''extension'', JObj ([(''id'', JInt (am_ext_id m)), (''name'', JStr (am_name m)),
               (''store'', JStr (am_store m)), (''store_url'', JStr (am_store_url m))]
              @ (case extension_deep_link (sv_app_base_url env) (am_ext_id m) of
                   None \<Rightarrow> [] | Some link \<Rightarrow> [(''iceberg_ebs_url'', JStr link)]))),
           (''change'', JObj [(''old'', am_old m), (''new'', am_new m)]),
           (''risk_score'', json_opt_int (am_risk_score m))]"

definition slack_payload :: "alert_message \<Rightarrow> json" where
  "slack_payload m =
     (let detail = join newline (map (\<lambda>(label, v). ''*'' @ label @ '':* '' @ v) (event_facts m));
          section_text = ''*'' @ am_text m @ ''*'' @ newline @ detail;
          blocks = [JObj [(''type'', JStr ''section''),
                          (''text'', JObj [(''type'', JStr ''mrkdwn''), (''text'', JStr section_text)])]]
            @ (case am_app_url m of
                 Some (c # s) \<Rightarrow>
                   [JObj [(''type'', JStr ''actions''),
                          (''elements'', JArr [JObj [(''type'', JStr ''button''),
                             (''text'', JObj [(''type'', JStr ''plain_text''),
                                              (''text'', JStr ''View in IcebergEBS'')]),
                             (''url'', JStr (c # s))]])]]
               | _ \<Rightarrow> [])
      in JObj [(''text'', JStr (am_text m)), (''blocks'', JArr blocks)])"

definition teams_payload :: "alert_message \<Rightarrow> json" where
  "teams_payload m =
     (let body = [JObj [(''type'', JStr ''TextBlock''), (''text'', JStr ''IcebergEBS alert''),
                        (''weight'', JStr ''Bolder''), (''size'', JStr ''Medium'')],
                  JObj [(''type'', JStr ''TextBlock''), (''text'', JStr (am_text m)), (''wrap'', JBool True)],
                  JObj [(''type'', JStr ''FactSet''),
                        (''facts'', JArr (map (\<lambda>(label, v). JObj [(''title'', JStr label), (''value'', JStr v)])
                                      (event_facts m)))]];
          card = [(CHR 0x24 # ''schema'', JStr ''http://adaptivecards.io/schemas/adaptive-card.json''),
                  (''type'', JStr ''AdaptiveCard''), (''version'', JStr ''1.4''), (''body'', JArr body)]
            @ (case am_app_url m of
                 Some (c # s) \<Rightarrow>
                   [(''actions'', JArr [JObj [(''type'', JStr ''Action.OpenUrl''),
                       (''title'', JStr ''View in IcebergEBS''), (''url'', JStr (c # s))]])]
               | _ \<Rightarrow> [])
      in JObj [(''type'', JStr ''message''),
               (''attachments'', JArr [JObj [
                  (''contentType'', JStr ''application/vnd.microsoft.card.adaptive''),
                  (''content'', JObj card)]])])"

section \<open>Tickets\<close>

type_synonym config = "(string \<times> string) list"

text \<open>\<open>(config.get(name) or "").strip()\<close>\<close>

definition config_get :: "config \<Rightarrow> string \<Rightarrow> string" where
  "config_get c name = strip (case map_of c name of Some v \<Rightarrow> v | None \<Rightarrow> [])"

definition SECRET_ENV_PREFIX :: string where "SECRET_ENV_PREFIX = ''ICEBERG_EBS_DEST_SECRET_''"

text \<open>\<open>^[A-Z][A-Z0-9_]*$\<close> and \<open>^[a-z0-9_]+$\<close>\<close>

definition SECRET_REF_RE :: "string \<Rightarrow> bool" where
  "SECRET_REF_RE s \<longleftrightarrow> s \<noteq> [] \<and> is_upper_ascii (hd s) \<and>
     list_all (\<lambda>c. is_upper_ascii c \<or> is_digit_ascii c \<or> c = CHR ''_'') s"

definition TABLE_RE :: "string \<Rightarrow> bool" where
  "TABLE_RE s \<longleftrightarrow> s \<noteq> [] \<and> list_all (\<lambda>c. is_lower_ascii c \<or> is_digit_ascii c \<or> c = CHR ''_'') s"

text \<open>The left side is the message of a \<open>DestinationConfigError\<close>.\<close>

definition validate_secret_ref :: "sender_env \<Rightarrow> config \<Rightarrow> string + string" where
  "validate_secret_ref env c =
     (let ref = config_get c ''secret_ref'' in
      if ref = [] then Inl ''A secret reference is required''
      else if \<not> match_to_end SECRET_REF_RE ref
      then Inl (''Secret reference must be an UPPER_SNAKE_CASE name (it points at an '' @
                SECRET_ENV_PREFIX @ ''<REF> environment variable, not the secret itself)'')
      else if sv_environ env (SECRET_ENV_PREFIX @ ref) = None
      then Inl (''No '' @ SECRET_ENV_PREFIX @ ref @ '' environment variable is set'')
      else Inr ref)"

definition resolve_secret :: "sender_env \<Rightarrow> string \<Rightarrow> send_exn + string" where
  "resolve_secret env ref =
     (case sv_environ env (SECRET_ENV_PREFIX @ ref) of
        None \<Rightarrow> Inl (SenderError (''Missing '' @ SECRET_ENV_PREFIX @ ref @ '' environment variable''))
      | Some v \<Rightarrow> Inr v)"

text \<open>\<open>base64.b64encode\<close>: the standard alphabet.\<close>

definition b64encode :: "string \<Rightarrow> string" where
  "b64encode s = map (\<lambda>c. if c = CHR ''-'' then CHR ''+'' else if c = CHR ''_'' then CHR ''/'' else c)
     (urlsafe_b64encode s)"

definition basic_auth :: "string \<Rightarrow> string \<Rightarrow> string" where
  "basic_auth username secret = ''Basic '' @ b64encode (username @ '':'' @ secret)"

definition adf_description :: "string \<Rightarrow> json" where
  "adf_description t =
     JObj [(''type'', JStr ''doc''), (''version'', JInt 1),
           (''content'', JArr (map (\<lambda>line. JObj [(''type'', JStr ''paragraph''),
              (''content'', JArr [JObj [(''type'', JStr ''text''), (''text'', JStr line)]])])
              (split_on (CHR 0x0A) t)))]"

definition or_default :: "string \<Rightarrow> string \<Rightarrow> string" where
  "or_default s dflt = (if s = [] then dflt else s)"

definition table_of :: "config \<Rightarrow> string" where
  "table_of c = or_default (config_get c ''table'') ''incident''"

section \<open>The hooks\<close>

fun sender_label :: "sender \<Rightarrow> string" where
  "sender_label WebhookSender = ''Webhook''"
| "sender_label SlackSender = ''Slack''"
| "sender_label TeamsSender = ''Microsoft Teams''"
| "sender_label EmailSender = ''Email (SMTP)''"
| "sender_label JiraSender = ''Jira''"
| "sender_label ServiceNowSender = ''ServiceNow''"

fun target_label :: "sender \<Rightarrow> string" where
  "target_label WebhookSender = ''Webhook URL''"
| "target_label SlackSender = ''Slack incoming webhook URL''"
| "target_label TeamsSender = ''Teams workflow webhook URL''"
| "target_label EmailSender = ''Recipient address(es), comma-separated''"
| "target_label JiraSender = ''Jira site base URL''"
| "target_label ServiceNowSender = ''ServiceNow instance base URL''"

fun require_https :: "sender \<Rightarrow> bool" where
  "require_https JiraSender = True"
| "require_https ServiceNowSender = True"
| "require_https _ = False"

definition rstrip_slashes :: "string \<Rightarrow> string" where
  "rstrip_slashes s = rstrip_by (\<lambda>c. c = CHR ''/'') s"

fun endpoint_url :: "sender \<Rightarrow> string \<Rightarrow> config \<Rightarrow> string" where
  "endpoint_url JiraSender target c = rstrip_slashes target @ ''/rest/api/3/issue''"
| "endpoint_url ServiceNowSender target c = rstrip_slashes target @ ''/api/now/table/'' @ table_of c"
| "endpoint_url _ target c = target"

fun validate_config :: "sender_env \<Rightarrow> sender \<Rightarrow> config \<Rightarrow> string + unit" where
  "validate_config env JiraSender c =
     (if config_get c ''project_key'' = [] then Inl ''A Jira project key is required''
      else if config_get c ''account_email'' = [] then Inl ''A Jira account email is required''
      else (case validate_secret_ref env c of Inl e \<Rightarrow> Inl e | Inr _ \<Rightarrow> Inr ()))"
| "validate_config env ServiceNowSender c =
     (if config_get c ''username'' = [] then Inl ''A ServiceNow username is required''
      else if \<not> match_to_end TABLE_RE (table_of c)
      then Inl ''ServiceNow table must be a lower_snake_case name''
      else (case validate_secret_ref env c of Inl e \<Rightarrow> Inl e | Inr _ \<Rightarrow> Inr ()))"
| "validate_config env _ c = Inr ()"

definition authorization_header :: "sender_env \<Rightarrow> string \<Rightarrow> config \<Rightarrow> send_exn + config" where
  "authorization_header env user_field c =
     (case resolve_secret env (config_get c ''secret_ref'') of
        Inl e \<Rightarrow> Inl e
      | Inr secret \<Rightarrow> Inr [(''Authorization'', basic_auth (config_get c user_field) secret)])"

fun request_headers :: "sender_env \<Rightarrow> sender \<Rightarrow> config \<Rightarrow> send_exn + config" where
  "request_headers env JiraSender c = authorization_header env ''account_email'' c"
| "request_headers env ServiceNowSender c = authorization_header env ''username'' c"
| "request_headers env _ c = Inr []"

fun render_payload :: "sender_env \<Rightarrow> sender \<Rightarrow> alert_message \<Rightarrow> config \<Rightarrow> json" where
  "render_payload env WebhookSender m c = build_alert_payload env m"
| "render_payload env SlackSender m c = slack_payload m"
| "render_payload env TeamsSender m c = teams_payload m"
| "render_payload env JiraSender m c =
     JObj [(''fields'', JObj [(''project'', JObj [(''key'', JStr (config_get c ''project_key''))]),
        (''issuetype'', JObj [(''name'', JStr (or_default (config_get c ''issue_type'') ''Task''))]),
        (''summary'', JStr (am_text m)), (''description'', adf_description (detail_text m))])]"
| "render_payload env ServiceNowSender m c =
     JObj [(''short_description'', JStr (am_text m)), (''description'', JStr (detail_text m))]"
| "render_payload env EmailSender m c = JNull"

fun config_fields :: "sender \<Rightarrow> config_field list" where
  "config_fields JiraSender =
     [\<lparr>cf_name = ''project_key'', cf_label = ''Project key'', cf_required = True,
       cf_placeholder = ''SEC'', cf_help = []\<rparr>,
      \<lparr>cf_name = ''issue_type'', cf_label = ''Issue type'', cf_required = False,
       cf_placeholder = ''Task'', cf_help = []\<rparr>,
      \<lparr>cf_name = ''account_email'', cf_label = ''Account email'', cf_required = True,
       cf_placeholder = ''bot@example.com'', cf_help = []\<rparr>,
      \<lparr>cf_name = ''secret_ref'', cf_label = ''API-token secret ref'', cf_required = True,
       cf_placeholder = ''JIRA_TOKEN'',
       cf_help = ''Name of the ICEBERG_EBS_DEST_SECRET_<REF> env var holding the Jira API token.''\<rparr>]"
| "config_fields ServiceNowSender =
     [\<lparr>cf_name = ''table'', cf_label = ''Table'', cf_required = False,
       cf_placeholder = ''incident'', cf_help = []\<rparr>,
      \<lparr>cf_name = ''username'', cf_label = ''Username'', cf_required = True,
       cf_placeholder = ''svc_iceberg'', cf_help = []\<rparr>,
      \<lparr>cf_name = ''secret_ref'', cf_label = ''Password secret ref'', cf_required = True,
       cf_placeholder = ''SERVICENOW_PW'',
       cf_help = ''Name of the ICEBERG_EBS_DEST_SECRET_<REF> env var holding the ServiceNow password.''\<rparr>]"
| "config_fields EmailSender =
     [\<lparr>cf_name = ''subject_prefix'', cf_label = ''Subject prefix'', cf_required = False,
       cf_placeholder = ''[IcebergEBS]'', cf_help = []\<rparr>]"
| "config_fields _ = []"

section \<open>Email\<close>

text \<open>\<open>[addr for addr in (part.strip() for part in target.split(",")) if addr]\<close>\<close>

definition recipients :: "string \<Rightarrow> string list" where
  "recipients target = filter (\<lambda>a. a \<noteq> []) (map strip (split_on (CHR '','') target))"

definition is_valid_address :: "sender_env \<Rightarrow> string \<Rightarrow> bool" where
  "is_valid_address env addr =
     (let email = snd (sv_parseaddr env addr);
          (local_part, at, domain) = rpartition_at (CHR ''@'') email
      in at \<and> local_part \<noteq> [] \<and> CHR ''.'' \<in> set domain)"

fun availability :: "sender_env \<Rightarrow> sender \<Rightarrow> string option" where
  "availability env EmailSender =
     (if sv_smtp_host env = []
      then Some (''Email delivery is unavailable '' @ utf8_dash @
                 '' SMTP is not configured (set ICEBERG_EBS_SMTP_HOST)'')
      else if sv_smtp_from env = [] \<and> sv_smtp_username env = []
      then Some (''Email delivery is unavailable '' @ utf8_dash @
                 '' no sender address (set ICEBERG_EBS_SMTP_FROM)'')
      else None)"
| "availability env _ = None"

definition validate_email :: "sender_env \<Rightarrow> string \<Rightarrow> string + unit" where
  "validate_email env target =
     (case availability env EmailSender of
        Some reason \<Rightarrow> Inl reason
      | None \<Rightarrow>
          if recipients target = [] then Inl ''At least one recipient email address is required''
          else (case find (\<lambda>a. \<not> is_valid_address env a) (recipients target) of
                  Some addr \<Rightarrow> Inl (''Invalid recipient email address: '' @ addr)
                | None \<Rightarrow> Inr ()))"

text \<open>A header of the default policy rejects a value of more than one line with \<open>ValueError\<close>.\<close>

definition header_ok :: "string \<Rightarrow> bool" where
  "header_ok v \<longleftrightarrow> length (splitlines v) \<le> 1"

definition email_subject :: "alert_message \<Rightarrow> config \<Rightarrow> string" where
  "email_subject m c =
     (let pre = config_get c ''subject_prefix'' in
      if pre \<noteq> [] then strip (pre @ '' '' @ am_text m) else am_text m)"

definition send_email :: "sender_env \<Rightarrow> string \<Rightarrow> config \<Rightarrow> alert_message \<Rightarrow> send_exn + email_message" where
  "send_email env target c m =
     (case availability env EmailSender of
        Some reason \<Rightarrow> Inl (SenderError reason)
      | None \<Rightarrow>
          let mail = \<lparr>em_from = or_default (sv_smtp_from env) (sv_smtp_username env),
                      em_to = join '', '' (recipients target), em_subject = email_subject m c,
                      em_content = detail_text m\<rparr>
          in if \<not> (header_ok (em_from mail) \<and> header_ok (em_to mail) \<and> header_ok (em_subject mail))
             then Inl HeaderValueError
             else (case sv_smtp env mail of Some e \<Rightarrow> Inl (SmtpFailure e) | None \<Rightarrow> Inr mail))"

section \<open>The HTTP core\<close>

definition needs_https :: "sender \<Rightarrow> string \<Rightarrow> bool" where
  "needs_https s url \<longleftrightarrow>
     require_https s \<and> (case urlparse url of None \<Rightarrow> False | Some p \<Rightarrow> ur_scheme p \<noteq> ''https'')"

datatype validate_exn = ConfigError string | Uncaught string

definition validate_http :: "sender_env \<Rightarrow> sender \<Rightarrow> string \<Rightarrow> config \<Rightarrow> validate_exn + unit" where
  "validate_http env s target c =
     (let url = endpoint_url s target c in
      if needs_https s url
      then Inl (ConfigError (sender_label s @ '' destinations must use an https:// URL '' @ utf8_dash @
                '' the API credential would otherwise be sent in plaintext''))
      else (case validate_webhook_url (sv_resolver env) url of
              Inl (WebhookValidationError e) \<Rightarrow> Inl (ConfigError e)
            | Inl (UncaughtError e) \<Rightarrow> Inl (Uncaught e)
            | Inr _ \<Rightarrow> map_sum ConfigError id (validate_config env s c)))"

definition sender_validate :: "sender_env \<Rightarrow> sender \<Rightarrow> string \<Rightarrow> config \<Rightarrow> validate_exn + unit" where
  "sender_validate env s target c =
     (if s = EmailSender then map_sum ConfigError id (validate_email env target)
      else validate_http env s target c)"

text \<open>The request that goes out; its evaluation order is the payload, the headers, the pinning.\<close>

definition http_request :: "sender_env \<Rightarrow> sender \<Rightarrow> string \<Rightarrow> config \<Rightarrow> alert_message \<Rightarrow> send_exn + pinned_request" where
  "http_request env s target c m =
     (let url = endpoint_url s target c in
      if needs_https s url
      then Inl (SenderError (sender_label s @
                '' delivery requires https:// (credentials must not be sent in plaintext)''))
      else (case request_headers env s c of
              Inl e \<Rightarrow> Inl e
            | Inr headers \<Rightarrow>
                (case send_pinned_request (sv_resolver env) url (render_payload env s m c) headers of
                   Inl e \<Rightarrow> Inl (PinnedError e)
                 | Inr r \<Rightarrow> Inr r)))"

definition send_http :: "sender_env \<Rightarrow> sender \<Rightarrow> string \<Rightarrow> config \<Rightarrow> alert_message \<Rightarrow> send_exn + unit" where
  "send_http env s target c m =
     (case http_request env s target c m of
        Inl e \<Rightarrow> Inl e
      | Inr r \<Rightarrow>
          (case sv_post env r of
             Inl e \<Rightarrow> Inl (TransportFailure e)
           | Inr status \<Rightarrow> if 200 \<le> status \<and> status \<le> 299 then Inr () else Inl (HttpStatusError status)))"

definition sender_send :: "sender_env \<Rightarrow> sender \<Rightarrow> string \<Rightarrow> config \<Rightarrow> alert_message \<Rightarrow> send_exn + unit" where
  "sender_send env s target c m =
     (if s = EmailSender then map_sum id (\<lambda>_. ()) (send_email env target c m)
      else send_http env s target c m)"

definition kind_descriptor :: "sender_env \<Rightarrow> sender \<Rightarrow> json" where
  "kind_descriptor env s =
     JObj [(''kind'', JStr (kind_of s)), (''label'', JStr (sender_label s)),
           (''target_label'', JStr (target_label s)),
           (''config_fields'', JArr (map (\<lambda>f. JObj [(''name'', JStr (cf_name f)),
              (''label'', JStr (cf_label f)), (''required'', JBool (cf_required f)),
              (''placeholder'', JStr (cf_placeholder f)), (''help'', JStr (cf_help f))]) (config_fields s))),
           (''available'', JBool (availability env s = None)),
           (''unavailable_reason'', json_opt_str (availability env s))]"

definition kind_descriptors :: "sender_env \<Rightarrow> json list" where
  "kind_descriptors env = map (\<lambda>k. kind_descriptor env (the (sender_for k))) sender_kinds"

section \<open>Laws\<close>

lemma registry_complete: "sender_for (kind_of s) = Some s"
  by (cases s) (simp_all add: sender_for_def REGISTRY_def)

lemma sender_for_kind: "sender_for k = Some s \<Longrightarrow> kind_of s = k"
  by (auto simp: sender_for_def REGISTRY_def split: if_splits)

lemma sender_kinds_order: "sender_kinds = KIND_ORDER"
  by (simp add: sender_kinds_def REGISTRY_def KIND_ORDER_def order_key_def sort_key_def insort_key_def)

lemma merge_headers_absent:
  "k \<noteq> ''Host'' \<Longrightarrow> k \<notin> fst ` set headers \<Longrightarrow> map_of (merge_headers host headers) k = None"
proof -
  assume k: "k \<noteq> ''Host''" "k \<notin> fst ` set headers"
  have "map_of h k = None \<Longrightarrow> k \<notin> fst ` set headers \<Longrightarrow>
     map_of (foldl (\<lambda>h (key, v). if lower key = ''host'' then h else str_dict_set h key v) h headers) k = None" for h
    by (induction headers arbitrary: h) auto
  with k show ?thesis by (simp add: merge_headers_def)
qed

text \<open>A pinned request keeps the scheme of the URL it was made for.\<close>

lemma send_pinned_scheme:
  assumes "send_pinned_request g url body headers = Inr rq"
  shows "\<exists>p host rest. urlparse url = Some p \<and> url_hostname p = Some host \<and>
     pr_url rq = ur_scheme p @ ''://'' @ rest \<and>
     pr_sni_hostname rq = (if ur_scheme p = ''https'' then Some host else None) \<and>
     pr_headers rq = merge_headers (authority host (the (url_port p))) headers \<and> \<not> pr_follow_redirects rq"
proof -
  obtain ips where v: "validate_webhook_url g url = Inr ips"
    using assms by (auto simp: send_pinned_request_def split: sum.splits)
  obtain p port host where p: "urlparse url = Some p" "ur_scheme p = ''http'' \<or> ur_scheme p = ''https''"
    "url_hostname p = Some host" "url_port p = Some port" "ips \<noteq> []"
    "\<forall>ip \<in> set ips. \<exists>a. ip_address ip = Some a \<and> public_ip a"
    using validate_webhook_url_cases [OF v] by metis
  then have "ip_address (hd ips) \<noteq> None" by (metis list.set_sel(1) option.distinct(1))
  then have "hd ips \<noteq> []" by (auto simp: ip_address_def ipv4_of_string_def split_scope_id_def
      ipv6_of_string_def parse_octet_def is_digits_def)
  then have "authority (hd ips) port \<noteq> []" by (rule authority_not_Nil)
  then obtain rest where "urlunparse (p\<lparr>ur_netloc := authority (hd ips) port\<rparr>) = ur_scheme p @ '':'' @ ''//'' @ rest"
    using urlunparse_authority [of "p\<lparr>ur_netloc := authority (hd ips) port\<rparr>"] p(2) by auto
  then show ?thesis using assms v p by (auto simp: send_pinned_request_def pin_url_def)
qed

lemma sends_credentials_iff: "request_headers env s c = Inr h \<Longrightarrow> ''Authorization'' \<in> fst ` set h \<Longrightarrow> require_https s"
  by (cases s) (auto split: sum.splits)

lemma send_pinned_total:
  assumes "validate_webhook_url g url = Inr ips"
  shows "\<exists>rq. send_pinned_request g url body headers = Inr rq"
proof -
  obtain p port host where "urlparse url = Some p" "url_hostname p = Some host" "url_port p = Some port"
    using validate_webhook_url_cases [OF assms] by metis
  then show ?thesis using assms by (simp add: send_pinned_request_def)
qed

lemma validated_secret_resolves:
  "validate_secret_ref env c = Inr r \<Longrightarrow> \<exists>v. resolve_secret env (config_get c ''secret_ref'') = Inr v"
  by (auto simp: validate_secret_ref_def resolve_secret_def Let_def split: if_splits option.splits)

lemma validated_headers:
  "validate_config env s c = Inr () \<Longrightarrow> \<exists>h. request_headers env s c = Inr h"
  using validated_secret_resolves [of env c]
  by (cases s) (auto simp: authorization_header_def split: if_splits sum.splits)

section \<open>Properties\<close>

text \<open>C26: a credential never leaves in plain text. A request that carries an \<open>Authorization\<close> header
  comes from a ticketing kind, goes to an https URL with the certificate checked against the
  URL's own host, follows no redirect, and is the basic token of the configured account.\<close>

theorem credentials_only_https:
  assumes "http_request env s target c m = Inr rq"
    and "map_of (pr_headers rq) ''Authorization'' \<noteq> None"
  shows "(s = JiraSender \<or> s = ServiceNowSender) \<and> starts_with (pr_url rq) ''https://'' \<and>
     (\<exists>p host. urlparse (endpoint_url s target c) = Some p \<and> url_hostname p = Some host \<and>
        pr_sni_hostname rq = Some host) \<and>
     \<not> pr_follow_redirects rq"
proof -
  let ?url = "endpoint_url s target c"
  obtain h where nh: "\<not> needs_https s ?url" and h: "request_headers env s c = Inr h"
    and r: "send_pinned_request (sv_resolver env) ?url (render_payload env s m c) h = Inr rq"
    using assms(1) by (auto simp: http_request_def Let_def split: if_splits sum.splits)
  obtain p host rest where p: "urlparse ?url = Some p" "url_hostname p = Some host"
    "pr_url rq = ur_scheme p @ ''://'' @ rest"
    "pr_sni_hostname rq = (if ur_scheme p = ''https'' then Some host else None)"
    "pr_headers rq = merge_headers (authority host (the (url_port p))) h" "\<not> pr_follow_redirects rq"
    using send_pinned_scheme [OF r] by blast
  have "''Authorization'' \<in> fst ` set h"
    using assms(2) p(5) merge_headers_absent [of "''Authorization''" h "authority host (the (url_port p))"]
    by (cases "''Authorization'' \<in> fst ` set h") simp_all
  then have s: "require_https s" using sends_credentials_iff [OF h] by simp
  then have "ur_scheme p = ''https''" using nh p(1) by (auto simp: needs_https_def)
  moreover have "s = JiraSender \<or> s = ServiceNowSender" using s by (cases s) simp_all
  ultimately show ?thesis using p by (auto simp: starts_with_def)
qed

definition sample_sender_env :: sender_env where
  "sample_sender_env =
     \<lparr>sv_environ = (\<lambda>n. if n = SECRET_ENV_PREFIX @ ''JT'' then Some ''pw'' else None), sv_app_base_url = [],
      sv_smtp_host = ''smtp'', sv_smtp_from = ''a@b.c'', sv_smtp_username = [],
      sv_parseaddr = (\<lambda>a. ([], a)), sv_resolver = (\<lambda>_ _. GaiError),
      sv_post = (\<lambda>_. Inr 200), sv_smtp = (\<lambda>_. None)\<rparr>"

definition sample_message :: alert_message where
  "sample_message =
     \<lparr>am_text = ''hello'', am_event = ''new_version'', am_ext_id = 7, am_name = ''Tabs'',
      am_store = ''chrome'', am_store_url = [], am_old = JStr ''1'', am_new = JStr ''2'',
      am_risk_score = None, am_app_url = None\<rparr>"

definition sample_ticket_config :: config where
  "sample_ticket_config = [(''secret_ref'', ''JT''), (''username'', ''u'')]"

theorem credentials_only_https_witness:
  "starts_with (pr_url (projr (http_request sample_sender_env ServiceNowSender ''https://8.8.8.8'' sample_ticket_config
     sample_message))) ''https://''"
proof -
  let ?r = "http_request sample_sender_env ServiceNowSender ''https://8.8.8.8'' sample_ticket_config sample_message"
  have "\<not> isl ?r" by code_simp
  then have r: "?r = Inr (projr ?r)" by (simp add: sum.exhaust_sel)
  have "map_of (pr_headers (projr ?r)) ''Authorization'' \<noteq> None" by code_simp
  from credentials_only_https [OF r this] show ?thesis by simp
qed

text \<open>A destination that passes validation produces a request: with the same configuration,
  environment and name resolution, sending fails only on the wire.\<close>

theorem validated_destination_sends:
  assumes "validate_http env s target c = Inr ()"
  shows "\<exists>rq. http_request env s target c m = Inr rq \<and>
     (send_http env s target c m = Inr () \<longleftrightarrow> (\<exists>status. sv_post env rq = Inr status \<and> 200 \<le> status \<and> status \<le> 299))"
proof -
  let ?url = "endpoint_url s target c"
  have nh: "\<not> needs_https s ?url" and v: "\<exists>ips. validate_webhook_url (sv_resolver env) ?url = Inr ips"
    and vc: "validate_config env s c = Inr ()"
    using assms by (auto simp: validate_http_def Let_def map_sum_def split: if_splits sum.splits webhook_exn.splits)
  obtain h where h: "request_headers env s c = Inr h" using validated_headers [OF vc] by blast
  obtain rq where "send_pinned_request (sv_resolver env) ?url (render_payload env s m c) h = Inr rq"
    using send_pinned_total v by blast
  with nh h have "http_request env s target c m = Inr rq" by (simp add: http_request_def)
  then show ?thesis by (auto simp: send_http_def split: sum.splits if_splits)
qed

text \<open>An event text of more than one line, as an extension name with a newline gives, is never
  delivered by email.\<close>

lemma email_newline_fails:
  assumes "availability env EmailSender = None" "config_get c ''subject_prefix'' = []"
    and "length (splitlines (am_text m)) > 1"
  shows "send_email env target c m = Inl HeaderValueError"
  using assms by (simp add: send_email_def email_subject_def header_ok_def Let_def)

end
