(* ===== verification/Alert_Routes.thy ===== *)
theory Alert_Routes
  imports Senders Accounts
begin

text \<open>
  \<open>app/routes/alerts.py\<close> and the alert log of \<open>app/alert_queries.py\<close>: destinations, rules, the
  log and the test delivery. A handler returns its response with the committed database; an
  error keeps the database of its dependency. Request bodies are typed values; a field that is
  \<open>None\<close> in a patch leaves the column alone, and the set of fields sent is a list beside it.
\<close>

section \<open>Destinations\<close>

definition VALID_EVENT_TYPES :: "string list" where
  "VALID_EVENT_TYPES = [''risk_level_change'', ''publisher_change'', ''permission_change'',
     ''new_version'', ''capability_change'', ''threat_match'']"

text \<open>The target the trail shows; \<open>None\<close> is the \<open>ValueError\<close> of \<open>urlsplit\<close>.\<close>

definition audit_target :: "string \<Rightarrow> string option" where
  "audit_target target =
     (case urlsplit (strip target) of
        None \<Rightarrow> None
      | Some parts \<Rightarrow>
          (case url_hostname parts of
             Some (c # h) \<Rightarrow>
               if ur_scheme parts \<notin> {''http'', ''https''} then Some target
               else
                 let hostname = c # h;
                     host = (if CHR '':'' \<in> set hostname then ''['' @ hostname @ '']'' else hostname);
                     port = (case url_port parts of None \<Rightarrow> None | Some p \<Rightarrow> p)
                 in Some (ur_scheme parts @ ''://'' @ host @
                          (case port of None \<Rightarrow> [] | Some p \<Rightarrow> '':'' @ show_nat p))
           | _ \<Rightarrow> Some target))"

definition py_str_list :: "string list \<Rightarrow> string" where
  "py_str_list ss = py_str (json_strs ss)"

definition validate_destination :: "sender_env \<Rightarrow> string \<Rightarrow> string \<Rightarrow> config \<Rightarrow> http_error + unit" where
  "validate_destination senv kind target c =
     (case sender_for kind of
        None \<Rightarrow> Inl (HttpError 422 (''kind must be one of: '' @ py_str_list (sort sender_kinds)))
      | Some s \<Rightarrow>
          (case availability senv s of
             Some reason \<Rightarrow> Inl (HttpError 422 reason)
           | None \<Rightarrow>
               (case sender_validate senv s target c of
                  Inl (ConfigError e) \<Rightarrow> Inl (HttpError 422 e)
                | Inl (Uncaught e) \<Rightarrow> Inl (ServerError e)
                | Inr _ \<Rightarrow> Inr ())))"

record destination_out =
  dto_id :: int
  dto_label :: string
  dto_kind :: string
  dto_target :: string
  dto_config :: config
  dto_enabled :: bool
  dto_created_at :: instant

definition destination_out_of :: "alert_destination \<Rightarrow> destination_out" where
  "destination_out_of a =
     \<lparr>dto_id = ad_id a, dto_label = ad_label a, dto_kind = ad_kind a, dto_target = ad_target a,
      dto_config = config_dict a, dto_enabled = ad_enabled a, dto_created_at = ad_created_at a\<rparr>"

record destination_in =
  dti_label :: string
  dti_kind :: string
  dti_target :: string
  dti_config :: config
  dti_enabled :: bool

record destination_patch =
  dtp_label :: "string option"
  dtp_kind :: "string option"
  dtp_target :: "string option"
  dtp_config :: "config option"
  dtp_enabled :: "bool option"
  dtp_fields_set :: "string list"

definition json_config :: "config \<Rightarrow> jtext" where
  "json_config c = json_dumps (JObj (map (\<lambda>(k, v). (k, JStr v)) c))"

definition destination_kinds ::
    "auth_env \<Rightarrow> sender_env \<Rightarrow> instant \<Rightarrow> request \<Rightarrow> db \<Rightarrow> (http_error + json list) \<times> db" where
  "destination_kinds env senv now req d =
     (case require_api_auth env now req d of
        (Inl e, d') \<Rightarrow> (Inl e, d')
      | (Inr _, d') \<Rightarrow> (Inr (kind_descriptors senv), d'))"

definition list_destinations ::
    "auth_env \<Rightarrow> instant \<Rightarrow> request \<Rightarrow> db \<Rightarrow> (http_error + destination_out list) \<times> db" where
  "list_destinations env now req d =
     (case require_api_auth env now req d of
        (Inl e, d') \<Rightarrow> (Inl e, d')
      | (Inr u, d') \<Rightarrow>
          (Inr (map destination_out_of (sort_key ad_created_at
                 (filter (\<lambda>a. ad_user_id a = u_id u) (db_destinations d')))), d'))"

definition put_destination :: "alert_destination \<Rightarrow> db \<Rightarrow> db" where
  "put_destination a d =
     d\<lparr>db_destinations := map (\<lambda>b. if ad_id b = ad_id a then a else b) (db_destinations d)\<rparr>"

definition audit_here ::
    "instant \<Rightarrow> user \<Rightarrow> request \<Rightarrow> string \<Rightarrow> string \<Rightarrow> int \<Rightarrow> jobject \<Rightarrow> db \<Rightarrow> db" where
  "audit_here now u req action target_type target_id detail d =
     audit_record now (actor_from_request u (Some (rq_client req))) action target_type
       (Some (show_int target_id)) detail d"

definition create_destination ::
    "auth_env \<Rightarrow> sender_env \<Rightarrow> instant \<Rightarrow> request \<Rightarrow> destination_in \<Rightarrow> db \<Rightarrow> (http_error + destination_out) \<times> db" where
  "create_destination env senv now req body d =
     (case require_role [ADMIN] env now req d of
        (Inl e, d') \<Rightarrow> (Inl e, d')
      | (Inr u, d') \<Rightarrow>
          (case validate_destination senv (dti_kind body) (dti_target body) (dti_config body) of
             Inl e \<Rightarrow> (Inl e, d')
           | Inr _ \<Rightarrow>
               let a = \<lparr>ad_id = db_next_id d', ad_user_id = u_id u, ad_label = dti_label body,
                        ad_kind = dti_kind body, ad_target = dti_target body,
                        ad_config = json_config (dti_config body), ad_enabled = dti_enabled body,
                        ad_created_at = now\<rparr>;
                   d1 = d'\<lparr>db_destinations := db_destinations d' @ [a], db_next_id := db_next_id d' + 1\<rparr>
               in (case audit_target (dti_target body) of
                     None \<Rightarrow> (Inl (ServerError ''ValueError''), d')
                   | Some shown \<Rightarrow>
                       (Inr (destination_out_of a),
                        audit_here now u req ''destination.create'' ''destination'' (ad_id a)
                          [(''label'', JStr (dti_label body)), (''kind'', JStr (dti_kind body)),
                           (''target'', JStr shown),
                           (''config_fields'', json_strs (sort (map fst (dti_config body))))] d1))))"

text \<open>The state a patch asks for is validated as a whole when any part of it is sent.\<close>

definition patched_destination ::
    "sender_env \<Rightarrow> destination_patch \<Rightarrow> alert_destination \<Rightarrow> http_error + alert_destination" where
  "patched_destination senv body a =
     (let result_kind = (case dtp_kind body of Some k \<Rightarrow> k | None \<Rightarrow> ad_kind a);
          result_target = (case dtp_target body of Some t \<Rightarrow> t | None \<Rightarrow> ad_target a);
          result_config = (case dtp_config body of Some c \<Rightarrow> c | None \<Rightarrow> config_dict a);
          labelled = (case dtp_label body of Some l \<Rightarrow> a\<lparr>ad_label := l\<rparr> | None \<Rightarrow> a);
          enabled = (case dtp_enabled body of Some b \<Rightarrow> (\<lambda>x. x\<lparr>ad_enabled := b\<rparr>) | None \<Rightarrow> id)
      in if dtp_kind body \<noteq> None \<or> dtp_target body \<noteq> None \<or> dtp_config body \<noteq> None
         then (case validate_destination senv result_kind result_target result_config of
                 Inl e \<Rightarrow> Inl e
               | Inr _ \<Rightarrow> Inr (enabled (labelled\<lparr>ad_kind := result_kind, ad_target := result_target,
                                                  ad_config := json_config result_config\<rparr>)))
         else Inr (enabled labelled))"

definition owned_destination :: "db \<Rightarrow> int \<Rightarrow> user \<Rightarrow> string \<Rightarrow> http_error + alert_destination" where
  "owned_destination d dest_id u detail =
     get_owned_or_404 ad_id (\<lambda>a. Some (ad_user_id a)) (db_destinations d) dest_id (u_id u) detail"

definition update_destination ::
    "auth_env \<Rightarrow> sender_env \<Rightarrow> instant \<Rightarrow> request \<Rightarrow> int \<Rightarrow> destination_patch \<Rightarrow> db \<Rightarrow>
       (http_error + destination_out) \<times> db" where
  "update_destination env senv now req dest_id body d =
     (case require_role [ADMIN] env now req d of
        (Inl e, d') \<Rightarrow> (Inl e, d')
      | (Inr u, d') \<Rightarrow>
          (case owned_destination d' dest_id u ''Not found'' of
             Inl e \<Rightarrow> (Inl e, d')
           | Inr a \<Rightarrow>
               (case patched_destination senv body a of
                  Inl e \<Rightarrow> (Inl e, d')
                | Inr b \<Rightarrow>
                    (case audit_target (ad_target b) of
                       None \<Rightarrow> (Inl (ServerError ''ValueError''), d')
                     | Some shown \<Rightarrow>
                         (Inr (destination_out_of b),
                          audit_here now u req ''destination.update'' ''destination'' dest_id
                            [(''fields'', json_strs (sort (dtp_fields_set body))),
                             (''label'', JStr (ad_label b)), (''kind'', JStr (ad_kind b)),
                             (''target'', JStr shown), (''enabled'', JBool (ad_enabled b))]
                            (put_destination b d'))))))"

text \<open>The foreign keys that point at a destination: \<open>CASCADE\<close> for its rules, \<open>SET NULL\<close> for the
  log rows of the destination and of those rules.\<close>

definition null_if :: "int list \<Rightarrow> int option \<Rightarrow> int option" where
  "null_if ids v = (case v of Some k \<Rightarrow> if k \<in> set ids then None else Some k | None \<Rightarrow> None)"

definition delete_destination_row :: "int \<Rightarrow> db \<Rightarrow> db" where
  "delete_destination_row i d =
     (let rules = map ar_id (filter (\<lambda>r. ar_destination_id r = i) (db_rules d))
      in d\<lparr>db_destinations := filter (\<lambda>a. ad_id a \<noteq> i) (db_destinations d),
           db_rules := filter (\<lambda>r. ar_destination_id r \<noteq> i) (db_rules d),
           db_alert_logs := map (\<lambda>l. l\<lparr>al_rule_id := null_if rules (al_rule_id l),
                                       al_destination_id := null_if [i] (al_destination_id l)\<rparr>)
                              (db_alert_logs d)\<rparr>)"

definition delete_destination ::
    "auth_env \<Rightarrow> instant \<Rightarrow> request \<Rightarrow> int \<Rightarrow> db \<Rightarrow> (http_error + unit) \<times> db" where
  "delete_destination env now req dest_id d =
     (case require_role [ADMIN] env now req d of
        (Inl e, d') \<Rightarrow> (Inl e, d')
      | (Inr u, d') \<Rightarrow>
          (case owned_destination d' dest_id u ''Not found'' of
             Inl e \<Rightarrow> (Inl e, d')
           | Inr a \<Rightarrow>
               (case audit_target (ad_target a) of
                  None \<Rightarrow> (Inl (ServerError ''ValueError''), d')
                | Some shown \<Rightarrow>
                    (Inr (), delete_destination_row dest_id
                       (audit_here now u req ''destination.delete'' ''destination'' dest_id
                          [(''label'', JStr (ad_label a)), (''kind'', JStr (ad_kind a)),
                           (''target'', JStr shown)] d')))))"

section \<open>Rules\<close>

record rule_in =
  ri_destination_id :: int
  ri_event_type :: string
  ri_extension_id :: "int option"
  ri_enabled :: bool

record rule_patch =
  rp_destination_id :: "int option"
  rp_enabled :: "bool option"
  rp_fields_set :: "string list"

definition list_rules :: "auth_env \<Rightarrow> instant \<Rightarrow> request \<Rightarrow> db \<Rightarrow> (http_error + alert_rule list) \<times> db" where
  "list_rules env now req d =
     (case require_api_auth env now req d of
        (Inl e, d') \<Rightarrow> (Inl e, d')
      | (Inr u, d') \<Rightarrow>
          (Inr (sort_key ar_created_at (filter (\<lambda>r. ar_user_id r = u_id u) (db_rules d'))), d'))"

definition owned_extension :: "db \<Rightarrow> int \<Rightarrow> user \<Rightarrow> string \<Rightarrow> http_error + extension" where
  "owned_extension d ext_id u detail =
     get_owned_or_404 x_id x_user_id (db_extensions d) ext_id (u_id u) detail"

definition check_extension :: "db \<Rightarrow> user \<Rightarrow> int option \<Rightarrow> http_error + unit" where
  "check_extension d u ext_id =
     (case ext_id of
        None \<Rightarrow> Inr ()
      | Some i \<Rightarrow>
          (case owned_extension d i u ''Extension not found'' of Inl e \<Rightarrow> Inl e | Inr _ \<Rightarrow> Inr ()))"

definition create_rule ::
    "auth_env \<Rightarrow> instant \<Rightarrow> request \<Rightarrow> rule_in \<Rightarrow> db \<Rightarrow> (http_error + alert_rule) \<times> db" where
  "create_rule env now req body d =
     (case require_role [ADMIN] env now req d of
        (Inl e, d') \<Rightarrow> (Inl e, d')
      | (Inr u, d') \<Rightarrow>
          if ri_event_type body \<notin> set VALID_EVENT_TYPES
          then (Inl (HttpError 422 (''event_type must be one of: '' @ py_str_list (sort VALID_EVENT_TYPES))), d')
          else (case owned_destination d' (ri_destination_id body) u ''Destination not found'' of
             Inl e \<Rightarrow> (Inl e, d')
           | Inr _ \<Rightarrow>
               (case check_extension d' u (ri_extension_id body) of
                  Inl e \<Rightarrow> (Inl e, d')
                | Inr _ \<Rightarrow>
                    let r = \<lparr>ar_id = db_next_id d', ar_user_id = u_id u,
                             ar_destination_id = ri_destination_id body,
                             ar_extension_id = ri_extension_id body,
                             ar_event_type = ri_event_type body, ar_enabled = ri_enabled body,
                             ar_created_at = now\<rparr>;
                        d1 = d'\<lparr>db_rules := db_rules d' @ [r], db_next_id := db_next_id d' + 1\<rparr>
                    in (Inr r,
                        audit_here now u req ''rule.create'' ''rule'' (ar_id r)
                          [(''destination_id'', JInt (ri_destination_id body)),
                           (''extension_id'', json_opt_int (ri_extension_id body)),
                           (''event_type'', JStr (ri_event_type body)),
                           (''enabled'', JBool (ri_enabled body))] d1))))"

definition put_rule :: "alert_rule \<Rightarrow> db \<Rightarrow> db" where
  "put_rule r d = d\<lparr>db_rules := map (\<lambda>q. if ar_id q = ar_id r then r else q) (db_rules d)\<rparr>"

definition owned_rule :: "db \<Rightarrow> int \<Rightarrow> user \<Rightarrow> http_error + alert_rule" where
  "owned_rule d rule_id u =
     get_owned_or_404 ar_id (\<lambda>r. Some (ar_user_id r)) (db_rules d) rule_id (u_id u) ''Not found''"

definition patched_rule :: "db \<Rightarrow> user \<Rightarrow> rule_patch \<Rightarrow> alert_rule \<Rightarrow> http_error + alert_rule" where
  "patched_rule d u body r =
     (let enabled = (case rp_enabled body of Some b \<Rightarrow> (\<lambda>x. x\<lparr>ar_enabled := b\<rparr>) | None \<Rightarrow> id) in
      case rp_destination_id body of
        None \<Rightarrow> Inr (enabled r)
      | Some i \<Rightarrow>
          (case owned_destination d i u ''Destination not found'' of
             Inl e \<Rightarrow> Inl e
           | Inr _ \<Rightarrow> Inr (enabled (r\<lparr>ar_destination_id := i\<rparr>))))"

definition update_rule ::
    "auth_env \<Rightarrow> instant \<Rightarrow> request \<Rightarrow> int \<Rightarrow> rule_patch \<Rightarrow> db \<Rightarrow> (http_error + alert_rule) \<times> db" where
  "update_rule env now req rule_id body d =
     (case require_role [ADMIN] env now req d of
        (Inl e, d') \<Rightarrow> (Inl e, d')
      | (Inr u, d') \<Rightarrow>
          (case owned_rule d' rule_id u of
             Inl e \<Rightarrow> (Inl e, d')
           | Inr r \<Rightarrow>
               (case patched_rule d' u body r of
                  Inl e \<Rightarrow> (Inl e, d')
                | Inr q \<Rightarrow>
                    (Inr q,
                     audit_here now u req ''rule.update'' ''rule'' rule_id
                       [(''fields'', json_strs (sort (rp_fields_set body))),
                        (''destination_id'', JInt (ar_destination_id q)),
                        (''enabled'', JBool (ar_enabled q))] (put_rule q d')))))"

definition delete_rule_row :: "int \<Rightarrow> db \<Rightarrow> db" where
  "delete_rule_row i d =
     d\<lparr>db_rules := filter (\<lambda>r. ar_id r \<noteq> i) (db_rules d),
       db_alert_logs := map (\<lambda>l. l\<lparr>al_rule_id := null_if [i] (al_rule_id l)\<rparr>) (db_alert_logs d)\<rparr>"

definition delete_rule ::
    "auth_env \<Rightarrow> instant \<Rightarrow> request \<Rightarrow> int \<Rightarrow> db \<Rightarrow> (http_error + unit) \<times> db" where
  "delete_rule env now req rule_id d =
     (case require_role [ADMIN] env now req d of
        (Inl e, d') \<Rightarrow> (Inl e, d')
      | (Inr u, d') \<Rightarrow>
          (case owned_rule d' rule_id u of
             Inl e \<Rightarrow> (Inl e, d')
           | Inr r \<Rightarrow>
               (Inr (), delete_rule_row rule_id
                  (audit_here now u req ''rule.delete'' ''rule'' rule_id
                     [(''destination_id'', JInt (ar_destination_id r)),
                      (''extension_id'', json_opt_int (ar_extension_id r)),
                      (''event_type'', JStr (ar_event_type r))] d'))))"

section \<open>The alert log\<close>

record alert_log_out =
  lo_id :: int
  lo_sent_at :: instant
  lo_event_type :: string
  lo_extension_id :: int
  lo_ext_name :: string
  lo_dest_label :: string
  lo_success :: bool
  lo_error :: "string option"

definition log_filter :: "int \<Rightarrow> db \<Rightarrow> alert_log \<Rightarrow> bool" where
  "log_filter user_id d l \<longleftrightarrow>
     al_user_id l = Some user_id \<or>
     (\<exists>r \<in> set (db_rules d). ar_user_id r = user_id \<and> al_rule_id l = Some (ar_id r))"

definition log_destination :: "int \<Rightarrow> db \<Rightarrow> alert_log \<Rightarrow> alert_destination option" where
  "log_destination user_id d l =
     (case al_destination_id l of
        Some i \<Rightarrow> find (\<lambda>a. ad_id a = i) (db_destinations d)
      | None \<Rightarrow>
          (case al_rule_id l of
             None \<Rightarrow> None
           | Some i \<Rightarrow>
               (case find (\<lambda>r. ar_id r = i) (filter (\<lambda>r. ar_user_id r = user_id) (db_rules d)) of
                  None \<Rightarrow> None
                | Some r \<Rightarrow> destination_of d r)))"

definition alert_log_out_of :: "int \<Rightarrow> db \<Rightarrow> alert_log \<Rightarrow> alert_log_out" where
  "alert_log_out_of user_id d l =
     \<lparr>lo_id = al_id l, lo_sent_at = al_sent_at l, lo_event_type = al_event_type l,
      lo_extension_id = al_extension_id l,
      lo_ext_name = (case get_extension d (al_extension_id l) of
                       Some x \<Rightarrow> or_default (x_name x) (x_extension_id x)
                     | None \<Rightarrow> ''Extension '' @ show_int (al_extension_id l)),
      lo_dest_label = (case log_destination user_id d l of Some a \<Rightarrow> ad_label a | None \<Rightarrow> utf8_dash),
      lo_success = al_success l, lo_error = al_error l\<rparr>"

text \<open>Rows of the same moment come in no order the query fixes; here later rows come first.\<close>

definition get_alert_log :: "int \<Rightarrow> nat \<Rightarrow> db \<Rightarrow> alert_log_out list" where
  "get_alert_log user_id limit d =
     map (alert_log_out_of user_id d)
       (take limit (rev (sort_key al_sent_at (filter (log_filter user_id d) (db_alert_logs d)))))"

definition alert_log_route ::
    "auth_env \<Rightarrow> instant \<Rightarrow> request \<Rightarrow> nat \<Rightarrow> db \<Rightarrow> (http_error + alert_log_out list) \<times> db" where
  "alert_log_route env now req limit d =
     (case require_api_auth env now req d of
        (Inl e, d') \<Rightarrow> (Inl e, d')
      | (Inr u, d') \<Rightarrow>
          if limit < 1 \<or> limit > 500 then (Inl (HttpError 422 ''limit''), d')
          else (Inr (get_alert_log (u_id u) limit d'), d'))"

section \<open>Test delivery\<close>

definition test_message :: "sender_env \<Rightarrow> alert_destination \<Rightarrow> alert_message" where
  "test_message senv a =
     \<lparr>am_text = ''IcebergEBS test alert from destination '' @ [CHR 0x22] @ ad_label a @ [CHR 0x22],
      am_event = ''test'', am_ext_id = 0, am_name = ''Example Extension'', am_store = ''chrome'',
      am_store_url = ''https://chromewebstore.google.com/detail/example'', am_old = JStr ''low'',
      am_new = JStr ''high'', am_risk_score = Some 62,
      am_app_url = extension_deep_link (sv_app_base_url senv) 0\<rparr>"

definition test_destination ::
    "auth_env \<Rightarrow> sender_env \<Rightarrow> instant \<Rightarrow> request \<Rightarrow> int \<Rightarrow> db \<Rightarrow> (http_error + unit) \<times> db" where
  "test_destination env senv now req dest_id d =
     (case require_role [ADMIN] env now req d of
        (Inl e, d') \<Rightarrow> (Inl e, d')
      | (Inr u, d') \<Rightarrow>
          (case owned_destination d' dest_id u ''Not found'' of
             Inl e \<Rightarrow> (Inl e, d')
           | Inr a \<Rightarrow>
               (case sender_for (ad_kind a) of
                  None \<Rightarrow> (Inl (HttpError 422 (''Unknown destination kind '' @ [CHR 0x27] @ ad_kind a @ [CHR 0x27])), d')
                | Some s \<Rightarrow>
                    let d1 = audit_here now u req ''destination.test'' ''destination'' dest_id
                               [(''label'', JStr (ad_label a)), (''kind'', JStr (ad_kind a))] d'
                    in (case sender_send senv s (ad_target a) (config_dict a) (test_message senv a) of
                          Inr _ \<Rightarrow> (Inr (), d1)
                        | Inl _ \<Rightarrow>
                            (Inl (HttpError 502 ''Failed to deliver the test notification to the destination''), d1)))))"

text \<open>The delivery a rule's alert gets, as \<open>fire_alerts\<close> calls it: the error's text or \<open>None\<close>.\<close>

definition sender_delivery ::
    "sender_env \<Rightarrow> (send_exn \<Rightarrow> string) \<Rightarrow> nat \<Rightarrow> alert_destination \<Rightarrow> alert_message \<Rightarrow> string option" where
  "sender_delivery senv exn_text k a m =
     (case sender_for (ad_kind a) of
        None \<Rightarrow> None
      | Some s \<Rightarrow> (case sender_send senv s (ad_target a) (config_dict a) m of
                    Inl e \<Rightarrow> Some (exn_text e) | Inr _ \<Rightarrow> None))"

section \<open>A history of changes\<close>

text \<open>The six mutating routes as one handler over one request type.\<close>

datatype alert_op =
    CreateDestination destination_in
  | UpdateDestination int destination_patch
  | DeleteDestination int
  | CreateRule rule_in
  | UpdateRule int rule_patch
  | DeleteRule int

definition no_body :: "(http_error + 'a) \<times> db \<Rightarrow> (http_error + unit) \<times> db" where
  "no_body r = (map_sum id (\<lambda>_. ()) (fst r), snd r)"

fun alert_handler ::
    "auth_env \<times> sender_env \<times> instant \<times> request \<times> alert_op \<Rightarrow> db \<Rightarrow> (http_error + unit) \<times> db" where
  "alert_handler (env, senv, now, req, CreateDestination b) d = no_body (create_destination env senv now req b d)"
| "alert_handler (env, senv, now, req, UpdateDestination i b) d = no_body (update_destination env senv now req i b d)"
| "alert_handler (env, senv, now, req, DeleteDestination i) d = delete_destination env now req i d"
| "alert_handler (env, senv, now, req, CreateRule b) d = no_body (create_rule env now req b d)"
| "alert_handler (env, senv, now, req, UpdateRule i b) d = no_body (update_rule env now req i b d)"
| "alert_handler (env, senv, now, req, DeleteRule i) d = delete_rule env now req i d"

section \<open>Laws\<close>

lemma audit_here_frame [simp]:
  "db_destinations (audit_here now u req a tt i det d) = db_destinations d"
  "db_rules (audit_here now u req a tt i det d) = db_rules d"
  "db_extensions (audit_here now u req a tt i det d) = db_extensions d"
  "db_next_id (audit_here now u req a tt i det d) = db_next_id d + 1"
  "audit_count (audit_here now u req a tt i det d) = Suc (audit_count d)"
  by (simp_all add: audit_here_def audit_count_def) (simp add: audit_record_def)

lemma put_frame [simp]:
  "db_rules (put_destination a d) = db_rules d" "db_next_id (put_destination a d) = db_next_id d"
  "db_extensions (put_destination a d) = db_extensions d"
  "audit_count (put_destination a d) = audit_count d"
  "db_destinations (put_rule r d) = db_destinations d" "db_next_id (put_rule r d) = db_next_id d"
  "db_extensions (put_rule r d) = db_extensions d" "audit_count (put_rule r d) = audit_count d"
  by (simp_all add: put_destination_def put_rule_def audit_count_def)

lemma delete_frame [simp]:
  "audit_count (delete_destination_row i d) = audit_count d" "audit_count (delete_rule_row i d) = audit_count d"
  "db_next_id (delete_destination_row i d) = db_next_id d" "db_next_id (delete_rule_row i d) = db_next_id d"
  "db_destinations (delete_rule_row i d) = db_destinations d"
  "db_extensions (delete_rule_row i d) = db_extensions d"
  "db_extensions (delete_destination_row i d) = db_extensions d"
  by (simp_all add: delete_destination_row_def delete_rule_row_def audit_count_def Let_def)

lemma audit_count_role:
  "require_role rs env now req d = (r, d') \<Longrightarrow> audit_count d' = audit_count d"
  using require_role_frame by (fastforce simp: audit_count_def)

lemmas alert_handler_defs =
  create_destination_def update_destination_def delete_destination_def create_rule_def
  update_rule_def delete_rule_def

lemma no_body_simps [simp]: "no_body (Inl e, d) = (Inl e, d)" "no_body (Inr x, d) = (Inr (), d)"
  by (simp_all add: no_body_def)

lemma audit_count_update [simp]:
  "audit_count (d\<lparr>db_destinations := x, db_next_id := n\<rparr>) = audit_count d"
  "audit_count (d\<lparr>db_rules := y, db_next_id := n\<rparr>) = audit_count d"
  by (simp_all add: audit_count_def)

lemma alert_handler_audited:
  "alert_handler i d = (r, d') \<Longrightarrow> audit_count d' = audit_count d + (if isl r then 0 else 1)"
proof -
  assume h: "alert_handler i d = (r, d')"
  obtain env senv now req oper where i: "i = (env, senv, now, req, oper)" by (cases i)
  obtain q e where a: "require_role [ADMIN] env now req d = (q, e)" by fastforce
  have c: "audit_count e = audit_count d" using audit_count_role [OF a] .
  show ?thesis
    using h a c unfolding i
    by (cases oper; auto simp: alert_handler_defs Let_def split: sum.splits option.splits if_splits; metis sum.disc)
qed

interpretation alert_routes: audited alert_handler "\<lambda>d. d"
  by unfold_locales (auto dest: alert_handler_audited)

section \<open>The invariant of the alerting tables\<close>

definition alert_tables_ok :: "db \<Rightarrow> bool" where
  "alert_tables_ok d \<longleftrightarrow>
     distinct (map ad_id (db_destinations d)) \<and>
     (\<forall>a \<in> set (db_destinations d). ad_id a < db_next_id d \<and> destination_row_ok a) \<and>
     (\<forall>r \<in> set (db_rules d).
        ar_event_type r \<in> set VALID_EVENT_TYPES \<and>
        (\<exists>a \<in> set (db_destinations d). ad_id a = ar_destination_id r \<and> ad_user_id a = ar_user_id r))"

lemma tables_ok_cong:
  "db_destinations e = db_destinations d \<Longrightarrow> db_rules e = db_rules d \<Longrightarrow> db_next_id d \<le> db_next_id e \<Longrightarrow>
     alert_tables_ok d \<Longrightarrow> alert_tables_ok e"
  by (fastforce simp: alert_tables_ok_def)

lemma tables_ok_audit [intro]: "alert_tables_ok d \<Longrightarrow> alert_tables_ok (audit_here now u req a tt i det d)"
  by (rule tables_ok_cong [of _ d]) simp_all

lemma tables_ok_role: "require_role rs env now req d = (r, d') \<Longrightarrow> alert_tables_ok d \<Longrightarrow> alert_tables_ok d'"
  by (drule require_role_frame) (auto intro: tables_ok_cong)

lemma tables_ok_add_destination [intro]:
  "alert_tables_ok d \<Longrightarrow> destination_row_ok a \<Longrightarrow> ad_id a = db_next_id d \<Longrightarrow>
     alert_tables_ok (d\<lparr>db_destinations := db_destinations d @ [a], db_next_id := db_next_id d + 1\<rparr>)"
  by (fastforce simp: alert_tables_ok_def)

lemma tables_ok_put_destination [intro]:
  assumes "alert_tables_ok d" "destination_row_ok b" "a \<in> set (db_destinations d)"
    and "ad_id b = ad_id a" "ad_user_id b = ad_user_id a"
  shows "alert_tables_ok (put_destination b d)"
proof -
  have ids: "map ad_id (db_destinations (put_destination b d)) = map ad_id (db_destinations d)"
    by (simp add: put_destination_def)
  have "\<exists>a' \<in> set (db_destinations (put_destination b d)). ad_id a' = i \<and> ad_user_id a' = u"
    if "c \<in> set (db_destinations d)" "ad_id c = i" "ad_user_id c = u" for c i u
  proof (cases "ad_id c = ad_id b")
    case True
    then have "c = a" using assms(1,3,4) that(1) by (auto simp: alert_tables_ok_def distinct_map dest: inj_onD)
    with that assms show ?thesis by (force simp: put_destination_def)
  next
    case False
    with that show ?thesis by (force simp: put_destination_def)
  qed
  moreover have "\<forall>c \<in> set (db_destinations (put_destination b d)). ad_id c < db_next_id d \<and> destination_row_ok c"
    using assms by (auto simp: alert_tables_ok_def put_destination_def)
  ultimately show ?thesis using assms(1) unfolding alert_tables_ok_def ids by simp blast
qed

lemma tables_ok_delete_destination [intro]:
  assumes "alert_tables_ok d"
  shows "alert_tables_ok (delete_destination_row i d)"
proof -
  have "distinct (map ad_id (filter (\<lambda>a. ad_id a \<noteq> i) (db_destinations d)))"
    using assms by (simp add: alert_tables_ok_def distinct_map_filter)
  then show ?thesis using assms
    by (fastforce simp: alert_tables_ok_def delete_destination_row_def Let_def)
qed

lemma tables_ok_add_rule [intro]:
  "alert_tables_ok d \<Longrightarrow> ar_event_type r \<in> set VALID_EVENT_TYPES \<Longrightarrow>
     \<exists>a \<in> set (db_destinations d). ad_id a = ar_destination_id r \<and> ad_user_id a = ar_user_id r \<Longrightarrow>
     alert_tables_ok (d\<lparr>db_rules := db_rules d @ [r], db_next_id := n\<rparr>)" if "db_next_id d \<le> n"
  using that by (fastforce simp: alert_tables_ok_def)

lemma tables_ok_put_rule [intro]:
  "alert_tables_ok d \<Longrightarrow> ar_event_type r \<in> set VALID_EVENT_TYPES \<Longrightarrow>
     \<exists>a \<in> set (db_destinations d). ad_id a = ar_destination_id r \<and> ad_user_id a = ar_user_id r \<Longrightarrow>
     alert_tables_ok (put_rule r d)"
  by (auto simp: alert_tables_ok_def put_rule_def)

lemma tables_ok_delete_rule [intro]: "alert_tables_ok d \<Longrightarrow> alert_tables_ok (delete_rule_row i d)"
  by (auto simp: alert_tables_ok_def delete_rule_row_def)

lemma owned_destination_Inr:
  "owned_destination d i u msg = Inr a \<Longrightarrow>
     a \<in> set (db_destinations d) \<and> ad_id a = i \<and> ad_user_id a = u_id u"
  by (auto simp: owned_destination_def get_owned_or_404_def find_Some_iff split: option.splits if_splits)

lemma owned_rule_Inr: "owned_rule d i u = Inr r \<Longrightarrow> r \<in> set (db_rules d) \<and> ar_user_id r = u_id u"
  by (auto simp: owned_rule_def get_owned_or_404_def find_Some_iff split: option.splits if_splits)

lemma validated_kind: "validate_destination senv (ad_kind a) t c = Inr x \<Longrightarrow> destination_row_ok a"
  by (auto simp: validate_destination_def sender_for_def REGISTRY_def destination_row_ok_def
      split: option.splits if_splits)

lemma patched_destination_ok:
  assumes "patched_destination senv body a = Inr b" "destination_row_ok a"
  shows "destination_row_ok b \<and> ad_id b = ad_id a \<and> ad_user_id b = ad_user_id a"
proof -
  have "destination_row_ok b"
  proof (cases "dtp_kind body \<noteq> None \<or> dtp_target body \<noteq> None \<or> dtp_config body \<noteq> None")
    case True
    define k where "k = (case dtp_kind body of Some k \<Rightarrow> k | None \<Rightarrow> ad_kind a)"
    obtain t c where "validate_destination senv k t c = Inr ()" and k: "ad_kind b = k"
      using assms(1) True unfolding patched_destination_def Let_def k_def
      by (auto split: sum.splits if_splits option.splits)
    then show ?thesis using validated_kind by blast
  next
    case False
    then show ?thesis using assms
      by (auto simp: patched_destination_def Let_def destination_row_ok_def split: option.splits)
  qed
  then show ?thesis using assms(1)
    by (auto simp: patched_destination_def Let_def split: sum.splits if_splits option.splits)
qed

lemma patched_rule_ok:
  assumes "patched_rule d u body r = Inr q" "alert_tables_ok d" "r \<in> set (db_rules d)" "ar_user_id r = u_id u"
  shows "ar_event_type q \<in> set VALID_EVENT_TYPES \<and>
     (\<exists>a \<in> set (db_destinations d). ad_id a = ar_destination_id q \<and> ad_user_id a = ar_user_id q)"
proof (cases "rp_destination_id body")
  case None
  then show ?thesis using assms
    by (fastforce simp: patched_rule_def alert_tables_ok_def split: option.splits)
next
  case (Some i)
  then obtain a where a: "owned_destination d i u ''Destination not found'' = Inr a"
    using assms(1) by (auto simp: patched_rule_def Let_def split: sum.splits)
  then have "ar_destination_id q = i" "ar_user_id q = u_id u" "ar_event_type q = ar_event_type r"
    using assms Some by (auto simp: patched_rule_def Let_def split: option.splits)
  then show ?thesis using owned_destination_Inr [OF a] assms(2,3) by (auto simp: alert_tables_ok_def)
qed

lemma alert_handler_ok:
  assumes h: "alert_handler i d = (r, d')" and d: "alert_tables_ok d"
  shows "alert_tables_ok d'"
proof -
  obtain env senv now req oper where i: "i = (env, senv, now, req, oper)" by (cases i)
  obtain q e where a: "require_role [ADMIN] env now req d = (q, e)" by fastforce
  have e: "alert_tables_ok e" using tables_ok_role [OF a d] .
  show ?thesis
  proof (cases oper)
    case (CreateDestination b)
    define new where "new u = \<lparr>ad_id = db_next_id e, ad_user_id = u_id u, ad_label = dti_label b,
      ad_kind = dti_kind b, ad_target = dti_target b, ad_config = json_config (dti_config b),
      ad_enabled = dti_enabled b, ad_created_at = now\<rparr>" for u :: user
    have "destination_row_ok (new u)" if "validate_destination senv (dti_kind b) (dti_target b) (dti_config b) = Inr x" for u x
      using validated_kind [of senv "new u"] that by (simp add: new_def)
    then show ?thesis using h a e i CreateDestination
      by (auto simp: create_destination_def Let_def split: sum.splits option.splits
          simp flip: new_def intro!: tables_ok_audit tables_ok_add_destination) (auto simp: new_def)
  next
    case (UpdateDestination k b)
    have "destination_row_ok x" if "x \<in> set (db_destinations e)" for x
      using e that by (simp add: alert_tables_ok_def)
    then show ?thesis using h a e i UpdateDestination
      by (auto simp: update_destination_def split: sum.splits option.splits
          dest!: owned_destination_Inr patched_destination_ok)
  next
    case (DeleteDestination k)
    then show ?thesis using h a e i
      by (auto simp: delete_destination_def split: sum.splits option.splits)
  next
    case (CreateRule b)
    then show ?thesis using h a e i
      by (auto simp: create_rule_def Let_def split: sum.splits if_splits dest!: owned_destination_Inr
          intro!: tables_ok_audit tables_ok_add_rule)
  next
    case (UpdateRule k b)
    have "alert_tables_ok (put_rule q' e)"
      if "owned_rule e k u = Inr r'" "patched_rule e u b r' = Inr q'" for u r' q'
      using patched_rule_ok [OF that(2) e] owned_rule_Inr [OF that(1)] e by blast
    then show ?thesis using h a e i UpdateRule
      by (auto simp: update_rule_def split: sum.splits)
  next
    case (DeleteRule k)
    then show ?thesis using h a e i
      by (auto simp: delete_rule_def split: sum.splits)
  qed
qed

lemma alert_history_ok:
  "run_requests_of alert_handler is d = (rs, d') \<Longrightarrow> alert_tables_ok d \<Longrightarrow> alert_tables_ok d'"
  by (induction "is" arbitrary: d rs) (auto split: prod.splits dest: alert_handler_ok)


section \<open>Properties\<close>


definition sample_rule_op :: "auth_env \<times> sender_env \<times> instant \<times> request \<times> alert_op" where
  "sample_rule_op =
     (sample_auth_env, sample_sender_env, 9, sample_request,
      CreateDestination \<lparr>dti_label = ''ops'', dti_kind = ''webhook'', dti_target = ''https://8.8.8.8/x'',
        dti_config = [], dti_enabled = True\<rparr>)"


text \<open>The log of a user shows only rows of that user or of that user's rules, newest first.\<close>

theorem get_alert_log_scoped:
  "\<exists>rows. get_alert_log user_id limit d = map (alert_log_out_of user_id d) rows \<and> length rows \<le> limit \<and>
     sorted_wrt (\<lambda>a b. al_sent_at b \<le> al_sent_at a) rows \<and> set rows \<subseteq> set (db_alert_logs d) \<and>
     list_all (log_filter user_id d) rows"
proof (intro exI conjI)
  let ?rows = "take limit (rev (sort_key al_sent_at (filter (log_filter user_id d) (db_alert_logs d))))"
  show "get_alert_log user_id limit d = map (alert_log_out_of user_id d) ?rows" by (simp add: get_alert_log_def)
  have "sorted (map al_sent_at (sort_key al_sent_at (filter (log_filter user_id d) (db_alert_logs d))))"
    by (rule sorted_sort_key)
  then show "sorted_wrt (\<lambda>a b. al_sent_at b \<le> al_sent_at a) ?rows"
    by (simp add: sorted_wrt_take sorted_wrt_rev sorted_map)
qed (auto simp: list_all_iff dest: in_set_takeD)

text \<open>A test delivery leaves its audit row whether it succeeds or fails, and the caller sees
  nothing of the failure but that it happened.\<close>

theorem test_destination_audited:
  assumes "require_role [ADMIN] env now req d = (Inr u, d1)" "owned_destination d1 i u ''Not found'' = Inr a"
    and "sender_for (ad_kind a) = Some s"
  shows "audit_count (snd (test_destination env senv now req i d)) = Suc (audit_count d) \<and>
     fst (test_destination env senv now req i d) \<in>
       {Inr (), Inl (HttpError 502 ''Failed to deliver the test notification to the destination'')}"
  using assms audit_count_role [OF assms(1)]
  by (auto simp: test_destination_def Let_def split: sum.split)

end
