(* ===== verification/Extension_Views.thy ===== *)
theory Extension_Views
  imports Extension_Queries Threat_Intel
begin

text \<open>
  The read side of \<open>app/routes/api.py\<close>: the response objects of an extension and its findings,
  the page of the list, and the export with its CSV writer.

  \<open>datetime.isoformat\<close> and the writer of the \<open>csv\<close> module are written out. A naive stored
  timestamp has no offset in its text, an aware one is UTC.
\<close>

section \<open>Findings\<close>

record finding_out =
  fo_code :: string
  fo_severity :: string
  fo_title :: string
  fo_detail :: string
  fo_source :: string
  fo_file :: "string option"
  fo_line :: "int option"

text \<open>\<open>str(v or dflt)\<close>\<close>

definition str_or :: "json \<Rightarrow> string \<Rightarrow> string" where
  "str_or v dflt = (if truthy v then py_str v else dflt)"

definition finding_from_raw :: "json \<Rightarrow> finding_out option" where
  "finding_from_raw finding =
     (case finding of
        JObj d \<Rightarrow>
          let code = str_or (dict_get_none d ''code'') [] in
          Some \<lparr>fo_code = code,
                fo_severity = str_or (dict_get_none d ''severity'') ''low'',
                fo_title = str_or (dict_get_none d ''title'')
                             (if code \<noteq> [] then code else ''Detection finding''),
                fo_detail = str_or (dict_get_none d ''detail'') [],
                fo_source = str_or (dict_get_none d ''source'') ''package'',
                fo_file = (case dict_get_none d ''file'' of JStr f \<Rightarrow> Some f | _ \<Rightarrow> None),
                fo_line = (case dict_get_none d ''line'' of JInt i \<Rightarrow> Some i | _ \<Rightarrow> None)\<rparr>
      | _ \<Rightarrow> None)"

definition synthetic_threat_finding :: finding_out where
  "synthetic_threat_finding =
     \<lparr>fo_code = ''threat_match'', fo_severity = ''critical'',
      fo_title = ''Known-bad extension matched a threat list'',
      fo_detail = ''The extension is present in a configured threat list.'',
      fo_source = ''threat_list'', fo_file = None, fo_line = None\<rparr>"

section \<open>Extensions\<close>

record extension_out =
  xo_id :: int
  xo_store :: string
  xo_extension_id :: string
  xo_name :: string
  xo_publisher :: string
  xo_description :: "string option"
  xo_version :: string
  xo_install_count :: "int option"
  xo_last_updated :: "datetime option"
  xo_permissions :: "string list"
  xo_host_permissions :: "string list"
  xo_store_url :: string
  xo_added_at :: instant
  xo_last_fetched_at :: "instant option"
  xo_watchlist :: bool
  xo_risk_score :: "int option"
  xo_heuristic_risk_score :: "int option"
  xo_risk_detail :: "jobject option"
  xo_risk_level :: "string option"
  xo_threat_match :: bool
  xo_triage_status :: string
  xo_triage_assignee :: "string option"
  xo_triage_notes :: "string option"
  xo_risk_override :: string
  xo_triage_updated_at :: "instant option"
  xo_install_footprint :: "int option"
  xo_exposure :: "int option"
  xo_findings :: "finding_out list"
  xo_threat_intel_indicators :: "indicator list"

definition findings_out :: "extension \<Rightarrow> finding_out list" where
  "findings_out x =
     (let findings =
            (case analysis_dict x of
               None \<Rightarrow> []
             | Some d \<Rightarrow> (case dict_get_none d ''findings'' of
                             JArr fs \<Rightarrow> List.map_filter finding_from_raw fs | _ \<Rightarrow> []))
      in if x_threat_match x \<and> \<not> list_ex (\<lambda>f. fo_code f = ''threat_match'') findings
         then findings @ [synthetic_threat_finding] else findings)"

definition extension_out_from_db :: "bool \<Rightarrow> extension \<Rightarrow> extension_out" where
  "extension_out_from_db include_threat_intel x =
     \<lparr>xo_id = x_id x, xo_store = x_store x, xo_extension_id = x_extension_id x, xo_name = x_name x,
      xo_publisher = x_publisher x, xo_description = x_description x, xo_version = x_version x,
      xo_install_count = x_install_count x, xo_last_updated = x_last_updated x,
      xo_permissions = permissions_list x,
      xo_host_permissions = host_permissions_of (analysis_dict x), xo_store_url = x_store_url x,
      xo_added_at = x_added_at x, xo_last_fetched_at = x_last_fetched_at x,
      xo_watchlist = x_watchlist x, xo_risk_score = x_risk_score x,
      xo_heuristic_risk_score = x_heuristic_risk_score x, xo_risk_detail = risk_detail_dict x,
      xo_risk_level = effective_risk_level (x_risk_score x) (x_threat_match x) (x_risk_override x),
      xo_threat_match = x_threat_match x, xo_triage_status = x_triage_status x,
      xo_triage_assignee = x_triage_assignee x, xo_triage_notes = x_triage_notes x,
      xo_risk_override = x_risk_override x, xo_triage_updated_at = x_triage_updated_at x,
      xo_install_footprint = x_install_footprint x,
      xo_exposure = exposure (x_risk_score x) (x_install_footprint x),
      xo_findings = findings_out x,
      xo_threat_intel_indicators =
        (if include_threat_intel then build_threat_intel_indicators (analysis_dict x) else [])\<rparr>"

section \<open>Timestamps\<close>

text \<open>The civil date of a day number since the epoch.\<close>

definition civil_of_days :: "int \<Rightarrow> int \<times> int \<times> int" where
  "civil_of_days days =
     (let z = days + 719468;
          era = z div 146097;
          doe = z mod 146097;
          yoe = (doe - doe div 1460 + doe div 36524 - doe div 146096) div 365;
          doy = doe - (365 * yoe + yoe div 4 - yoe div 100);
          mp = (5 * doy + 2) div 153;
          day = doy - (153 * mp + 2) div 5 + 1;
          month = (if mp < 10 then mp + 3 else mp - 9);
          year = yoe + era * 400 + (if month \<le> 2 then 1 else 0)
      in (year, month, day))"

definition pad_int :: "nat \<Rightarrow> int \<Rightarrow> string" where
  "pad_int n i = (let s = show_int i in replicate (n - length s) (CHR ''0'') @ s)"

definition iso_instant :: "instant \<Rightarrow> string" where
  "iso_instant t =
     (let days = t div usec_per_day;
          rest = t mod usec_per_day;
          secs = rest div usec_per_sec;
          usec = rest mod usec_per_sec;
          (year, month, day) = civil_of_days days
      in pad_int 4 year @ ''-'' @ pad_int 2 month @ ''-'' @ pad_int 2 day @ ''T'' @
         pad_int 2 (secs div 3600) @ '':'' @ pad_int 2 (secs div 60 mod 60) @ '':'' @ pad_int 2 (secs mod 60) @
         (if usec = 0 then [] else ''.'' @ pad_int 6 usec))"

definition isoformat :: "datetime \<Rightarrow> string" where
  "isoformat dt = (case dt of Aware t \<Rightarrow> iso_instant t @ ''+00:00'' | Naive t \<Rightarrow> iso_instant t)"

section \<open>Export\<close>

definition EXPORT_FIELDS :: "string list" where
  "EXPORT_FIELDS = [''id'', ''store'', ''extension_id'', ''name'', ''publisher'', ''version'',
     ''install_count'', ''last_updated'', ''risk_score'', ''heuristic_risk_score'', ''risk_level'',
     ''triage_status'', ''triage_assignee'', ''risk_override'', ''install_footprint'', ''exposure'',
     ''permissions'', ''watchlist'', ''added_at'', ''last_fetched_at'']"

definition CSV_FORMULA_PREFIXES :: "char list" where
  "CSV_FORMULA_PREFIXES = [CHR ''='', CHR ''+'', CHR ''-'', CHR ''@'', CHR 0x09, CHR 0x0D]"

definition csv_safe :: "json \<Rightarrow> json" where
  "csv_safe v =
     (case v of
        JStr (c # s) \<Rightarrow> if c \<in> set CSV_FORMULA_PREFIXES then JStr (CHR 0x27 # c # s) else v
      | _ \<Rightarrow> v)"

definition export_row :: "extension \<Rightarrow> jobject" where
  "export_row x =
     [(''id'', JInt (x_id x)), (''store'', JStr (x_store x)), (''extension_id'', JStr (x_extension_id x)),
      (''name'', JStr (x_name x)), (''publisher'', JStr (x_publisher x)), (''version'', JStr (x_version x)),
      (''install_count'', json_opt_int (x_install_count x)),
      (''last_updated'', json_opt_str (map_option isoformat (x_last_updated x))),
      (''risk_score'', json_opt_int (x_risk_score x)),
      (''heuristic_risk_score'', json_opt_int (x_heuristic_risk_score x)),
      (''risk_level'', json_opt_str
         (effective_risk_level (x_risk_score x) (x_threat_match x) (x_risk_override x))),
      (''triage_status'', JStr (x_triage_status x)), (''triage_assignee'', json_opt_str (x_triage_assignee x)),
      (''risk_override'', JStr (x_risk_override x)),
      (''install_footprint'', json_opt_int (x_install_footprint x)),
      (''exposure'', json_opt_int (exposure (x_risk_score x) (x_install_footprint x))),
      (''permissions'', JStr (join '';'' (permissions_list x))), (''watchlist'', JBool (x_watchlist x)),
      (''added_at'', JStr (isoformat (Aware (x_added_at x)))),
      (''last_fetched_at'', json_opt_str (map_option (\<lambda>t. isoformat (Aware t)) (x_last_fetched_at x)))]"

text \<open>One field as \<open>csv.writer\<close> writes it: \<open>None\<close> is empty, other values by \<open>str\<close>; quoted when
  it holds a comma, a quote or a line end.\<close>

definition csv_cell :: "json \<Rightarrow> string" where
  "csv_cell v = (if v = JNull then [] else py_str v)"

definition csv_special :: "char \<Rightarrow> bool" where
  "csv_special c \<longleftrightarrow> c \<in> {CHR '','', CHR 0x22, CHR 0x0D, CHR 0x0A}"

definition csv_field :: "string \<Rightarrow> string" where
  "csv_field s =
     (if list_ex csv_special s
      then CHR 0x22 # concat (map (\<lambda>c. if c = CHR 0x22 then [c, c] else [c]) s) @ [CHR 0x22]
      else s)"

definition csv_line :: "string list \<Rightarrow> string" where
  "csv_line cells = join '','' (map csv_field cells) @ [CHR 0x0D, CHR 0x0A]"

definition export_cells :: "extension \<Rightarrow> string list" where
  "export_cells x = map (\<lambda>(k, v). csv_cell (csv_safe v)) (export_row x)"

definition export_csv :: "int \<Rightarrow> extension_filters \<Rightarrow> db \<Rightarrow> string" where
  "export_csv user_id filters d =
     concat (map csv_line (EXPORT_FIELDS # map export_cells (build_extension_query user_id filters d)))"

definition export_json :: "int \<Rightarrow> extension_filters \<Rightarrow> db \<Rightarrow> json" where
  "export_json user_id filters d =
     JArr (map (\<lambda>x. JObj (export_row x)) (build_extension_query user_id filters d))"

section \<open>Reading a CSV text back\<close>

datatype csv_mode = CsvPlain | CsvQuoted | CsvClosed

function csv_read :: "csv_mode \<Rightarrow> string \<Rightarrow> string list \<Rightarrow> string \<Rightarrow> string list list" where
  "csv_read m cur row [] = (if cur = [] \<and> row = [] then [] else [rev (rev cur # row)])"
| "csv_read CsvQuoted cur row (c # s) =
     (if c = CHR 0x22 then csv_read CsvClosed cur row s else csv_read CsvQuoted (c # cur) row s)"
| "csv_read CsvClosed cur row (c # s) =
     (if c = CHR 0x22 then csv_read CsvQuoted (c # cur) row s
      else if c = CHR '','' then csv_read CsvPlain [] (rev cur # row) s
      else if c = CHR 0x0A then rev (rev cur # row) # csv_read CsvPlain [] [] s
      else csv_read CsvClosed cur row s)"
| "csv_read CsvPlain cur row (c # s) =
     (if c = CHR 0x22 \<and> cur = [] then csv_read CsvQuoted cur row s
      else if c = CHR '','' then csv_read CsvPlain [] (rev cur # row) s
      else if c = CHR 0x0A then rev (rev cur # row) # csv_read CsvPlain [] [] s
      else if c = CHR 0x0D then csv_read CsvPlain cur row s
      else csv_read CsvPlain (c # cur) row s)"
  by pat_completeness auto
termination by (relation "measure (\<lambda>(_, _, _, s). length s)") auto

section \<open>Laws\<close>

lemma read_plain:
  "\<not> list_ex csv_special s \<Longrightarrow> csv_read CsvPlain cur row (s @ t) = csv_read CsvPlain (rev s @ cur) row t"
  by (induction s arbitrary: cur) (auto simp: csv_special_def)

lemma read_quoted:
  "csv_read CsvQuoted cur row (concat (map (\<lambda>c. if c = CHR 0x22 then [c, c] else [c]) s) @ CHR 0x22 # t) =
     csv_read CsvClosed (rev s @ cur) row t"
  by (induction s arbitrary: cur) auto

lemma read_field:
  assumes "c = CHR '','' \<or> c = CHR 0x0D"
  shows "\<exists>m. m \<noteq> CsvQuoted \<and> csv_read CsvPlain [] row (csv_field s @ c # t) = csv_read m (rev s) row (c # t)"
proof (cases "list_ex csv_special s")
  case True
  then have "csv_read CsvPlain [] row (csv_field s @ c # t) = csv_read CsvClosed (rev s) row (c # t)"
    using read_quoted [of "[]" row s "c # t"] by (simp add: csv_field_def)
  then show ?thesis by blast
next
  case False
  then show ?thesis using read_plain [OF False, of "[]" row "c # t"] by (auto simp: csv_field_def)
qed

lemma read_comma: "m \<noteq> CsvQuoted \<Longrightarrow> csv_read m cur row (CHR '','' # t) = csv_read CsvPlain [] (rev cur # row) t"
  by (cases m) simp_all

lemma read_line_end:
  "m \<noteq> CsvQuoted \<Longrightarrow>
     csv_read m cur row (CHR 0x0D # CHR 0x0A # t) = rev (rev cur # row) # csv_read CsvPlain [] [] t"
  by (cases m) simp_all

lemma read_cells:
  "cells \<noteq> [] \<Longrightarrow>
     csv_read CsvPlain [] row (csv_line cells @ t) = (rev row @ cells) # csv_read CsvPlain [] [] t"
proof (induction cells arbitrary: row rule: induct_list012)
  case (2 s)
  obtain m where "m \<noteq> CsvQuoted"
    "csv_read CsvPlain [] row (csv_field s @ CHR 0x0D # CHR 0x0A # t) = csv_read m (rev s) row (CHR 0x0D # CHR 0x0A # t)"
    using read_field [of "CHR 0x0D" row s "CHR 0x0A # t"] by auto
  then show ?case using read_line_end by (simp add: csv_line_def)
next
  case (3 s s' ss)
  let ?rest = "csv_line (s' # ss) @ t"
  obtain m where "m \<noteq> CsvQuoted"
    "csv_read CsvPlain [] row (csv_field s @ CHR '','' # ?rest) = csv_read m (rev s) row (CHR '','' # ?rest)"
    using read_field [of "CHR '',''" row s ?rest] by auto
  moreover have "csv_line (s # s' # ss) @ t = csv_field s @ CHR '','' # ?rest"
    by (simp add: csv_line_def)
  ultimately show ?case using read_comma 3(2) [of "s # row"] by simp
qed simp

lemma read_lines:
  "\<forall>r \<in> set rows. r \<noteq> [] \<Longrightarrow> csv_read CsvPlain [] [] (concat (map csv_line rows)) = rows"
  by (induction rows) (simp_all add: read_cells)

lemma export_cells_columns: "map fst (export_row x) = EXPORT_FIELDS"
  by (simp add: export_row_def EXPORT_FIELDS_def)

lemma csv_safe_cell:
  "csv_safe v = JStr s \<Longrightarrow> s = [] \<or> hd s \<notin> set CSV_FORMULA_PREFIXES"
  by (auto simp: csv_safe_def CSV_FORMULA_PREFIXES_def split: json.splits list.splits if_splits)

text \<open>A text cell a spreadsheet takes for a formula.\<close>

definition formula_cell :: "json \<Rightarrow> bool" where
  "formula_cell v \<longleftrightarrow> (case v of JStr (c # s) \<Rightarrow> c \<in> set CSV_FORMULA_PREFIXES | _ \<Rightarrow> False)"

lemma csv_safe_no_formula: "\<not> formula_cell (csv_safe v)"
  by (auto simp: formula_cell_def csv_safe_def CSV_FORMULA_PREFIXES_def split: json.splits list.splits)

section \<open>Properties\<close>


text \<open>A matched extension always shows a threat finding, whatever the stored analysis holds.\<close>

theorem threat_finding_shown:
  "x_threat_match x \<Longrightarrow> list_ex (\<lambda>f. fo_code f = ''threat_match'') (xo_findings (extension_out_from_db b x))"
  by (simp add: extension_out_from_db_def findings_out_def Let_def synthetic_threat_finding_def)

lemma isoformat_example: "isoformat (Aware 1709210096000005) = ''2024-02-29T12:34:56.000005+00:00''"
  by code_simp

end
