(* ===== verification/Enrollment.thy ===== *)
theory Enrollment
  imports Scheduler Threat_Ingest Extension_Ids Accounts Retention Threats
begin

text \<open>
  Enrolment in \<open>app/routes/api.py\<close>: \<open>_fetch_and_score\<close>, \<open>_enroll_extension\<close>,
  \<open>_discard_placeholder\<close> and \<open>_upsert_observation\<close>, and the routes built on them (add, bulk,
  inventory, refresh, threat list).

  These routes commit and roll back several times in one request, so the session is explicit:
  the database as committed and as this request sees it. The work other sessions do at a point
  where this one has just committed applies to both. A concurrent request of the same user can
  insert the same identity between the duplicate check and the flush; \<open>rv_rival\<close> says whether
  one does. Everything else the request meets is read from the session.
\<close>

section \<open>Sessions\<close>

record session =
  ss_committed :: db
  ss_now :: db

definition fresh_session :: "db \<Rightarrow> session" where
  "fresh_session d = \<lparr>ss_committed = d, ss_now = d\<rparr>"

definition stage :: "(db \<Rightarrow> db) \<Rightarrow> session \<Rightarrow> session" where
  "stage f s = s\<lparr>ss_now := f (ss_now s)\<rparr>"

definition commit :: "session \<Rightarrow> session" where
  "commit s = s\<lparr>ss_committed := ss_now s\<rparr>"

definition rollback :: "session \<Rightarrow> session" where
  "rollback s = s\<lparr>ss_now := ss_committed s\<rparr>"

definition elsewhere :: "(db \<Rightarrow> db) \<Rightarrow> session \<Rightarrow> session" where
  "elsewhere f s = \<lparr>ss_committed = f (ss_committed s), ss_now = f (ss_now s)\<rparr>"

record route_env =
  rv_auth :: auth_env
  rv_fetch :: "int \<Rightarrow> fetch_env"
  rv_posture :: "int \<Rightarrow> delivery_env"
  rv_deliver :: "int \<Rightarrow> delivery_env"
  rv_scrub :: "string \<Rightarrow> string"
  rv_retention :: retention_settings
  rv_rival :: "string \<Rightarrow> string \<Rightarrow> bool"

section \<open>Fetching\<close>

text \<open>\<open>StoreFailure\<close> is the 502 with its \<open>preserve_extension\<close> flag, \<open>Unexpected\<close> any other
  exception.\<close>

datatype fetch_failure = StoreFailure bool | Unexpected string

definition fetch_and_score ::
    "route_env \<Rightarrow> instant \<Rightarrow> int \<Rightarrow> session \<Rightarrow> (fetch_failure + extension) \<times> session" where
  "fetch_and_score env now ext_id s =
     (case get_extension (ss_now s) ext_id of
        None \<Rightarrow> (Inl (Unexpected ''InvalidRequestError''), s)
      | Some x \<Rightarrow>
          let score_before = x_risk_score x;
              (posture_events, d1) = apply_existing_threat_posture x (ss_now s);
              s1 = (if threat_entries (ss_now s) x = [] then s else commit (s\<lparr>ss_now := d1\<rparr>))
          in (case get_extension (ss_now s1) ext_id of
                None \<Rightarrow> (Inl (Unexpected ''InvalidRequestError''), s1)
              | Some x1 \<Rightarrow>
                  let s2 = elsewhere (fire_pending_alerts (rv_posture env ext_id) now posture_events x1 None) s1
                  in (case fetch_and_store (rv_fetch env ext_id) now x1 (ss_now s2) of
                        Inl e \<Rightarrow>
                          if is_store_failure e
                          then (Inl (StoreFailure (posture_events \<noteq> [])),
                                commit (stage (add_fetch_log now ext_id False False
                                   (Some (rv_scrub env (exn_text e))) score_before None) s2))
                          else (Inl (Unexpected (exn_text e)), s2)
                      | Inr (x2, events, d3) \<Rightarrow>
                          let s3 = commit (s2\<lparr>ss_now := d3\<rparr>)
                          in (case get_extension d3 ext_id of
                                None \<Rightarrow> (Inl (Unexpected ''InvalidRequestError''), s3)
                              | Some x3 \<Rightarrow>
                                  (Inr x3, elsewhere (fire_pending_alerts (rv_deliver env ext_id) now events x3 None) s3)))))"

section \<open>Enrolling\<close>

definition find_extension :: "db \<Rightarrow> int \<Rightarrow> string \<Rightarrow> string \<Rightarrow> extension option" where
  "find_extension d user_id store extension_id =
     find (\<lambda>x. x_user_id x = Some user_id \<and> x_store x = store \<and> x_extension_id x = extension_id)
       (db_extensions d)"

text \<open>The placeholder row, with the defaults of the model.\<close>

definition placeholder :: "instant \<Rightarrow> int \<Rightarrow> int \<Rightarrow> string \<Rightarrow> string \<Rightarrow> extension" where
  "placeholder now i user_id store extension_id =
     \<lparr>x_id = i, x_user_id = Some user_id, x_store = store, x_extension_id = extension_id,
      x_name = extension_id, x_publisher = [], x_description = None, x_version = [],
      x_install_count = None, x_last_updated = None, x_permissions = json_dumps (JArr []),
      x_store_url = [], x_added_at = now, x_last_fetched_at = None, x_watchlist = True,
      x_risk_score = None, x_heuristic_risk_score = None, x_risk_detail = None,
      x_triage_status = ''new'', x_triage_assignee = None, x_triage_notes = None,
      x_risk_override = ''none'', x_triage_updated_at = None, x_package_analysis = None,
      x_install_footprint = None, x_pending_alert_events = None, x_threat_match = False\<rparr>"

definition add_extension_row :: "extension \<Rightarrow> db \<Rightarrow> db" where
  "add_extension_row x d = d\<lparr>db_extensions := db_extensions d @ [x], db_next_id := db_next_id d + 1\<rparr>"

text \<open>The foreign keys that point at an extension cascade; a log row of another extension that
  names a deleted rule keeps its row and loses the rule.\<close>

definition delete_extension_row :: "int \<Rightarrow> db \<Rightarrow> db" where
  "delete_extension_row i d =
     (let rules = map ar_id (filter (\<lambda>r. ar_extension_id r = Some i) (db_rules d))
      in d\<lparr>db_extensions := filter (\<lambda>x. x_id x \<noteq> i) (db_extensions d),
           db_snapshots := filter (\<lambda>p. ps_extension_id p \<noteq> i) (db_snapshots d),
           db_fetch_logs := filter (\<lambda>l. fl_extension_id l \<noteq> i) (db_fetch_logs d),
           db_install_history := filter (\<lambda>h. ih_extension_id h \<noteq> i) (db_install_history d),
           db_observations := filter (\<lambda>p. io_extension_id p \<noteq> i) (db_observations d),
           db_rules := filter (\<lambda>r. ar_extension_id r \<noteq> Some i) (db_rules d),
           db_alert_logs := map (\<lambda>l. l\<lparr>al_rule_id := (case al_rule_id l of
                                       Some k \<Rightarrow> if k \<in> set rules then None else Some k | None \<Rightarrow> None)\<rparr>)
             (filter (\<lambda>l. al_extension_id l \<noteq> i) (db_alert_logs d))\<rparr>)"

text \<open>The result dictionary of an enrolment.\<close>

record enroll_result =
  er_store :: "string option"
  er_extension_id :: string
  er_status :: string
  er_id :: "int option"
  er_detail :: "string option"

definition enroll_result_of ::
    "string \<Rightarrow> string \<Rightarrow> string \<Rightarrow> int option \<Rightarrow> string option \<Rightarrow> enroll_result" where
  "enroll_result_of store extension_id status i detail =
     \<lparr>er_store = Some store, er_extension_id = extension_id, er_status = status, er_id = i,
      er_detail = detail\<rparr>"

definition discard_placeholder :: "instant \<Rightarrow> audit_actor \<Rightarrow> int \<Rightarrow> session \<Rightarrow> session" where
  "discard_placeholder now actor ext_id s =
     (case get_extension (ss_now s) ext_id of
        None \<Rightarrow> rollback s
      | Some orphan \<Rightarrow>
          if x_threat_match orphan then rollback s
          else commit (stage (\<lambda>d.
                 let d1 = d\<lparr>db_fetch_logs := filter (\<lambda>l. fl_extension_id l \<noteq> ext_id) (db_fetch_logs d)\<rparr>;
                     d2 = audit_record now actor ''extension.discard'' ''extension'' (Some (show_int ext_id))
                            [(''store'', JStr (x_store orphan)),
                             (''extension_id'', JStr (x_extension_id orphan)),
                             (''reason'', JStr ''first fetch failed'')] d1
                 in delete_extension_row ext_id d2) s))"

text \<open>The row a concurrent request of the same user commits; only the row matters to this one.\<close>

definition rival_insert :: "instant \<Rightarrow> int \<Rightarrow> string \<Rightarrow> string \<Rightarrow> session \<Rightarrow> session" where
  "rival_insert now user_id store extension_id s =
     (let d = ss_committed s
      in s\<lparr>ss_committed := add_extension_row (placeholder now (db_next_id d) user_id store extension_id) d\<rparr>)"

definition create_placeholder ::
    "instant \<Rightarrow> audit_actor \<Rightarrow> int \<Rightarrow> string \<Rightarrow> string \<Rightarrow> string \<Rightarrow> bool \<Rightarrow> db \<Rightarrow> int \<times> db" where
  "create_placeholder now actor user_id store extension_id via score d =
     (let i = db_next_id d
      in (i, audit_record now actor ''extension.create'' ''extension'' (Some (show_int i))
               [(''store'', JStr store), (''extension_id'', JStr extension_id), (''via'', JStr via),
                (''scored_inline'', JBool score)]
               (add_extension_row (placeholder now i user_id store extension_id) d)))"

definition score_placeholder ::
    "route_env \<Rightarrow> instant \<Rightarrow> audit_actor \<Rightarrow> string \<Rightarrow> string \<Rightarrow> bool \<Rightarrow> int \<Rightarrow> session \<Rightarrow>
       (http_error + enroll_result) \<times> session" where
  "score_placeholder env now actor store extension_id score ext_id s =
     (if \<not> score then
        (case get_extension (ss_now s) ext_id of
           None \<Rightarrow> (Inl (ServerError ''InvalidRequestError''), s)
         | Some x \<Rightarrow>
             let (events, d1) = apply_existing_threat_posture x (ss_now s);
                 s1 = (if threat_entries (ss_now s) x = [] then s else commit (s\<lparr>ss_now := d1\<rparr>))
             in (case get_extension (ss_now s1) ext_id of
                   None \<Rightarrow> (Inl (ServerError ''InvalidRequestError''), s1)
                 | Some x1 \<Rightarrow>
                     (Inr (enroll_result_of store extension_id ''deferred'' (Some ext_id) None),
                      elsewhere (fire_pending_alerts (rv_posture env ext_id) now events x1 None) s1)))
      else
        (case fetch_and_score env now ext_id s of
           (Inr x, s1) \<Rightarrow> (Inr (enroll_result_of store extension_id ''added'' (Some (x_id x)) None), s1)
         | (Inl (StoreFailure preserve), s1) \<Rightarrow>
             (Inr (enroll_result_of store extension_id ''error'' None
                (Some ''Failed to fetch extension from store'')),
              if preserve then rollback s1 else discard_placeholder now actor ext_id (rollback s1))
         | (Inl (Unexpected e), s1) \<Rightarrow>
             (Inl (ServerError e), discard_placeholder now actor ext_id (rollback s1))))"

definition enroll_extension ::
    "route_env \<Rightarrow> instant \<Rightarrow> audit_actor \<Rightarrow> int \<Rightarrow> string \<Rightarrow> bool \<Rightarrow> string \<Rightarrow> string \<Rightarrow> session \<Rightarrow>
       (http_error + enroll_result) \<times> session" where
  "enroll_extension env now actor user_id via score store raw_id s =
     (case normalise_extension_id store raw_id of
        None \<Rightarrow> (Inl (ServerError ''ValueError''), s)
      | Some extension_id \<Rightarrow>
          (case validate_extension_id store extension_id of
             Some detail \<Rightarrow> (Inr (enroll_result_of store extension_id ''invalid'' None (Some detail)), s)
           | None \<Rightarrow>
               (case find_extension (ss_now s) user_id store extension_id of
                  Some x \<Rightarrow> (Inr (enroll_result_of store extension_id ''duplicate'' (Some (x_id x)) None), s)
                | None \<Rightarrow>
                    if rv_rival env store extension_id then
                      (let s1 = rollback (rival_insert now user_id store extension_id s)
                       in (case find_extension (ss_now s1) user_id store extension_id of
                             Some x \<Rightarrow>
                               (Inr (enroll_result_of store extension_id ''duplicate'' (Some (x_id x)) None), s1)
                           | None \<Rightarrow> (Inl (ServerError ''IntegrityError''), s1)))
                    else
                      (let (i, d) = create_placeholder now actor user_id store extension_id via score (ss_now s)
                       in score_placeholder env now actor store extension_id score i
                            (commit (s\<lparr>ss_now := d\<rparr>))))))"

end
