(* ===== verification/Extension_Routes.thy ===== *)
theory Extension_Routes
  imports Enrollment Extension_Views
begin

text \<open>
  The routes of \<open>app/routes/api.py\<close> over the services, the enrolment and the queries. A handler
  resolves its caller, and returns its response with the session's committed database at the
  end of the request; what is staged and not committed is gone.
\<close>

section \<open>Lists and single extensions\<close>

definition MAX_PAGE_LIMIT :: nat where "MAX_PAGE_LIMIT = 200"

record extension_page =
  pg_items :: "extension_out list"
  pg_total :: nat
  pg_limit :: nat
  pg_offset :: nat

definition list_extensions ::
    "auth_env \<Rightarrow> instant \<Rightarrow> request \<Rightarrow> extension_filters \<Rightarrow> nat \<Rightarrow> nat \<Rightarrow> db \<Rightarrow>
       (http_error + extension_page) \<times> db" where
  "list_extensions env now req filters limit offset d =
     (case require_api_auth env now req d of
        (Inl e, d') \<Rightarrow> (Inl e, d')
      | (Inr u, d') \<Rightarrow>
          if limit < 1 \<or> limit > MAX_PAGE_LIMIT then (Inl (HttpError 422 ''limit''), d')
          else
            let stmt = build_extension_query (u_id u) filters d'
            in (Inr \<lparr>pg_items = map (extension_out_from_db False) (take limit (drop offset stmt)),
                     pg_total = count_rows stmt, pg_limit = limit, pg_offset = offset\<rparr>, d'))"

definition export_extensions ::
    "auth_env \<Rightarrow> instant \<Rightarrow> request \<Rightarrow> extension_filters \<Rightarrow> bool \<Rightarrow> db \<Rightarrow>
       (http_error + (string + json)) \<times> db" where
  "export_extensions env now req filters as_json d =
     (case require_api_auth env now req d of
        (Inl e, d') \<Rightarrow> (Inl e, d')
      | (Inr u, d') \<Rightarrow>
          (Inr (if as_json then Inr (export_json (u_id u) filters d')
                else Inl (export_csv (u_id u) filters d')), d'))"

definition owned_row :: "db \<Rightarrow> int \<Rightarrow> user \<Rightarrow> http_error + extension" where
  "owned_row d ext_id u =
     get_owned_or_404 x_id x_user_id (db_extensions d) ext_id (u_id u) ''Not found''"

definition get_extension_route ::
    "auth_env \<Rightarrow> instant \<Rightarrow> request \<Rightarrow> int \<Rightarrow> db \<Rightarrow> (http_error + extension_out) \<times> db" where
  "get_extension_route env now req ext_id d =
     (case require_api_auth env now req d of
        (Inl e, d') \<Rightarrow> (Inl e, d')
      | (Inr u, d') \<Rightarrow>
          (case owned_row d' ext_id u of
             Inl e \<Rightarrow> (Inl e, d')
           | Inr x \<Rightarrow> (Inr (extension_out_from_db True x), d')))"

definition get_history ::
    "auth_env \<Rightarrow> instant \<Rightarrow> request \<Rightarrow> int \<Rightarrow> nat \<Rightarrow> instant option \<Rightarrow> db \<Rightarrow>
       (http_error + (instant \<times> int) list) \<times> db" where
  "get_history env now req ext_id limit since d =
     (case require_api_auth env now req d of
        (Inl e, d') \<Rightarrow> (Inl e, d')
      | (Inr u, d') \<Rightarrow>
          if limit < 1 \<or> limit > 500 then (Inl (HttpError 422 ''limit''), d')
          else (case owned_row d' ext_id u of
             Inl e \<Rightarrow> (Inl e, d')
           | Inr _ \<Rightarrow>
               let rows = filter (\<lambda>h. ih_extension_id h = ext_id \<and>
                                      (case since of None \<Rightarrow> True | Some t \<Rightarrow> ih_recorded_at h \<ge> t))
                            (db_install_history d');
                   newest = take limit (rev (sort_key (\<lambda>h. (ih_recorded_at h, ih_id h)) rows))
               in (Inr (map (\<lambda>h. (ih_recorded_at h, ih_install_count h)) (rev newest)), d')))"

section \<open>Changes to one extension\<close>

definition analyst_roles :: "role list" where "analyst_roles = [ADMIN, ANALYST]"

definition audit_extension ::
    "instant \<Rightarrow> user \<Rightarrow> request \<Rightarrow> string \<Rightarrow> int \<Rightarrow> jobject \<Rightarrow> db \<Rightarrow> db" where
  "audit_extension now u req action ext_id detail d =
     audit_record now (actor_from_request u (Some (rq_client req))) action ''extension''
       (Some (show_int ext_id)) detail d"

definition delete_extension ::
    "auth_env \<Rightarrow> instant \<Rightarrow> request \<Rightarrow> int \<Rightarrow> db \<Rightarrow> (http_error + unit) \<times> db" where
  "delete_extension env now req ext_id d =
     (case require_role analyst_roles env now req d of
        (Inl e, d') \<Rightarrow> (Inl e, d')
      | (Inr u, d') \<Rightarrow>
          (case owned_row d' ext_id u of
             Inl e \<Rightarrow> (Inl e, d')
           | Inr x \<Rightarrow>
               (Inr (), delete_extension_row ext_id
                  (audit_extension now u req ''extension.delete'' ext_id
                     [(''store'', JStr (x_store x)), (''extension_id'', JStr (x_extension_id x)),
                      (''name'', JStr (x_name x))] d'))))"

definition toggle_watchlist ::
    "auth_env \<Rightarrow> instant \<Rightarrow> request \<Rightarrow> int \<Rightarrow> bool \<Rightarrow> db \<Rightarrow> (http_error + extension_out) \<times> db" where
  "toggle_watchlist env now req ext_id watchlist d =
     (case require_role analyst_roles env now req d of
        (Inl e, d') \<Rightarrow> (Inl e, d')
      | (Inr u, d') \<Rightarrow>
          (case owned_row d' ext_id u of
             Inl e \<Rightarrow> (Inl e, d')
           | Inr x \<Rightarrow>
               let y = x\<lparr>x_watchlist := watchlist\<rparr>
               in (Inr (extension_out_from_db True y),
                   audit_extension now u req ''extension.watchlist'' ext_id
                     [(''watchlist'', JBool watchlist)] (put_extension y d'))))"

text \<open>A field of a patch: not sent, or sent with a value that may be null.\<close>

record triage_patch =
  tp_status :: "string option option"
  tp_assignee :: "string option option"
  tp_notes :: "string option option"
  tp_override :: "string option option"

text \<open>What pydantic admits: the values of the two literals and the two lengths.\<close>

definition patch_in_range :: "triage_patch \<Rightarrow> bool" where
  "patch_in_range p \<longleftrightarrow>
     (case tp_status p of Some (Some s) \<Rightarrow> s \<in> TRIAGE_STATUSES | _ \<Rightarrow> True) \<and>
     (case tp_override p of Some (Some s) \<Rightarrow> s \<in> RISK_OVERRIDES | _ \<Rightarrow> True) \<and>
     (case tp_assignee p of Some (Some s) \<Rightarrow> length s \<le> 128 | _ \<Rightarrow> True) \<and>
     (case tp_notes p of Some (Some s) \<Rightarrow> length s \<le> 4000 | _ \<Rightarrow> True)"

definition check_triage :: "triage_patch \<Rightarrow> string option" where
  "check_triage p =
     (if tp_status p = None \<and> tp_assignee p = None \<and> tp_notes p = None \<and> tp_override p = None
      then Some ''At least one triage field is required''
      else if tp_status p = Some None then Some ''triage_status cannot be null''
      else if tp_override p = Some None then Some ''risk_override cannot be null''
      else None)"

text \<open>\<open>(value or "").strip() or None\<close>\<close>

definition blank_to_none :: "string option \<Rightarrow> string option" where
  "blank_to_none v = (case strip (case v of Some s \<Rightarrow> s | None \<Rightarrow> []) of [] \<Rightarrow> None | s \<Rightarrow> Some s)"

definition triage_fields :: "triage_patch \<Rightarrow> extension \<Rightarrow> extension" where
  "triage_fields p x =
     (let x1 = (case tp_status p of Some (Some s) \<Rightarrow> x\<lparr>x_triage_status := s\<rparr> | _ \<Rightarrow> x);
          x2 = (case tp_assignee p of Some v \<Rightarrow> x1\<lparr>x_triage_assignee := blank_to_none v\<rparr> | None \<Rightarrow> x1);
          x3 = (case tp_notes p of Some v \<Rightarrow> x2\<lparr>x_triage_notes := blank_to_none v\<rparr> | None \<Rightarrow> x2)
      in (case tp_override p of Some (Some s) \<Rightarrow> x3\<lparr>x_risk_override := s\<rparr> | _ \<Rightarrow> x3))"

definition triage_level :: "extension \<Rightarrow> string" where
  "triage_level x =
     (case effective_risk_level (x_risk_score x) (x_threat_match x) (x_risk_override x) of
        Some (c # l) \<Rightarrow> c # l | _ \<Rightarrow> ''unknown'')"

definition triaged_row :: "instant \<Rightarrow> triage_patch \<Rightarrow> extension \<Rightarrow> extension" where
  "triaged_row now p x =
     (let y = triage_fields p x;
          detail = (case risk_detail_dict y of Some d \<Rightarrow> d | None \<Rightarrow> []);
          heuristic = recover_heuristic_risk_score (x_heuristic_risk_score y) (x_risk_score y) (Some detail);
          score = effective_risk_score heuristic (x_threat_match y) (x_risk_override y);
          z = y\<lparr>x_heuristic_risk_score := heuristic, x_risk_score := score\<rparr>;
          detail1 = dict_set detail ''total'' (json_opt_int score);
          detail2 = dict_set detail1 ''risk_level'' (JStr (triage_level z))
      in z\<lparr>x_risk_detail := Some (json_dumps (JObj detail2)), x_triage_updated_at := Some now\<rparr>)"

text \<open>The audited fields are those sent, in the order of their names.\<close>

definition triage_audit :: "triage_patch \<Rightarrow> extension \<Rightarrow> jobject" where
  "triage_audit p z =
     (if tp_override p \<noteq> None then [(''risk_override'', JStr (x_risk_override z))] else [])
     @ (if tp_assignee p \<noteq> None then [(''triage_assignee'', json_opt_str (x_triage_assignee z))] else [])
     @ (if tp_notes p \<noteq> None then [(''triage_notes'', json_opt_str (x_triage_notes z))] else [])
     @ (if tp_status p \<noteq> None then [(''triage_status'', JStr (x_triage_status z))] else [])
     @ [(''risk_score'', json_opt_int (x_risk_score z)), (''risk_level'', JStr (triage_level z))]"

definition update_extension_triage ::
    "auth_env \<Rightarrow> instant \<Rightarrow> request \<Rightarrow> int \<Rightarrow> triage_patch \<Rightarrow> db \<Rightarrow> (http_error + extension_out) \<times> db" where
  "update_extension_triage env now req ext_id body d =
     (case require_role analyst_roles env now req d of
        (Inl e, d') \<Rightarrow> (Inl e, d')
      | (Inr u, d') \<Rightarrow>
          if \<not> patch_in_range body then (Inl (HttpError 422 ''body''), d')
          else (case check_triage body of
             Some detail \<Rightarrow> (Inl (HttpError 422 detail), d')
           | None \<Rightarrow>
               (case owned_row d' ext_id u of
                  Inl e \<Rightarrow> (Inl e, d')
                | Inr x \<Rightarrow>
                    let z = triaged_row now body x
                    in (Inr (extension_out_from_db True z),
                        audit_extension now u req ''extension.triage'' ext_id (triage_audit body z)
                          (put_extension z d')))))"

section \<open>Enrolment routes\<close>

definition request_actor :: "user \<Rightarrow> request \<Rightarrow> audit_actor" where
  "request_actor u req = actor_from_request u (Some (rq_client req))"

definition add_extension ::
    "route_env \<Rightarrow> instant \<Rightarrow> request \<Rightarrow> string \<Rightarrow> string \<Rightarrow> db \<Rightarrow> (http_error + extension_out) \<times> db" where
  "add_extension env now req store raw_id d =
     (case require_role analyst_roles (rv_auth env) now req d of
        (Inl e, d') \<Rightarrow> (Inl e, d')
      | (Inr u, d') \<Rightarrow>
          (case enroll_extension env now (request_actor u req) (u_id u) ''add'' True store raw_id
                  (fresh_session d') of
             (Inl e, s) \<Rightarrow> (Inl e, ss_committed s)
           | (Inr r, s) \<Rightarrow>
               if er_status r = ''invalid''
               then (Inl (HttpError 422 (case er_detail r of Some t \<Rightarrow> t | None \<Rightarrow> [])), ss_committed s)
               else if er_status r = ''duplicate''
               then (Inl (HttpError 409 ''Extension already tracked''), ss_committed s)
               else if er_status r = ''error''
               then (Inl (HttpError 502 ''Failed to fetch extension from store''), ss_committed s)
               else (case er_id r of
                       None \<Rightarrow> (Inl (ServerError ''KeyError''), ss_committed s)
                     | Some i \<Rightarrow>
                         (case get_extension (ss_now s) i of
                            None \<Rightarrow> (Inl (ServerError ''AttributeError''), ss_committed s)
                          | Some x \<Rightarrow> (Inr (extension_out_from_db True x), ss_committed s)))))"

definition MAX_BULK_ITEMS :: nat where "MAX_BULK_ITEMS = 100"
definition MAX_INVENTORY_ITEMS :: nat where "MAX_INVENTORY_ITEMS = 1000"

definition unresolved_result :: "string \<Rightarrow> enroll_result" where
  "unresolved_result line =
     \<lparr>er_store = None, er_extension_id = line, er_status = ''invalid'', er_id = None,
      er_detail = Some (''Could not determine store '' @ utf8_dash @
                        '' use '' @ [CHR 0x27] @ ''store,id'' @ [CHR 0x27] @ '' or a store URL'')\<rparr>"

text \<open>The loop over the entries; an exception ends the request.\<close>

fun bulk_loop ::
    "route_env \<Rightarrow> instant \<Rightarrow> audit_actor \<Rightarrow> int \<Rightarrow> bulk_entry list \<Rightarrow> session \<Rightarrow>
       (http_error + enroll_result list) \<times> session" where
  "bulk_loop env now actor user_id [] s = (Inr [], s)"
| "bulk_loop env now actor user_id (Unresolved line # es) s =
     (case bulk_loop env now actor user_id es s of
        (Inl e, s') \<Rightarrow> (Inl e, s')
      | (Inr rs, s') \<Rightarrow> (Inr (unresolved_result line # rs), s'))"
| "bulk_loop env now actor user_id (Entry store raw_id # es) s =
     (case enroll_extension env now actor user_id ''bulk'' True store raw_id s of
        (Inl e, s1) \<Rightarrow> (Inl e, s1)
      | (Inr r, s1) \<Rightarrow>
          (case bulk_loop env now actor user_id es s1 of
             (Inl e, s') \<Rightarrow> (Inl e, s')
           | (Inr rs, s') \<Rightarrow> (Inr (r # rs), s')))"

definition tally :: "string \<Rightarrow> enroll_result list \<Rightarrow> nat" where
  "tally status rs = length (filter (\<lambda>r. er_status r = status) rs)"

record bulk_result =
  bk_added :: nat
  bk_duplicates :: nat
  bk_invalid :: nat
  bk_errors :: nat
  bk_results :: "enroll_result list"

definition bulk_entries :: "(string \<times> string) list option \<Rightarrow> string option \<Rightarrow> bulk_entry list" where
  "bulk_entries items pasted =
     (case items of Some is \<Rightarrow> map (\<lambda>(store, i). Entry store i) is | None \<Rightarrow> [])
     @ (case pasted of Some t \<Rightarrow> parse_bulk_text t | None \<Rightarrow> [])"

definition bulk_add_extensions ::
    "route_env \<Rightarrow> instant \<Rightarrow> request \<Rightarrow> (string \<times> string) list option \<Rightarrow> string option \<Rightarrow> db \<Rightarrow>
       (http_error + bulk_result) \<times> db" where
  "bulk_add_extensions env now req items pasted d =
     (case require_role analyst_roles (rv_auth env) now req d of
        (Inl e, d') \<Rightarrow> (Inl e, d')
      | (Inr u, d') \<Rightarrow>
          let entries = bulk_entries items pasted in
          if entries = [] then (Inl (HttpError 422 ''No extensions provided''), d')
          else if length entries > MAX_BULK_ITEMS
          then (Inl (HttpError 422 ''Too many extensions in one request (max 100)''), d')
          else (case bulk_loop env now (request_actor u req) (u_id u) entries (fresh_session d') of
                  (Inl e, s) \<Rightarrow> (Inl e, ss_committed s)
                | (Inr rs, s) \<Rightarrow>
                    (Inr \<lparr>bk_added = tally ''added'' rs, bk_duplicates = tally ''duplicate'' rs,
                          bk_invalid = tally ''invalid'' rs, bk_errors = tally ''error'' rs,
                          bk_results = rs\<rparr>, ss_committed s)))"

section \<open>Inventory\<close>

text \<open>\<open>iv_asset_id\<close> has been stripped and bounded by its model.\<close>

record inventory_item =
  iv_store :: string
  iv_extension_id :: string
  iv_asset_id :: string
  iv_asset_type :: "string option"
  iv_department :: "string option"
  iv_source :: "string option"

record inventory_result =
  ir_store :: string
  ir_extension_id :: string
  ir_asset_id :: string
  ir_status :: string
  ir_id :: "int option"
  ir_detail :: "string option"

definition observation_source :: "inventory_item \<Rightarrow> string option \<Rightarrow> string" where
  "observation_source item default_source =
     (case iv_source item of
        Some (c # s) \<Rightarrow> c # s
      | _ \<Rightarrow> (case default_source of Some (c # s) \<Rightarrow> c # s | _ \<Rightarrow> ''soar''))"

definition same_asset :: "int \<Rightarrow> string \<Rightarrow> install_observation \<Rightarrow> bool" where
  "same_asset ext_id asset_id ob \<longleftrightarrow> io_extension_id ob = ext_id \<and> io_asset_id ob = asset_id"

text \<open>\<open>INSERT ... ON CONFLICT (extension_id, asset_id) DO UPDATE\<close>\<close>

definition upsert_observation ::
    "int \<Rightarrow> inventory_item \<Rightarrow> string option \<Rightarrow> instant \<Rightarrow> db \<Rightarrow> db" where
  "upsert_observation ext_id item default_source now d =
     (let source = observation_source item default_source in
      if list_ex (same_asset ext_id (iv_asset_id item)) (db_observations d)
      then d\<lparr>db_observations := map (\<lambda>ob.
               if same_asset ext_id (iv_asset_id item) ob
               then ob\<lparr>io_last_seen := now, io_asset_type := iv_asset_type item,
                       io_department := iv_department item, io_source := source\<rparr>
               else ob) (db_observations d)\<rparr>
      else d\<lparr>db_observations := db_observations d @
               [\<lparr>io_id = db_next_id d, io_extension_id = ext_id, io_asset_id = iv_asset_id item,
                 io_asset_type = iv_asset_type item, io_department = iv_department item,
                 io_source = source, io_first_seen = now, io_last_seen = now\<rparr>],
             db_next_id := db_next_id d + 1\<rparr>)"

definition inventory_result_of ::
    "inventory_item \<Rightarrow> string \<Rightarrow> string \<Rightarrow> int option \<Rightarrow> string option \<Rightarrow> inventory_result" where
  "inventory_result_of item ext status i detail =
     \<lparr>ir_store = iv_store item, ir_extension_id = ext, ir_asset_id = iv_asset_id item,
      ir_status = status, ir_id = i, ir_detail = detail\<rparr>"

definition inventory_step ::
    "route_env \<Rightarrow> instant \<Rightarrow> audit_actor \<Rightarrow> int \<Rightarrow> string option \<Rightarrow> inventory_item \<Rightarrow> session \<Rightarrow>
       (http_error + inventory_result) \<times> session" where
  "inventory_step env now actor user_id default_source item s =
     (if iv_asset_id item = []
      then (Inr (inventory_result_of item (iv_extension_id item) ''invalid'' None
                   (Some ''asset_id must not be empty'')), s)
      else (case enroll_extension env now actor user_id ''inventory'' False (iv_store item)
                   (iv_extension_id item) s of
              (Inl e, s1) \<Rightarrow> (Inl e, s1)
            | (Inr r, s1) \<Rightarrow>
                if er_status r \<in> {''invalid'', ''error''}
                then (Inr (inventory_result_of item (er_extension_id r) (er_status r) None (er_detail r)), s1)
                else (case er_id r of
                        None \<Rightarrow> (Inl (ServerError ''KeyError''), s1)
                      | Some i \<Rightarrow>
                          (Inr (inventory_result_of item (er_extension_id r)
                             (if er_status r = ''deferred'' then ''deferred'' else ''observed'') (Some i) None),
                           stage (upsert_observation i item default_source now) s1))))"

fun inventory_loop ::
    "route_env \<Rightarrow> instant \<Rightarrow> audit_actor \<Rightarrow> int \<Rightarrow> string option \<Rightarrow> inventory_item list \<Rightarrow> session \<Rightarrow>
       (http_error + inventory_result list) \<times> session" where
  "inventory_loop env now actor user_id src [] s = (Inr [], s)"
| "inventory_loop env now actor user_id src (item # items) s =
     (case inventory_step env now actor user_id src item s of
        (Inl e, s1) \<Rightarrow> (Inl e, s1)
      | (Inr r, s1) \<Rightarrow>
          (case inventory_loop env now actor user_id src items s1 of
             (Inl e, s') \<Rightarrow> (Inl e, s')
           | (Inr rs, s') \<Rightarrow> (Inr (r # rs), s')))"

definition affected_ids :: "inventory_result list \<Rightarrow> int list" where
  "affected_ids rs = remdups (List.map_filter ir_id rs)"

definition set_footprint :: "instant option \<Rightarrow> int \<Rightarrow> db \<Rightarrow> db" where
  "set_footprint cutoff ext_id d =
     (case get_extension d ext_id of
        None \<Rightarrow> d
      | Some x \<Rightarrow>
          put_extension (x\<lparr>x_install_footprint := Some (fresh_count cutoff ext_id (db_observations d))\<rparr>) d)"

record inventory_summary =
  iy_observations :: nat
  iy_deferred :: nat
  iy_duplicates :: nat
  iy_invalid :: nat
  iy_errors :: nat
  iy_results :: "inventory_result list"

definition itally :: "string \<Rightarrow> inventory_result list \<Rightarrow> nat" where
  "itally status rs = length (filter (\<lambda>r. ir_status r = status) rs)"

definition ingest_inventory ::
    "route_env \<Rightarrow> instant \<Rightarrow> request \<Rightarrow> string option \<Rightarrow> inventory_item list \<Rightarrow> db \<Rightarrow>
       (http_error + inventory_summary) \<times> db" where
  "ingest_inventory env now req source items d =
     (case require_role analyst_roles (rv_auth env) now req d of
        (Inl e, d') \<Rightarrow> (Inl e, d')
      | (Inr u, d') \<Rightarrow>
          if items = [] then (Inl (HttpError 422 ''No observations provided''), d')
          else if length items > MAX_INVENTORY_ITEMS
          then (Inl (HttpError 422 ''Too many observations in one request (max 1000)''), d')
          else
            let actor = request_actor u req in
            (case inventory_loop env now actor (u_id u) source items (fresh_session d') of
               (Inl e, s) \<Rightarrow> (Inl e, ss_committed s)
             | (Inr rs, s) \<Rightarrow>
                 let cutoff = freshness_cutoff (rv_retention env) now;
                     affected = affected_ids rs;
                     d1 = fold (set_footprint cutoff) affected (ss_now s);
                     d2 = audit_record now actor ''inventory.ingest'' ''inventory'' None
                            [(''source'', json_opt_str source),
                             (''observations'', JInt (int (length items))),
                             (''extensions_touched'', JInt (int (length affected))),
                             (''deferred'', JInt (int (itally ''deferred'' rs))),
                             (''observed'', JInt (int (itally ''observed'' rs))),
                             (''invalid'', JInt (int (itally ''invalid'' rs))),
                             (''error'', JInt (int (itally ''error'' rs)))] d1
                 in (Inr \<lparr>iy_observations = itally ''deferred'' rs + itally ''observed'' rs,
                          iy_deferred = itally ''deferred'' rs, iy_duplicates = itally ''observed'' rs,
                          iy_invalid = itally ''invalid'' rs, iy_errors = itally ''error'' rs,
                          iy_results = rs\<rparr>, d2)))"

section \<open>Refresh and threat list\<close>

definition refresh_extension ::
    "route_env \<Rightarrow> instant \<Rightarrow> request \<Rightarrow> int \<Rightarrow> db \<Rightarrow> (http_error + extension_out) \<times> db" where
  "refresh_extension env now req ext_id d =
     (case require_role analyst_roles (rv_auth env) now req d of
        (Inl e, d') \<Rightarrow> (Inl e, d')
      | (Inr u, d') \<Rightarrow>
          (case owned_row d' ext_id u of
             Inl e \<Rightarrow> (Inl e, d')
           | Inr x \<Rightarrow>
               (case fetch_and_score env now ext_id
                       (stage (audit_extension now u req ''extension.refresh'' ext_id
                          [(''store'', JStr (x_store x)), (''extension_id'', JStr (x_extension_id x))])
                        (fresh_session d')) of
                  (Inr y, s) \<Rightarrow> (Inr (extension_out_from_db True y), ss_committed s)
                | (Inl (StoreFailure _), s) \<Rightarrow>
                    (Inl (HttpError 502 ''Failed to fetch extension from store''), ss_committed s)
                | (Inl (Unexpected e), s) \<Rightarrow> (Inl (ServerError e), ss_committed s))))"

record threat_item =
  ti_store :: string
  ti_extension_id :: string
  ti_source :: "string option"
  ti_reason :: "string option"

fun normalize_items :: "string \<Rightarrow> threat_item list \<Rightarrow> threat_error + threat_entry_input list" where
  "normalize_items source [] = Inr []"
| "normalize_items source (i # is) =
     (case normalize_entry (ti_store i) (ti_extension_id i)
             (case ti_source i of Some (c # s) \<Rightarrow> c # s | _ \<Rightarrow> source) (ti_reason i) of
        Inl e \<Rightarrow> Inl e
      | Inr n \<Rightarrow> (case normalize_items source is of Inl e \<Rightarrow> Inl e | Inr ns \<Rightarrow> Inr (n # ns)))"

definition count_threat_events :: "(extension \<times> change_event list) list \<Rightarrow> nat" where
  "count_threat_events transitions =
     sum_list (map (\<lambda>(x, events). length (filter (\<lambda>e. ev_type e = ''threat_match'') events)) transitions)"

definition ingest_threatlist ::
    "route_env \<Rightarrow> instant \<Rightarrow> request \<Rightarrow> string \<Rightarrow> threat_item list \<Rightarrow> db \<Rightarrow>
       (http_error + nat \<times> nat \<times> nat) \<times> db" where
  "ingest_threatlist env now req source entries d =
     (case require_role [ADMIN] (rv_auth env) now req d of
        (Inl e, d') \<Rightarrow> (Inl e, d')
      | (Inr u, d') \<Rightarrow>
          if entries = [] \<or> length entries > MAX_FEED_ENTRIES \<or> source = [] \<or> length source > 128
          then (Inl (HttpError 422 ''body''), d')
          else (case normalize_items source entries of
                  Inl e \<Rightarrow> (Inl (HttpError 422 ''invalid threat entry''), d')
                | Inr normalized \<Rightarrow>
                    let (transitions, d1) = ingest_entries now normalized d';
                        d2 = audit_record now (request_actor u req) ''threatlist.ingest'' ''threatlist'' None
                               [(''entries'', JInt (int (length normalized))), (''source'', JStr source),
                                (''matched_extensions'', JInt (int (length transitions)))] d1
                    in (Inr (length normalized, length transitions, count_threat_events transitions),
                        fire_transitions (rv_deliver env) now transitions d2)))"

end
