(* ===== verification/Enrollment_Laws.thy ===== *)
theory Enrollment_Laws
  imports Extension_Routes
begin

text \<open>
  What the enrolment keeps: the identities of the extension table, and the fate of a
  placeholder whose first fetch failed. A refresh of any kind replaces extension rows in place,
  so its frame is stated once, for any view of a row it leaves alone.
\<close>

section \<open>Views of the extension table\<close>

definition ext_key :: "extension \<Rightarrow> int \<times> int option \<times> string \<times> string" where
  "ext_key x = (x_id x, x_user_id x, x_store x, x_extension_id x)"

definition ext_keys :: "db \<Rightarrow> (int \<times> int option \<times> string \<times> string) list" where
  "ext_keys d = map ext_key (db_extensions d)"

text \<open>The primary key, the id counter and \<open>uq_extension_user_store_ext\<close> (NULL owners are distinct).\<close>

definition rows_ok :: "db \<Rightarrow> bool" where
  "rows_ok d \<longleftrightarrow>
     distinct (map fst (ext_keys d)) \<and> (\<forall>k \<in> set (ext_keys d). fst k < db_next_id d) \<and>
     distinct (map snd (filter (\<lambda>k. fst (snd k) \<noteq> None) (ext_keys d)))"

lemma extension_ids_keys: "extension_ids d = map fst (ext_keys d)"
  by (simp add: extension_ids_def ext_keys_def ext_key_def comp_def)

lemma rows_ok_ids: "rows_ok d \<Longrightarrow> distinct (extension_ids d)"
  by (simp add: rows_ok_def extension_ids_keys)

lemma rows_ok_cong:
  "ext_keys e = ext_keys d \<Longrightarrow> db_next_id d \<le> db_next_id e \<Longrightarrow> rows_ok d \<Longrightarrow> rows_ok e"
  by (fastforce simp: rows_ok_def)

lemma get_unique:
  "distinct (extension_ids d) \<Longrightarrow> x \<in> set (db_extensions d) \<Longrightarrow> get_extension d (x_id x) = Some x"
proof -
  have "distinct (map x_id xs) \<Longrightarrow> x \<in> set xs \<Longrightarrow> find (\<lambda>y. x_id y = x_id x) xs = Some x" for xs
    by (induction xs) (auto simp: image_iff)
  then show "distinct (extension_ids d) \<Longrightarrow> x \<in> set (db_extensions d) \<Longrightarrow> get_extension d (x_id x) = Some x"
    by (simp add: extension_ids_def get_extension_def)
qed

text \<open>Replacing a row by one that looks the same through \<open>f\<close>.\<close>

lemma put_extension_view:
  assumes "distinct (extension_ids d)" "get_extension d (x_id x) = Some y" "f x = f y"
  shows "map f (db_extensions (put_extension x d)) = map f (db_extensions d)"
proof -
  have "f (if x_id z = x_id x then x else z) = f z" if "z \<in> set (db_extensions d)" for z
    using get_unique [OF assms(1) that] assms(2,3) by auto
  then show ?thesis by (auto simp: put_extension_def)
qed

lemma put_extension_keys:
  "distinct (extension_ids d) \<Longrightarrow> get_extension d (x_id x) = Some y \<Longrightarrow> ext_key x = ext_key y \<Longrightarrow>
     ext_keys (put_extension x d) = ext_keys d"
  unfolding ext_keys_def by (rule put_extension_view)

section \<open>Delivery only touches the marker\<close>

definition core :: "extension \<Rightarrow> extension" where
  "core x = x\<lparr>x_pending_alert_events := None\<rparr>"

lemma core_marker [simp]: "core (x\<lparr>x_pending_alert_events := m\<rparr>) = core x"
  by (simp add: core_def)

lemma core_frame:
  "core x = core y \<Longrightarrow> ext_key x = ext_key y \<and> x_threat_match x = x_threat_match y \<and>
     x_last_fetched_at x = x_last_fetched_at y \<and> x_risk_score x = x_risk_score y \<and>
     x_install_footprint x = x_install_footprint y \<and> x_id x = x_id y"
proof -
  assume c: "core x = core y"
  have "P (core z) = P z" if "\<And>m. P (z\<lparr>x_pending_alert_events := m\<rparr>) = P z" for P :: "extension \<Rightarrow> 'b" and z
    using that [of None] by (simp add: core_def)
  then have "ext_key (core z) = ext_key z" "x_threat_match (core z) = x_threat_match z"
    "x_last_fetched_at (core z) = x_last_fetched_at z" "x_risk_score (core z) = x_risk_score z"
    "x_install_footprint (core z) = x_install_footprint z" "x_id (core z) = x_id z" for z
    by (simp_all add: core_def ext_key_def)
  then show ?thesis using c by metis
qed

lemma put_marker_core:
  "distinct (extension_ids d) \<Longrightarrow> get_extension d i = Some x \<Longrightarrow>
     map core (db_extensions (put_extension (x\<lparr>x_pending_alert_events := m\<rparr>) d)) = map core (db_extensions d)"
  by (rule put_extension_view) (auto dest: get_extension_id)

lemma fire_pending_core:
  assumes "distinct (extension_ids d)"
  shows "map core (db_extensions (fire_pending_alerts env now events x m d)) = map core (db_extensions d)"
proof -
  let ?d = "snd (fire_alerts env now events x d)"
  have ids: "distinct (extension_ids ?d)" using assms by (simp add: extension_ids_def)
  have ack: "map core (db_extensions (ack_pending_events i es ?d)) = map core (db_extensions d)" for i es
    using put_marker_core [OF ids] by (simp add: ack_pending_events_def split: option.split)
  have clear: "map core (db_extensions (clear_pending_alerts i e ?d)) = map core (db_extensions d)" for i e
    using put_marker_core [OF ids] by (simp add: clear_pending_alerts_def split: option.split)
  show ?thesis
    using ack clear by (simp add: fire_pending_alerts_def case_prod_beta split: option.split)
qed

lemma core_map_get:
  "map core (db_extensions e) = map core (db_extensions d) \<Longrightarrow>
     map_option core (get_extension e i) = map_option core (get_extension d i)"
proof -
  have lists: "map core xs = map core ys \<Longrightarrow>
      map_option core (find (\<lambda>y. x_id y = i) xs) = map_option core (find (\<lambda>y. x_id y = i) ys)" for xs ys
  proof (induction xs arbitrary: ys)
    case (Cons a xs)
    then obtain b zs where b: "ys = b # zs" "core a = core b" "map core xs = map core zs"
      using Cons.prems by (cases ys) simp_all
    have "x_id a = x_id b" using core_frame [OF b(2)] by simp
    with Cons.IH [OF b(3)] b(1,2) show ?case by simp
  qed simp
  show "map core (db_extensions e) = map core (db_extensions d) \<Longrightarrow>
     map_option core (get_extension e i) = map_option core (get_extension d i)"
    unfolding get_extension_def by (rule lists)
qed

lemma core_map_keys: "map core (db_extensions e) = map core (db_extensions d) \<Longrightarrow> ext_keys e = ext_keys d"
proof -
  have "ext_key (core z) = ext_key z" for z by (simp add: core_def ext_key_def)
  then have "ext_keys d = map ext_key (map core (db_extensions d))" for d by (simp add: ext_keys_def)
  then show "map core (db_extensions e) = map core (db_extensions d) \<Longrightarrow> ext_keys e = ext_keys d" by metis
qed

lemma fire_next_id: "db_next_id d \<le> db_next_id (fire_pending_alerts env now events x m d)"
proof -
  have "db_next_id d \<le> db_next_id (snd (fire_alerts env now events x d))"
    by (simp add: fire_alerts_def Let_def)
  moreover have "db_next_id (ack_pending_events i es e) = db_next_id e"
    "db_next_id (clear_pending_alerts i j e) = db_next_id e" for i es j e
    by (simp_all add: ack_pending_events_def clear_pending_alerts_def split: option.split)
  ultimately show ?thesis by (simp add: fire_pending_alerts_def case_prod_beta split: option.split)
qed

lemma fire_rows_ok: "rows_ok d \<Longrightarrow> rows_ok (fire_pending_alerts env now events x m d)"
  by (rule rows_ok_cong [OF core_map_keys [OF fire_pending_core] fire_next_id]) (auto dest: rows_ok_ids)

lemma fire_get:
  "rows_ok d \<Longrightarrow> get_extension (fire_pending_alerts env now events x m d) i = Some y \<Longrightarrow>
     \<exists>z. get_extension d i = Some z \<and> core y = core z"
  using core_map_get [OF fire_pending_core [OF rows_ok_ids], of d env now events x m i]
  by (cases "get_extension d i") auto

lemma fire_get_some:
  "rows_ok d \<Longrightarrow> get_extension d i = Some z \<Longrightarrow>
     \<exists>y. get_extension (fire_pending_alerts env now events x m d) i = Some y \<and> core y = core z"
  using core_map_get [OF fire_pending_core [OF rows_ok_ids], of d env now events x m i]
  by (cases "get_extension (fire_pending_alerts env now events x m d) i") auto

section \<open>Threat posture\<close>

lemma threat_transition_key [simp]: "ext_key (threat_transition x ms) = ext_key x"
proof -
  have "x_store (apply_threat_finding y es) = x_store y" "x_extension_id (apply_threat_finding y es) = x_extension_id y"
    for y es by (simp_all add: apply_threat_finding_def Let_def split: option.split)
  then show ?thesis by (simp add: threat_transition_def ext_key_def set_posture_def Let_def)
qed

lemma threat_transition_flag [simp]: "x_threat_match (threat_transition x ms) = (ms \<noteq> [])"
  by (simp add: threat_transition_def set_posture_def Let_def)

lemma merge_pending_put:
  "merge_pending_events x es d = (x', ap, d') \<Longrightarrow>
     \<exists>m. x' = x\<lparr>x_pending_alert_events := m\<rparr> \<and> d' = put_extension x' d"
  by (auto simp: merge_pending_events_def Let_def split: prod.splits)

lemma ext_key_marker [simp]: "ext_key (x\<lparr>x_pending_alert_events := m\<rparr>) = ext_key x"
  by (simp add: ext_key_def)

lemma ext_key_id: "ext_key x = ext_key y \<Longrightarrow> x_id x = x_id y"
  by (simp add: ext_key_def)

lemma apply_threat_row_put:
  assumes "apply_threat_row x ms d = (x', es, d')"
  shows "d' = put_extension x' d \<and> ext_key x' = ext_key x \<and> x_threat_match x' = (ms \<noteq> [])"
proof -
  obtain m where "x' = (threat_transition x ms)\<lparr>x_pending_alert_events := m\<rparr>" "d' = put_extension x' d"
    using merge_pending_put assms unfolding apply_threat_row_def Let_def by blast
  then show ?thesis by simp
qed

text \<open>Applying matches keeps identities; a row whose identity is processed ends up matched when
  the list has entries for it, and a matched row stays so.\<close>

definition posture_kept :: "db \<Rightarrow> db \<Rightarrow> bool" where
  "posture_kept d d' \<longleftrightarrow>
     ext_keys d' = ext_keys d \<and> db_next_id d' = db_next_id d \<and> db_threats d' = db_threats d \<and>
     (\<forall>i y. get_extension d' i = Some y \<longrightarrow>
        (\<exists>x. get_extension d i = Some x \<and> (x_threat_match x \<longrightarrow> x_threat_match y)))"

lemma posture_kept_refl [simp]: "posture_kept d d"
  by (simp add: posture_kept_def)

lemma posture_kept_trans: "posture_kept d e \<Longrightarrow> posture_kept e f \<Longrightarrow> posture_kept d f"
  unfolding posture_kept_def by metis

lemma posture_kept_put:
  assumes "distinct (extension_ids d)" "get_extension d (x_id x) = Some y" "ext_key x = ext_key y"
    "x_threat_match x"
  shows "posture_kept d (put_extension x d)"
  using put_extension_keys [OF assms(1-3)] assms(4)
  by (auto simp: posture_kept_def get_put_extension split: option.splits if_splits)

lemma threat_ids_kept:
  assumes "apply_threat_ids identity ids d = (ts, d')" "distinct (extension_ids d)"
    and "entries_for d (fst identity) (snd identity) \<noteq> []"
  shows "posture_kept d d' \<and> (\<forall>i \<in> set ids. \<forall>y. get_extension d' i = Some y \<longrightarrow> x_threat_match y)"
  using assms
proof (induction ids arbitrary: d ts)
  case (Cons i ids)
  show ?case
  proof (cases "get_extension d i")
    case None
    then have "apply_threat_ids identity ids d = (ts, d')" using Cons.prems(1) by simp
    note ih = Cons.IH [OF this Cons.prems(2,3)]
    then have "get_extension d' i = None"
      using None unfolding posture_kept_def by (metis option.exhaust option.distinct(1))
    with ih show ?thesis by simp
  next
    case (Some x)
    obtain x' es d1 where r: "apply_threat_row x (entries_for d (fst identity) (snd identity)) d = (x', es, d1)"
      by (metis prod_cases3)
    obtain rest where rest: "apply_threat_ids identity ids d1 = (rest, d')"
      using Cons.prems(1) Some r by (auto simp: Let_def split: prod.splits)
    have p: "d1 = put_extension x' d" "ext_key x' = ext_key x" "x_threat_match x'"
      using apply_threat_row_put [OF r] Cons.prems(3) by auto
    have id: "x_id x' = i" using ext_key_id [OF p(2)] get_extension_id [OF Some] by simp
    have k: "posture_kept d d1"
      unfolding p(1) using Cons.prems(2) Some p(2,3) id by (intro posture_kept_put) auto
    have "distinct (extension_ids d1)" "entries_for d1 (fst identity) (snd identity) \<noteq> []"
      using Cons.prems(2,3) k by (simp_all add: extension_ids_keys posture_kept_def entries_for_def)
    note ih = Cons.IH [OF rest this]
    have "x_threat_match y" if y: "get_extension d' i = Some y" for y
    proof -
      have "get_extension d1 i = Some x'" using Some id by (simp add: p(1) get_put_extension)
      with ih y p(3) show ?thesis unfolding posture_kept_def by fastforce
    qed
    with ih k posture_kept_trans show ?thesis by auto
  qed
qed simp

lemma identities_kept:
  assumes "apply_identities idents d = (ts, d')" "distinct (extension_ids d)"
    and "\<forall>k \<in> set idents. entries_for d (fst k) (snd k) \<noteq> []"
  shows "posture_kept d d' \<and>
     (\<forall>k \<in> set idents. \<forall>i \<in> set (tracked_ids d k). \<forall>y. get_extension d' i = Some y \<longrightarrow> x_threat_match y)"
  using assms
proof (induction idents arbitrary: d ts)
  case (Cons k ks)
  obtain r1 d1 where r: "apply_threat_ids k (tracked_ids d k) d = (r1, d1)" by fastforce
  obtain r2 where r2: "apply_identities ks d1 = (r2, d')"
    using Cons.prems(1) r by (auto split: prod.splits)
  have a: "posture_kept d d1" "\<forall>i \<in> set (tracked_ids d k). \<forall>y. get_extension d1 i = Some y \<longrightarrow> x_threat_match y"
    using threat_ids_kept [OF r Cons.prems(2)] Cons.prems(3) by auto
  have d1: "distinct (extension_ids d1)" "\<forall>k \<in> set ks. entries_for d1 (fst k) (snd k) \<noteq> []"
    using a(1) Cons.prems(2,3) by (simp_all add: extension_ids_keys posture_kept_def entries_for_def)
  have tr: "tracked_ids d1 k = tracked_ids d k" for k
  proof -
    have "tracked_ids d k = map fst (filter (\<lambda>(i, u, s, e). s = fst k \<and> identity_clause e (fst k) (snd k)) (ext_keys d))" for d
      by (simp add: tracked_ids_def ext_keys_def filter_map comp_def ext_key_def)
    then show ?thesis using a(1) by (simp add: posture_kept_def)
  qed
  note ih = Cons.IH [OF r2 d1]
  have "x_threat_match y" if "i \<in> set (tracked_ids d k)" "get_extension d' i = Some y" for i y
    using ih a(2) that unfolding posture_kept_def by metis
  with ih a(1) posture_kept_trans show ?case by (auto simp: tr)
qed simp

lemma existing_posture_kept:
  assumes "apply_existing_threat_posture x d = (es, d')" "rows_ok d" "get_extension d (x_id x) = Some x"
  shows "posture_kept d d' \<and>
     (threat_entries d x = [] \<longrightarrow> d' = d \<and> es = []) \<and>
     (threat_entries d x \<noteq> [] \<longrightarrow> (\<forall>y. get_extension d' (x_id x) = Some y \<longrightarrow> x_threat_match y))"
proof (cases "threat_entries d x = []")
  case True
  then show ?thesis using assms(1) by (simp add: apply_existing_threat_posture_def)
next
  case False
  let ?ks = "unique (map (\<lambda>e. (tl_store e, tl_extension_id e)) (threat_entries d x))"
  obtain ts where ts: "apply_identities ?ks d = (ts, d')"
    using assms(1) False
    by (auto simp: apply_existing_threat_posture_def apply_threat_matches_def split: prod.splits)
  have own: "entries_for d (tl_store e) (tl_extension_id e) \<noteq> [] \<and> x_id x \<in> set (tracked_ids d (tl_store e, tl_extension_id e))"
    if e: "e \<in> set (threat_entries d x)" for e
  proof -
    from e have m: "e \<in> set (db_threats d)" "tl_store e = x_store x"
      "identity_clause (tl_extension_id e) (x_store x) (x_extension_id x)"
      by (auto simp: threat_entries_def entries_for_def)
    have r: "identity_clause i s i" for i s by (simp add: identity_clause_def)
    have sym: "identity_clause a s b \<Longrightarrow> identity_clause b s a" for a s b by (auto simp: identity_clause_def split: if_splits)
    have "e \<in> set (entries_for d (tl_store e) (tl_extension_id e))"
      using m(1) r by (simp add: entries_for_def)
    moreover have "x_id x \<in> set (tracked_ids d (tl_store e, tl_extension_id e))"
      using m(2) sym [OF m(3)] get_extension_mem [OF assms(3)] by (auto simp: tracked_ids_def)
    ultimately show ?thesis by auto
  qed
  note k = identities_kept [OF ts rows_ok_ids [OF assms(2)]]
  obtain e where e: "e \<in> set (threat_entries d x)" using False by (cases "threat_entries d x") auto
  have "(tl_store e, tl_extension_id e) \<in> set ?ks" using e by auto
  with k own e False show ?thesis by auto
qed

section \<open>Fetching\<close>

lemma fetched_row_key [simp]: "ext_key (fetched_row env now md a x d) = ext_key x"
proof -
  have "x_store (apply_threat_finding y es) = x_store y" "x_extension_id (apply_threat_finding y es) = x_extension_id y"
    for y es by (simp_all add: apply_threat_finding_def Let_def split: option.split)
  then show ?thesis
    by (simp add: fetched_row_def ext_key_def Let_def) (simp add: apply_fetch_results_def Let_def set_posture_def)
qed

lemma fetched_row_time [simp]: "x_last_fetched_at (fetched_row env now md a x d) = Some now"
  by (simp add: fetched_row_def Let_def)

lemma next_id_mono:
  "db_next_id d \<le> db_next_id (snd (stage_install_reading now x md d))"
  "db_next_id d \<le> db_next_id (snd (capture_package_snapshot now x a d))"
  "db_next_id d \<le> db_next_id (add_fetch_log now i s so e b af d)"
  by (simp_all add: stage_install_reading_def capture_db insert_snapshot_def add_fetch_log_def split: option.split)

lemma fetch_and_store_kept:
  assumes "fetch_and_store env now x d = Inr (x2, es, d')" "rows_ok d"
  shows "ext_keys d' = ext_keys d \<and> rows_ok d' \<and>
     (\<exists>y. get_extension d' (x_id x) = Some y \<and> x_last_fetched_at y = Some now)"
proof -
  obtain md analysis locked where l: "get_extension d (x_id x) = Some locked"
    and s: "store_fetch env now md analysis locked d = (x2, es, d')"
    using assms(1) by (auto simp: fetch_and_store_def split: sum.splits option.splits)
  have id: "x_id locked = x_id x" using get_extension_id [OF l] .
  let ?f = "fetched_row env now md analysis locked d"
  obtain d3 caps evs where m: "merge_pending_events ?f evs d3 = (x2, es, d')"
    and d3: "d3 = add_fetch_log now (x_id locked) True False None (x_risk_score locked) (x_risk_score ?f)
            (snd (capture_package_snapshot now ?f analysis (snd (stage_install_reading now locked md d))))"
    and "caps = fst (capture_package_snapshot now ?f analysis (snd (stage_install_reading now locked md d)))"
    using store_fetch_decompose [OF s] by blast
  obtain mk where p: "x2 = ?f\<lparr>x_pending_alert_events := mk\<rparr>" "d' = put_extension x2 d3"
    using merge_pending_put [OF m] by blast
  have e3: "db_extensions d3 = db_extensions d" by (simp add: d3)
  have g: "get_extension d3 = get_extension d" using get_extension_cong [OF e3] .
  have k: "ext_key x2 = ext_key locked" by (simp add: p(1))
  have i: "x_id x2 = x_id x" using ext_key_id [OF k] id by simp
  have "distinct (extension_ids d3)" using rows_ok_ids [OF assms(2)] e3 by (simp add: extension_ids_def)
  from put_extension_keys [OF this, of x2 locked] have keys: "ext_keys d' = ext_keys d"
    using l i k g e3 by (simp add: p(2) ext_keys_def)
  have "db_next_id d \<le> db_next_id d3" unfolding d3 by (meson next_id_mono order_trans)
  then have "rows_ok d'" using rows_ok_cong [OF keys _ assms(2)] by (simp add: p(2))
  moreover have "get_extension d' (x_id x) = Some x2"
    using l i g by (simp add: p(2) get_put_extension)
  ultimately show ?thesis using keys by (simp add: p(1))
qed

definition clean :: "session \<Rightarrow> bool" where
  "clean s \<longleftrightarrow> ss_committed s = ss_now s"

lemma clean_simps [simp]:
  "clean (commit s)" "clean (rollback s)" "clean (fresh_session d)"
  "ss_now (commit s) = ss_now s" "ss_now (rollback s) = ss_committed s" "ss_now (fresh_session d) = d"
  "ss_now (elsewhere f s) = f (ss_now s)" "ss_now (stage f s) = f (ss_now s)"
  by (simp_all add: clean_def commit_def rollback_def fresh_session_def elsewhere_def stage_def)

lemma clean_elsewhere [simp]: "clean s \<Longrightarrow> clean (elsewhere f s)"
  by (simp add: clean_def elsewhere_def)

text \<open>What a fetch attempt leaves: a clean session, the same identities, and a row that is scored
  after a success and matched when the failure says it must be kept.\<close>

definition attempt_ok :: "instant \<Rightarrow> int \<Rightarrow> (fetch_failure + extension) \<Rightarrow> db \<Rightarrow> bool" where
  "attempt_ok now i r d \<longleftrightarrow>
     (case r of
        Inr y \<Rightarrow> x_id y = i \<and> (\<exists>z. get_extension d i = Some z \<and> x_last_fetched_at z = Some now)
      | Inl (StoreFailure p) \<Rightarrow> p \<longrightarrow> (\<exists>z. get_extension d i = Some z \<and> x_threat_match z)
      | Inl (Unexpected _) \<Rightarrow> True)"

lemma get_extension_key:
  "get_extension d i = None \<longleftrightarrow> i \<notin> fst ` set (ext_keys d)"
  by (fastforce simp: get_extension_def find_None_iff ext_keys_def ext_key_def image_iff)

lemma posture_rows_ok: "posture_kept d d' \<Longrightarrow> rows_ok d \<Longrightarrow> rows_ok d'"
  by (rule rows_ok_cong) (auto simp: posture_kept_def)

lemma fetch_and_score_ok:
  assumes h: "fetch_and_score env now i s = (r, s')" and c: "clean s" and ok: "rows_ok (ss_now s)"
  shows "clean s' \<and> rows_ok (ss_now s') \<and> ext_keys (ss_now s') = ext_keys (ss_now s) \<and>
     attempt_ok now i r (ss_now s')"
proof (cases "get_extension (ss_now s) i")
  case None
  then show ?thesis using assms by (auto simp: fetch_and_score_def attempt_ok_def)
next
  case (Some x)
  let ?d = "ss_now s"
  have xi: "x_id x = i" using get_extension_id [OF Some] .
  obtain es d1 where a: "apply_existing_threat_posture x ?d = (es, d1)" by fastforce
  define s1 where "s1 = (if threat_entries ?d x = [] then s else commit (s\<lparr>ss_now := d1\<rparr>))"
  have p: "posture_kept ?d d1" "threat_entries ?d x = [] \<longrightarrow> d1 = ?d \<and> es = []"
    "threat_entries ?d x \<noteq> [] \<longrightarrow> (\<forall>y. get_extension d1 i = Some y \<longrightarrow> x_threat_match y)"
    using existing_posture_kept [OF a ok] Some xi by auto
  have s1: "clean s1" "ss_now s1 = d1" using c p(2) by (auto simp: s1_def)
  have k1: "ext_keys d1 = ext_keys ?d" "rows_ok d1" using p(1) ok posture_rows_ok by (auto simp: posture_kept_def)
  obtain x1 where x1: "get_extension d1 i = Some x1"
    using Some k1(1) get_extension_key [of d1 i] get_extension_key [of ?d i] by fastforce
  have x1i: "x_id x1 = i" using get_extension_id [OF x1] .
  define s2 where "s2 = elsewhere (fire_pending_alerts (rv_posture env i) now es x1 None) s1"
  have s2: "clean s2" "rows_ok (ss_now s2)" "ext_keys (ss_now s2) = ext_keys ?d"
    using s1 k1 fire_rows_ok core_map_keys [OF fire_pending_core [OF rows_ok_ids]] by (simp_all add: s2_def)
  have f2: "\<exists>z. get_extension (ss_now s2) i = Some z \<and> x_threat_match z" if "es \<noteq> []"
  proof -
    have "x_threat_match x1" using that p(2,3) x1 by auto
    moreover obtain y where "get_extension (ss_now s2) i = Some y" "core y = core x1"
      using fire_get_some [OF k1(2) x1, of "rv_posture env i" now es x1 None] by (auto simp: s2_def s1(2))
    ultimately show ?thesis using core_frame by metis
  qed
  have h': "(case fetch_and_store (rv_fetch env i) now x1 (ss_now s2) of
        Inl e \<Rightarrow> if is_store_failure e
                then (Inl (StoreFailure (es \<noteq> [])),
                      commit (stage (add_fetch_log now i False False (Some (rv_scrub env (exn_text e)))
                         (x_risk_score x) None) s2))
                else (Inl (Unexpected (exn_text e)), s2)
      | Inr (x2, events, d3) \<Rightarrow>
          let s3 = commit (s2\<lparr>ss_now := d3\<rparr>)
          in (case get_extension d3 i of
                None \<Rightarrow> (Inl (Unexpected ''InvalidRequestError''), s3)
              | Some x3 \<Rightarrow> (Inr x3, elsewhere (fire_pending_alerts (rv_deliver env i) now events x3 None) s3))) = (r, s')"
    using h Some a x1 s1(2) by (simp add: fetch_and_score_def s1_def [symmetric] s2_def [symmetric])
  show ?thesis
  proof (cases "fetch_and_store (rv_fetch env i) now x1 (ss_now s2)")
    case (Inl e)
    define log where "log = add_fetch_log now i False False (Some (rv_scrub env (exn_text e))) (x_risk_score x) None"
    have l: "ext_keys (log d) = ext_keys d" "get_extension (log d) = get_extension d" "rows_ok d \<Longrightarrow> rows_ok (log d)" for d
    proof -
      show "get_extension (log d) = get_extension d" by (rule get_extension_cong) (simp add: log_def)
      show k: "ext_keys (log d) = ext_keys d" by (simp add: log_def ext_keys_def)
      show "rows_ok d \<Longrightarrow> rows_ok (log d)" using rows_ok_cong [OF k] next_id_mono(3) by (simp add: log_def)
    qed
    show ?thesis using h' Inl s2 f2 l by (auto simp: attempt_ok_def simp flip: log_def split: if_splits)
  next
    case (Inr t)
    obtain x2 events d3 where t: "t = (x2, events, d3)" by (cases t)
    have k3: "ext_keys d3 = ext_keys ?d" "rows_ok d3"
      "\<exists>y. get_extension d3 i = Some y \<and> x_last_fetched_at y = Some now"
      using fetch_and_store_kept [of "rv_fetch env i" now x1 "ss_now s2" x2 events d3] Inr t s2 x1i by auto
    obtain y where y: "get_extension d3 i = Some y" "x_last_fetched_at y = Some now" using k3(3) by blast
    have s': "r = Inr y" "s' = elsewhere (fire_pending_alerts (rv_deliver env i) now events y None) (commit (s2\<lparr>ss_now := d3\<rparr>))"
      using h' Inr t y by (simp_all add: Let_def)
    obtain z where "get_extension (ss_now s') i = Some z" "core z = core y"
      using fire_get_some [OF k3(2) y(1), of "rv_deliver env i" now events y None] s'(2) by auto
    then have "\<exists>z. get_extension (ss_now s') i = Some z \<and> x_last_fetched_at z = Some now"
      using core_frame y(2) by metis
    then show ?thesis
      using s' k3 fire_rows_ok core_map_keys [OF fire_pending_core [OF rows_ok_ids [OF k3(2)]]] get_extension_id [OF y(1)]
      by (auto simp: attempt_ok_def)
  qed
qed

section \<open>Placeholders\<close>

lemma find_extension_None:
  "find_extension d u st e = None \<longleftrightarrow> (Some u, st, e) \<notin> snd ` set (ext_keys d)"
proof
  assume "find_extension d u st e = None"
  then show "(Some u, st, e) \<notin> snd ` set (ext_keys d)"
    by (auto simp: find_extension_def find_None_iff ext_keys_def ext_key_def)
next
  assume "(Some u, st, e) \<notin> snd ` set (ext_keys d)"
  then show "find_extension d u st e = None"
    by (fastforce simp: find_extension_def find_None_iff ext_keys_def ext_key_def image_iff)
qed

lemma find_extension_Some:
  "find_extension d u st e = Some x \<Longrightarrow> x \<in> set (db_extensions d) \<and> ext_key x = (x_id x, Some u, st, e)"
  by (auto simp: find_extension_def find_Some_iff ext_key_def)

text \<open>The row of an identity is the row of its id.\<close>

lemma find_by_key:
  assumes "rows_ok d" "(i, Some u, st, e) \<in> set (ext_keys d)"
  shows "\<exists>x. find_extension d u st e = Some x \<and> x_id x = i \<and> get_extension d i = Some x"
proof -
  have "find_extension d u st e \<noteq> None" using assms(2) unfolding find_extension_None by force
  then obtain x where x: "find_extension d u st e = Some x" by blast
  note k = find_extension_Some [OF x]
  let ?own = "filter (\<lambda>k. fst (snd k) \<noteq> None) (ext_keys d)"
  have "(x_id x, Some u, st, e) \<in> set (ext_keys d)" using k by (auto simp: ext_keys_def image_iff) metis
  then have "(x_id x, Some u, st, e) \<in> set ?own" "(i, Some u, st, e) \<in> set ?own" using assms(2) by simp_all
  moreover have "inj_on snd (set ?own)" using assms(1) by (auto simp: rows_ok_def distinct_map)
  ultimately have "x_id x = i" by (metis fst_conv inj_onD snd_conv)
  then show ?thesis using x k get_unique [OF rows_ok_ids [OF assms(1)]] by auto
qed

lemma rows_ok_add:
  assumes "rows_ok d" "find_extension d u st e = None"
  shows "rows_ok (add_extension_row (placeholder now (db_next_id d) u st e) d) \<and>
     ext_keys (add_extension_row (placeholder now (db_next_id d) u st e) d) =
       ext_keys d @ [(db_next_id d, Some u, st, e)]"
  using assms unfolding find_extension_None
  by (auto simp: rows_ok_def add_extension_row_def ext_keys_def ext_key_def placeholder_def)

lemma audit_rows_ok:
  "ext_keys (audit_record now a act tt ti det d) = ext_keys d"
  "rows_ok d \<Longrightarrow> rows_ok (audit_record now a act tt ti det d)"
proof -
  show k: "ext_keys (audit_record now a act tt ti det d) = ext_keys d" by (simp add: ext_keys_def)
  show "rows_ok d \<Longrightarrow> rows_ok (audit_record now a act tt ti det d)"
    by (rule rows_ok_cong [OF k]) (simp_all add: audit_record_def)
qed

lemma create_placeholder_ok:
  assumes "create_placeholder now actor u st e via score d = (i, d')" "rows_ok d"
    "find_extension d u st e = None"
  shows "rows_ok d' \<and> i = db_next_id d \<and> ext_keys d' = ext_keys d @ [(i, Some u, st, e)]"
  using assms rows_ok_add [OF assms(2,3)] audit_rows_ok
  by (auto simp: create_placeholder_def Let_def)

lemma delete_row_keys: "ext_keys (delete_extension_row i d) = filter (\<lambda>k. fst k \<noteq> i) (ext_keys d)"
  by (simp add: delete_extension_row_def ext_keys_def Let_def filter_map comp_def ext_key_def)

lemma delete_rows_ok: "rows_ok d \<Longrightarrow> rows_ok (delete_extension_row i d)"
proof -
  assume ok: "rows_ok d"
  have n: "db_next_id (delete_extension_row i d) = db_next_id d"
    by (simp add: delete_extension_row_def Let_def)
  have "distinct (map snd (filter (\<lambda>k. fst k \<noteq> i) (filter (\<lambda>k. fst (snd k) \<noteq> None) (ext_keys d))))"
    by (rule distinct_map_filter) (use ok in \<open>simp add: rows_ok_def\<close>)
  then have "distinct (map snd (filter (\<lambda>k. fst (snd k) \<noteq> None) (filter (\<lambda>k. fst k \<noteq> i) (ext_keys d))))"
    unfolding filter_filter by (simp only: conj_commute)
  moreover have "distinct (map fst (filter (\<lambda>k. fst k \<noteq> i) (ext_keys d)))"
    by (rule distinct_map_filter) (use ok in \<open>simp add: rows_ok_def\<close>)
  moreover have "\<forall>k \<in> set (filter (\<lambda>k. fst k \<noteq> i) (ext_keys d)). fst k < db_next_id d"
    using ok by (simp add: rows_ok_def)
  ultimately show ?thesis unfolding rows_ok_def delete_row_keys n by blast
qed

text \<open>Discarding removes the row unless it is matched.\<close>

lemma discard_placeholder_ok:
  assumes "clean s" "rows_ok (ss_now s)"
  shows "clean (discard_placeholder now actor i s) \<and> rows_ok (ss_now (discard_placeholder now actor i s)) \<and>
     (ext_keys (ss_now (discard_placeholder now actor i s)) = filter (\<lambda>k. fst k \<noteq> i) (ext_keys (ss_now s)) \<or>
      discard_placeholder now actor i s = s \<and> (\<exists>x. get_extension (ss_now s) i = Some x \<and> x_threat_match x))"
proof (cases "get_extension (ss_now s) i")
  case None
  then have "filter (\<lambda>k. fst k \<noteq> i) (ext_keys (ss_now s)) = ext_keys (ss_now s)"
    unfolding get_extension_key by (auto simp: filter_id_conv)
  then show ?thesis using None assms by (simp add: discard_placeholder_def clean_def rollback_def)
next
  case (Some x)
  show ?thesis
  proof (cases "x_threat_match x")
    case True
    then show ?thesis using Some assms by (simp add: discard_placeholder_def clean_def rollback_def)
  next
    case False
    let ?d = "(ss_now s)\<lparr>db_fetch_logs := filter (\<lambda>l. fl_extension_id l \<noteq> i) (db_fetch_logs (ss_now s))\<rparr>"
    have "ext_keys ?d = ext_keys (ss_now s)" "rows_ok ?d"
      using assms(2) by (simp_all add: ext_keys_def rows_ok_def)
    then show ?thesis using Some False delete_row_keys delete_rows_ok audit_rows_ok
      by (simp add: discard_placeholder_def Let_def)
  qed
qed

section \<open>Properties\<close>

text \<open>What a row added by an enrolment looks like when the request ends.\<close>

definition monitored :: "instant \<Rightarrow> extension \<Rightarrow> bool" where
  "monitored now x \<longleftrightarrow> x_last_fetched_at x = Some now \<or> x_threat_match x"

lemma get_extension_keyed:
  "rows_ok d \<Longrightarrow> get_extension d i = Some x \<Longrightarrow> ext_key x \<in> set (ext_keys d) \<and> x_id x = i"
  by (auto simp: ext_keys_def dest: get_extension_mem get_extension_id)

text \<open>How the extension table may differ once the request is over.\<close>

definition settled :: "instant \<Rightarrow> int \<Rightarrow> string \<Rightarrow> string \<Rightarrow> db \<Rightarrow> db \<Rightarrow> bool" where
  "settled now u st e d c \<longleftrightarrow>
     ext_keys c = ext_keys d \<or>
     (ext_keys c = ext_keys d @ [(db_next_id d, Some u, st, e)] \<and>
      (\<exists>x. get_extension c (db_next_id d) = Some x \<and> monitored now x))"

definition answer_true :: "instant \<Rightarrow> int \<Rightarrow> string \<Rightarrow> enroll_result \<Rightarrow> db \<Rightarrow> bool" where
  "answer_true now u st res c \<longleftrightarrow>
     (case find_extension c u st (er_extension_id res) of
        None \<Rightarrow> er_status res \<in> {''invalid'', ''error''} \<and> er_id res = None
      | Some x \<Rightarrow>
          er_status res = ''duplicate'' \<and> er_id res = Some (x_id x) \<or>
          er_status res = ''added'' \<and> er_id res = Some (x_id x) \<and> x_last_fetched_at x = Some now \<or>
          er_status res = ''error'' \<and> er_id res = None \<and> x_threat_match x \<or>
          er_status res = ''invalid'')"

lemma find_extension_keys:
  "ext_keys c = ext_keys d \<Longrightarrow> find_extension d u st e = None \<Longrightarrow> find_extension c u st e = None"
  by (simp add: find_extension_None)

lemma filter_new:
  "rows_ok d \<Longrightarrow> filter (\<lambda>k. fst k \<noteq> db_next_id d) (ext_keys d) = ext_keys d"
  by (auto simp: rows_ok_def filter_id_conv)

lemma score_placeholder_ok:
  assumes h: "score_placeholder env now actor st e True i s = (r, s')" and c: "clean s"
    and ok: "rows_ok (ss_now s)" "rows_ok d" and new: "find_extension d u st e = None"
    and k: "ext_keys (ss_now s) = ext_keys d @ [(i, Some u, st, e)]" and i: "i = db_next_id d"
  shows "clean s' \<and> rows_ok (ss_now s') \<and> settled now u st e d (ss_now s') \<and>
     (\<forall>res. r = Inr res \<longrightarrow> answer_true now u st res (ss_now s'))"
proof -
  obtain f s1 where f: "fetch_and_score env now i s = (f, s1)" by fastforce
  have a: "clean s1" "rows_ok (ss_now s1)" "ext_keys (ss_now s1) = ext_keys d @ [(i, Some u, st, e)]"
    "attempt_ok now i f (ss_now s1)"
    using fetch_and_score_ok [OF f c ok(1)] k by auto
  have rb: "rollback s1 = s1" using a(1) by (simp add: rollback_def clean_def)
  obtain x where x: "find_extension (ss_now s1) u st e = Some x" "x_id x = i" "get_extension (ss_now s1) i = Some x"
    using find_by_key [OF a(2), of i u st e] a(3) by auto
  define s2 where "s2 = discard_placeholder now actor i s1"
  note disc = discard_placeholder_ok [OF a(1,2), of now actor i, folded s2_def]
  have d2: "clean s2" "rows_ok (ss_now s2)"
    "ext_keys (ss_now s2) = ext_keys d \<or> s2 = s1 \<and> x_threat_match x"
    using disc x(3) a(3) filter_new [OF ok(2)] i by auto
  have keep: "settled now u st e d (ss_now s1)" if "monitored now x"
    using that a(3) x(3) i by (simp add: settled_def)
  have d3: "settled now u st e d (ss_now s2)"
  proof (cases "ext_keys (ss_now s2) = ext_keys d")
    case True
    then show ?thesis by (simp add: settled_def)
  next
    case False
    with d2(3) keep show ?thesis by (simp add: monitored_def)
  qed
  have d4: "find_extension (ss_now s2) u st e = None \<or>
      (\<exists>y. find_extension (ss_now s2) u st e = Some y \<and> x_threat_match y)"
    using d2(3) find_extension_keys [OF _ new] x(1) by blast
  show ?thesis
  proof (cases f)
    case (Inr y)
    with f h have r: "r = Inr (enroll_result_of st e ''added'' (Some (x_id y)) None)" "s' = s1"
      by (simp_all add: score_placeholder_def)
    have "x_id y = i" "x_last_fetched_at x = Some now" using a(4) x(3) Inr by (auto simp: attempt_ok_def)
    then show ?thesis using r a x keep by (simp add: answer_true_def enroll_result_of_def monitored_def)
  next
    case (Inl g)
    show ?thesis
    proof (cases g)
      case (StoreFailure p)
      have r: "r = Inr (enroll_result_of st e ''error'' None (Some ''Failed to fetch extension from store''))"
        "s' = (if p then s1 else s2)"
        using f h Inl StoreFailure rb by (auto simp: score_placeholder_def s2_def)
      have "p \<longrightarrow> x_threat_match x" using a(4) x(3) Inl StoreFailure by (simp add: attempt_ok_def)
      then show ?thesis
        using r a(1,2) x(1) keep d2(1,2) d3 d4
        by (cases p) (auto simp: answer_true_def enroll_result_of_def monitored_def)
    next
      case (Unexpected w)
      then have "isl r" "s' = s2" using f h Inl rb by (auto simp: score_placeholder_def s2_def)
      then show ?thesis using d2 d3 by auto
    qed
  qed
qed



end
