(* ===== verification/Regex.thy ===== *)
theory Regex
  imports Prelude
begin

text \<open>
  The part of Python's \<open>re\<close> the package scanner uses: literals, character classes, greedy
  repetition of a class, alternatives, \<open>\b\<close> and \<open>$\<close>. A state is the character just passed and the
  text left; \<open>steps\<close> lists the states a backtracking matcher can reach, in the order it tries
  them, so the first one is the match.
\<close>

type_synonym position = "char option \<times> string"

datatype rx =
    Eps
  | Cls "char \<Rightarrow> bool"
  | Star "char \<Rightarrow> bool"
  | Bound
  | End
  | Seq rx rx
  | Alt rx rx

definition is_word_char :: "char \<Rightarrow> bool" where
  "is_word_char c \<longleftrightarrow> is_letter_ascii c \<or> is_digit_ascii c \<or> c = CHR ''_''"

definition word_next :: "string \<Rightarrow> bool" where
  "word_next s = (case s of [] \<Rightarrow> False | c # _ \<Rightarrow> is_word_char c)"

definition word_before :: "char option \<Rightarrow> bool" where
  "word_before p = (case p of None \<Rightarrow> False | Some c \<Rightarrow> is_word_char c)"

text \<open>Greedy: the longest run first.\<close>

fun star_steps :: "(char \<Rightarrow> bool) \<Rightarrow> char option \<Rightarrow> string \<Rightarrow> position list" where
  "star_steps p before_c [] = [(before_c, [])]"
| "star_steps p before_c (c # s) =
     (if p c then star_steps p (Some c) s else []) @ [(before_c, c # s)]"

fun steps :: "rx \<Rightarrow> position \<Rightarrow> position list" where
  "steps Eps st = [st]"
| "steps (Cls p) (b, []) = []"
| "steps (Cls p) (b, c # s) = (if p c then [(Some c, s)] else [])"
| "steps (Star p) (b, s) = star_steps p b s"
| "steps Bound (b, s) = (if word_before b \<noteq> word_next s then [(b, s)] else [])"
| "steps End (b, s) = (if s = [] \<or> s = [CHR 0x0A] then [(b, s)] else [])"
| "steps (Seq q r) st = concat (map (steps r) (steps q st))"
| "steps (Alt q r) st = steps q st @ steps r st"

definition lit :: "string \<Rightarrow> rx" where
  "lit s = foldr (\<lambda>c. Seq (Cls (\<lambda>x. x = c))) s Eps"

definition lit_nocase :: "string \<Rightarrow> rx" where
  "lit_nocase s = foldr (\<lambda>c. Seq (Cls (\<lambda>x. lower_char x = lower_char c))) s Eps"

definition plus :: "(char \<Rightarrow> bool) \<Rightarrow> rx" where
  "plus p = Seq (Cls p) (Star p)"

definition seqs :: "rx list \<Rightarrow> rx" where
  "seqs rs = foldr Seq rs Eps"

definition alts :: "rx list \<Rightarrow> rx" where
  "alts rs = foldr Alt (butlast rs) (last rs)"

definition opt :: "rx \<Rightarrow> rx" where
  "opt r = Alt r Eps"

definition spaces :: rx where "spaces = Star is_py_space"
definition spaces1 :: rx where "spaces1 = plus is_py_space"

section \<open>Searching\<close>

text \<open>\<open>re.match\<close>\<close>

definition rx_match :: "rx \<Rightarrow> string \<Rightarrow> bool" where
  "rx_match r s \<longleftrightarrow> steps r (None, s) \<noteq> []"

text \<open>\<open>re.search\<close>: the index at which the first match starts.\<close>

fun search_at :: "rx \<Rightarrow> nat \<Rightarrow> char option \<Rightarrow> string \<Rightarrow> nat option" where
  "search_at r i b [] = (if steps r (b, []) \<noteq> [] then Some i else None)"
| "search_at r i b (c # s) =
     (if steps r (b, c # s) \<noteq> [] then Some i else search_at r (Suc i) (Some c) s)"

definition rx_search :: "rx \<Rightarrow> string \<Rightarrow> nat option" where
  "rx_search r s = search_at r 0 None s"

definition rx_found :: "rx \<Rightarrow> string \<Rightarrow> bool" where
  "rx_found r s \<longleftrightarrow> rx_search r s \<noteq> None"

text \<open>\<open>re.finditer\<close> of a pattern whose last part \<open>g\<close> is its group, for patterns that never match
  the empty text: the texts of the group, without overlap.\<close>

definition group_steps :: "rx \<Rightarrow> rx \<Rightarrow> position \<Rightarrow> (position \<times> position) list" where
  "group_steps r g st = concat (map (\<lambda>m. map (Pair m) (steps g m)) (steps r st))"

function find_groups :: "rx \<Rightarrow> rx \<Rightarrow> char option \<Rightarrow> string \<Rightarrow> string list" where
  "find_groups r g b [] = []"
| "find_groups r g b (c # s) =
     (case group_steps r g (b, c # s) of
        (m, e) # _ \<Rightarrow>
          if length (snd e) < length (c # s)
          then take (length (snd m) - length (snd e)) (snd m) # find_groups r g (fst e) (snd e)
          else find_groups r g (Some c) s
      | [] \<Rightarrow> find_groups r g (Some c) s)"
  by pat_completeness auto
termination by (relation "measure (\<lambda>(_, _, _, s). length s)") auto

definition find_all :: "rx \<Rightarrow> string \<Rightarrow> string list" where
  "find_all r s = find_groups Eps r None s"

section \<open>Laws\<close>

lemma star_steps_suffix:
  "(b', t) \<in> set (star_steps p b s) \<Longrightarrow> \<exists>u. s = u @ t \<and> list_all p u"
proof (induction p b s rule: star_steps.induct)
  case (2 p b c s)
  then show ?case
    by (cases "p c \<and> (b', t) \<in> set (star_steps p (Some c) s)")
      (force intro: exI [of _ "c # u" for u], auto split: if_splits)
qed simp

text \<open>A match consumes a prefix of the text.\<close>

lemma steps_suffix: "(b', t) \<in> set (steps r (b, s)) \<Longrightarrow> \<exists>u. s = u @ t"
proof (induction r arbitrary: b s b' t)
  case (Cls p)
  then show ?case by (cases s) (auto split: if_splits)
next
  case (Star p)
  then show ?case by (auto dest: star_steps_suffix)
next
  case (Seq q r)
  then obtain b1 s1 where "(b1, s1) \<in> set (steps q (b, s))" "(b', t) \<in> set (steps r (b1, s1))" by auto
  then show ?case using Seq.IH by (metis append.assoc)
next
  case (Alt q r)
  then show ?case by auto
qed (auto split: if_splits)

lemma search_at_bound: "search_at r i b s = Some k \<Longrightarrow> i \<le> k \<and> k \<le> i + length s"
  by (induction r i b s rule: search_at.induct) (auto split: if_splits)

lemma rx_search_bound: "rx_search r s = Some k \<Longrightarrow> k \<le> length s"
  using search_at_bound by (force simp: rx_search_def)

text \<open>Every text found is a piece of the text searched.\<close>

lemma group_steps_piece:
  assumes "(m, e) \<in> set (group_steps r g (b, s))"
  shows "\<exists>u v. s = u @ v @ snd e \<and> take (length (snd m) - length (snd e)) (snd m) = v"
proof -
  have m: "m \<in> set (steps r (b, s))" "e \<in> set (steps g m)"
    using assms by (auto simp: group_steps_def)
  obtain u where u: "s = u @ snd m" using steps_suffix m(1) by (metis prod.collapse)
  obtain v where v: "snd m = v @ snd e" using steps_suffix m(2) by (metis prod.collapse)
  show ?thesis using u v by simp
qed

lemma find_groups_in: "w \<in> set (find_groups r g b s) \<Longrightarrow> \<exists>u v. s = u @ w @ v"
proof (induction r g b s rule: find_groups.induct)
  case (2 r g b c s)
  have skip: "\<exists>u v. c # s = u @ w @ v" if "\<exists>u v. s = u @ w @ v"
    using that by (metis append_Cons)
  show ?case
  proof (cases "group_steps r g (b, c # s)")
    case Nil
    then show ?thesis using 2 skip by simp
  next
    case (Cons me rest)
    obtain m e where me: "me = (m, e)" by (cases me)
    have "(m, e) \<in> set (group_steps r g (b, c # s))" using Cons me by simp
    from group_steps_piece [OF this] obtain u v where
      uv: "c # s = u @ v @ snd e" "take (length (snd m) - length (snd e)) (snd m) = v" by blast
    show ?thesis
    proof (cases "length (snd e) < length (c # s)")
      case True
      then have "w = v \<or> w \<in> set (find_groups r g (fst e) (snd e))"
        using "2.prems" Cons me uv(2) by simp
      then show ?thesis
      proof
        assume "w = v"
        then show ?thesis using uv(1) by blast
      next
        assume w: "w \<in> set (find_groups r g (fst e) (snd e))"
        obtain x y where "snd e = x @ w @ y" using "2.IH"(2) [OF Cons me [symmetric]] True w by auto
        then have "c # s = (u @ v @ x) @ w @ y" using uv(1) by simp
        then show ?thesis by blast
      qed
    next
      case False
      then have "w \<in> set (find_groups r g (Some c) s)" using "2.prems" Cons me by simp
      then show ?thesis using "2.IH"(3) [OF Cons me [symmetric]] False skip by blast
    qed
  qed
qed simp

end
