(* ===== verification/Manifest.thy ===== *)
theory Manifest
  imports Pipeline Regex
begin

text \<open>
  The archive and manifest half of \<open>app/inspector.py\<close>: locating the ZIP payload, choosing and
  reading the manifest, its comments, the fields taken from it, the entries it names as code, and
  the findings about it.

  \<open>zipfile\<close> decodes a compressed format and BeautifulSoup is a third-party parser, so both are
  arguments, as are \<open>json.loads\<close> on a text, the decoding of bytes and SHA-256. An archive is the
  list of its entries; of two entries of one name, the later one is what a name refers to.
\<close>

section \<open>Archives\<close>

text \<open>\<open>ze_content\<close> is what reading the entry gives, or the text of the exception.\<close>

record zip_entry =
  ze_name :: string
  ze_file_size :: nat
  ze_content :: "string + string"

type_synonym archive = "zip_entry list"

text \<open>An attribute of a tag as the parser hands it over.\<close>

datatype attribute = Missing | Single string | Several "string list"

record script_tag =
  tg_type :: attribute
  tg_src :: attribute
  tg_body :: "string option"
  tg_sourceline :: "int option"

record inspect_env =
  ie_zipfile :: "string \<Rightarrow> string + archive"
  ie_sha256 :: "string \<Rightarrow> string"
  ie_loads :: "string \<Rightarrow> string + json"
  ie_decode :: "string \<Rightarrow> string"
  ie_scripts :: "string \<Rightarrow> script_tag list"

definition namelist :: "archive \<Rightarrow> string list" where
  "namelist zf = map ze_name zf"

definition getinfo :: "archive \<Rightarrow> string \<Rightarrow> zip_entry option" where
  "getinfo zf name = find (\<lambda>e. ze_name e = name) (rev zf)"

definition ZIP_MAGIC :: string where
  "ZIP_MAGIC = [CHR ''P'', CHR ''K'', CHR 0x03, CHR 0x04]"

definition MAX_FILE_COUNT :: nat where "MAX_FILE_COUNT = 500"
definition MAX_JS_BYTES :: nat where "MAX_JS_BYTES = 5 * 1024 * 1024"
definition MAX_TOTAL_BYTES :: nat where "MAX_TOTAL_BYTES = 50 * 1024 * 1024"
definition MAX_MANIFEST_BYTES :: nat where "MAX_MANIFEST_BYTES = 1024 * 1024"
definition MAX_FINDINGS :: nat where "MAX_FINDINGS = 200"
definition MAX_EXTERNAL_DOMAINS :: nat where "MAX_EXTERNAL_DOMAINS = 500"
definition MAX_EXTERNAL_URLS :: nat where "MAX_EXTERNAL_URLS = 500"
definition MAX_NETWORK_CALLOUT_URLS :: nat where "MAX_NETWORK_CALLOUT_URLS = 500"

definition zip_payload :: "string \<Rightarrow> string option" where
  "zip_payload data =
     (if starts_with data ZIP_MAGIC then Some data
      else map_option (\<lambda>offset. drop offset data) (find_sub data ZIP_MAGIC))"

section \<open>Findings\<close>

definition mk_finding ::
    "string \<Rightarrow> string \<Rightarrow> string \<Rightarrow> string \<Rightarrow> string \<Rightarrow> string option \<Rightarrow> int option \<Rightarrow> package_finding" where
  "mk_finding code severity title detail source file line =
     \<lparr>pf_code = code, pf_severity = severity, pf_title = title, pf_detail = detail,
      pf_source = source, pf_file = file, pf_line = line\<rparr>"

definition finding_identity :: "package_finding \<Rightarrow> finding_key_tuple" where
  "finding_identity f = (pf_code f, pf_severity f, pf_source f, pf_file f, pf_line f, pf_detail f)"

definition add_finding :: "package_finding \<Rightarrow> package_analysis \<Rightarrow> package_analysis" where
  "add_finding f a =
     (if finding_identity f \<notin> pa_finding_keys a \<and> length (pa_findings a) < MAX_FINDINGS
      then a\<lparr>pa_finding_keys := insert (finding_identity f) (pa_finding_keys a),
             pa_findings := pa_findings a @ [f]\<rparr>
      else a)"

section \<open>Reading the manifest\<close>

text \<open>Comments become blanks of the same length; strings are copied, escapes in pairs. The end of
  a block comment counts from its opening slash, which \<open>s\<close> follows.\<close>

definition comment_end :: "string \<Rightarrow> nat" where
  "comment_end s = (case find_sub (tl s) ''*/'' of None \<Rightarrow> length s + 1 | Some j \<Rightarrow> j + 4)"

function strip_comments :: "bool \<Rightarrow> string \<Rightarrow> string" where
  "strip_comments in_string [] = []"
| "strip_comments True (c # s) =
     (if c = CHR 0x5C \<and> s \<noteq> [] then c # hd s # strip_comments True (tl s)
      else c # strip_comments (c \<noteq> CHR 0x22) s)"
| "strip_comments False (c # s) =
     (if c = CHR 0x22 then c # strip_comments True s
      else if c = CHR ''/'' \<and> s \<noteq> [] \<and> hd s = CHR ''/''
      then replicate (length (takeWhile (\<lambda>x. x \<noteq> CHR 0x0A) (c # s))) (CHR '' '') @
           strip_comments False (dropWhile (\<lambda>x. x \<noteq> CHR 0x0A) s)
      else if c = CHR ''/'' \<and> s \<noteq> [] \<and> hd s = CHR ''*''
      then map (\<lambda>x. if x \<noteq> CHR 0x0A then CHR '' '' else x) (take (comment_end s) (c # s)) @
           strip_comments False (drop (comment_end s - 1) s)
      else c # strip_comments False s)"
  by pat_completeness auto
termination
  by (relation "measure (\<lambda>(_, s). length s)") (auto simp: less_Suc_eq_le length_dropWhile_le)

definition strip_json_comments :: "string \<Rightarrow> string" where
  "strip_json_comments t = strip_comments False t"

definition type_name :: "json \<Rightarrow> string" where
  "type_name v =
     (case v of JNull \<Rightarrow> ''NoneType'' | JBool _ \<Rightarrow> ''bool'' | JInt _ \<Rightarrow> ''int'' | JFloat _ \<Rightarrow> ''float''
      | JStr _ \<Rightarrow> ''str'' | JArr _ \<Rightarrow> ''list'' | JObj _ \<Rightarrow> ''dict'')"

definition manifest_too_large :: "nat \<Rightarrow> string" where
  "manifest_too_large n = ''Manifest too large ('' @ show_nat n @ '' bytes)''"

text \<open>The left side is the text of the exception.\<close>

definition read_manifest_json :: "inspect_env \<Rightarrow> archive \<Rightarrow> string \<Rightarrow> string + jobject" where
  "read_manifest_json env zf name =
     (case getinfo zf name of
        None \<Rightarrow> Inl (''There is no item named '' @ name)
      | Some info \<Rightarrow>
          if ze_file_size info > MAX_MANIFEST_BYTES then Inl (manifest_too_large (ze_file_size info))
          else (case ze_content info of
                  Inl e \<Rightarrow> Inl e
                | Inr raw \<Rightarrow>
                    if length raw > MAX_MANIFEST_BYTES then Inl (manifest_too_large (length raw))
                    else
                      let t = ie_decode env (remove_prefix raw [CHR 0xEF, CHR 0xBB, CHR 0xBF]);
                          parsed = (case ie_loads env t of
                                      Inr v \<Rightarrow> Inr v
                                    | Inl _ \<Rightarrow> ie_loads env (strip_json_comments t))
                      in (case parsed of
                            Inl e \<Rightarrow> Inl e
                          | Inr (JObj d) \<Rightarrow> Inr d
                          | Inr v \<Rightarrow> Inl (''Manifest is not a JSON object ('' @ type_name v @ '')''))))"

definition manifest_candidates :: "string list" where
  "manifest_candidates = [''manifest.json'', ''extension/package.json'', ''package.json'']"

text \<open>The exact name, or the last entry whose name differs in case only.\<close>

definition candidate_name :: "archive \<Rightarrow> string \<Rightarrow> string option" where
  "candidate_name zf candidate =
     (if candidate \<in> set (namelist zf) then Some candidate
      else find (\<lambda>n. lower n = candidate) (rev (namelist zf)))"

fun load_candidates ::
    "inspect_env \<Rightarrow> archive \<Rightarrow> string list \<Rightarrow> inspect_exn + (jobject \<times> string) option" where
  "load_candidates env zf [] = Inr None"
| "load_candidates env zf (c # cs) =
     (case candidate_name zf c of
        None \<Rightarrow> load_candidates env zf cs
      | Some name \<Rightarrow>
          (case read_manifest_json env zf name of
             Inl e \<Rightarrow> Inl (InspectorError (''Manifest present but unparsable ('' @ name @ '': '' @ e @ '')''))
           | Inr d \<Rightarrow> Inr (Some (d, name))))"

definition load_manifest :: "inspect_env \<Rightarrow> archive \<Rightarrow> inspect_exn + (jobject \<times> string) option" where
  "load_manifest env zf = load_candidates env zf manifest_candidates"

section \<open>Fields\<close>

definition get_or :: "jobject \<Rightarrow> string \<Rightarrow> json \<Rightarrow> json" where
  "get_or d k dflt = (case dict_get d k of Some v \<Rightarrow> v | None \<Rightarrow> dflt)"

definition host_prefixes :: "string list" where
  "host_prefixes = [''http://'', ''https://'', ''<'', ''*://'', ''file://'']"

definition is_host_pattern :: "string \<Rightarrow> bool" where
  "is_host_pattern p \<longleftrightarrow> list_ex (starts_with p) host_prefixes"

text \<open>The loop over a copy of the permissions.\<close>

definition move_host :: "string \<Rightarrow> package_analysis \<Rightarrow> package_analysis" where
  "move_host p a =
     (if is_host_pattern p
      then a\<lparr>pa_host_permissions := pa_host_permissions a @ [p],
             pa_permissions := remove1 p (pa_permissions a)\<rparr>
      else a)"

definition move_host_patterns :: "package_analysis \<Rightarrow> package_analysis" where
  "move_host_patterns a = fold move_host (pa_permissions a) a"

definition is_vscode_package :: "jobject \<Rightarrow> string \<Rightarrow> bool" where
  "is_vscode_package manifest manifest_name \<longleftrightarrow>
     lower (last (split_on (CHR ''/'') manifest_name)) = ''package.json'' \<or>
     (case dict_get_none manifest ''engines'' of
        JObj engines \<Rightarrow> dict_get engines ''vscode'' \<noteq> None | _ \<Rightarrow> False) \<or>
     (dict_get manifest ''contributes'' \<noteq> None \<and> dict_get manifest ''manifest_version'' = None)"

definition base_fields :: "jobject \<Rightarrow> package_analysis \<Rightarrow> package_analysis" where
  "base_fields manifest a =
     (let author = (case get_or manifest ''author'' (JStr []) of
                      JObj d \<Rightarrow> get_or d ''name'' (JStr []) | v \<Rightarrow> v);
          a1 = a\<lparr>pa_manifest_version := get_or manifest ''manifest_version'' (JInt 2),
                 pa_version := py_str (get_or manifest ''version'' (JStr [])),
                 pa_author := py_str author\<rparr>;
          a2 = (case get_or manifest ''permissions'' (JArr []) of
                  JArr ps \<Rightarrow> a1\<lparr>pa_permissions := map py_str ps\<rparr> | _ \<Rightarrow> a1);
          a3 = (case get_or manifest ''host_permissions'' (JArr []) of
                  JArr hs \<Rightarrow> a2\<lparr>pa_host_permissions := map py_str hs\<rparr>
                | JStr h \<Rightarrow> a2\<lparr>pa_host_permissions := [h]\<rparr>
                | _ \<Rightarrow> a2)
      in move_host_patterns a3)"

section \<open>Manifest risks\<close>

text \<open>\<open>v < 3\<close>; \<open>None\<close> is the \<open>TypeError\<close> of a value that is no number. A float is read off its
  \<open>repr\<close>.\<close>

definition float_below_3 :: "string \<Rightarrow> bool" where
  "float_below_3 r \<longleftrightarrow>
     (if r = ''nan'' \<or> r = ''inf'' then False
      else if starts_with r ''-'' then True
      else if CHR ''e'' \<in> set r then contains r ''e-''
      else takeWhile (\<lambda>c. c \<noteq> CHR ''.'') r \<in> {''0'', ''1'', ''2''})"

definition below_3 :: "json \<Rightarrow> bool option" where
  "below_3 v =
     (case v of JInt i \<Rightarrow> Some (i < 3) | JBool _ \<Rightarrow> Some True | JFloat r \<Rightarrow> Some (float_below_3 r)
      | _ \<Rightarrow> None)"

definition is_broad_host_permission :: "string \<Rightarrow> bool" where
  "is_broad_host_permission p \<longleftrightarrow>
     p \<in> BROAD_HOST_PATTERNS \<or> (starts_with p ''*://'' \<and> ends_with p ''/*'')"

definition iter_csp_values :: "json \<Rightarrow> string list" where
  "iter_csp_values raw =
     (case raw of JStr s \<Rightarrow> [s] | JObj d \<Rightarrow> map py_str (filter truthy (map snd d)) | _ \<Rightarrow> [])"

definition BROAD_WILDCARD_SRC_RE :: rx where
  "BROAD_WILDCARD_SRC_RE =
     seqs [lit ''http'', opt (lit ''s''), lit ''://*'', Alt (Cls (\<lambda>c. c = CHR '':'' \<or> c = CHR ''/'')) End]"

definition broad_directive :: "string \<Rightarrow> bool" where
  "broad_directive directive0 \<longleftrightarrow>
     (let directive = strip directive0;
          parts = tl (split_words directive)
      in list_ex (starts_with directive) [''script-src'', ''default-src'', ''worker-src''] \<and>
         (''*'' \<in> set parts \<or> list_ex (rx_match BROAD_WILDCARD_SRC_RE) parts))"

definition csp_allows_wildcard_script :: "string \<Rightarrow> bool" where
  "csp_allows_wildcard_script csp_text \<longleftrightarrow> list_ex broad_directive (split_on (CHR '';'') csp_text)"

definition manifest_finding :: "string \<Rightarrow> string \<Rightarrow> string \<Rightarrow> string \<Rightarrow> package_finding" where
  "manifest_finding code severity title detail =
     mk_finding code severity title detail ''manifest'' None None"

definition host_findings :: "string \<Rightarrow> package_finding list" where
  "host_findings pattern =
     (if is_broad_host_permission pattern
      then [manifest_finding ''broad_host_access'' ''critical'' ''Broad host access''
              (''Host permission '' @ repr_str pattern @ '' allows access across many websites.'')]
      else [])"

definition permission_findings :: "string \<Rightarrow> package_finding list" where
  "permission_findings permission =
     (if permission \<in> CRITICAL_PERMISSIONS
      then [manifest_finding ''high_risk_permission'' ''critical'' ''Critical permission''
              (''Permission '' @ repr_str permission @ '' can expose sensitive browser capabilities.'')]
      else if permission \<in> HIGH_PERMISSIONS
      then [manifest_finding ''high_risk_permission'' ''high'' ''High-risk permission''
              (''Permission '' @ repr_str permission @ '' can expose sensitive user or browser data.'')]
      else [])"

definition csp_findings :: "string \<Rightarrow> package_finding list" where
  "csp_findings csp_text =
     (let lowered = lower csp_text in
      (if contains lowered ''unsafe-eval''
       then [manifest_finding ''csp_unsafe_eval'' ''high'' ''Unsafe CSP allows eval''
               ''The extension content security policy allows eval-like code execution.''] else [])
      @ (if contains lowered ''unsafe-inline''
         then [manifest_finding ''csp_unsafe_inline'' ''medium'' ''Unsafe CSP allows inline code''
                 ''The extension content security policy allows inline script or style execution.''] else [])
      @ (if contains lowered ''http://''
         then [manifest_finding ''csp_insecure_remote_source'' ''high'' ''Insecure CSP remote source''
                 ''The extension content security policy permits an insecure http:// source.''] else [])
      @ (if csp_allows_wildcard_script lowered
         then [manifest_finding ''csp_wildcard_script_source'' ''medium'' ''Broad CSP script source''
                 ''The extension content security policy permits a broad script source.''] else []))"

definition manifest_risks :: "jobject \<Rightarrow> package_analysis \<Rightarrow> bool \<Rightarrow> package_finding list" where
  "manifest_risks manifest a v2 =
     (if v2 then [manifest_finding ''manifest_v2'' ''medium'' ''Manifest V2 extension''
                    ''Manifest V2 has a broader legacy execution model than Manifest V3.''] else [])
     @ concat (map host_findings (pa_host_permissions a))
     @ concat (map permission_findings (pa_permissions a))
     @ concat (map csp_findings (iter_csp_values (dict_get_none manifest ''content_security_policy'')))"

definition analyse_manifest_risks :: "jobject \<Rightarrow> package_analysis \<Rightarrow> inspect_exn + package_analysis" where
  "analyse_manifest_risks manifest a =
     (case below_3 (pa_manifest_version a) of
        None \<Rightarrow> Inl (InspectorOther ''TypeError'')
      | Some v2 \<Rightarrow> Inr (fold add_finding (manifest_risks manifest a v2) a))"

definition extract_manifest_fields ::
    "jobject \<Rightarrow> package_analysis \<Rightarrow> string \<Rightarrow> inspect_exn + package_analysis" where
  "extract_manifest_fields manifest a manifest_name =
     (let a1 = base_fields manifest a in
      if is_vscode_package manifest manifest_name then Inr (a1\<lparr>pa_permissions := []\<rparr>)
      else analyse_manifest_risks manifest a1)"

section \<open>Entries the manifest names as code\<close>

definition candidate_path :: "string \<Rightarrow> string" where
  "candidate_path path =
     (let c = lstrip_by (\<lambda>x. x = CHR ''/'')
                (takeWhile (\<lambda>x. x \<noteq> CHR ''#'') (takeWhile (\<lambda>x. x \<noteq> CHR ''?'') path))
      in if starts_with c ''./'' then drop 2 c else c)"

definition resolve_archive_path :: "string \<Rightarrow> string set \<Rightarrow> string set" where
  "resolve_archive_path path names =
     (let candidate = candidate_path path in
      if candidate = [] \<or> ''..'' \<in> set (split_on (CHR ''/'') candidate) then {}
      else {n \<in> {candidate, ''extension/'' @ candidate}. n \<in> names})"

definition referenced_values :: "jobject \<Rightarrow> json list" where
  "referenced_values manifest =
     (case dict_get_none manifest ''background'' of
        JObj b \<Rightarrow> [dict_get_none b ''service_worker'', dict_get_none b ''page'']
                  @ (case dict_get_none b ''scripts'' of JArr ss \<Rightarrow> ss | _ \<Rightarrow> [])
      | _ \<Rightarrow> [])
     @ (case dict_get_none manifest ''content_scripts'' of
          JArr es \<Rightarrow> concat (map (\<lambda>e. case e of
                       JObj d \<Rightarrow> (case dict_get_none d ''js'' of JArr js \<Rightarrow> js | _ \<Rightarrow> []) | _ \<Rightarrow> []) es)
        | _ \<Rightarrow> [])
     @ map (dict_get_none manifest) [''devtools_page'', ''options_page'', ''main'', ''browser'']
     @ concat (map (\<lambda>key. case dict_get_none manifest key of
                  JObj d \<Rightarrow> [dict_get_none d ''default_popup'', dict_get_none d ''page''] | _ \<Rightarrow> [])
         [''action'', ''browser_action'', ''page_action'', ''options_ui''])
     @ (case dict_get_none manifest ''chrome_url_overrides'' of JObj d \<Rightarrow> map snd d | _ \<Rightarrow> [])
     @ (case dict_get_none manifest ''sandbox'' of
          JObj d \<Rightarrow> (case dict_get_none d ''pages'' of JArr ps \<Rightarrow> ps | _ \<Rightarrow> []) | _ \<Rightarrow> [])"

definition manifest_referenced_paths :: "archive \<Rightarrow> jobject option \<Rightarrow> string set" where
  "manifest_referenced_paths zf manifest =
     (case manifest of
        None \<Rightarrow> {}
      | Some [] \<Rightarrow> {}
      | Some d \<Rightarrow>
          \<Union> (set (map (\<lambda>p. resolve_archive_path p (set (namelist zf)))
                       (filter (\<lambda>p. p \<noteq> []) (only_strings (referenced_values d))))))"

definition SCAN_SUFFIXES :: "string list" where
  "SCAN_SUFFIXES = [''.js'', ''.mjs'', ''.cjs'', ''.jsx'', ''.html'', ''.htm'']"

definition HTML_SUFFIXES :: "string list" where "HTML_SUFFIXES = [''.html'', ''.htm'']"

definition script_files :: "archive \<Rightarrow> jobject option \<Rightarrow> string list" where
  "script_files zf manifest =
     unique (filter (\<lambda>n. list_ex (ends_with (lower n)) SCAN_SUFFIXES \<or>
                         n \<in> manifest_referenced_paths zf manifest) (namelist zf))"

end
