(* ===== verification/Code_Scan.thy ===== *)
theory Code_Scan
  imports Manifest Extension_Ids
begin

text \<open>
  The behaviour scan of \<open>app/inspector.py\<close> over scripts and packaged pages: the patterns, the
  findings they raise, the external and called URLs, the minification and obfuscation heuristics,
  and the masking of a page to its script bodies.

  The ratios of the heuristics are compared as exact fractions; for texts below the size limit
  the floats of the source decide the same way.
\<close>

section \<open>Patterns\<close>

definition url_tail_char :: "char \<Rightarrow> bool" where
  "url_tail_char c \<longleftrightarrow> \<not> is_py_space c \<and>
     c \<notin> {CHR 0x27, CHR 0x22, CHR 0x60, CHR ''<'', CHR ''>'', CHR ''{'', CHR ''}'', CHR 0x5C}"

definition URL_LITERAL_TAIL :: rx where "URL_LITERAL_TAIL = plus url_tail_char"

definition quote_rx :: rx where
  "quote_rx = Cls (\<lambda>c. c = CHR 0x27 \<or> c = CHR 0x22 \<or> c = CHR 0x60)"

definition http_rx :: "(string \<Rightarrow> rx) \<Rightarrow> rx" where
  "http_rx l = seqs [l ''http'', opt (l ''s''), l ''://'']"

definition ws_rx :: "(string \<Rightarrow> rx) \<Rightarrow> rx" where
  "ws_rx l = seqs [l ''ws'', opt (l ''s''), l ''://'']"

text \<open>\<open>name\s*\(\s*['"`]\<close>, and the same after \<open>\bnew\s+\<close>.\<close>

definition call_open :: "rx \<Rightarrow> rx" where
  "call_open name = seqs [name, spaces, lit ''('', spaces, quote_rx]"

definition new_rx :: "(string \<Rightarrow> rx) \<Rightarrow> string \<Rightarrow> rx" where
  "new_rx l name = seqs [Bound, l ''new'', spaces1, l name]"

definition open_call :: rx where
  "open_call = seqs [lit_nocase ''.open'', spaces, lit ''('', spaces, quote_rx,
     alts (map lit_nocase [''GET'', ''POST'', ''PUT'', ''PATCH'', ''DELETE'', ''HEAD'', ''OPTIONS'']),
     quote_rx, spaces, lit '','', spaces, quote_rx]"

definition EVAL_CALL_RE :: rx where
  "EVAL_CALL_RE = seqs [Bound, lit ''eval'', spaces, lit ''('']"

definition NEW_FUNCTION_RE :: rx where
  "NEW_FUNCTION_RE = seqs [new_rx lit ''Function'', spaces, lit ''('']"

definition EVAL_RE :: rx where
  "EVAL_RE = Alt EVAL_CALL_RE (seqs [lit ''new'', spaces1, lit ''Function'', spaces, lit ''(''])"

definition STRING_TIMER_RE :: rx where
  "STRING_TIMER_RE =
     call_open (seqs [Bound, lit ''set'', Alt (lit ''Timeout'') (lit ''Interval'')])"

definition DYNAMIC_SCRIPT_RE :: rx where
  "DYNAMIC_SCRIPT_RE =
     seqs [call_open (seqs [Bound, lit ''createElement'']), lit ''script'', quote_rx, spaces, lit '')'']"

definition src_assign :: "(string \<Rightarrow> rx) \<Rightarrow> rx" where
  "src_assign l = seqs [l ''.src'', spaces, lit ''='', spaces, quote_rx]"

definition REMOTE_SCRIPT_SRC_RE :: rx where
  "REMOTE_SCRIPT_SRC_RE = Seq (src_assign lit) (http_rx lit)"

definition IMPORT_SCRIPTS_REMOTE_RE :: rx where
  "IMPORT_SCRIPTS_REMOTE_RE = Seq (call_open (Seq Bound (lit ''importScripts''))) (http_rx lit)"

definition FETCH_REMOTE_RE :: rx where
  "FETCH_REMOTE_RE = Seq (call_open (Seq Bound (lit ''fetch''))) (http_rx lit)"

definition XHR_REMOTE_RE :: rx where "XHR_REMOTE_RE = Seq open_call (http_rx lit_nocase)"

definition WEBSOCKET_REMOTE_RE :: rx where
  "WEBSOCKET_REMOTE_RE = Seq (call_open (new_rx lit_nocase ''WebSocket'')) (ws_rx lit_nocase)"

definition EVENTSOURCE_REMOTE_RE :: rx where
  "EVENTSOURCE_REMOTE_RE = Seq (call_open (new_rx lit_nocase ''EventSource'')) (http_rx lit_nocase)"

definition SENDBEACON_REMOTE_RE :: rx where
  "SENDBEACON_REMOTE_RE =
     Seq (call_open (Seq Bound (lit_nocase ''navigator.sendBeacon''))) (http_rx lit_nocase)"

text \<open>Each pattern of a call with a URL: the part before its group and the group.\<close>

definition NETWORK_CALLOUT_URL_PATTERNS :: "(rx \<times> rx) list" where
  "NETWORK_CALLOUT_URL_PATTERNS =
     (let http = Seq (http_rx lit_nocase) URL_LITERAL_TAIL; ws = Seq (ws_rx lit_nocase) URL_LITERAL_TAIL
      in [(call_open (Seq Bound (lit_nocase ''fetch'')), http),
          (call_open (Seq Bound (lit_nocase ''importScripts'')), http),
          (call_open (new_rx lit_nocase ''WebSocket''), ws),
          (call_open (new_rx lit_nocase ''EventSource''), http),
          (call_open (Seq Bound (lit_nocase ''navigator.sendBeacon'')), http),
          (open_call, http),
          (src_assign lit_nocase, http)])"

definition URL_RE :: rx where "URL_RE = Seq (http_rx lit) URL_LITERAL_TAIL"

definition is_id_start :: "char \<Rightarrow> bool" where
  "is_id_start c \<longleftrightarrow> is_letter_ascii c \<or> c = CHR ''_'' \<or> c = CHR ''$''"

definition is_id_char :: "char \<Rightarrow> bool" where
  "is_id_char c \<longleftrightarrow> is_id_start c \<or> is_digit_ascii c"

definition IDENTIFIER_RE :: rx where
  "IDENTIFIER_RE = seqs [Bound, Cls is_id_start, Star is_id_char, Bound]"

definition is_hex_char :: "char \<Rightarrow> bool" where
  "is_hex_char c \<longleftrightarrow> is_digit_ascii c \<or> (CHR ''a'' \<le> c \<and> c \<le> CHR ''f'') \<or> (CHR ''A'' \<le> c \<and> c \<le> CHR ''F'')"

definition ESCAPE_RE :: rx where
  "ESCAPE_RE =
     Alt (seqs (lit [CHR 0x5C, CHR ''u''] # replicate 4 (Cls is_hex_char)))
         (seqs (lit [CHR 0x5C, CHR ''x''] # replicate 2 (Cls is_hex_char)))"

section \<open>URLs and heuristics\<close>

definition SAFE_DOMAINS :: "string list" where
  "SAFE_DOMAINS = [''googleapis.com'', ''gstatic.com'', ''jsdelivr.net'', ''cdnjs.cloudflare.com'',
     ''unpkg.com'', ''ajax.googleapis.com'', ''fonts.googleapis.com'', ''fonts.gstatic.com'',
     ''accounts.google.com'', ''chrome.google.com'', ''microsoft.com'', ''visualstudio.com'',
     ''vsassets.io'']"

definition is_safe_domain :: "string \<Rightarrow> bool" where
  "is_safe_domain domain \<longleftrightarrow> list_ex (\<lambda>s. domain = s \<or> ends_with domain (''.'' @ s)) SAFE_DOMAINS"

definition clean_url :: "string \<Rightarrow> string" where
  "clean_url raw = rstrip_by (\<lambda>c. c \<in> set ''.,;:)]}'') raw"

text \<open>The URL's domain, unless there is none or it is well known.\<close>

definition noted_domain :: "string \<Rightarrow> string option" where
  "noted_domain url =
     (let domain = domain_from_url url in
      if domain \<noteq> [] \<and> \<not> is_safe_domain (remove_prefix domain ''www.'') then Some domain else None)"

definition extract_network_callout_urls :: "string \<Rightarrow> string list" where
  "extract_network_callout_urls source =
     filter (\<lambda>u. noted_domain u \<noteq> None)
       (map clean_url (concat (map (\<lambda>(r, g). find_groups r g None source) NETWORK_CALLOUT_URL_PATTERNS)))"

definition line_number :: "string \<Rightarrow> nat \<Rightarrow> int" where
  "line_number source index = int (length (filter (\<lambda>c. c = CHR 0x0A) (take index source))) + 1"

fun first_long_line :: "int \<Rightarrow> string list \<Rightarrow> int option" where
  "first_long_line i [] = None"
| "first_long_line i (l # ls) = (if length l > 500 then Some i else first_long_line (i + 1) ls)"

definition obfuscation_score :: "string \<Rightarrow> int" where
  "obfuscation_score source =
     (let identifiers = find_all IDENTIFIER_RE source;
          total = length identifiers;
          short = length (filter (\<lambda>i. length i \<le> 2) identifiers);
          single = length (filter (\<lambda>i. length i = 1) identifiers);
          escapes = length (find_all ESCAPE_RE source)
      in if identifiers = [] then 0
         else (if total > 50
               then (if 5 * single > 3 * total then 4 else if 5 * short > 3 * total then 3 else 0)
               else 0)
              + (if source \<noteq> [] \<and> 20 * escapes > length source then 3 else 0))"

section \<open>Scripts\<close>

definition add_js_pattern_finding ::
    "string \<Rightarrow> string \<Rightarrow> rx \<Rightarrow> string \<Rightarrow> string \<Rightarrow> string \<Rightarrow> string \<Rightarrow> package_analysis \<Rightarrow> package_analysis" where
  "add_js_pattern_finding source filename pattern code severity title detail a =
     (case rx_search pattern source of
        None \<Rightarrow> a
      | Some start \<Rightarrow>
          add_finding (mk_finding code severity title detail ''javascript'' (Some filename)
                         (Some (line_number source start))) a)"

definition remote_call_patterns :: "(rx \<times> string \<times> string \<times> string) list" where
  "remote_call_patterns =
     [(FETCH_REMOTE_RE, ''remote_fetch'', ''Remote fetch call'', ''JavaScript fetches data from a remote URL.''),
      (XHR_REMOTE_RE, ''remote_xhr'', ''Remote XMLHttpRequest'',
       ''JavaScript opens an XMLHttpRequest to a remote URL.''),
      (WEBSOCKET_REMOTE_RE, ''remote_websocket'', ''Remote WebSocket connection'',
       ''JavaScript opens a WebSocket connection to a remote host.''),
      (EVENTSOURCE_REMOTE_RE, ''remote_eventsource'', ''Remote EventSource connection'',
       ''JavaScript opens an EventSource stream to a remote host.''),
      (SENDBEACON_REMOTE_RE, ''remote_send_beacon'', ''Remote beacon call'',
       ''JavaScript sends beacon telemetry to a remote URL.'')]"

definition remote_call ::
    "string \<Rightarrow> string \<Rightarrow> rx \<times> string \<times> string \<times> string \<Rightarrow> package_analysis \<Rightarrow> package_analysis" where
  "remote_call source filename row a =
     (case row of (pattern, code, title, detail) \<Rightarrow>
        if rx_found pattern source
        then add_js_pattern_finding source filename pattern code ''medium'' title detail
               (a\<lparr>pa_uses_remote_code := True\<rparr>)
        else a)"

definition dynamic_script :: "string \<Rightarrow> string \<Rightarrow> package_analysis \<Rightarrow> package_analysis" where
  "dynamic_script source filename a =
     (if rx_found DYNAMIC_SCRIPT_RE source
      then (if rx_found REMOTE_SCRIPT_SRC_RE source
            then add_js_pattern_finding source filename DYNAMIC_SCRIPT_RE ''dynamic_script_injection''
                   ''critical'' ''Dynamic script injection''
                   ''JavaScript dynamically creates a script element with a remote source.'' a
            else add_js_pattern_finding source filename DYNAMIC_SCRIPT_RE ''dynamic_script_injection''
                   ''high'' ''Dynamic script injection''
                   ''JavaScript dynamically creates a script element at runtime.'' a)
      else a)"

definition note_url :: "string \<Rightarrow> package_analysis \<Rightarrow> package_analysis" where
  "note_url url a =
     (case noted_domain url of
        None \<Rightarrow> a
      | Some domain \<Rightarrow>
          a\<lparr>pa_external_urls := pa_external_urls a @ [url],
            pa_external_domains := pa_external_domains a @ [domain]\<rparr>)"

definition minification :: "string \<Rightarrow> string \<Rightarrow> package_analysis \<Rightarrow> package_analysis" where
  "minification source filename a =
     (let lines = splitlines source in
      if lines \<noteq> [] \<and> list_ex (\<lambda>l. length l > 500) lines \<and> length lines < 20
      then add_finding (mk_finding ''minified_javascript'' ''medium'' ''Minified JavaScript''
             ''Large compressed JavaScript lines reduce reviewability of the package.'' ''javascript''
             (Some filename) (first_long_line 1 lines)) (a\<lparr>pa_has_minified_code := True\<rparr>)
      else a)"

definition obfuscation :: "string \<Rightarrow> string \<Rightarrow> package_analysis \<Rightarrow> package_analysis" where
  "obfuscation source filename a =
     (let score = obfuscation_score source;
          a1 = (if score > pa_obfuscation_score a then a\<lparr>pa_obfuscation_score := score\<rparr> else a)
      in if score \<ge> 3
         then add_finding (mk_finding ''obfuscated_javascript'' (if score \<ge> 6 then ''high'' else ''medium'')
                ''Obfuscated JavaScript''
                (''Identifier and escape-sequence heuristics produced an obfuscation score of '' @
                 show_int score @ ''/10.'') ''javascript'' (Some filename) None) a1
         else a1)"

definition analyse_js :: "string \<Rightarrow> string \<Rightarrow> package_analysis \<Rightarrow> package_analysis" where
  "analyse_js source filename a =
     (let a0 = (if rx_found EVAL_RE source then a\<lparr>pa_uses_eval := True\<rparr> else a);
          a1 = add_js_pattern_finding source filename EVAL_CALL_RE ''eval_usage'' ''high'' ''eval() usage''
                 ''eval() executes strings as code and can turn data into executable logic.'' a0;
          a2 = add_js_pattern_finding source filename NEW_FUNCTION_RE ''new_function_usage'' ''high''
                 ''new Function usage'' ''new Function() compiles strings as code at runtime.'' a1;
          a3 = add_js_pattern_finding source filename STRING_TIMER_RE ''string_timer_execution'' ''medium''
                 ''String-based timer execution''
                 ''setTimeout/setInterval with a string argument executes code dynamically.'' a2;
          a4 = fold (remote_call source filename) remote_call_patterns a3;
          a5 = (if rx_found IMPORT_SCRIPTS_REMOTE_RE source
                then add_js_pattern_finding source filename IMPORT_SCRIPTS_REMOTE_RE
                       ''remote_import_scripts'' ''critical'' ''Remote importScripts()''
                       ''importScripts() loads executable JavaScript from a remote URL.''
                       (a4\<lparr>pa_uses_remote_code := True\<rparr>)
                else a4);
          a6 = dynamic_script source filename a5;
          a7 = a6\<lparr>pa_network_callout_urls := pa_network_callout_urls a6 @ extract_network_callout_urls source\<rparr>;
          a8 = fold (\<lambda>m. note_url (clean_url m)) (find_all URL_RE source) a7;
          a9 = minification source filename a8
      in obfuscation source filename a9)"

section \<open>Pages\<close>

definition JS_MIME_ESSENCES :: "string list" where
  "JS_MIME_ESSENCES = [''application/ecmascript'', ''application/javascript'',
     ''application/x-ecmascript'', ''application/x-javascript'', ''text/ecmascript'',
     ''text/javascript'', ''text/javascript1.0'', ''text/javascript1.1'', ''text/javascript1.2'',
     ''text/javascript1.3'', ''text/javascript1.4'', ''text/javascript1.5'', ''text/jscript'',
     ''text/livescript'', ''text/x-ecmascript'', ''text/x-javascript'']"

definition is_executable_script :: "script_tag \<Rightarrow> bool" where
  "is_executable_script tag \<longleftrightarrow>
     (case tg_type tag of
        Missing \<Rightarrow> True
      | Several _ \<Rightarrow> False
      | Single raw \<Rightarrow>
          let essence = lower (strip (takeWhile (\<lambda>c. c \<noteq> CHR '';'') raw))
          in essence \<in> {[], ''module''} \<or> essence \<in> set JS_MIME_ESSENCES)"

definition newlines_of :: "string \<Rightarrow> string" where
  "newlines_of s = filter (\<lambda>c. c = CHR 0x0A) s"

text \<open>\<open>rest\<close> is the page from the cursor on.\<close>

fun mask_from :: "string list \<Rightarrow> string \<Rightarrow> string" where
  "mask_from [] rest = newlines_of rest"
| "mask_from (body # bodies) rest =
     (case find_sub rest body of
        None \<Rightarrow> mask_from bodies rest
      | Some start \<Rightarrow>
          newlines_of (take start rest) @ body @ mask_from bodies (drop (start + length body) rest))"

definition mask_non_script :: "string \<Rightarrow> string list \<Rightarrow> string" where
  "mask_non_script source bodies = mask_from bodies source"

definition HTML_WHITESPACE :: string where
  "HTML_WHITESPACE = [CHR '' '', CHR 0x09, CHR 0x0A, CHR 0x0D, CHR 0x0C]"

definition include_script :: "string \<Rightarrow> script_tag \<Rightarrow> package_analysis \<Rightarrow> package_analysis" where
  "include_script filename tag a =
     (case tg_src tag of
        Single src0 \<Rightarrow>
          let src = strip_by (\<lambda>c. c \<in> set HTML_WHITESPACE) src0 in
          if \<not> (starts_with (lower src) ''http://'' \<or> starts_with (lower src) ''https://'') then a
          else
            let url = clean_url src;
                a1 = a\<lparr>pa_uses_remote_code := True\<rparr>;
                a2 = (case noted_domain url of
                        None \<Rightarrow> a1
                      | Some domain \<Rightarrow>
                          a1\<lparr>pa_external_urls := pa_external_urls a1 @ [url],
                             pa_external_domains := pa_external_domains a1 @ [domain],
                             pa_network_callout_urls := pa_network_callout_urls a1 @ [url]\<rparr>)
            in add_finding (mk_finding ''remote_script_include'' ''critical'' ''Remote script in packaged page''
                 ''A packaged HTML page loads executable JavaScript from a remote URL.'' ''javascript''
                 (Some filename) (tg_sourceline tag)) a2
      | _ \<Rightarrow> a)"

definition analyse_html :: "inspect_env \<Rightarrow> string \<Rightarrow> string \<Rightarrow> package_analysis \<Rightarrow> package_analysis" where
  "analyse_html env source filename a =
     (let scripts = filter is_executable_script (ie_scripts env source);
          bodies = filter (\<lambda>b. b \<noteq> []) (List.map_filter tg_body scripts);
          masked = mask_non_script source bodies;
          a1 = (if strip masked \<noteq> [] then analyse_js masked filename a else a)
      in fold (include_script filename) scripts a1)"

section \<open>The inspection\<close>

definition scan_file :: "inspect_env \<Rightarrow> archive \<Rightarrow> string \<Rightarrow> package_analysis \<Rightarrow> package_analysis" where
  "scan_file env zf name a =
     (case getinfo zf name of
        None \<Rightarrow> a
      | Some info \<Rightarrow>
          if ze_file_size info > MAX_JS_BYTES then a
          else (case ze_content info of
                  Inl _ \<Rightarrow> a
                | Inr content \<Rightarrow>
                    let raw = take (MAX_JS_BYTES + 1) content in
                    if length raw > MAX_JS_BYTES then a
                    else if list_ex (ends_with (lower name)) HTML_SUFFIXES
                    then analyse_html env (ie_decode env raw) name a
                    else analyse_js (ie_decode env raw) name a))"

definition finish_analysis :: "package_analysis \<Rightarrow> package_analysis" where
  "finish_analysis a =
     a\<lparr>pa_external_domains := take MAX_EXTERNAL_DOMAINS (sorted_set (pa_external_domains a)),
       pa_external_urls := take MAX_EXTERNAL_URLS (sorted_set (pa_external_urls a)),
       pa_network_callout_urls := take MAX_NETWORK_CALLOUT_URLS (sorted_set (pa_network_callout_urls a)),
       pa_obfuscation_score := min (pa_obfuscation_score a) 10\<rparr>"

definition inspect_package :: "inspect_env \<Rightarrow> string \<Rightarrow> inspect_exn + package_analysis" where
  "inspect_package env data =
     (case zip_payload data of
        None \<Rightarrow> Inl (InspectorError ''Not a valid zip or CRX: no zip signature found'')
      | Some payload \<Rightarrow>
          (case ie_zipfile env payload of
             Inl e \<Rightarrow> Inl (InspectorError (''Not a valid zip or CRX: '' @ e))
           | Inr zf \<Rightarrow>
               let total_declared = sum_list (map ze_file_size zf) in
               if length zf > MAX_FILE_COUNT
               then Inl (InspectorError (''Package contains too many files ('' @ show_nat (length zf) @ '')''))
               else if total_declared > MAX_TOTAL_BYTES
               then Inl (InspectorError (''Package declared uncompressed size too large ('' @
                                         show_nat total_declared @ '' bytes)''))
               else
                 let a = empty_analysis\<lparr>pa_package_sha256 := ie_sha256 env data,
                           pa_archive_sha256 := ie_sha256 env payload,
                           pa_file_count := int (length zf), pa_total_size_bytes := int total_declared\<rparr>
                 in (case load_manifest env zf of
                       Inl e \<Rightarrow> Inl e
                     | Inr None \<Rightarrow> Inr (finish_analysis (fold (scan_file env zf) (script_files zf None) a))
                     | Inr (Some (manifest, name)) \<Rightarrow>
                         (case extract_manifest_fields manifest a name of
                            Inl e \<Rightarrow> Inl e
                          | Inr a1 \<Rightarrow>
                              Inr (finish_analysis
                                (fold (scan_file env zf) (script_files zf (Some manifest)) a1))))))"

end
