(* ===== verification/Inspector_Laws.thy ===== *)
theory Inspector_Laws
  imports Code_Scan
begin

text \<open>
  What the inspection guarantees: comment blanking and page masking keep positions, the scan
  covers every script the package can run and misses no pattern, and the analysis it returns is
  bounded, deduplicated and well typed.
\<close>

section \<open>Comments\<close>

definition blanked :: "char \<Rightarrow> char \<Rightarrow> bool" where
  "blanked x y \<longleftrightarrow> y = x \<or> (y = CHR '' '' \<and> x \<noteq> CHR 0x0A)"

lemma blanked_refl [simp]: "blanked x x" by (simp add: blanked_def)

lemma blanked_spaces: "list_all (\<lambda>x. x \<noteq> CHR 0x0A) u \<Longrightarrow> list_all2 blanked u (replicate (length u) (CHR '' ''))"
  by (induction u) (simp_all add: blanked_def)

lemma blanked_map: "list_all2 blanked u (map (\<lambda>x. if x \<noteq> CHR 0x0A then CHR '' '' else x) u)"
  by (induction u) (simp_all add: blanked_def)

lemma comment_split:
  "s = takeWhile (\<lambda>x. x \<noteq> CHR 0x0A) s @ dropWhile (\<lambda>x. x \<noteq> CHR 0x0A) s"
  by simp

lemma strip_comments_blanks: "list_all2 blanked t (strip_comments b t)"
proof (induction b t rule: strip_comments.induct)
  case (2 c s)
  show ?case
  proof (cases "c = CHR 0x5C \<and> s \<noteq> []")
    case True
    then obtain x xs where "s = x # xs" by (cases s) auto
    then show ?thesis using 2(1) True by simp
  next
    case False
    then show ?thesis using 2(2) by auto
  qed
next
  case (3 c s)
  let ?line = "takeWhile (\<lambda>x. x \<noteq> CHR 0x0A)" and ?rest = "dropWhile (\<lambda>x. x \<noteq> CHR 0x0A)"
  consider (str) "c = CHR 0x22" | (line) "c = CHR ''/''" "s \<noteq> [] \<and> hd s = CHR ''/''"
    | (block) "c = CHR ''/''" "s \<noteq> []" "hd s = CHR ''*''"
    | (other) "c \<noteq> CHR 0x22" "\<not> (c = CHR ''/'' \<and> s \<noteq> [] \<and> (hd s = CHR ''/'' \<or> hd s = CHR ''*''))" by blast
  then show ?case
  proof cases
    case str
    then show ?thesis using 3(1) by simp
  next
    case line
    have u: "list_all (\<lambda>x. x \<noteq> CHR 0x0A) (?line (c # s))" by (auto simp: list_all_iff dest: set_takeWhileD)
    have "list_all2 blanked (?line (c # s) @ ?rest s)
       (replicate (length (?line (c # s))) (CHR '' '') @ strip_comments False (?rest s))"
      using blanked_spaces [OF u] 3(2) line by (intro list_all2_appendI) auto
    then show ?thesis using line by simp
  next
    case block
    let ?e = "comment_end s"
    have e: "?e > 0" by (simp add: comment_end_def split: option.split)
    have "list_all2 blanked (take ?e (c # s) @ drop (?e - 1) s)
       (map (\<lambda>x. if x \<noteq> CHR 0x0A then CHR '' '' else x) (take ?e (c # s)) @ strip_comments False (drop (?e - 1) s))"
      using blanked_map 3(3) block by (intro list_all2_appendI) auto
    moreover have "take ?e (c # s) @ drop (?e - 1) s = c # s" using e by (cases ?e) auto
    ultimately show ?thesis using block by simp
  next
    case other
    then show ?thesis using 3(4) by auto
  qed
qed simp

text \<open>A text without a slash outside strings is copied.\<close>

lemma strip_comments_plain: "CHR ''/'' \<notin> set t \<Longrightarrow> strip_comments b t = t"
proof (induction b t rule: strip_comments.induct)
  case (2 c s)
  then show ?case by (cases s) auto
qed auto

lemma strip_head:
  "t \<noteq> [] \<Longrightarrow> strip_comments False t \<noteq> [] \<and> blanked (hd t) (hd (strip_comments False t))"
  using strip_comments_blanks [of t False] by (cases t; cases "strip_comments False t") auto

lemma strip_blank_prefix:
  "list_all (\<lambda>x. x = CHR '' '' \<or> x = CHR 0x0A) u \<Longrightarrow> strip_comments False (u @ t) = u @ strip_comments False t"
  by (induction u) auto

lemma strip_comments_idem: "strip_comments b (strip_comments b t) = strip_comments b t"
proof (induction b t rule: strip_comments.induct)
  case (2 c s)
  show ?case
  proof (cases "c = CHR 0x5C \<and> s \<noteq> []")
    case True
    then show ?thesis using 2(1) by simp
  next
    case False
    have "c = CHR 0x5C \<Longrightarrow> strip_comments (c \<noteq> CHR 0x22) s = []" using False by simp
    then show ?thesis using 2(2) [OF False] False by auto
  qed
next
  case (3 c s)
  consider (str) "c = CHR 0x22" | (line) "c = CHR ''/''" "s \<noteq> [] \<and> hd s = CHR ''/''"
    | (block) "c = CHR ''/''" "s \<noteq> []" "hd s = CHR ''*''"
    | (other) "c \<noteq> CHR 0x22" "\<not> (c = CHR ''/'' \<and> s \<noteq> [] \<and> (hd s = CHR ''/'' \<or> hd s = CHR ''*''))" by blast
  then show ?case
  proof cases
    case str
    then show ?thesis using 3(1) by simp
  next
    case line
    then show ?thesis using 3(2) by (simp add: strip_blank_prefix [where u = "_ # _", simplified] strip_blank_prefix list_all_iff)
  next
    case block
    let ?e = "comment_end s"
    let ?u = "map (\<lambda>x. if x \<noteq> CHR 0x0A then CHR '' '' else x) (take ?e (c # s))"
    have s: "strip_comments False (c # s) = ?u @ strip_comments False (drop (?e - 1) s)"
      using block by simp
    have "list_all (\<lambda>x. x = CHR '' '' \<or> x = CHR 0x0A) ?u" by (auto simp: list_all_iff)
    then show ?thesis unfolding s using strip_blank_prefix 3(3) block by simp
  next
    case other
    let ?t = "strip_comments False s"
    have ih: "strip_comments False ?t = ?t" using 3(4) other by auto
    have "\<not> (c = CHR ''/'' \<and> ?t \<noteq> [] \<and> (hd ?t = CHR ''/'' \<or> hd ?t = CHR ''*''))"
      using other strip_head [of s] by (cases s) (auto simp: blanked_def)
    then have "strip_comments False (c # ?t) = c # ?t" using ih other(1) by auto
    then show ?thesis using other by auto
  qed
qed simp

text \<open>Blanking the comments of a manifest keeps every line and column: the text keeps its
  length, each character is kept or, when it is no line end, replaced by a blank, and doing it again
  changes nothing.\<close>
theorem strip_json_comments_columns:
  "list_all2 blanked t (strip_json_comments t) \<and>
   length (strip_json_comments t) = length t \<and>
   strip_json_comments (strip_json_comments t) = strip_json_comments t"
  using strip_comments_blanks [of t False] strip_comments_idem [of False t]
  by (simp add: strip_json_comments_def list_all2_lengthD [symmetric])

section \<open>Masking\<close>

lemma find_sub_split: "find_sub s p = Some k \<Longrightarrow> s = take k s @ p @ drop (k + length p) s"
proof (induction s p arbitrary: k rule: find_sub.induct)
  case (2 c s p)
  show ?case
  proof (cases "starts_with (c # s) p")
    case True
    then obtain t where "c # s = p @ t" by (auto simp: starts_with_iff)
    moreover have "k = 0" using 2 True by simp
    ultimately show ?thesis by simp
  next
    case False
    then obtain j where "find_sub s p = Some j" "k = Suc j" using 2 by auto
    then show ?thesis using 2(1) [OF False] by simp
  qed
qed (auto split: if_splits)

lemma newlines_append [simp]: "newlines_of (u @ v) = newlines_of u @ newlines_of v"
  by (simp add: newlines_of_def)

lemma newlines_idem [simp]: "newlines_of (newlines_of u) = newlines_of u"
  by (simp add: newlines_of_def)

text \<open>Reducing a page to its scripts keeps the line numbers: the masked page has the page's line
  ends, so a finding in a script body reports its line in the file. A body found in the page is kept
  verbatim.\<close>
theorem mask_keeps_lines:
  "newlines_of (mask_non_script source bodies) = newlines_of source \<and>
   mask_non_script source [] = newlines_of source"
proof -
  have "newlines_of (mask_from bodies rest) = newlines_of rest" for rest
  proof (induction bodies arbitrary: rest)
    case (Cons body bodies)
    show ?case
    proof (cases "find_sub rest body")
      case (Some k)
      have "newlines_of rest = newlines_of (take k rest @ body @ drop (k + length body) rest)"
        using find_sub_split [OF Some] by simp
      then show ?thesis using Some Cons by simp
    qed (simp add: Cons)
  qed simp
  then show ?thesis by (simp add: mask_non_script_def)
qed

section \<open>Findings stay bounded and distinct\<close>

definition findings_ok :: "package_analysis \<Rightarrow> bool" where
  "findings_ok a \<longleftrightarrow>
     length (pa_findings a) \<le> MAX_FINDINGS \<and> distinct (map finding_identity (pa_findings a)) \<and>
     pa_finding_keys a = finding_identity ` set (pa_findings a)"

text \<open>What every step of the scan keeps: the findings in order, the flags once set, the fields of
  the manifest; noted URLs are all noted with a domain.\<close>

definition urls_ok :: "package_analysis \<Rightarrow> bool" where
  "urls_ok a \<longleftrightarrow>
     (\<forall>u \<in> set (pa_external_urls a) \<union> set (pa_network_callout_urls a). noted_domain u \<noteq> None) \<and>
     set (pa_external_domains a) \<subseteq> {h. \<exists>u. noted_domain u = Some h} \<and> 0 \<le> pa_obfuscation_score a"

definition grows :: "package_analysis \<Rightarrow> package_analysis \<Rightarrow> bool" where
  "grows a b \<longleftrightarrow>
     (findings_ok a \<longrightarrow> findings_ok b) \<and> (urls_ok a \<longrightarrow> urls_ok b) \<and>
     (pa_uses_eval a \<longrightarrow> pa_uses_eval b) \<and> (pa_uses_remote_code a \<longrightarrow> pa_uses_remote_code b) \<and>
     set (pa_findings a) \<subseteq> set (pa_findings b) \<and>
     set (pa_external_domains a) \<subseteq> set (pa_external_domains b) \<and>
     pa_permissions b = pa_permissions a \<and> pa_host_permissions b = pa_host_permissions a \<and>
     pa_file_count b = pa_file_count a \<and> pa_total_size_bytes b = pa_total_size_bytes a"

lemma grows_refl [simp, intro]: "grows a a"
  by (simp add: grows_def)

lemma grows_trans [trans]: "grows a b \<Longrightarrow> grows b c \<Longrightarrow> grows a c"
  unfolding grows_def by (elim conjE, intro conjI) (blast | simp)+

lemma grows_fold: "(\<And>x a. x \<in> set xs \<Longrightarrow> grows a (f x a)) \<Longrightarrow> grows a (fold f xs a)"
proof (induction xs arbitrary: a)
  case (Cons x xs)
  have "grows a (f x a)" "grows (f x a) (fold f xs (f x a))" using Cons by simp_all
  then show ?case using grows_trans by simp
qed simp

lemma grows_add_finding [intro]: "grows a (add_finding f a)"
  by (auto simp: grows_def add_finding_def findings_ok_def urls_ok_def)

lemma grows_flags [intro]:
  "grows a (a\<lparr>pa_uses_eval := True\<rparr>)" "grows a (a\<lparr>pa_uses_remote_code := True\<rparr>)"
  "grows a (a\<lparr>pa_has_minified_code := b\<rparr>)"
  by (auto simp: grows_def findings_ok_def urls_ok_def)

lemma grows_pattern [intro]: "grows a (add_js_pattern_finding s fn p c sev t d a)"
  by (auto simp: add_js_pattern_finding_def split: option.split)

lemma grows_remote_call: "grows a (remote_call s fn row a)"
proof -
  obtain p c t d where row: "row = (p, c, t, d)" by (cases row)
  have "grows a (add_js_pattern_finding s fn p c ''medium'' t d (a\<lparr>pa_uses_remote_code := True\<rparr>))"
    by (rule grows_trans [OF grows_flags(2)]) (rule grows_pattern)
  then show ?thesis by (simp add: remote_call_def row)
qed

lemma grows_note_url: "grows a (note_url u a)"
  by (auto simp: note_url_def grows_def findings_ok_def urls_ok_def split: option.split)

lemma grows_minification: "grows a (minification s fn a)"
  using grows_trans [OF grows_flags(3) grows_add_finding] by (simp add: minification_def Let_def)

lemma obfuscation_score_pos: "0 \<le> obfuscation_score s"
  by (simp add: obfuscation_score_def Let_def)

lemma grows_score: "0 \<le> k \<Longrightarrow> grows a (a\<lparr>pa_obfuscation_score := k\<rparr>)"
  by (auto simp: grows_def findings_ok_def urls_ok_def)

lemma grows_obfuscation: "grows a (obfuscation s fn a)"
  using grows_trans [OF grows_score [OF obfuscation_score_pos] grows_add_finding]
    grows_score [OF obfuscation_score_pos]
  by (auto simp: obfuscation_def Let_def)

lemma grows_callouts:
  "grows a (a\<lparr>pa_network_callout_urls := pa_network_callout_urls a @ extract_network_callout_urls s\<rparr>)"
  by (auto simp: grows_def findings_ok_def urls_ok_def extract_network_callout_urls_def)

lemma grows_dynamic: "grows a (dynamic_script s fn a)"
  by (auto simp: dynamic_script_def)

lemma grows_import:
  "grows a (if rx_found p s then add_js_pattern_finding s fn q c sev t d (a\<lparr>pa_uses_remote_code := True\<rparr>) else a)"
  using grows_trans [OF grows_flags(2) grows_pattern] by simp

text \<open>The scan of a text starts by setting the eval flag when the text calls for it.\<close>

lemma analyse_js_from:
  "grows (if rx_found EVAL_RE s then a\<lparr>pa_uses_eval := True\<rparr> else a) (analyse_js s fn a)"
proof -
  have calls: "grows b (fold (remote_call s fn) remote_call_patterns b)" for b
    by (rule grows_fold) (rule grows_remote_call)
  have urls: "grows b (fold (\<lambda>m. note_url (clean_url m)) (find_all URL_RE s) b)" for b
    by (rule grows_fold) (rule grows_note_url)
  show ?thesis unfolding analyse_js_def Let_def
    by (intro grows_trans [OF _ grows_obfuscation] grows_trans [OF _ grows_minification]
        grows_trans [OF _ urls] grows_trans [OF _ grows_callouts] grows_trans [OF _ grows_dynamic]
        grows_trans [OF _ grows_import] grows_trans [OF _ calls] grows_trans [OF _ grows_pattern] grows_refl)
qed

lemma grows_analyse_js: "grows a (analyse_js s fn a)"
  using analyse_js_from [of s a fn] grows_trans [OF grows_flags(1)] by (cases "rx_found EVAL_RE s") auto

lemma analyse_js_eval: "rx_found EVAL_RE s \<Longrightarrow> pa_uses_eval (analyse_js s fn a)"
  using analyse_js_from [of s a fn] by (simp add: grows_def)

lemma grows_include: "grows a (include_script fn tag a)"
proof -
  have noted: "grows b (case noted_domain u of None \<Rightarrow> b
      | Some domain \<Rightarrow> b\<lparr>pa_external_urls := pa_external_urls b @ [u],
            pa_external_domains := pa_external_domains b @ [domain],
            pa_network_callout_urls := pa_network_callout_urls b @ [u]\<rparr>)" for u b
    by (auto simp: grows_def findings_ok_def urls_ok_def split: option.split)
  show ?thesis
    using grows_trans [OF grows_flags(2) grows_trans [OF noted grows_add_finding]]
    by (simp add: include_script_def Let_def split: attribute.split)
qed

lemma grows_analyse_html: "grows a (analyse_html env s fn a)"
proof -
  have "grows b (fold (include_script fn) ts b)" for ts b by (rule grows_fold) (rule grows_include)
  from this grows_trans [OF grows_analyse_js this] show ?thesis by (simp add: analyse_html_def Let_def)
qed

lemma grows_scan_file: "grows a (scan_file env zf name a)"
  using grows_analyse_html grows_analyse_js
  by (auto simp: scan_file_def Let_def split: option.split sum.split)

lemma grows_scan: "grows a (fold (scan_file env zf) names a)"
  by (rule grows_fold) (rule grows_scan_file)

section \<open>The manifest\<close>

lemma move_host_frame:
  "pa_findings (move_host p a) = pa_findings a \<and> pa_finding_keys (move_host p a) = pa_finding_keys a \<and>
   pa_external_urls (move_host p a) = pa_external_urls a \<and>
   pa_external_domains (move_host p a) = pa_external_domains a \<and>
   pa_network_callout_urls (move_host p a) = pa_network_callout_urls a \<and>
   pa_obfuscation_score (move_host p a) = pa_obfuscation_score a \<and>
   pa_file_count (move_host p a) = pa_file_count a \<and>
   pa_total_size_bytes (move_host p a) = pa_total_size_bytes a"
  by (simp add: move_host_def)

lemma move_host_patterns_frame:
  "pa_findings (move_host_patterns a) = pa_findings a \<and> pa_finding_keys (move_host_patterns a) = pa_finding_keys a \<and>
   pa_external_urls (move_host_patterns a) = pa_external_urls a \<and>
   pa_external_domains (move_host_patterns a) = pa_external_domains a \<and>
   pa_network_callout_urls (move_host_patterns a) = pa_network_callout_urls a \<and>
   pa_obfuscation_score (move_host_patterns a) = pa_obfuscation_score a \<and>
   pa_file_count (move_host_patterns a) = pa_file_count a \<and>
   pa_total_size_bytes (move_host_patterns a) = pa_total_size_bytes a"
proof -
  have "pa_findings (fold move_host ps a) = pa_findings a \<and> pa_finding_keys (fold move_host ps a) = pa_finding_keys a \<and>
   pa_external_urls (fold move_host ps a) = pa_external_urls a \<and>
   pa_external_domains (fold move_host ps a) = pa_external_domains a \<and>
   pa_network_callout_urls (fold move_host ps a) = pa_network_callout_urls a \<and>
   pa_obfuscation_score (fold move_host ps a) = pa_obfuscation_score a \<and>
   pa_file_count (fold move_host ps a) = pa_file_count a \<and>
   pa_total_size_bytes (fold move_host ps a) = pa_total_size_bytes a" for ps a
    by (induction ps arbitrary: a) (simp_all add: move_host_frame)
  then show ?thesis by (simp add: move_host_patterns_def)
qed

text \<open>The loop splits the permissions: host patterns go to the hosts in order, the rest stays.\<close>

lemma remove1_filter: "filter P (remove1 x xs) = (if P x then remove1 x (filter P xs) else filter P xs)"
  by (induction xs) auto

lemma fold_move_host:
  "pa_permissions a = pre @ ps \<Longrightarrow> list_all (\<lambda>p. \<not> is_host_pattern p) pre \<Longrightarrow>
   pa_permissions (fold move_host ps a) = pre @ filter (\<lambda>p. \<not> is_host_pattern p) ps \<and>
   pa_host_permissions (fold move_host ps a) = pa_host_permissions a @ filter is_host_pattern ps"
proof (induction ps arbitrary: a pre)
  case (Cons p ps)
  show ?case
  proof (cases "is_host_pattern p")
    case True
    then have "p \<notin> set pre" using Cons.prems(2) by (auto simp: list_all_iff)
    then have "pa_permissions (move_host p a) = pre @ ps" using True Cons.prems(1)
      by (simp add: move_host_def remove1_append)
    then show ?thesis using Cons.IH [of "move_host p a" pre] Cons.prems(2) True by (simp add: move_host_def)
  next
    case False
    then show ?thesis using Cons.IH [of a "pre @ [p]"] Cons.prems by (simp add: move_host_def)
  qed
qed simp

lemma move_host_patterns_split:
  "pa_permissions (move_host_patterns a) = filter (\<lambda>p. \<not> is_host_pattern p) (pa_permissions a) \<and>
   pa_host_permissions (move_host_patterns a) = pa_host_permissions a @ filter is_host_pattern (pa_permissions a)"
  using fold_move_host [of a "[]" "pa_permissions a"] by (simp add: move_host_patterns_def)

lemma base_fields_frame:
  "pa_findings (base_fields m a) = pa_findings a \<and> pa_finding_keys (base_fields m a) = pa_finding_keys a \<and>
   pa_external_urls (base_fields m a) = pa_external_urls a \<and>
   pa_external_domains (base_fields m a) = pa_external_domains a \<and>
   pa_network_callout_urls (base_fields m a) = pa_network_callout_urls a \<and>
   pa_obfuscation_score (base_fields m a) = pa_obfuscation_score a \<and>
   pa_file_count (base_fields m a) = pa_file_count a \<and>
   pa_total_size_bytes (base_fields m a) = pa_total_size_bytes a"
  by (simp add: base_fields_def Let_def move_host_patterns_frame split: json.split)

lemma base_fields_hosts: "list_all (\<lambda>p. \<not> is_host_pattern p) (pa_permissions (base_fields m a))"
  by (simp add: base_fields_def Let_def move_host_patterns_split list_all_iff)

lemma risks_grow: "analyse_manifest_risks m a = Inr b \<Longrightarrow> grows a b"
  by (auto simp: analyse_manifest_risks_def intro!: grows_fold grows_add_finding split: option.splits)

lemma extract_ok:
  assumes "extract_manifest_fields m a name = Inr b" "findings_ok a" "urls_ok a"
  shows "findings_ok b \<and> urls_ok b \<and> list_all (\<lambda>p. \<not> is_host_pattern p) (pa_permissions b) \<and>
     pa_file_count b = pa_file_count a \<and> pa_total_size_bytes b = pa_total_size_bytes a"
proof (cases "is_vscode_package m name")
  case True
  then have "b = (base_fields m a)\<lparr>pa_permissions := []\<rparr>" using assms(1) by (simp add: extract_manifest_fields_def)
  then show ?thesis using assms(2,3) base_fields_frame [of m a] by (simp add: findings_ok_def urls_ok_def)
next
  case False
  then have "grows (base_fields m a) b" using assms(1) risks_grow by (simp add: extract_manifest_fields_def)
  moreover have "findings_ok (base_fields m a)" "urls_ok (base_fields m a)"
    using assms(2,3) base_fields_frame [of m a] by (simp_all add: findings_ok_def urls_ok_def)
  ultimately show ?thesis using base_fields_hosts base_fields_frame [of m a] by (simp add: grows_def)
qed

section \<open>Which entries are scanned\<close>

lemma script_files_iff:
  "n \<in> set (script_files zf m) \<longleftrightarrow>
     n \<in> set (namelist zf) \<and>
     (list_ex (ends_with (lower n)) SCAN_SUFFIXES \<or> n \<in> manifest_referenced_paths zf m)"
  by (auto simp: script_files_def)

lemma resolved_in_archive: "resolve_archive_path p names \<subseteq> names"
  by (auto simp: resolve_archive_path_def Let_def)

lemma split_on_append: "split_on c (u @ c # v) = split_on c u @ split_on c v"
proof (induction u)
  case (Cons x u)
  have "split_on c u \<noteq> []" by (cases u) (auto split: list.splits)
  with Cons show ?case by (auto split: list.split)
qed simp

lemma resolved_no_parent:
  assumes "n \<in> resolve_archive_path p names"
  shows "''..'' \<notin> set (split_on (CHR ''/'') n)"
proof -
  let ?c = "candidate_path p"
  have c: "''..'' \<notin> set (split_on (CHR ''/'') ?c)" "n = ?c \<or> n = ''extension/'' @ ?c"
    using assms by (auto simp: resolve_archive_path_def Let_def split: if_splits)
  have "split_on (CHR ''/'') (''extension'' @ CHR ''/'' # ?c) = [''extension''] @ split_on (CHR ''/'') ?c"
    unfolding split_on_append by simp
  then show ?thesis using c by auto
qed

section \<open>Properties\<close>

lemma fresh_analysis_ok:
  "findings_ok (empty_analysis\<lparr>pa_package_sha256 := h, pa_archive_sha256 := h', pa_file_count := n, pa_total_size_bytes := t\<rparr>) \<and>
   urls_ok (empty_analysis\<lparr>pa_package_sha256 := h, pa_archive_sha256 := h', pa_file_count := n, pa_total_size_bytes := t\<rparr>)"
  by (simp add: findings_ok_def urls_ok_def empty_analysis_def)

text \<open>The analysis before the final cut, and the archive it came from.\<close>

lemma inspect_cases:
  assumes "inspect_package env data = Inr r"
  obtains zf m b where "ie_zipfile env (the (zip_payload data)) = Inr zf"
    "r = finish_analysis (fold (scan_file env zf) (script_files zf m) b)"
    "findings_ok b" "urls_ok b" "list_all (\<lambda>p. \<not> is_host_pattern p) (pa_permissions b)"
    "pa_file_count b = int (length zf)" "length zf \<le> MAX_FILE_COUNT"
    "pa_total_size_bytes b = int (sum_list (map ze_file_size zf))" "sum_list (map ze_file_size zf) \<le> MAX_TOTAL_BYTES"
    "load_manifest env zf = Inr None \<and> m = None \<or> (\<exists>d name. load_manifest env zf = Inr (Some (d, name)) \<and> m = Some d)"
proof -
  obtain payload zf where z: "zip_payload data = Some payload" "ie_zipfile env payload = Inr zf"
    using assms by (auto simp: inspect_package_def split: option.splits sum.splits)
  define a where "a = empty_analysis\<lparr>pa_package_sha256 := ie_sha256 env data,
      pa_archive_sha256 := ie_sha256 env payload, pa_file_count := int (length zf),
      pa_total_size_bytes := int (sum_list (map ze_file_size zf))\<rparr>"
  have a: "findings_ok a" "urls_ok a" using fresh_analysis_ok by (auto simp: a_def)
  have lim: "length zf \<le> MAX_FILE_COUNT" "sum_list (map ze_file_size zf) \<le> MAX_TOTAL_BYTES"
    using assms z by (auto simp: inspect_package_def Let_def split: if_splits)
  have r: "(case load_manifest env zf of
       Inl e \<Rightarrow> Inl e
     | Inr None \<Rightarrow> Inr (finish_analysis (fold (scan_file env zf) (script_files zf None) a))
     | Inr (Some (manifest, name)) \<Rightarrow>
         (case extract_manifest_fields manifest a name of
            Inl e \<Rightarrow> Inl e
          | Inr a1 \<Rightarrow> Inr (finish_analysis (fold (scan_file env zf) (script_files zf (Some manifest)) a1)))) = Inr r"
    using assms z lim unfolding a_def by (simp add: inspect_package_def Let_def)
  show thesis
  proof (cases "load_manifest env zf")
    case (Inl e)
    then show ?thesis using r by simp
  next
    case (Inr l)
    show ?thesis
    proof (cases l)
      case None
      have "list_all (\<lambda>p. \<not> is_host_pattern p) (pa_permissions a)" by (simp add: a_def empty_analysis_def)
      with None Inr r a lim z show ?thesis by (intro that [of zf None a]) (simp_all add: a_def)
    next
      case (Some p)
      obtain d name where p: "p = (d, name)" by (cases p)
      obtain b where b: "extract_manifest_fields d a name = Inr b"
        "r = finish_analysis (fold (scan_file env zf) (script_files zf (Some d)) b)"
        using r Inr Some p by (auto split: sum.splits)
      note ok = extract_ok [OF b(1) a]
      show ?thesis using Inr Some p b ok lim z by (intro that [of zf "Some d" b]) (simp_all add: a_def)
    qed
  qed
qed

text \<open>C29: what an inspection may store is bounded and consistent, whatever the package holds: at most
  500 entries declaring at most 50 MB, at most 200 findings with no two alike, the three URL lists
  sorted without duplicates and cut at 500, every URL with a domain that is not on the list of
  well-known ones, a score from 0 to 10, and no host pattern left among the permissions.\<close>
theorem inspect_package_bounded:
  assumes "inspect_package env data = Inr r"
  shows "length (pa_findings r) \<le> 200 \<and> distinct (map finding_identity (pa_findings r)) \<and>
     sorted (pa_external_domains r) \<and> distinct (pa_external_domains r) \<and> length (pa_external_domains r) \<le> 500 \<and>
     sorted (pa_external_urls r) \<and> distinct (pa_external_urls r) \<and> length (pa_external_urls r) \<le> 500 \<and>
     sorted (pa_network_callout_urls r) \<and> distinct (pa_network_callout_urls r) \<and>
     length (pa_network_callout_urls r) \<le> 500 \<and>
     list_all (\<lambda>u. noted_domain u \<noteq> None) (pa_external_urls r @ pa_network_callout_urls r) \<and>
     0 \<le> pa_obfuscation_score r \<and> pa_obfuscation_score r \<le> 10 \<and>
     list_all (\<lambda>p. \<not> is_host_pattern p) (pa_permissions r) \<and>
     pa_file_count r \<le> 500 \<and> pa_total_size_bytes r \<le> 50 * 1024 * 1024"
proof -
  obtain zf m b where h: "r = finish_analysis (fold (scan_file env zf) (script_files zf m) b)"
    "findings_ok b" "urls_ok b" "list_all (\<lambda>p. \<not> is_host_pattern p) (pa_permissions b)"
    "pa_file_count b = int (length zf)" "length zf \<le> MAX_FILE_COUNT"
    "pa_total_size_bytes b = int (sum_list (map ze_file_size zf))" "sum_list (map ze_file_size zf) \<le> MAX_TOTAL_BYTES"
    using inspect_cases [OF assms] by metis
  define c where "c = fold (scan_file env zf) (script_files zf m) b"
  have "grows b c" unfolding c_def by (rule grows_scan)
  then have c: "findings_ok c" "urls_ok c" "pa_permissions c = pa_permissions b"
    "pa_file_count c = pa_file_count b" "pa_total_size_bytes c = pa_total_size_bytes b"
    using h(2,3) by (simp_all add: grows_def)
  have r: "r = finish_analysis c" using h(1) c_def by simp
  have cut: "sorted (take n (sorted_set xs)) \<and> distinct (take n (sorted_set xs)) \<and> length (take n (sorted_set xs)) \<le> n"
    for n and xs :: "string list" by (simp add: sorted_wrt_take)
  have urls: "list_all (\<lambda>u. noted_domain u \<noteq> None) (pa_external_urls r @ pa_network_callout_urls r)"
    using c(2) by (auto simp: r finish_analysis_def urls_ok_def list_all_iff dest!: in_set_takeD)
  have "length (pa_findings r) \<le> 200 \<and> distinct (map finding_identity (pa_findings r))"
    using c(1) by (simp add: r finish_analysis_def findings_ok_def MAX_FINDINGS_def)
  moreover have "0 \<le> pa_obfuscation_score r \<and> pa_obfuscation_score r \<le> 10"
    using c(2) by (simp add: r finish_analysis_def urls_ok_def)
  moreover have "pa_file_count r \<le> 500 \<and> pa_total_size_bytes r \<le> 50 * 1024 * 1024"
    using h(5-8) c(4,5) by (simp add: r finish_analysis_def MAX_FILE_COUNT_def MAX_TOTAL_BYTES_def)
  moreover have "list_all (\<lambda>p. \<not> is_host_pattern p) (pa_permissions r)"
    using h(4) c(3) by (simp add: r finish_analysis_def)
  ultimately show ?thesis using urls cut
    by (simp add: r finish_analysis_def MAX_EXTERNAL_DOMAINS_def MAX_EXTERNAL_URLS_def MAX_NETWORK_CALLOUT_URLS_def)
qed

text \<open>C30: renaming a script does not hide it. An entry of the archive that has a script or page
  suffix, or that the manifest names as code under any name, is scanned: when it can be read within
  the limits and is no page, a call of \<open>eval\<close> or \<open>new Function\<close> anywhere in it sets the flag of
  the analysis, whatever the other entries hold.\<close>
theorem eval_never_missed:
  assumes "inspect_package env data = Inr r" "ie_zipfile env (the (zip_payload data)) = Inr zf"
    and "load_manifest env zf = Inr (map_option (\<lambda>d. (d, name)) m)"
    and "n \<in> set (namelist zf)" "list_ex (ends_with (lower n)) SCAN_SUFFIXES \<or> n \<in> manifest_referenced_paths zf m"
    and "getinfo zf n = Some info" "ze_file_size info \<le> MAX_JS_BYTES" "ze_content info = Inr content"
    and "length content \<le> MAX_JS_BYTES" "\<not> list_ex (ends_with (lower n)) HTML_SUFFIXES"
    and "rx_found EVAL_RE (ie_decode env content)"
  shows "pa_uses_eval r"
proof -
  obtain zf' m' b where h: "ie_zipfile env (the (zip_payload data)) = Inr zf'"
    "r = finish_analysis (fold (scan_file env zf') (script_files zf' m') b)"
    "load_manifest env zf' = Inr None \<and> m' = None \<or>
     (\<exists>d name. load_manifest env zf' = Inr (Some (d, name)) \<and> m' = Some d)"
    using inspect_cases [OF assms(1)] by metis
  have eq: "zf' = zf" "m' = m" using h(1,3) assms(2,3) by (auto simp: map_option_case split: option.splits)
  have "n \<in> set (script_files zf m)" using assms(4,5) by (simp add: script_files_iff)
  then obtain us vs where split: "script_files zf m = us @ n # vs" by (meson split_list)
  have "pa_uses_eval (scan_file env zf n c)" for c
    using assms(6-11) by (simp add: scan_file_def analyse_js_eval)
  then have "pa_uses_eval (fold (scan_file env zf) (us @ n # vs) b)"
    using grows_scan [of _ env zf vs] by (simp add: grows_def)
  then show ?thesis by (simp add: h(2) eq split finish_analysis_def)
qed

definition sample_archive :: archive where
  "sample_archive =
     [\<lparr>ze_name = ''manifest.json'', ze_file_size = 2, ze_content = Inr ''{}''\<rparr>,
      \<lparr>ze_name = ''bg.dat'', ze_file_size = 9, ze_content = Inr ''x=eval (y)''\<rparr>]"

definition sample_inspect_env :: inspect_env where
  "sample_inspect_env =
     \<lparr>ie_zipfile = (\<lambda>_. Inr sample_archive), ie_sha256 = (\<lambda>_. ''00''),
      ie_loads = (\<lambda>_. Inr (JObj [(''manifest_version'', JInt 3),
         (''background'', JObj [(''service_worker'', JStr ''/bg.dat?v=1'')])])),
      ie_decode = id, ie_scripts = (\<lambda>_. [])\<rparr>"

definition sample_manifest :: jobject where
  "sample_manifest = [(''manifest_version'', JInt 3),
         (''background'', JObj [(''service_worker'', JStr ''/bg.dat?v=1'')])]"

lemma sample_load:
  "load_manifest sample_inspect_env sample_archive = Inr (Some (sample_manifest, ''manifest.json''))"
  by (simp add: load_manifest_def manifest_candidates_def candidate_name_def namelist_def sample_archive_def
      read_manifest_json_def getinfo_def sample_inspect_env_def sample_manifest_def MAX_MANIFEST_BYTES_def
      Let_def remove_prefix_def starts_with_def)

lemma sample_inspected: "\<not> isl (inspect_package sample_inspect_env ZIP_MAGIC)"
proof -
  have v: "\<not> is_vscode_package sample_manifest ''manifest.json''" by code_simp
  have z: "zip_payload ZIP_MAGIC = Some ZIP_MAGIC" by code_simp
  have "pa_manifest_version (move_host_patterns a) = pa_manifest_version a" for a
  proof -
    have "pa_manifest_version (fold move_host ps a) = pa_manifest_version a" for ps
      by (induction ps arbitrary: a) (simp_all add: move_host_def)
    then show ?thesis by (simp add: move_host_patterns_def)
  qed
  then have "pa_manifest_version (base_fields sample_manifest a) = JInt 3" for a
    by (simp add: base_fields_def Let_def sample_manifest_def get_or_def dict_get_def)
  then have "\<not> isl (extract_manifest_fields sample_manifest a ''manifest.json'')" for a
    by (simp add: extract_manifest_fields_def v analyse_manifest_risks_def below_3_def Let_def)
  moreover have "length sample_archive \<le> MAX_FILE_COUNT" "sum_list (map ze_file_size sample_archive) \<le> MAX_TOTAL_BYTES"
    by (simp_all add: sample_archive_def MAX_FILE_COUNT_def MAX_TOTAL_BYTES_def)
  moreover have "ie_zipfile sample_inspect_env ZIP_MAGIC = Inr sample_archive" by (simp add: sample_inspect_env_def)
  ultimately show ?thesis unfolding inspect_package_def
    by (simp add: z sample_load Let_def isl_def split: sum.split)
qed

lemma sample_result:
  "inspect_package sample_inspect_env ZIP_MAGIC = Inr (projr (inspect_package sample_inspect_env ZIP_MAGIC))"
  using sample_inspected by (simp add: sum.collapse)

theorem eval_never_missed_witness:
  "pa_uses_eval (projr (inspect_package sample_inspect_env ZIP_MAGIC))"
proof -
  let ?env = sample_inspect_env
  have z: "ie_zipfile ?env (the (zip_payload ZIP_MAGIC)) = Inr sample_archive"
    by (simp add: sample_inspect_env_def)
  have l: "load_manifest ?env sample_archive = Inr (map_option (\<lambda>d. (d, ''manifest.json'')) (Some sample_manifest))"
    by (simp add: sample_load)
  have n: "''bg.dat'' \<in> set (namelist sample_archive)"
    "list_ex (ends_with (lower ''bg.dat'')) SCAN_SUFFIXES \<or>
     ''bg.dat'' \<in> manifest_referenced_paths sample_archive (Some sample_manifest)"
    by code_simp+
  have i: "getinfo sample_archive ''bg.dat'' =
      Some \<lparr>ze_name = ''bg.dat'', ze_file_size = 9, ze_content = Inr ''x=eval (y)''\<rparr>"
    by (simp add: getinfo_def sample_archive_def)
  have e: "\<not> list_ex (ends_with (lower ''bg.dat'')) HTML_SUFFIXES" "rx_found EVAL_RE (ie_decode ?env ''x=eval (y)'')"
    by code_simp+
  show ?thesis
    by (rule eval_never_missed [OF sample_result z l n i _ _ _ e]) (simp_all add: MAX_JS_BYTES_def)
qed

text \<open>The scan reads exactly the entries it should: those of the archive with a script or page
  suffix and those the manifest names as code, each once; and a name the manifest gives is resolved
  inside the package only, never through a parent directory.\<close>
theorem scanned_entries:
  "distinct (script_files zf m) \<and>
   (n \<in> set (script_files zf m) \<longleftrightarrow>
      n \<in> set (namelist zf) \<and>
      (list_ex (ends_with (lower n)) SCAN_SUFFIXES \<or> n \<in> manifest_referenced_paths zf m)) \<and>
   manifest_referenced_paths zf m \<subseteq> {p \<in> set (namelist zf). ''..'' \<notin> set (split_on (CHR ''/'') p)}"
proof -
  have "manifest_referenced_paths zf m \<subseteq> {p \<in> set (namelist zf). ''..'' \<notin> set (split_on (CHR ''/'') p)}"
    using resolved_in_archive resolved_no_parent
    by (auto simp: manifest_referenced_paths_def split: option.splits list.splits)
  then show ?thesis by (simp add: script_files_iff) (simp add: script_files_def)
qed

theorem inspect_package_bounded_witness:
  "length (pa_findings (projr (inspect_package sample_inspect_env ZIP_MAGIC))) \<le> 200"
  using inspect_package_bounded [OF sample_result] by simp

end
