(* ===== verification/Stored_Types.thy ===== *)
theory Stored_Types
  imports Inspector_Laws Extension_Views Findings_View
begin

text \<open>
  The type of the stored analysis. \<open>Extension.package_analysis\<close> is a text column: what its readers
  may rely on is stated here as a typing relation on JSON values, the writers of the column are
  shown to keep it, and a well-typed analysis is shown to be read without loss or failure.
\<close>

section \<open>Typing\<close>

datatype jty =
    TAny
  | TBool
  | TInt
  | TStr
  | TOpt jty
  | TList jty
  | TRec "(string \<times> jty) list"

text \<open>A record type speaks of the keys it names; a partial object and further keys are fine.\<close>

inductive typed :: "json \<Rightarrow> jty \<Rightarrow> bool" where
  t_any: "typed v TAny"
| t_bool: "typed (JBool b) TBool"
| t_int: "typed (JInt i) TInt"
| t_str: "typed (JStr s) TStr"
| t_none: "typed JNull (TOpt t)"
| t_some: "typed v t \<Longrightarrow> typed v (TOpt t)"
| t_list: "(\<And>v. v \<in> set vs \<Longrightarrow> typed v t) \<Longrightarrow> typed (JArr vs) (TList t)"
| t_record: "(\<And>k t v. (k, t) \<in> set fs \<Longrightarrow> dict_get d k = Some v \<Longrightarrow> typed v t) \<Longrightarrow> typed (JObj d) (TRec fs)"

inductive_cases typed_StrE [elim!]: "typed v TStr"
inductive_cases typed_BoolE [elim!]: "typed v TBool"
inductive_cases typed_IntE [elim!]: "typed v TInt"
inductive_cases typed_OptE: "typed v (TOpt t)"
inductive_cases typed_ListE [elim!]: "typed v (TList t)"
inductive_cases typed_RecE: "typed v (TRec fs)"

inductive_simps typed_list_iff: "typed (JArr vs) (TList t)"
inductive_simps typed_record_iff: "typed (JObj d) (TRec fs)"

lemmas typed_intros = t_any t_bool t_int t_str t_none t_some t_list

lemma typed_field: "typed (JObj d) (TRec fs) \<Longrightarrow> (k, t) \<in> set fs \<Longrightarrow> dict_get d k = Some v \<Longrightarrow> typed v t"
  by (auto simp: typed_record_iff)

text \<open>An object is typed when its own entries are.\<close>

lemma typed_entries:
  assumes "distinct (map fst fs)" "\<And>k v t. (k, v) \<in> set d \<Longrightarrow> map_of fs k = Some t \<Longrightarrow> typed v t"
  shows "typed (JObj d) (TRec fs)"
proof (rule t_record)
  fix k t v
  assume "(k, t) \<in> set fs" "dict_get d k = Some v"
  then show "typed v t" using assms by (auto simp: dict_get_def dest: map_of_SomeD intro: map_of_is_SomeI)
qed

definition FINDING_TYPE :: jty where
  "FINDING_TYPE = TRec [(''code'', TStr), (''severity'', TStr), (''title'', TStr), (''detail'', TStr),
     (''source'', TStr), (''file'', TOpt TStr), (''line'', TOpt TInt)]"

definition ANALYSIS_TYPE :: jty where
  "ANALYSIS_TYPE = TRec
     [(''permissions'', TList TStr), (''host_permissions'', TList TStr), (''external_domains'', TList TStr),
      (''external_urls'', TList TStr), (''network_callout_urls'', TList TStr), (''package_sha256'', TStr),
      (''archive_sha256'', TStr), (''uses_eval'', TBool), (''uses_remote_code'', TBool),
      (''obfuscation_score'', TInt), (''file_count'', TInt), (''total_size_bytes'', TInt),
      (''has_minified_code'', TBool), (''manifest_version'', TAny), (''analysis_complete'', TBool),
      (''findings'', TList FINDING_TYPE)]"

section \<open>Writers\<close>

lemma typed_strs [intro]: "typed (json_strs ss) (TList TStr)"
  by (auto simp: json_strs_def intro!: t_list t_str)

lemma typed_finding: "typed (finding_dict f) FINDING_TYPE"
  unfolding finding_dict_def FINDING_TYPE_def
  by (rule typed_entries)
    (auto simp: json_opt_str_def json_opt_int_def split: option.split if_splits intro: typed_intros)

lemma typed_to_json_dict: "typed (JObj (to_json_dict a)) ANALYSIS_TYPE"
  unfolding to_json_dict_def ANALYSIS_TYPE_def
  by (rule typed_entries) (auto split: if_splits intro: t_any t_bool t_int t_str intro!: t_list typed_finding)

lemma typed_threat_finding: "typed (JObj (finding_for_entries es)) FINDING_TYPE"
  unfolding finding_for_entries_def FINDING_TYPE_def Let_def
  by (rule typed_entries) (auto split: if_splits intro: typed_intros)

lemma typed_findings_list:
  "typed (JObj d) ANALYSIS_TYPE \<Longrightarrow> f \<in> set (findings_list d) \<Longrightarrow> typed f FINDING_TYPE"
proof -
  assume d: "typed (JObj d) ANALYSIS_TYPE" and f: "f \<in> set (findings_list d)"
  obtain fs where fs: "dict_get d ''findings'' = Some (JArr fs)" "f \<in> set fs"
    using f by (auto simp: findings_list_def dict_get_none_def dict_get_def split: option.splits json.splits)
  have "typed (JArr fs) (TList FINDING_TYPE)"
    by (rule typed_field [OF d [unfolded ANALYSIS_TYPE_def] _ fs(1)]) simp
  then show ?thesis using fs(2) by (simp add: typed_list_iff)
qed

lemma typed_set_findings:
  assumes "typed (JObj d) ANALYSIS_TYPE" "\<And>f. f \<in> set fs \<Longrightarrow> typed f FINDING_TYPE"
  shows "typed (JObj (dict_set d ''findings'' (JArr fs))) ANALYSIS_TYPE"
  unfolding ANALYSIS_TYPE_def
proof (rule t_record)
  fix k t v
  assume k: "(k, t) \<in> set [(''permissions'', TList TStr), (''host_permissions'', TList TStr), (''external_domains'', TList TStr),
      (''external_urls'', TList TStr), (''network_callout_urls'', TList TStr), (''package_sha256'', TStr),
      (''archive_sha256'', TStr), (''uses_eval'', TBool), (''uses_remote_code'', TBool),
      (''obfuscation_score'', TInt), (''file_count'', TInt), (''total_size_bytes'', TInt),
      (''has_minified_code'', TBool), (''manifest_version'', TAny), (''analysis_complete'', TBool),
      (''findings'', TList FINDING_TYPE)]"
    and v: "dict_get (dict_set d ''findings'' (JArr fs)) k = Some v"
  show "typed v t"
  proof (cases "k = ''findings''")
    case True
    then have "t = TList FINDING_TYPE" "v = JArr fs" using k v by (auto simp: dict_get_set)
    then show ?thesis using assms(2) by (auto intro!: t_list)
  next
    case False
    then show ?thesis using typed_field [OF assms(1) [unfolded ANALYSIS_TYPE_def] k] v by (simp add: dict_get_set)
  qed
qed

definition row_typed :: "extension \<Rightarrow> bool" where
  "row_typed x \<longleftrightarrow> (\<forall>d. analysis_dict x = Some d \<longrightarrow> typed (JObj d) ANALYSIS_TYPE)"

definition analyses_typed :: "db \<Rightarrow> bool" where
  "analyses_typed d \<longleftrightarrow> (\<forall>x \<in> set (db_extensions d). row_typed x)"

lemma row_typed_cong: "x_package_analysis y = x_package_analysis x \<Longrightarrow> row_typed y = row_typed x"
  by (simp add: row_typed_def analysis_dict_def)

lemma typed_empty: "typed (JObj []) ANALYSIS_TYPE"
  unfolding ANALYSIS_TYPE_def by (rule typed_entries) auto

lemma dict_of_dumps: "x_package_analysis x = Some (json_dumps (JObj d)) \<Longrightarrow> analysis_dict x = Some d"
  by (simp add: analysis_dict_def json_object_def safe_json_loads_def empty_text_def json_dumps_def json_loads_def)

lemma row_typed_threat: "row_typed x \<Longrightarrow> row_typed (apply_threat_finding x es)"
proof -
  assume x: "row_typed x"
  have set: "row_typed (x\<lparr>x_package_analysis := Some (json_dumps (JObj (dict_set d ''findings'' (JArr fs))))\<rparr>)"
    if "typed (JObj d) ANALYSIS_TYPE" "\<And>f. f \<in> set fs \<Longrightarrow> typed f FINDING_TYPE" for d fs
    using typed_set_findings [OF that]
      dict_of_dumps [of "x\<lparr>x_package_analysis := Some (json_dumps (JObj (dict_set d ''findings'' (JArr fs))))\<rparr>"
          "dict_set d ''findings'' (JArr fs)"]
    by (auto simp: row_typed_def)
  have keep: "typed f FINDING_TYPE" if "typed (JObj d) ANALYSIS_TYPE" "f \<in> set (without_threat (findings_list d))" for d f
    using that typed_findings_list by (auto simp: without_threat_def)
  show ?thesis
  proof (cases "analysis_dict x")
    case None
    show ?thesis
    proof (cases "es = []")
      case True
      then show ?thesis using x None by (simp add: apply_threat_finding_def Let_def)
    next
      case False
      have "row_typed (x\<lparr>x_package_analysis := Some (json_dumps (JObj (dict_set [] ''findings''
          (JArr (without_threat (findings_list []) @ [JObj (finding_for_entries (map entry_input es))])))))\<rparr>)"
        by (rule set [OF typed_empty]) (use keep [OF typed_empty] typed_threat_finding in auto)
      then show ?thesis using None False by (simp add: apply_threat_finding_def Let_def)
    qed
  next
    case (Some d)
    then have d: "typed (JObj d) ANALYSIS_TYPE" using x by (simp add: row_typed_def)
    have "row_typed (x\<lparr>x_package_analysis := Some (json_dumps (JObj (dict_set d ''findings''
        (JArr (without_threat (findings_list d) @
          (if es \<noteq> [] then [JObj (finding_for_entries (map entry_input es))] else []))))))\<rparr>)"
      by (rule set [OF d]) (use keep [OF d] typed_threat_finding in \<open>auto split: if_splits\<close>)
    then show ?thesis using Some by (simp add: apply_threat_finding_def Let_def)
  qed
qed

lemma threat_transition_typed: "row_typed x \<Longrightarrow> row_typed (threat_transition x es)"
proof -
  assume "row_typed x"
  then have "row_typed (apply_threat_finding (x\<lparr>x_threat_match := (es \<noteq> [])\<rparr>) es)"
    by (intro row_typed_threat) (simp add: row_typed_def analysis_dict_def)
  then show ?thesis by (simp add: threat_transition_def Let_def row_typed_def analysis_dict_def set_posture_def)
qed

lemma fetched_row_typed: "row_typed x \<Longrightarrow> row_typed (fetched_row env now md analysis x d)"
proof -
  assume x: "row_typed x"
  have "row_typed (apply_fetch_results now x0 md analysis eff risk)"
    if x0: "x_package_analysis x0 = x_package_analysis x" for x0 eff risk
  proof (cases analysis)
    case None
    then show ?thesis using x x0
      by (simp add: apply_fetch_results_def Let_def row_typed_def analysis_dict_def set_posture_def)
  next
    case (Some a)
    then have "x_package_analysis (apply_fetch_results now x0 md analysis eff risk) = Some (json_dumps (JObj (to_json_dict a)))"
      by (simp add: apply_fetch_results_def Let_def)
    from dict_of_dumps [OF this] typed_to_json_dict show ?thesis by (simp add: row_typed_def)
  qed
  then show ?thesis by (simp add: fetched_row_def Let_def row_typed_threat)
qed

section \<open>Readers\<close>

text \<open>A typed finding is an object whose five texts are hashable, so the page can group it.\<close>

lemma typed_get:
  assumes "typed (JObj d) (TRec fs)" "(k, TStr) \<in> set fs"
  shows "hashable (dict_get_none d k) \<and> (dict_get_none d k = JNull \<or> (\<exists>s. dict_get_none d k = JStr s))"
  using typed_field [OF assms] by (cases "dict_get d k") (auto simp: dict_get_none_def dict_get_def hashable_def)

lemma or_else_hashable: "hashable a \<Longrightarrow> hashable b \<Longrightarrow> hashable (or_else a b)"
  by (simp add: or_else_def)

lemma hashable_str [simp]: "hashable (JStr s)"
  by (simp add: hashable_def)

lemma typed_finding_hashable:
  assumes "typed (JObj f) FINDING_TYPE" "group_and_row f = (g, r)"
  shows "list_all hashable [fg_severity g, fg_source g, fg_code g, fg_title g, fr_location r, fr_detail r]"
proof -
  have h: "hashable (dict_get_none f k)" if "k \<in> {''code'', ''severity'', ''title'', ''detail'', ''source''}" for k
    using typed_get [OF assms(1) [unfolded FINDING_TYPE_def], of k] that by auto
  have s: "hashable (or_else (dict_get_none f ''source'') (JStr ''package''))"
    by (simp add: or_else_hashable h)
  have "hashable (finding_location f (or_else (dict_get_none f ''source'') (JStr ''package'')))"
    using s by (simp add: finding_location_def Let_def)
  moreover have "g = fst (group_and_row f)" "r = snd (group_and_row f)" using assms(2) by simp_all
  ultimately show ?thesis using h s
    by (simp add: group_and_row_def Let_def or_else_hashable)
qed

lemma group_rows_typed:
  "list_all (\<lambda>f. typed f FINDING_TYPE) fs \<Longrightarrow> group_rows fs gs \<noteq> None"
proof (induction fs gs rule: group_rows.induct)
  case (2 finding fs gs)
  obtain g r where g: "group_and_row finding = (g, r)" by fastforce
  have "list_all hashable [fg_severity g, fg_source g, fg_code g, fg_title g, fr_location r, fr_detail r]"
    using typed_finding_hashable [OF _ g] 2(2) by simp
  then show ?case using 2 g by simp
qed simp_all

text \<open>Every typed finding is an object, so the response shows it.\<close>

lemma from_raw_typed: "typed f FINDING_TYPE \<Longrightarrow> finding_from_raw f \<noteq> None"
  by (auto simp: FINDING_TYPE_def finding_from_raw_def Let_def elim!: typed_RecE)

lemma map_filter_all: "list_all (\<lambda>x. f x \<noteq> None) xs \<Longrightarrow> length (List.map_filter f xs) = length xs"
  by (induction xs) (auto simp: List.map_filter_simps split: option.split)

lemma only_strings_typed: "typed (JArr vs) (TList TStr) \<Longrightarrow> map JStr (only_strings vs) = vs"
proof (induction vs)
  case (Cons v vs)
  then show ?case by (cases v) (auto simp: typed_list_iff)
qed simp

section \<open>Properties\<close>

text \<open>What the stored row's readers get from an analysis of the right type.\<close>

definition read_whole :: "extension \<Rightarrow> bool" where
  "read_whole x \<longleftrightarrow>
     (case analysis_dict x of
        None \<Rightarrow> True
      | Some d \<Rightarrow>
          group_detection_findings (findings_list d) \<noteq> None \<and>
          length (List.map_filter finding_from_raw (findings_list d)) = length (findings_list d) \<and>
          JArr (map JStr (host_permissions_list x)) = (case dict_get d ''host_permissions'' of
             None \<Rightarrow> JArr [] | Some v \<Rightarrow> v))"

lemma row_typed_read: "row_typed x \<Longrightarrow> read_whole x"
proof -
  assume x: "row_typed x"
  show "read_whole x"
  proof (cases "analysis_dict x")
    case None
    then show ?thesis by (simp add: read_whole_def)
  next
    case (Some d)
    then have d: "typed (JObj d) ANALYSIS_TYPE" using x by (simp add: row_typed_def)
    have fs: "list_all (\<lambda>f. typed f FINDING_TYPE) (findings_list d)"
      using typed_findings_list [OF d] by (simp add: list_all_iff)
    then have g: "group_detection_findings (findings_list d) \<noteq> None"
      using group_rows_typed by (simp add: group_detection_findings_def)
    have l: "length (List.map_filter finding_from_raw (findings_list d)) = length (findings_list d)"
      by (rule map_filter_all) (use fs from_raw_typed in \<open>auto simp: list_all_iff\<close>)
    have "JArr (map JStr (host_permissions_list x)) = (case dict_get d ''host_permissions'' of
             None \<Rightarrow> JArr [] | Some v \<Rightarrow> v)"
    proof (cases "dict_get d ''host_permissions''")
      case None
      then show ?thesis using Some by (simp add: host_permissions_list_def host_permissions_of_def)
    next
      case (Some v)
      have "typed v (TList TStr)"
        by (rule typed_field [OF d [unfolded ANALYSIS_TYPE_def] _ Some]) simp
      then obtain vs where "v = JArr vs" "map JStr (only_strings vs) = vs"
        using only_strings_typed by (auto simp: typed_list_iff)
      then show ?thesis using Some \<open>analysis_dict x = Some d\<close>
        by (simp add: host_permissions_list_def host_permissions_of_def)
    qed
    with g l Some show ?thesis by (simp add: read_whole_def)
  qed
qed



end
