(* ===== verification/Oidc_Config.thy ===== *)
theory Oidc_Config
  imports Proxy_Admin
begin

text \<open>
  Single sign-on, the part without a database: the runtime configuration and its validation
  (\<open>app/oidc/config.py\<close>), and the adapters that map a token's claims to an identity
  (\<open>app/oidc/base.py\<close>, \<open>entra.py\<close>; the other three use the standard one).

  The environment is an argument: the seed of the configuration, the client secrets, and
  \<open>str.encode("idna")\<close>. A \<open>ValueError\<close> is its text, shortened where it is long or the
  standard library's.
\<close>

section \<open>Configuration\<close>

datatype oidc_key = Entra | Authentik | Auth0 | Okta

fun key_name :: "oidc_key \<Rightarrow> string" where
  "key_name Entra = ''entra''"
| "key_name Authentik = ''authentik''"
| "key_name Auth0 = ''auth0''"
| "key_name Okta = ''okta''"

definition PROVIDER_KEYS :: "oidc_key list" where
  "PROVIDER_KEYS = [Entra, Authentik, Auth0, Okta]"

definition AUTH_MODES :: "string list" where "AUTH_MODES = [''local'', ''oidc'', ''both'']"

definition ROLE_MAP_VALUES :: "string list" where
  "ROLE_MAP_VALUES = [''admin'', ''analyst'', ''auditor'', ''user'']"

definition ROLE_MAP_ALIASES :: "(string \<times> string) list" where
  "ROLE_MAP_ALIASES = [(''user'', ''analyst'')]"

record oidc_config =
  oc_auth_mode :: string
  oc_redirect_base_url :: string
  oc_entra_enabled :: bool
  oc_entra_client_id :: string
  oc_entra_tenant_id :: string
  oc_entra_scopes :: string
  oc_entra_role_claim :: string
  oc_entra_role_map :: string
  oc_authentik_enabled :: bool
  oc_authentik_client_id :: string
  oc_authentik_base_url :: string
  oc_authentik_app_slug :: string
  oc_authentik_scopes :: string
  oc_authentik_role_claim :: string
  oc_authentik_role_map :: string
  oc_auth0_enabled :: bool
  oc_auth0_client_id :: string
  oc_auth0_domain :: string
  oc_auth0_scopes :: string
  oc_auth0_role_claim :: string
  oc_auth0_role_map :: string
  oc_okta_enabled :: bool
  oc_okta_client_id :: string
  oc_okta_domain :: string
  oc_okta_auth_server :: string
  oc_okta_scopes :: string
  oc_okta_role_claim :: string
  oc_okta_role_map :: string

record oidc_env =
  oe_seed :: oidc_config
  oe_client_secret :: "oidc_key \<Rightarrow> string"
  oe_idna :: "string \<Rightarrow> string option"
  oe_sha256 :: "string \<Rightarrow> string"
  oe_app_base_url :: string

text \<open>The fields every provider has, by its key.\<close>

fun provider_enabled :: "oidc_config \<Rightarrow> oidc_key \<Rightarrow> bool" where
  "provider_enabled c Entra = oc_entra_enabled c"
| "provider_enabled c Authentik = oc_authentik_enabled c"
| "provider_enabled c Auth0 = oc_auth0_enabled c"
| "provider_enabled c Okta = oc_okta_enabled c"

fun provider_scopes :: "oidc_config \<Rightarrow> oidc_key \<Rightarrow> string" where
  "provider_scopes c Entra = oc_entra_scopes c"
| "provider_scopes c Authentik = oc_authentik_scopes c"
| "provider_scopes c Auth0 = oc_auth0_scopes c"
| "provider_scopes c Okta = oc_okta_scopes c"

fun provider_role_map :: "oidc_config \<Rightarrow> oidc_key \<Rightarrow> string" where
  "provider_role_map c Entra = oc_entra_role_map c"
| "provider_role_map c Authentik = oc_authentik_role_map c"
| "provider_role_map c Auth0 = oc_auth0_role_map c"
| "provider_role_map c Okta = oc_okta_role_map c"

fun provider_requirements :: "oidc_config \<Rightarrow> oidc_key \<Rightarrow> string list" where
  "provider_requirements c Entra = [oc_entra_client_id c, oc_entra_tenant_id c]"
| "provider_requirements c Authentik =
     [oc_authentik_client_id c, oc_authentik_base_url c, oc_authentik_app_slug c]"
| "provider_requirements c Auth0 = [oc_auth0_client_id c, oc_auth0_domain c]"
| "provider_requirements c Okta = [oc_okta_client_id c, oc_okta_domain c]"

record provider_config =
  pc_key :: string
  pc_display_name :: string
  pc_client_id :: string
  pc_client_secret :: string
  pc_metadata_url :: string
  pc_scopes :: string
  pc_role_claim :: string
  pc_role_map :: "(string \<times> string) list"

text \<open>One \<open>group=role\<close> pair; the role may hold further equal signs.\<close>

definition role_pair :: "string \<Rightarrow> (string \<times> string) option" where
  "role_pair pair0 =
     (let pair = strip pair0; (group, eq, role) = partition_at (CHR ''='') pair in
      if pair = [] \<or> \<not> eq then None
      else if strip group \<noteq> [] \<and> strip role \<noteq> [] then Some (strip group, strip role) else None)"

definition parse_role_map :: "string \<Rightarrow> (string \<times> string) list" where
  "parse_role_map raw =
     fold (\<lambda>(g, r) d. dict_put d g r) (List.map_filter role_pair (split_on (CHR '','') raw)) []"

definition local_auth_enabled :: "oidc_config \<Rightarrow> bool" where
  "local_auth_enabled c \<longleftrightarrow> oc_auth_mode c \<in> {''local'', ''both''}"

definition oidc_auth_enabled :: "oidc_config \<Rightarrow> bool" where
  "oidc_auth_enabled c \<longleftrightarrow> oc_auth_mode c \<in> {''oidc'', ''both''}"

definition strip_slashes_right :: "string \<Rightarrow> string" where
  "strip_slashes_right s = rstrip_by (\<lambda>x. x = CHR ''/'') s"

definition well_known :: string where
  "well_known = ''/.well-known/openid-configuration''"

fun provider_of :: "oidc_env \<Rightarrow> oidc_config \<Rightarrow> oidc_key \<Rightarrow> provider_config" where
  "provider_of env c Entra =
     \<lparr>pc_key = ''entra'', pc_display_name = ''Microsoft Entra ID'', pc_client_id = oc_entra_client_id c,
      pc_client_secret = oe_client_secret env Entra,
      pc_metadata_url = ''https://login.microsoftonline.com/'' @ oc_entra_tenant_id c @ ''/v2.0'' @ well_known,
      pc_scopes = oc_entra_scopes c, pc_role_claim = oc_entra_role_claim c,
      pc_role_map = parse_role_map (oc_entra_role_map c)\<rparr>"
| "provider_of env c Authentik =
     \<lparr>pc_key = ''authentik'', pc_display_name = ''Authentik'', pc_client_id = oc_authentik_client_id c,
      pc_client_secret = oe_client_secret env Authentik,
      pc_metadata_url = strip_slashes_right (oc_authentik_base_url c) @ ''/application/o/'' @
        oc_authentik_app_slug c @ well_known,
      pc_scopes = oc_authentik_scopes c, pc_role_claim = oc_authentik_role_claim c,
      pc_role_map = parse_role_map (oc_authentik_role_map c)\<rparr>"
| "provider_of env c Auth0 =
     \<lparr>pc_key = ''auth0'', pc_display_name = ''Auth0'', pc_client_id = oc_auth0_client_id c,
      pc_client_secret = oe_client_secret env Auth0,
      pc_metadata_url = ''https://'' @ strip_slashes_right (oc_auth0_domain c) @ well_known,
      pc_scopes = oc_auth0_scopes c, pc_role_claim = oc_auth0_role_claim c,
      pc_role_map = parse_role_map (oc_auth0_role_map c)\<rparr>"
| "provider_of env c Okta =
     (let server = strip_by (\<lambda>x. x = CHR ''/'') (oc_okta_auth_server c);
          path = (if server \<noteq> [] then ''/oauth2/'' @ server else [])
      in \<lparr>pc_key = ''okta'', pc_display_name = ''Okta'', pc_client_id = oc_okta_client_id c,
          pc_client_secret = oe_client_secret env Okta,
          pc_metadata_url = ''https://'' @ strip_slashes_right (oc_okta_domain c) @ path @ well_known,
          pc_scopes = oc_okta_scopes c, pc_role_claim = oc_okta_role_claim c,
          pc_role_map = parse_role_map (oc_okta_role_map c)\<rparr>)"

definition enabled_providers :: "oidc_env \<Rightarrow> oidc_config \<Rightarrow> provider_config list" where
  "enabled_providers env c =
     (if \<not> oidc_auth_enabled c then []
      else map (provider_of env c) (filter (provider_enabled c) PROVIDER_KEYS))"

section \<open>Validation\<close>

text \<open>\<open>None\<close> is the \<open>ValueError\<close> of \<open>urlsplit\<close>.\<close>

definition valid_absolute_url :: "string \<Rightarrow> bool option" where
  "valid_absolute_url v =
     map_option (\<lambda>p. ur_scheme p \<in> {''http'', ''https''} \<and>
                     (case url_hostname p of Some (c # h) \<Rightarrow> True | _ \<Rightarrow> False)) (urlsplit v)"

definition dns_label_char :: "char \<Rightarrow> bool" where
  "dns_label_char c \<longleftrightarrow> is_letter_ascii c \<or> is_digit_ascii c \<or> c = CHR ''-''"

definition DNS_LABEL :: "string \<Rightarrow> bool" where
  "DNS_LABEL l \<longleftrightarrow> 1 \<le> length l \<and> length l \<le> 63 \<and> list_all dns_label_char l \<and>
     hd l \<noteq> CHR ''-'' \<and> last l \<noteq> CHR ''-''"

definition valid_domain :: "oidc_env \<Rightarrow> string \<Rightarrow> bool" where
  "valid_domain env v \<longleftrightarrow>
     v \<noteq> [] \<and> \<not> list_ex is_py_space v \<and>
     (case oe_idna env v of
        None \<Rightarrow> False
      | Some ascii \<Rightarrow>
          length ascii \<le> 253 \<and>
          (let labels = split_on (CHR ''.'') ascii in 2 \<le> length labels \<and> list_all DNS_LABEL labels))"

definition validate_role_map :: "string \<Rightarrow> string \<Rightarrow> string option" where
  "validate_role_map provider raw =
     (if strip raw = [] then None
      else
        let parsed = parse_role_map raw;
            pairs = filter (\<lambda>p. p \<noteq> []) (map strip (split_on (CHR '','') raw))
        in if length parsed \<noteq> length pairs \<or> list_ex (\<lambda>p. CHR ''='' \<notin> set p) pairs \<or>
              list_ex (\<lambda>(_, role). role \<notin> set ROLE_MAP_VALUES) parsed
           then Some (provider @ '' role map must use group='' @ join ''|'' ROLE_MAP_VALUES @ '' pairs'')
           else None)"

text \<open>The checks of an enabled provider, in the order of the source.\<close>

definition validate_provider :: "oidc_env \<Rightarrow> oidc_config \<Rightarrow> oidc_key \<Rightarrow> string option" where
  "validate_provider env c k =
     (let url_ok = (if k = Authentik then valid_absolute_url (oc_authentik_base_url c) else Some True) in
      if \<not> list_all (\<lambda>v. strip v \<noteq> []) (provider_requirements c k)
      then Some (key_name k @ '' is enabled but its non-secret configuration is incomplete'')
      else if url_ok = None then Some ''Invalid URL''
      else if url_ok = Some False then Some ''authentik base URL must be an absolute http(s) URL''
      else if k = Auth0 \<and> \<not> valid_domain env (oc_auth0_domain c)
      then Some ''auth0 domain must be a bare hostname (no scheme or path)''
      else if k = Okta \<and> \<not> valid_domain env (oc_okta_domain c)
      then Some ''okta domain must be a bare hostname (no scheme or path)''
      else if ''openid'' \<notin> set (split_words (provider_scopes c k))
      then Some (key_name k @ '' is enabled but its scopes do not include the required openid scope'')
      else if oe_client_secret env k = []
      then Some (''ICEBERG_EBS_OIDC_'' @ upper (key_name k) @ ''_CLIENT_SECRET is not set in the environment'')
      else None)"

fun first_error :: "('a \<Rightarrow> string option) \<Rightarrow> 'a list \<Rightarrow> string option" where
  "first_error f [] = None"
| "first_error f (x # xs) = (case f x of Some e \<Rightarrow> Some e | None \<Rightarrow> first_error f xs)"

definition validate_enabled :: "oidc_env \<Rightarrow> oidc_config \<Rightarrow> string option" where
  "validate_enabled env c =
     (case first_error (validate_provider env c) (filter (provider_enabled c) PROVIDER_KEYS) of
        Some e \<Rightarrow> Some e
      | None \<Rightarrow>
          if oc_entra_enabled c \<and>
             lower (strip (oc_entra_tenant_id c)) \<in> {''common'', ''organizations'', ''consumers''}
          then Some ''entra tenant_id must be a specific tenant (GUID or verified domain), not a multi-tenant alias''
          else if oc_auth_mode c = ''oidc'' \<and> filter (provider_enabled c) PROVIDER_KEYS = []
          then Some ''OIDC-only mode requires at least one complete enabled provider; local login was kept on''
          else None)"

definition validate_oidc_config :: "oidc_env \<Rightarrow> oidc_config \<Rightarrow> string option" where
  "validate_oidc_config env c =
     (if oc_auth_mode c \<notin> set AUTH_MODES then Some ''Authentication mode must be local, oidc, or both''
      else if oc_redirect_base_url c \<noteq> [] \<and> valid_absolute_url (oc_redirect_base_url c) = None
      then Some ''Invalid URL''
      else if oc_redirect_base_url c \<noteq> [] \<and> valid_absolute_url (oc_redirect_base_url c) = Some False
      then Some ''OIDC redirect base URL must be an absolute http(s) URL''
      else (case first_error (\<lambda>k. validate_role_map (key_name k) (provider_role_map c k)) PROVIDER_KEYS of
              Some e \<Rightarrow> Some e
            | None \<Rightarrow> if \<not> oidc_auth_enabled c then None else validate_enabled env c))"

section \<open>Identities\<close>

record oidc_identity =
  id_issuer :: string
  id_subject :: string
  id_email :: string
  id_email_verified :: bool
  id_groups :: "string list"
  id_tenant_id :: "string option"

fun first_claim :: "jobject \<Rightarrow> string list \<Rightarrow> string option" where
  "first_claim claims [] = None"
| "first_claim claims (n # ns) =
     (if truthy (dict_get_none claims n) then Some (py_str (dict_get_none claims n))
      else first_claim claims ns)"

definition require_claim :: "jobject \<Rightarrow> string list \<Rightarrow> string + string" where
  "require_claim claims names =
     (case first_claim claims names of
        Some v \<Rightarrow> Inr v
      | None \<Rightarrow> Inl (''ID token missing required claim(s): '' @ join '' / '' names))"

definition groups_from :: "jobject \<Rightarrow> string \<Rightarrow> string list" where
  "groups_from claims role_claim =
     (if role_claim = [] then []
      else (case dict_get_none claims role_claim of
              JNull \<Rightarrow> []
            | JStr s \<Rightarrow> [s]
            | JArr gs \<Rightarrow> map py_str gs
            | v \<Rightarrow> [py_str v]))"

definition role_claim_overaged :: "jobject \<Rightarrow> string \<Rightarrow> bool" where
  "role_claim_overaged claims role_claim \<longleftrightarrow>
     role_claim \<noteq> [] \<and> dict_get claims role_claim = None \<and>
     (case dict_get_none claims ''_claim_names'' of
        JObj names \<Rightarrow> dict_get names role_claim \<noteq> None \<or> dict_get names ''groups'' \<noteq> None
      | _ \<Rightarrow> False)"

definition standard_identity :: "jobject \<Rightarrow> string \<Rightarrow> string + oidc_identity" where
  "standard_identity claims role_claim =
     (case require_claim claims [''iss''] of
        Inl e \<Rightarrow> Inl e
      | Inr issuer \<Rightarrow>
          (case require_claim claims [''sub''] of
             Inl e \<Rightarrow> Inl e
           | Inr subject \<Rightarrow>
               (case require_claim claims [''email''] of
                  Inl e \<Rightarrow> Inl e
                | Inr email \<Rightarrow>
                    Inr \<lparr>id_issuer = issuer, id_subject = subject, id_email = email,
                         id_email_verified = (dict_get_none claims ''email_verified'' = JBool True),
                         id_groups = groups_from claims role_claim, id_tenant_id = None\<rparr>)))"

definition entra_email_verified :: "jobject \<Rightarrow> bool" where
  "entra_email_verified claims \<longleftrightarrow>
     truthy (dict_get_none claims ''email'') \<and>
     (let edov = dict_get_none claims ''xms_edov'' in
      if edov \<noteq> JNull then edov = JBool True else dict_get_none claims ''email_verified'' = JBool True)"

definition entra_identity :: "jobject \<Rightarrow> string \<Rightarrow> string + oidc_identity" where
  "entra_identity claims role_claim =
     (case require_claim claims [''iss''] of
        Inl e \<Rightarrow> Inl e
      | Inr issuer \<Rightarrow>
          (case require_claim claims [''sub''] of
             Inl e \<Rightarrow> Inl e
           | Inr subject \<Rightarrow>
               (case require_claim claims [''tid''] of
                  Inl e \<Rightarrow> Inl e
                | Inr tenant_id \<Rightarrow>
                    (case require_claim claims [''email'', ''preferred_username''] of
                       Inl e \<Rightarrow> Inl e
                     | Inr email \<Rightarrow>
                         if role_claim_overaged claims role_claim
                         then Inl (''role claim '' @ role_claim @ '' omitted from the ID token'')
                         else Inr \<lparr>id_issuer = issuer, id_subject = subject, id_email = email,
                                   id_email_verified = entra_email_verified claims,
                                   id_groups = groups_from claims role_claim,
                                   id_tenant_id = Some tenant_id\<rparr>))))"

definition extract_identity :: "oidc_key \<Rightarrow> jobject \<Rightarrow> string \<Rightarrow> string + oidc_identity" where
  "extract_identity k claims role_claim =
     (if k = Entra then entra_identity claims role_claim else standard_identity claims role_claim)"

definition get_adapter :: "string \<Rightarrow> oidc_key option" where
  "get_adapter key = find (\<lambda>k. key_name k = key) PROVIDER_KEYS"

end
