(* ===== verification/Oidc_Service.thy ===== *)
theory Oidc_Service
  imports Oidc_Config Accounts
begin

text \<open>
  \<open>app/oidc/service.py\<close>: resolving a validated identity to a local account, and the provider
  registry.

  What other requests commit between this one's reads and its writes is an argument: \<open>oidc_race\<close>
  has one function for each of the three places where the code expects it. The unique
  constraints are those of the user table (\<open>users_compatible\<close>, \<open>user_row_ok\<close> of Models); a write
  they reject is the \<open>IntegrityError\<close> the code handles.
\<close>

section \<open>Roles and names\<close>

definition ROLE_PRECEDENCE :: "role list" where "ROLE_PRECEDENCE = [ADMIN, ANALYST, AUDITOR]"

text \<open>The value a group maps to, aliases resolved; \<open>None\<close> when the group is not mapped.\<close>

definition mapped_value :: "provider_config \<Rightarrow> string \<Rightarrow> string option" where
  "mapped_value cfg grp =
     (case map_of ROLE_MAP_ALIASES (case map_of (pc_role_map cfg) grp of Some v \<Rightarrow> v | None \<Rightarrow> []) of
        Some v \<Rightarrow> Some v
      | None \<Rightarrow> map_of (pc_role_map cfg) grp)"

definition map_role :: "provider_config \<Rightarrow> oidc_identity \<Rightarrow> role" where
  "map_role cfg identity =
     (case find (\<lambda>r. Some (role_value r) \<in> mapped_value cfg ` set (id_groups identity)) ROLE_PRECEDENCE of
        Some r \<Rightarrow> r | None \<Rightarrow> ANALYST)"

definition subject_hash :: "oidc_env \<Rightarrow> oidc_identity \<Rightarrow> string" where
  "subject_hash env identity = oe_sha256 env (id_issuer identity @ '':'' @ id_subject identity)"

definition derive_username :: "oidc_env \<Rightarrow> string \<Rightarrow> oidc_identity \<Rightarrow> nat \<Rightarrow> string" where
  "derive_username env email identity width =
     take 140 email @ ''-'' @ take width (subject_hash env identity)"

section \<open>Reading and writing accounts\<close>

record oidc_race =
  or_insert :: "db \<Rightarrow> db"
  or_retry :: "db \<Rightarrow> db"
  or_email :: "db \<Rightarrow> db"

definition match_identity :: "db \<Rightarrow> oidc_identity \<Rightarrow> string \<Rightarrow> user option" where
  "match_identity d identity provider =
     find (\<lambda>u. u_auth_provider u = provider \<and> u_oidc_issuer u = Some (id_issuer identity) \<and>
               u_oidc_subject u = Some (id_subject identity)) (db_users d)"

definition foreign_identity_exists :: "db \<Rightarrow> oidc_identity \<Rightarrow> string \<Rightarrow> bool" where
  "foreign_identity_exists d identity provider \<longleftrightarrow>
     list_ex (\<lambda>u. u_oidc_issuer u = Some (id_issuer identity) \<and>
                  u_oidc_subject u = Some (id_subject identity) \<and> u_auth_provider u \<noteq> provider) (db_users d)"

definition email_owner :: "db \<Rightarrow> string \<Rightarrow> user option" where
  "email_owner d normalized = find (\<lambda>u. map_option lower (u_email u) = Some normalized) (db_users d)"

text \<open>A row the constraints accept beside the others.\<close>

definition row_accepted :: "user \<Rightarrow> db \<Rightarrow> bool" where
  "row_accepted u d \<longleftrightarrow> user_row_ok u \<and> list_all (\<lambda>v. u_id v = u_id u \<or> users_compatible u v) (db_users d)"

definition provision_audit :: "instant \<Rightarrow> user \<Rightarrow> string \<Rightarrow> db \<Rightarrow> db" where
  "provision_audit now u provider d =
     audit_record now (actor_from_request u None) ''user.provision'' ''user'' (Some (show_int (u_id u)))
       [(''username'', JStr (u_username u)), (''role'', JStr (u_role u)),
        (''provider'', JStr provider), (''via'', JStr ''oidc'')] d"

text \<open>Flush, audit and commit; \<open>None\<close> is the \<open>IntegrityError\<close>.\<close>

definition insert_user :: "instant \<Rightarrow> string \<Rightarrow> user \<Rightarrow> db \<Rightarrow> (user \<times> db) option" where
  "insert_user now provider u0 d =
     (let u = u0\<lparr>u_id := db_next_id d\<rparr> in
      if row_accepted u d then Some (u, provision_audit now u provider (add_user u d)) else None)"

section \<open>Returning users\<close>

definition sync_email :: "oidc_race \<Rightarrow> oidc_identity \<Rightarrow> user \<Rightarrow> db \<Rightarrow> user \<times> db" where
  "sync_email race identity user d =
     (let new_email = lower (strip (id_email identity)) in
      if \<not> id_email_verified identity \<or> new_email = [] \<or> Some new_email = u_email user then (user, d)
      else
        (case email_owner d new_email of
           Some owner \<Rightarrow>
             if u_id owner \<noteq> u_id user then (user, d)
             else (let d1 = or_email race d; u = user\<lparr>u_email := Some new_email\<rparr>
                   in if row_accepted u d1 then (u, put_user u d1) else (user, d1))
         | None \<Rightarrow>
             (let d1 = or_email race d; u = user\<lparr>u_email := Some new_email\<rparr>
              in if row_accepted u d1 then (u, put_user u d1) else (user, d1))))"

definition role_sync_audit :: "instant \<Rightarrow> provider_config \<Rightarrow> string \<Rightarrow> user \<Rightarrow> db \<Rightarrow> db" where
  "role_sync_audit now cfg previous u d =
     audit_record now (actor_from_request u None) ''user.role_sync'' ''user'' (Some (show_int (u_id u)))
       [(''previous'', JStr previous), (''role'', JStr (u_role u)), (''provider'', JStr (pc_key cfg)),
        (''via'', JStr ''oidc'')] d"

text \<open>The tenant and role part: the row it wants, or the denial. An unchanged row is not written.\<close>

definition sync_tenant :: "oidc_identity \<Rightarrow> user \<Rightarrow> string + user" where
  "sync_tenant identity user =
     (if u_auth_tenant user \<noteq> None \<and> u_auth_tenant user \<noteq> id_tenant_id identity
      then Inl ''identity conflict''
      else if u_auth_tenant user = None \<and> id_tenant_id identity \<noteq> None
      then Inr (user\<lparr>u_auth_tenant := id_tenant_id identity\<rparr>)
      else Inr user)"

definition sync_returning_user ::
    "oidc_race \<Rightarrow> instant \<Rightarrow> provider_config \<Rightarrow> oidc_identity \<Rightarrow> user \<Rightarrow> db \<Rightarrow> (string + user) \<times> db" where
  "sync_returning_user race now cfg identity user d =
     (case sync_tenant identity user of
        Inl e \<Rightarrow> (Inl e, d)
      | Inr u1 \<Rightarrow>
          let mapped = role_value (map_role cfg identity) in
          if u_role_managed_by_idp u1 \<and> mapped \<noteq> u_role u1 then
            (let u2 = u1\<lparr>u_role := mapped, u_password_changed_at := Some (Aware now)\<rparr>;
                 d1 = role_sync_audit now cfg (u_role u1) u2 (put_user u2 d);
                 (u3, d2) = sync_email race identity u2 d1
             in (Inr u3, d2))
          else
            (let d1 = (if u1 = user then d else put_user u1 d);
                 (u3, d2) = sync_email race identity u1 d1
             in (Inr u3, d2)))"

section \<open>Provisioning\<close>

definition jit_user :: "instant \<Rightarrow> provider_config \<Rightarrow> oidc_identity \<Rightarrow> string \<Rightarrow> string \<Rightarrow> user" where
  "jit_user now cfg identity username email =
     \<lparr>u_id = 0, u_username = username, u_password_hash = None, u_email = Some email,
      u_role = role_value (map_role cfg identity), u_auth_provider = pc_key cfg,
      u_oidc_issuer = Some (id_issuer identity), u_oidc_subject = Some (id_subject identity),
      u_auth_tenant = id_tenant_id identity, u_role_managed_by_idp = True, u_created_at = now,
      u_password_changed_at = Some (Aware now)\<rparr>"

text \<open>After a rejected insert and its rollback.\<close>

definition provision_again ::
    "oidc_env \<Rightarrow> oidc_race \<Rightarrow> instant \<Rightarrow> provider_config \<Rightarrow> oidc_identity \<Rightarrow> user \<Rightarrow> string \<Rightarrow> db \<Rightarrow>
       (string + user \<times> bool) \<times> db" where
  "provision_again env race now cfg identity u email d =
     (case match_identity d identity (pc_key cfg) of
        Some existing \<Rightarrow>
          (case sync_returning_user race now cfg identity existing d of
             (Inl e, d') \<Rightarrow> (Inl e, d')
           | (Inr u', d') \<Rightarrow> (Inr (u', False), d'))
      | None \<Rightarrow>
          if foreign_identity_exists d identity (pc_key cfg) then (Inl ''identity conflict'', d)
          else if email_owner d email \<noteq> None then (Inl ''account linking required'', d)
          else
            (let d1 = or_retry race d in
             case insert_user now (pc_key cfg) (u\<lparr>u_username := derive_username env email identity 32\<rparr>) d1 of
               None \<Rightarrow> (Inl ''provisioning conflict'', d1)
             | Some (u', d') \<Rightarrow> (Inr (u', True), d')))"

definition provision_oidc_user ::
    "oidc_env \<Rightarrow> oidc_race \<Rightarrow> instant \<Rightarrow> provider_config \<Rightarrow> oidc_identity \<Rightarrow> db \<Rightarrow>
       (string + user \<times> bool) \<times> db" where
  "provision_oidc_user env race now cfg identity d =
     (case match_identity d identity (pc_key cfg) of
        Some existing \<Rightarrow>
          (case sync_returning_user race now cfg identity existing d of
             (Inl e, d') \<Rightarrow> (Inl e, d')
           | (Inr u', d') \<Rightarrow> (Inr (u', False), d'))
      | None \<Rightarrow>
          if foreign_identity_exists d identity (pc_key cfg) then (Inl ''identity conflict'', d)
          else if \<not> id_email_verified identity then (Inl ''email not verified'', d)
          else
            let email = lower (strip (id_email identity)) in
            if email_owner d email \<noteq> None then (Inl ''account linking required'', d)
            else
              let username = (if find_user d email \<noteq> None then derive_username env email identity 8 else email);
                  u = jit_user now cfg identity username email;
                  d1 = or_insert race d
              in (case insert_user now (pc_key cfg) u d1 of
                    Some (u', d') \<Rightarrow> (Inr (u', True), d')
                  | None \<Rightarrow> provision_again env race now cfg identity u email d1))"

section \<open>The provider registry\<close>

text \<open>The module state: the configurations registered, whether registration ran, and the clients
  Authlib holds, by key.\<close>

record registry =
  rg_registered :: "(string \<times> provider_config) list"
  rg_done :: bool
  rg_clients :: "(string \<times> provider_config) list"

definition register_one :: "provider_config \<Rightarrow> registry \<Rightarrow> registry" where
  "register_one cfg g =
     (if map_of (rg_registered g) (pc_key cfg) \<noteq> None then g
      else g\<lparr>rg_registered := rg_registered g @ [(pc_key cfg, cfg)],
             rg_clients := dict_put (rg_clients g) (pc_key cfg) cfg\<rparr>)"

definition register_providers :: "oidc_env \<Rightarrow> oidc_config \<Rightarrow> registry \<Rightarrow> provider_config list \<times> registry" where
  "register_providers env c g =
     (let configs = enabled_providers env c
      in (configs, (fold register_one configs g)\<lparr>rg_done := True\<rparr>))"

definition reset_registration :: "registry \<Rightarrow> registry" where
  "reset_registration g = \<lparr>rg_registered = [], rg_done = False, rg_clients = []\<rparr>"

definition ensure_registered :: "oidc_env \<Rightarrow> oidc_config \<Rightarrow> registry \<Rightarrow> registry" where
  "ensure_registered env c g = (if rg_done g then g else snd (register_providers env c g))"

definition registered_providers :: "registry \<Rightarrow> provider_config list" where
  "registered_providers g = map snd (rg_registered g)"

definition get_provider :: "registry \<Rightarrow> string \<Rightarrow> provider_config option" where
  "get_provider g key = map_of (rg_registered g) key"

text \<open>\<open>urlencode\<close> of the parameters; a discovery that fails or is no object is \<open>None\<close>.\<close>

definition urlencode :: "(string \<times> string) list \<Rightarrow> string" where
  "urlencode ps = join ''&'' (map (\<lambda>(k, v). k @ ''='' @
     concat (map (\<lambda>c. if c = CHR '' '' then ''+'' else quote_char c) v)) ps)"

definition end_session_url ::
    "oidc_env \<Rightarrow> oidc_config \<Rightarrow> (string \<Rightarrow> jobject option) \<Rightarrow> string \<Rightarrow> string \<Rightarrow> string option \<Rightarrow> registry \<Rightarrow>
       string option \<times> registry" where
  "end_session_url env c metadata provider post_logout id_token g =
     (let g1 = ensure_registered env c g in
      (case (get_provider g1 provider, map_of (rg_clients g1) provider) of
         (Some cfg, Some _) \<Rightarrow>
           (case metadata provider of
              None \<Rightarrow> None
            | Some m \<Rightarrow>
                let endpoint = dict_get_none m ''end_session_endpoint'' in
                if \<not> truthy endpoint then None
                else Some (py_str endpoint @ ''?'' @ urlencode
                  ([(''post_logout_redirect_uri'', post_logout), (''client_id'', pc_client_id cfg)]
                   @ (case id_token of Some (t # ts) \<Rightarrow> [(''id_token_hint'', t # ts)] | _ \<Rightarrow> []))))
       | _ \<Rightarrow> None, g1))"

end
