(* ===== verification/Oidc_Laws.thy ===== *)
theory Oidc_Laws
  imports Oidc_Service
begin

text \<open>
  What a sign-in can and cannot do: which account it returns, which role that account gets, what
  happens to the other accounts, and the constraints of the table.
\<close>

section \<open>Roles\<close>

lemma role_value_inj [simp]: "role_value r = role_value s \<longleftrightarrow> r = s"
  by (cases r; cases s) simp_all

lemma mapped_admin: "mapped_value cfg g = Some ''admin'' \<longleftrightarrow> map_of (pc_role_map cfg) g = Some ''admin''"
  by (auto simp: mapped_value_def ROLE_MAP_ALIASES_def split: option.splits if_splits)

lemma map_role_admin:
  "map_role cfg i = ADMIN \<longleftrightarrow> (\<exists>g \<in> set (id_groups i). map_of (pc_role_map cfg) g = Some ''admin'')"
proof -
  have "Some ''admin'' \<in> mapped_value cfg ` set (id_groups i) \<longleftrightarrow>
      (\<exists>g \<in> set (id_groups i). map_of (pc_role_map cfg) g = Some ''admin'')"
    using mapped_admin by (auto simp: image_iff) metis+
  then show ?thesis by (simp add: map_role_def ROLE_PRECEDENCE_def split: option.split)
qed

section \<open>The accounts table\<close>

definition accounts_ok :: "db \<Rightarrow> bool" where
  "accounts_ok d \<longleftrightarrow>
     list_all user_row_ok (db_users d) \<and> distinct (map u_id (db_users d)) \<and>
     list_all (\<lambda>u. u_id u < db_next_id d) (db_users d) \<and>
     (\<forall>u \<in> set (db_users d). \<forall>v \<in> set (db_users d). u_id u \<noteq> u_id v \<longrightarrow> users_compatible u v)"

lemma users_compatible_sym: "users_compatible u v \<Longrightarrow> users_compatible v u"
  by (auto simp: users_compatible_def)

lemma audit_users [simp]:
  "db_users (audit_record now a act tt ti det d) = db_users d"
  "db_next_id (audit_record now a act tt ti det d) = db_next_id d + 1"
  by (simp_all add: audit_record_def)

lemma accounts_ok_audit [simp]: "accounts_ok d \<Longrightarrow> accounts_ok (audit_record now a act tt ti det d)"
  by (auto simp: accounts_ok_def list_all_iff)

lemma put_user_ids [simp]: "map u_id (db_users (put_user u d)) = map u_id (db_users d)"
  by (simp add: put_user_def)

lemma put_user_next [simp]: "db_next_id (put_user u d) = db_next_id d"
  by (simp add: put_user_def)

lemma accounts_ok_put:
  assumes "accounts_ok d" "row_accepted u d" "u_id u \<in> u_id ` set (db_users d)"
  shows "accounts_ok (put_user u d)"
proof -
  have in_put: "v \<in> set (db_users (put_user u d)) \<Longrightarrow> v = u \<or> (v \<in> set (db_users d) \<and> u_id v \<noteq> u_id u)" for v
    by (auto simp: put_user_def split: if_splits)
  have "users_compatible v w" if "v \<in> set (db_users (put_user u d))" "w \<in> set (db_users (put_user u d))" "u_id v \<noteq> u_id w" for v w
    using in_put [OF that(1)] in_put [OF that(2)] that(3) assms(1,2) users_compatible_sym
    by (auto simp: accounts_ok_def row_accepted_def list_all_iff)
  moreover have "user_row_ok v \<and> u_id v < db_next_id d" if "v \<in> set (db_users (put_user u d))" for v
    using in_put [OF that] assms by (auto simp: accounts_ok_def row_accepted_def list_all_iff)
  moreover have "distinct (map u_id (db_users (put_user u d)))" using assms(1) by (simp add: accounts_ok_def)
  ultimately show ?thesis by (auto simp: accounts_ok_def list_all_iff)
qed

text \<open>A row that differs in no unique column and keeps its checks is accepted in its place.\<close>

lemma row_accepted_same:
  assumes "accounts_ok d" "v \<in> set (db_users d)" "u_id u = u_id v" "u_username u = u_username v"
    "u_oidc_issuer u = u_oidc_issuer v" "u_oidc_subject u = u_oidc_subject v" "u_email u = u_email v"
    "u_auth_provider u = u_auth_provider v" "u_role u \<in> {''admin'', ''analyst'', ''auditor''}"
  shows "row_accepted u d"
proof -
  have "user_row_ok v" using assms(1,2) by (simp add: accounts_ok_def list_all_iff)
  then have "user_row_ok u" using assms by (simp add: user_row_ok_def)
  moreover have "users_compatible u w" if "w \<in> set (db_users d)" "u_id w \<noteq> u_id u" for w
  proof -
    have "users_compatible v w" using assms(1-3) that by (simp add: accounts_ok_def)
    then show ?thesis using assms by (simp add: users_compatible_def)
  qed
  ultimately show ?thesis by (auto simp: row_accepted_def list_all_iff)
qed

lemma insert_user_ok:
  assumes "insert_user now p u0 d = Some (u, d')" "accounts_ok d"
  shows "accounts_ok d' \<and> db_users d' = db_users d @ [u] \<and> u = u0\<lparr>u_id := db_next_id d\<rparr> \<and> u_id u = db_next_id d"
proof -
  have u: "u = u0\<lparr>u_id := db_next_id d\<rparr>" "row_accepted u d" "d' = provision_audit now u p (add_user u d)"
    using assms(1) by (auto simp: insert_user_def Let_def split: if_splits)
  have users: "db_users d' = db_users d @ [u]" by (simp add: u(3) provision_audit_def add_user_def)
  have n: "db_next_id d' = db_next_id d + 2" by (simp add: u(3) provision_audit_def add_user_def)
  have lt: "u_id v < db_next_id d" if "v \<in> set (db_users d)" for v
    using assms(2) that by (simp add: accounts_ok_def list_all_iff)
  have new: "u_id u = db_next_id d" by (simp add: u(1))
  have "distinct (map u_id (db_users d'))"
    using assms(2) lt new by (auto simp: users accounts_ok_def dest!: lt)
  moreover have "users_compatible v w" if "v \<in> set (db_users d')" "w \<in> set (db_users d')" "u_id v \<noteq> u_id w" for v w
    using that u(2) assms(2) users_compatible_sym lt new
    by (auto simp: users accounts_ok_def row_accepted_def list_all_iff)
  moreover have "list_all user_row_ok (db_users d') \<and> list_all (\<lambda>v. u_id v < db_next_id d') (db_users d')"
    using assms(2) u(2) new lt by (auto simp: users n accounts_ok_def row_accepted_def list_all_iff dest!: lt)
  ultimately show ?thesis using users u(1) new by (simp add: accounts_ok_def)
qed

section \<open>Returning users\<close>

text \<open>Two rows bound to the same identity.\<close>

definition same_identity :: "user \<Rightarrow> user \<Rightarrow> bool" where
  "same_identity u v \<longleftrightarrow>
     u_id u = u_id v \<and> u_username u = u_username v \<and> u_auth_provider u = u_auth_provider v \<and>
     u_oidc_issuer u = u_oidc_issuer v \<and> u_oidc_subject u = u_oidc_subject v \<and>
     u_role_managed_by_idp u = u_role_managed_by_idp v \<and> u_password_hash u = u_password_hash v"

lemma same_identity_refl [simp]: "same_identity u u"
  by (simp add: same_identity_def)

lemma sync_tenant_ok:
  "sync_tenant i u = Inr v \<Longrightarrow>
     same_identity v u \<and> u_role v = u_role u \<and> u_email v = u_email u \<and> u_password_changed_at v = u_password_changed_at u \<and>
     u_auth_tenant v = id_tenant_id i"
  by (auto simp: sync_tenant_def same_identity_def split: if_splits)

lemma sync_email_user:
  "sync_email race i u d = (v, d') \<Longrightarrow>
     same_identity v u \<and> u_role v = u_role u \<and> u_auth_tenant v = u_auth_tenant u \<and>
     u_password_changed_at v = u_password_changed_at u"
  by (auto simp: sync_email_def same_identity_def Let_def split: if_splits option.splits)

text \<open>What a race may do: it keeps the constraints, and deletes no row.\<close>

definition race_ok :: "(db \<Rightarrow> db) \<Rightarrow> bool" where
  "race_ok f \<longleftrightarrow>
     (\<forall>d. accounts_ok d \<longrightarrow> accounts_ok (f d) \<and> u_id ` set (db_users d) \<subseteq> u_id ` set (db_users (f d)))"

definition races_ok :: "oidc_race \<Rightarrow> bool" where
  "races_ok r \<longleftrightarrow> race_ok (or_insert r) \<and> race_ok (or_retry r) \<and> race_ok (or_email r)"

lemma put_user_id_set [simp]: "u_id ` set (db_users (put_user u d)) = u_id ` set (db_users d)"
  by (metis list.set_map put_user_ids)

lemma put_user_in: "u_id u \<in> u_id ` set (db_users d) \<Longrightarrow> u \<in> set (db_users (put_user u d))"
  by (force simp: put_user_def)

lemma sync_email_ok:
  assumes "sync_email race i u d = (v, d')" "accounts_ok d" "race_ok (or_email race)" "u_id u \<in> u_id ` set (db_users d)"
  shows "accounts_ok d'"
proof -
  let ?d1 = "or_email race d" and ?v = "u\<lparr>u_email := Some (lower (strip (id_email i)))\<rparr>"
  have d1: "accounts_ok ?d1" "u_id u \<in> u_id ` set (db_users ?d1)"
    using assms(2-4) by (auto simp: race_ok_def)
  have "row_accepted ?v ?d1 \<Longrightarrow> accounts_ok (put_user ?v ?d1)" using d1 by (intro accounts_ok_put) auto
  then show ?thesis using assms(1,2) d1(1)
    by (auto simp: sync_email_def Let_def split: if_splits option.splits)
qed

lemma match_identity_Some:
  "match_identity d i p = Some u \<Longrightarrow>
     u \<in> set (db_users d) \<and> u_auth_provider u = p \<and> u_oidc_issuer u = Some (id_issuer i) \<and>
     u_oidc_subject u = Some (id_subject i)"
  by (auto simp: match_identity_def find_Some_iff)

lemma role_value_ok: "role_value r \<in> {''admin'', ''analyst'', ''auditor''}"
  by (cases r) simp_all

text \<open>The whole synchronisation, from a row of the table.\<close>

lemma sync_returning_ok:
  assumes h: "sync_returning_user race now cfg i u d = (Inr v, d')" and u: "u \<in> set (db_users d)"
  shows "same_identity v u \<and> u_auth_tenant v = id_tenant_id i \<and>
     (u_role_managed_by_idp v \<longrightarrow> u_role v = role_value (map_role cfg i)) \<and>
     (u_role v \<noteq> u_role u \<longrightarrow> u_role_managed_by_idp u \<and> u_password_changed_at v = Some (Aware now)) \<and>
     (accounts_ok d \<longrightarrow> race_ok (or_email race) \<longrightarrow> accounts_ok d')"
proof -
  obtain u1 where u1: "sync_tenant i u = Inr u1" using h by (auto simp: sync_returning_user_def split: sum.splits)
  note t = sync_tenant_ok [OF u1]
  have ok1: "row_accepted u2 d" if "accounts_ok d" "u2 = u1\<lparr>u_role := r, u_password_changed_at := c\<rparr>"
    "r \<in> {''admin'', ''analyst'', ''auditor''}" for u2 r c
    using that t u by (intro row_accepted_same [of d u u2]) (simp_all add: same_identity_def)
  have id1: "u_id u2 \<in> u_id ` set (db_users d)" if "u_id u2 = u_id u1" for u2
    using t u that by (simp add: same_identity_def)
  show ?thesis
  proof (cases "u_role_managed_by_idp u1 \<and> role_value (map_role cfg i) \<noteq> u_role u1")
    case True
    let ?u2 = "u1\<lparr>u_role := role_value (map_role cfg i), u_password_changed_at := Some (Aware now)\<rparr>"
    let ?d1 = "role_sync_audit now cfg (u_role u1) ?u2 (put_user ?u2 d)"
    have e: "sync_email race i ?u2 ?d1 = (v, d')"
      using h u1 True by (auto simp: sync_returning_user_def Let_def split: prod.splits)
    have "accounts_ok ?d1" if "accounts_ok d"
      unfolding role_sync_audit_def using accounts_ok_put [OF that ok1 [OF that refl role_value_ok] id1]
      by simp
    moreover have "u_id ?u2 \<in> u_id ` set (db_users ?d1)"
      using id1 [of ?u2] by (simp add: role_sync_audit_def)
    ultimately show ?thesis
      using t sync_email_user [OF e] sync_email_ok [OF e] True by (auto simp: same_identity_def)
  next
    case False
    let ?d1 = "if u1 = u then d else put_user u1 d"
    have e: "sync_email race i u1 ?d1 = (v, d')"
      using h u1 False by (auto simp: sync_returning_user_def Let_def split: prod.splits)
    have "row_accepted u1 d" if "accounts_ok d"
    proof -
      have "u_role u \<in> {''admin'', ''analyst'', ''auditor''}"
        using that u by (auto simp: accounts_ok_def list_all_iff user_row_ok_def)
      then show ?thesis using that t u by (intro row_accepted_same [of d u u1]) (simp_all add: same_identity_def)
    qed
    then have "accounts_ok ?d1" if "accounts_ok d" using that accounts_ok_put id1 [of u1] by auto
    moreover have "u_id u1 \<in> u_id ` set (db_users ?d1)"
      using id1 [of u1] u by auto
    ultimately show ?thesis
      using t sync_email_user [OF e] sync_email_ok [OF e] False by (auto simp: same_identity_def)
  qed
qed

lemma sync_returning_denied: "sync_returning_user race now cfg i u d = (Inl e, d') \<Longrightarrow> d' = d"
  by (auto simp: sync_returning_user_def Let_def split: sum.splits prod.splits if_splits)


text \<open>With nobody else writing, only the row itself can change.\<close>

definition quiet :: oidc_race where "quiet = \<lparr>or_insert = id, or_retry = id, or_email = id\<rparr>"

lemma quiet_simps [simp]:
  "or_insert quiet = id" "or_retry quiet = id" "or_email quiet = id" "race_ok id" "races_ok quiet"
  by (simp_all add: quiet_def races_ok_def race_ok_def)

lemma put_user_others: "v \<in> set (db_users d) \<Longrightarrow> u_id v \<noteq> u_id u \<Longrightarrow> v \<in> set (db_users (put_user u d))"
  by (force simp: put_user_def)

lemma sync_email_others:
  assumes "sync_email quiet i u d = (w, d')" "v \<in> set (db_users d)" "u_id v \<noteq> u_id u"
  shows "v \<in> set (db_users d')"
  using assms by (auto simp: sync_email_def Let_def put_user_others split: if_splits option.splits)

lemma sync_returning_others:
  assumes h: "sync_returning_user quiet now cfg i u d = (r, d')" and v: "v \<in> set (db_users d)" "u_id v \<noteq> u_id u"
  shows "v \<in> set (db_users d')"
proof (cases r)
  case (Inl e)
  then show ?thesis using h v(1) sync_returning_denied [of quiet now cfg i u d e d'] by simp
next
  case (Inr w)
  obtain u1 where u1: "sync_tenant i u = Inr u1" using h Inr by (auto simp: sync_returning_user_def split: sum.splits)
  have "u_id v \<noteq> u_id u1" using v(2) sync_tenant_ok [OF u1] by (simp add: same_identity_def)
  then show ?thesis
    using h u1 v(1)
    by (auto simp: sync_returning_user_def Let_def role_sync_audit_def put_user_others split: if_splits prod.splits
      elim!: sync_email_others)
qed

section \<open>Provisioning\<close>

text \<open>Who a sign-in resolves to.\<close>

definition bound_to :: "provider_config \<Rightarrow> oidc_identity \<Rightarrow> user \<Rightarrow> bool" where
  "bound_to cfg i u \<longleftrightarrow>
     u_auth_provider u = pc_key cfg \<and> u_oidc_issuer u = Some (id_issuer i) \<and> u_oidc_subject u = Some (id_subject i)"

lemma bound_to_same: "same_identity v u \<Longrightarrow> bound_to cfg i v = bound_to cfg i u"
  by (simp add: bound_to_def same_identity_def)

lemma match_bound: "match_identity d i (pc_key cfg) = Some u \<Longrightarrow> u \<in> set (db_users d) \<and> bound_to cfg i u"
  by (drule match_identity_Some) (simp add: bound_to_def)

definition signed_in :: "provider_config \<Rightarrow> oidc_identity \<Rightarrow> user \<Rightarrow> bool" where
  "signed_in cfg i u \<longleftrightarrow>
     bound_to cfg i u \<and> u_auth_tenant u = id_tenant_id i \<and>
     (u_role_managed_by_idp u \<longrightarrow> u_role u = role_value (map_role cfg i))"

lemma jit_signed_in:
  "insert_user now p ((jit_user now cfg i n e)\<lparr>u_username := m\<rparr>) d = Some (u, d') \<Longrightarrow> signed_in cfg i u"
  "insert_user now p (jit_user now cfg i n e) d = Some (u, d') \<Longrightarrow> signed_in cfg i u"
  by (auto simp: insert_user_def jit_user_def signed_in_def bound_to_def Let_def split: if_splits)

lemma returning_signed_in:
  assumes "match_identity d i (pc_key cfg) = Some u" "sync_returning_user race now cfg i u d = (Inr v, d')"
  shows "signed_in cfg i v"
  using match_bound [OF assms(1)] sync_returning_ok [OF assms(2)] bound_to_same [of v u cfg i]
  by (simp add: signed_in_def)

lemma provision_again_signed_in:
  assumes "provision_again env race now cfg i (jit_user now cfg i n m) e d = (Inr (u, c), d')"
  shows "signed_in cfg i u"
  using assms
  by (auto simp: provision_again_def Let_def intro: returning_signed_in jit_signed_in
    split: option.splits if_splits prod.splits sum.splits)

lemma provision_signed_in:
  assumes "provision_oidc_user env race now cfg i d = (Inr (u, c), d')"
  shows "signed_in cfg i u"
  using assms
  by (auto simp: provision_oidc_user_def Let_def intro: returning_signed_in jit_signed_in provision_again_signed_in
    split: option.splits if_splits prod.splits sum.splits)


text \<open>Only a fresh identity with a verified address creates an account.\<close>

lemma provision_created:
  assumes "provision_oidc_user env race now cfg i d = (Inr (u, True), d')"
  shows "id_email_verified i \<and> match_identity d i (pc_key cfg) = None \<and>
    \<not> foreign_identity_exists d i (pc_key cfg) \<and> email_owner d (lower (strip (id_email i))) = None"
  using assms by (auto simp: provision_oidc_user_def Let_def split: option.splits if_splits prod.splits sum.splits)

text \<open>The constraints of the table.\<close>

lemma insert_ok: "insert_user now p u0 d = Some (u, d') \<Longrightarrow> accounts_ok d \<Longrightarrow> accounts_ok d'"
  using insert_user_ok by blast

lemma returning_ok:
  assumes "sync_returning_user race now cfg i u d = (r, d')" "match_identity d i p = Some u" "accounts_ok d"
    "race_ok (or_email race)"
  shows "accounts_ok d'"
proof (cases r)
  case (Inl e)
  then show ?thesis using assms(1,3) sync_returning_denied [of race now cfg i u d e d'] by simp
next
  case (Inr v)
  then show ?thesis using assms sync_returning_ok [of race now cfg i u d v d'] match_identity_Some [OF assms(2)] by simp
qed

lemma provision_again_ok:
  assumes "provision_again env race now cfg i u e d = (r, d')" "accounts_ok d" "races_ok race"
  shows "accounts_ok d'"
proof -
  have ok: "race_ok (or_email race)" "accounts_ok (or_retry race d)"
    using assms(2,3) by (auto simp: races_ok_def race_ok_def)
  show ?thesis using assms(1,2) ok
    by (auto simp: provision_again_def Let_def intro: returning_ok insert_ok
      split: option.splits if_splits prod.splits sum.splits)
qed

lemma provision_ok:
  assumes "provision_oidc_user env race now cfg i d = (r, d')" "accounts_ok d" "races_ok race"
  shows "accounts_ok d'"
proof -
  have ok: "race_ok (or_email race)" "accounts_ok (or_insert race d)"
    using assms(2,3) by (auto simp: races_ok_def race_ok_def)
  show ?thesis using assms ok
    by (auto simp: provision_oidc_user_def Let_def intro: returning_ok insert_ok provision_again_ok
      split: option.splits if_splits prod.splits sum.splits)
qed

text \<open>The other accounts.\<close>

lemma insert_others: "insert_user now p u0 d = Some (u, d') \<Longrightarrow> v \<in> set (db_users d) \<Longrightarrow> v \<in> set (db_users d')"
  by (auto simp: insert_user_def Let_def provision_audit_def add_user_def split: if_splits)

lemma accounts_same_row:
  "accounts_ok d \<Longrightarrow> u \<in> set (db_users d) \<Longrightarrow> v \<in> set (db_users d) \<Longrightarrow> u_id u = u_id v \<Longrightarrow> u = v"
  by (auto simp: accounts_ok_def distinct_map inj_on_def)

lemma returning_others:
  assumes "sync_returning_user quiet now cfg i u d = (r, d')" "match_identity d i p = Some u" "accounts_ok d"
    "v \<in> set (db_users d)" "match_identity d i p \<noteq> Some v"
  shows "v \<in> set (db_users d')"
proof -
  have "u \<in> set (db_users d)" "u \<noteq> v" using assms(2,5) match_identity_Some by auto
  then have "u_id v \<noteq> u_id u" using accounts_same_row [OF assms(3) _ assms(4)] by metis
  then show ?thesis using sync_returning_others [OF assms(1,4)] by simp
qed

lemma provision_again_others:
  assumes "provision_again env quiet now cfg i u e d = (r, d')" "accounts_ok d"
    "v \<in> set (db_users d)" "match_identity d i (pc_key cfg) \<noteq> Some v"
  shows "v \<in> set (db_users d')"
  using assms
  by (auto simp: provision_again_def Let_def intro: returning_others insert_others
    split: option.splits if_splits prod.splits sum.splits)

lemma provision_others:
  assumes "provision_oidc_user env quiet now cfg i d = (r, d')" "accounts_ok d"
    "v \<in> set (db_users d)" "match_identity d i (pc_key cfg) \<noteq> Some v"
  shows "v \<in> set (db_users d')"
  using assms
  by (auto simp: provision_oidc_user_def Let_def intro: returning_others insert_others provision_again_others
    split: option.splits if_splits prod.splits sum.splits)

section \<open>Sign-ins\<close>

definition sample_provider :: provider_config where
  "sample_provider =
     \<lparr>pc_key = ''okta'', pc_display_name = ''Okta'', pc_client_id = ''c'', pc_client_secret = ''s'',
      pc_metadata_url = ''https://idp.example/meta'', pc_scopes = ''openid'', pc_role_claim = ''groups'',
      pc_role_map = [(''sec'', ''admin''), (''staff'', ''analyst'')]\<rparr>"

definition sample_identity :: oidc_identity where
  "sample_identity =
     \<lparr>id_issuer = ''https://idp.example'', id_subject = ''s1'', id_email = ''Ann@x.org'',
      id_email_verified = True, id_groups = [''sec''], id_tenant_id = None\<rparr>"

definition returning_user :: user where
  "returning_user =
     \<lparr>u_id = 3, u_username = ''ann@x.org'', u_password_hash = None, u_email = Some ''ann@x.org'',
      u_role = ''analyst'', u_auth_provider = ''okta'', u_oidc_issuer = Some ''https://idp.example'',
      u_oidc_subject = Some ''s1'', u_auth_tenant = None, u_role_managed_by_idp = True, u_created_at = 0,
      u_password_changed_at = Some (Aware 0)\<rparr>"

definition sample_accounts :: db where
  "sample_accounts = empty_db\<lparr>db_users := [new_user 2 0 ''bob'' None None ''analyst'', returning_user], db_next_id := 4\<rparr>"

lemma sample_sign_in:
  "map_role sample_provider sample_identity = ADMIN"
  "match_identity sample_accounts sample_identity ''okta'' = Some returning_user"
  "provision_oidc_user env quiet 9 sample_provider sample_identity sample_accounts =
     (Inr (returning_user\<lparr>u_role := ''admin'', u_password_changed_at := Some (Aware 9)\<rparr>, False),
      role_sync_audit 9 sample_provider ''analyst''
        (returning_user\<lparr>u_role := ''admin'', u_password_changed_at := Some (Aware 9)\<rparr>)
        (put_user (returning_user\<lparr>u_role := ''admin'', u_password_changed_at := Some (Aware 9)\<rparr>) sample_accounts))"
proof -
  show r: "map_role sample_provider sample_identity = ADMIN"
    by (simp add: map_role_admin sample_provider_def sample_identity_def)
  show m: "match_identity sample_accounts sample_identity ''okta'' = Some returning_user"
    by (simp add: match_identity_def sample_accounts_def sample_identity_def returning_user_def new_user_def empty_db_def)
  have k: "pc_key sample_provider = ''okta''" by (simp add: sample_provider_def)
  have e: "lower (strip (id_email sample_identity)) = ''ann@x.org''" by (simp add: sample_identity_def) code_simp
  have t: "sync_tenant sample_identity returning_user = Inr returning_user"
    by (simp add: sync_tenant_def returning_user_def sample_identity_def)
  have u: "u_role_managed_by_idp returning_user" "u_role returning_user = ''analyst''"
    by (simp_all add: returning_user_def)
  have se: "sync_email quiet sample_identity (returning_user\<lparr>u_role := ro, u_password_changed_at := c\<rparr>) d =
      (returning_user\<lparr>u_role := ro, u_password_changed_at := c\<rparr>, d)" for ro c d
    by (simp add: sync_email_def e Let_def) (simp add: returning_user_def)
  show "provision_oidc_user env quiet 9 sample_provider sample_identity sample_accounts =
     (Inr (returning_user\<lparr>u_role := ''admin'', u_password_changed_at := Some (Aware 9)\<rparr>, False),
      role_sync_audit 9 sample_provider ''analyst''
        (returning_user\<lparr>u_role := ''admin'', u_password_changed_at := Some (Aware 9)\<rparr>)
        (put_user (returning_user\<lparr>u_role := ''admin'', u_password_changed_at := Some (Aware 9)\<rparr>) sample_accounts))"
    by (simp add: provision_oidc_user_def k m sync_returning_user_def r t u se Let_def)
qed

lemma sample_accounts_ok: "accounts_ok sample_accounts"
  by (simp add: accounts_ok_def sample_accounts_def returning_user_def new_user_def empty_db_def user_row_ok_def
      users_compatible_def)



text \<open>A sign-in keeps every constraint of the accounts table, whatever the requests beside it
  commit as long as they keep them too: the unique name, the unique identity, the unique address
  among the single sign-on accounts, and the rule that an account is local exactly when it has no
  subject.
\<close>

theorem sign_in_keeps_constraints:
  assumes "accounts_ok d" "races_ok race"
  shows "accounts_ok (snd (provision_oidc_user env race now cfg identity d))"
  using provision_ok [of env race now cfg identity d _ _, OF prod.collapse [symmetric] assms] .

theorem sign_in_keeps_constraints_witness:
  "\<forall>env. accounts_ok (snd (provision_oidc_user env quiet 9 sample_provider sample_identity sample_accounts))"
  by (rule allI, rule sign_in_keeps_constraints [OF sample_accounts_ok]) simp

text \<open>A sign-in with nobody else writing, accepted or denied, changes no account but the one bound
  to this provider, issuer and subject; and where it changes that account's role, the account was
  managed by the identity provider and all its earlier sessions end.
\<close>

theorem sign_in_touches_one_account:
  assumes "provision_oidc_user env quiet now cfg identity d = (r, d')" "accounts_ok d" "v \<in> set (db_users d)"
  shows "v \<in> set (db_users d') \<or>
    (match_identity d identity (pc_key cfg) = Some v \<and>
     (\<exists>w. r = Inr (w, False) \<and> u_id w = u_id v \<and>
        (u_role w = u_role v \<or> u_role_managed_by_idp v \<and> u_password_changed_at w = Some (Aware now))))"
proof (cases "match_identity d identity (pc_key cfg) = Some v")
  case False
  then show ?thesis using provision_others [OF assms] by simp
next
  case True
  obtain x where x: "sync_returning_user quiet now cfg identity v d = (x, d')"
      "r = (case x of Inl e \<Rightarrow> Inl e | Inr w \<Rightarrow> Inr (w, False))"
    using assms(1) True by (auto simp: provision_oidc_user_def split: sum.splits prod.splits)
  show ?thesis
  proof (cases x)
    case (Inl e)
    then show ?thesis using x(1) assms(3) sync_returning_denied [of quiet now cfg identity v d e d'] by simp
  next
    case (Inr w)
    then show ?thesis using True x sync_returning_ok [OF x(1) [unfolded Inr] assms(3)] by (auto simp: same_identity_def)
  qed
qed

theorem sign_in_touches_one_account_witness:
  "\<forall>env. new_user 2 0 ''bob'' None None ''analyst'' \<in>
     set (db_users (snd (provision_oidc_user env quiet 9 sample_provider sample_identity sample_accounts)))"
proof
  fix env
  have "new_user 2 0 ''bob'' None None ''analyst'' \<in> set (db_users sample_accounts)" by (simp add: sample_accounts_def)
  moreover have "match_identity sample_accounts sample_identity (pc_key sample_provider) \<noteq>
      Some (new_user 2 0 ''bob'' None None ''analyst'')"
    by (simp add: sample_provider_def sample_sign_in(2)) (simp add: returning_user_def new_user_def)
  ultimately show "new_user 2 0 ''bob'' None None ''analyst'' \<in>
     set (db_users (snd (provision_oidc_user env quiet 9 sample_provider sample_identity sample_accounts)))"
    using sign_in_touches_one_account [OF sample_sign_in(3) [of env] sample_accounts_ok]
    unfolding sample_sign_in(3) snd_conv by blast
qed

end
