(* ===== verification/Oidc_Admin.thy ===== *)
theory Oidc_Admin
  imports Oidc_Laws
begin

text \<open>
  \<open>app/oidc_settings.py\<close> and \<open>app/routes/oidc_settings.py\<close>: the singleton row of the single
  sign-on configuration, its in-memory snapshot, and the admin routes that read and change it.

  The row (\<open>None\<close> before it is seeded), the snapshot and the provider registry are a state of
  their own beside the database. Writers hold the row's lock from their read to their commit, so
  an update is one step.
\<close>

section \<open>The stored row\<close>

record oidc_row =
  ow_config :: oidc_config
  ow_updated_at :: instant

record oidc_store =
  os_row :: "oidc_row option"
  os_snapshot :: "oidc_config option"
  os_registry :: registry

text \<open>The two CHECK constraints of the table.\<close>

definition oidc_row_ok :: "oidc_config \<Rightarrow> bool" where
  "oidc_row_ok c \<longleftrightarrow>
     oc_auth_mode c \<in> {''local'', ''oidc'', ''both''} \<and>
     (oc_auth_mode c \<noteq> ''oidc'' \<or>
      oc_entra_enabled c \<or> oc_authentik_enabled c \<or> oc_auth0_enabled c \<or> oc_okta_enabled c)"

definition oidc_get_config :: "oidc_env \<Rightarrow> oidc_store \<Rightarrow> oidc_config" where
  "oidc_get_config env st = (case os_snapshot st of Some c \<Rightarrow> c | None \<Rightarrow> oe_seed env)"

datatype oidc_update_error = OidcInvalid string | OidcIntegrity

definition oidc_ensure_seeded ::
    "oidc_env \<Rightarrow> instant \<Rightarrow> oidc_store \<Rightarrow> oidc_update_error + oidc_row \<times> oidc_store" where
  "oidc_ensure_seeded env now st =
     (case os_row st of
        Some row \<Rightarrow> Inr (row, st)
      | None \<Rightarrow>
          (case validate_oidc_config env (oe_seed env) of
             Some e \<Rightarrow> Inl (OidcInvalid e)
           | None \<Rightarrow>
               if oidc_row_ok (oe_seed env)
               then (let row = \<lparr>ow_config = oe_seed env, ow_updated_at = now\<rparr>
                     in Inr (row, st\<lparr>os_row := Some row\<rparr>))
               else Inl OidcIntegrity))"

definition oidc_get_settings :: "oidc_store \<Rightarrow> http_error + oidc_row" where
  "oidc_get_settings st =
     (case os_row st of
        None \<Rightarrow> Inl (ServerError ''OIDCSettings singleton missing'')
      | Some row \<Rightarrow> Inr row)"

section \<open>The patch\<close>

text \<open>A field the request sets: a string, a boolean, or null.\<close>

datatype oidc_value = OText string | OFlag bool | ONull

type_synonym oidc_patch = "(string \<times> oidc_value) list"

definition patch_text :: "oidc_patch \<Rightarrow> string \<Rightarrow> string \<Rightarrow> string" where
  "patch_text changes key old = (case map_of changes key of Some (OText s) \<Rightarrow> s | _ \<Rightarrow> old)"

definition patch_flag :: "oidc_patch \<Rightarrow> string \<Rightarrow> bool \<Rightarrow> bool" where
  "patch_flag changes key old = (case map_of changes key of Some (OFlag b) \<Rightarrow> b | _ \<Rightarrow> old)"

definition OIDC_FLAGS :: "string list" where
  "OIDC_FLAGS = map (\<lambda>k. ''oidc_'' @ key_name k @ ''_enabled'') PROVIDER_KEYS"

definition OIDC_TEXTS :: "string list" where
  "OIDC_TEXTS =
     [''auth_mode'', ''oidc_redirect_base_url'',
      ''oidc_entra_client_id'', ''oidc_entra_tenant_id'', ''oidc_entra_scopes'',
      ''oidc_entra_role_claim'', ''oidc_entra_role_map'',
      ''oidc_authentik_client_id'', ''oidc_authentik_base_url'', ''oidc_authentik_app_slug'',
      ''oidc_authentik_scopes'', ''oidc_authentik_role_claim'', ''oidc_authentik_role_map'',
      ''oidc_auth0_client_id'', ''oidc_auth0_domain'', ''oidc_auth0_scopes'',
      ''oidc_auth0_role_claim'', ''oidc_auth0_role_map'',
      ''oidc_okta_client_id'', ''oidc_okta_domain'', ''oidc_okta_auth_server'', ''oidc_okta_scopes'',
      ''oidc_okta_role_claim'', ''oidc_okta_role_map'']"

definition apply_patch :: "oidc_patch \<Rightarrow> oidc_config \<Rightarrow> oidc_config" where
  "apply_patch ch c =
     \<lparr>oc_auth_mode = patch_text ch ''auth_mode'' (oc_auth_mode c),
      oc_redirect_base_url = patch_text ch ''oidc_redirect_base_url'' (oc_redirect_base_url c),
      oc_entra_enabled = patch_flag ch ''oidc_entra_enabled'' (oc_entra_enabled c),
      oc_entra_client_id = patch_text ch ''oidc_entra_client_id'' (oc_entra_client_id c),
      oc_entra_tenant_id = patch_text ch ''oidc_entra_tenant_id'' (oc_entra_tenant_id c),
      oc_entra_scopes = patch_text ch ''oidc_entra_scopes'' (oc_entra_scopes c),
      oc_entra_role_claim = patch_text ch ''oidc_entra_role_claim'' (oc_entra_role_claim c),
      oc_entra_role_map = patch_text ch ''oidc_entra_role_map'' (oc_entra_role_map c),
      oc_authentik_enabled = patch_flag ch ''oidc_authentik_enabled'' (oc_authentik_enabled c),
      oc_authentik_client_id = patch_text ch ''oidc_authentik_client_id'' (oc_authentik_client_id c),
      oc_authentik_base_url = patch_text ch ''oidc_authentik_base_url'' (oc_authentik_base_url c),
      oc_authentik_app_slug = patch_text ch ''oidc_authentik_app_slug'' (oc_authentik_app_slug c),
      oc_authentik_scopes = patch_text ch ''oidc_authentik_scopes'' (oc_authentik_scopes c),
      oc_authentik_role_claim = patch_text ch ''oidc_authentik_role_claim'' (oc_authentik_role_claim c),
      oc_authentik_role_map = patch_text ch ''oidc_authentik_role_map'' (oc_authentik_role_map c),
      oc_auth0_enabled = patch_flag ch ''oidc_auth0_enabled'' (oc_auth0_enabled c),
      oc_auth0_client_id = patch_text ch ''oidc_auth0_client_id'' (oc_auth0_client_id c),
      oc_auth0_domain = patch_text ch ''oidc_auth0_domain'' (oc_auth0_domain c),
      oc_auth0_scopes = patch_text ch ''oidc_auth0_scopes'' (oc_auth0_scopes c),
      oc_auth0_role_claim = patch_text ch ''oidc_auth0_role_claim'' (oc_auth0_role_claim c),
      oc_auth0_role_map = patch_text ch ''oidc_auth0_role_map'' (oc_auth0_role_map c),
      oc_okta_enabled = patch_flag ch ''oidc_okta_enabled'' (oc_okta_enabled c),
      oc_okta_client_id = patch_text ch ''oidc_okta_client_id'' (oc_okta_client_id c),
      oc_okta_domain = patch_text ch ''oidc_okta_domain'' (oc_okta_domain c),
      oc_okta_auth_server = patch_text ch ''oidc_okta_auth_server'' (oc_okta_auth_server c),
      oc_okta_scopes = patch_text ch ''oidc_okta_scopes'' (oc_okta_scopes c),
      oc_okta_role_claim = patch_text ch ''oidc_okta_role_claim'' (oc_okta_role_claim c),
      oc_okta_role_map = patch_text ch ''oidc_okta_role_map'' (oc_okta_role_map c)\<rparr>"

section \<open>Updates\<close>

text \<open>An error leaves the store as seeding left it; an unchanged configuration is not written, and
  the flag of the result says whether the audit row was.\<close>

definition oidc_update_settings ::
    "oidc_env \<Rightarrow> instant \<Rightarrow> oidc_patch \<Rightarrow> oidc_store \<Rightarrow>
       (oidc_update_error + oidc_row \<times> bool) \<times> oidc_store" where
  "oidc_update_settings env now changes st =
     (case oidc_ensure_seeded env now st of
        Inl e \<Rightarrow> (Inl e, st)
      | Inr (row, st1) \<Rightarrow>
          let candidate = apply_patch changes (ow_config row) in
          (case validate_oidc_config env candidate of
             Some e \<Rightarrow> (Inl (OidcInvalid e), st1)
           | None \<Rightarrow>
               if candidate = ow_config row then (Inr (row, False), st1)
               else if \<not> oidc_row_ok candidate then (Inl (OidcInvalid ''invalid OIDC configuration''), st1)
               else
                 let row' = \<lparr>ow_config = candidate, ow_updated_at = now\<rparr> in
                 (Inr (row', True),
                  st1\<lparr>os_row := Some row', os_snapshot := Some candidate,
                      os_registry := reset_registration (os_registry st1)\<rparr>)))"

text \<open>Startup; an error aborts it.\<close>

definition oidc_refresh_cache ::
    "oidc_env \<Rightarrow> instant \<Rightarrow> oidc_store \<Rightarrow> oidc_update_error + oidc_store" where
  "oidc_refresh_cache env now st =
     (case oidc_ensure_seeded env now st of
        Inl e \<Rightarrow> Inl e
      | Inr (row, st1) \<Rightarrow>
          (case validate_oidc_config env (ow_config row) of
             Some e \<Rightarrow> Inl (OidcInvalid e)
           | None \<Rightarrow> Inr (st1\<lparr>os_snapshot := Some (ow_config row),
                                os_registry := reset_registration (os_registry st1)\<rparr>)))"

section \<open>Routes\<close>

text \<open>\<open>OIDCSettingsUpdate\<close>, after the types: a key that is no field is refused, strings are
  stripped, the mode is lower-cased, and the two base URLs lose their trailing slashes.\<close>

definition clean_text :: "string \<Rightarrow> string \<Rightarrow> string" where
  "clean_text key v =
     (let s = strip v in
      if key = ''auth_mode'' then lower s
      else if key \<in> {''oidc_redirect_base_url'', ''oidc_authentik_base_url''} then strip_slashes_right s
      else s)"

fun clean_field :: "string \<times> oidc_value \<Rightarrow> (string \<times> oidc_value) option" where
  "clean_field (key, ONull) = (if key \<in> set (OIDC_TEXTS @ OIDC_FLAGS) then Some (key, ONull) else None)"
| "clean_field (key, OText v) = (if key \<in> set OIDC_TEXTS then Some (key, OText (clean_text key v)) else None)"
| "clean_field (key, OFlag b) = (if key \<in> set OIDC_FLAGS then Some (key, OFlag b) else None)"

definition parse_oidc_update :: "oidc_patch \<Rightarrow> oidc_patch option" where
  "parse_oidc_update body = all_some (map clean_field body)"

definition client_secret_status :: "oidc_env \<Rightarrow> (string \<times> bool) list" where
  "client_secret_status env = map (\<lambda>k. (key_name k, oe_client_secret env k \<noteq> [])) PROVIDER_KEYS"

record oidc_settings_out =
  so_settings :: oidc_config
  so_client_secrets_set :: "(string \<times> bool) list"
  so_updated_at :: instant

definition oidc_public_settings :: "oidc_env \<Rightarrow> oidc_store \<Rightarrow> http_error + oidc_settings_out" where
  "oidc_public_settings env st =
     map_sum id (\<lambda>row. \<lparr>so_settings = ow_config row, so_client_secrets_set = client_secret_status env,
                          so_updated_at = ow_updated_at row\<rparr>) (oidc_get_settings st)"

definition get_oidc_settings ::
    "auth_env \<Rightarrow> oidc_env \<Rightarrow> instant \<Rightarrow> request \<Rightarrow> db \<times> oidc_store \<Rightarrow>
       (http_error + oidc_settings_out) \<times> db \<times> oidc_store" where
  "get_oidc_settings aenv env now req w =
     (case require_role [ADMIN] aenv now req (fst w) of
        (Inl e, d) \<Rightarrow> (Inl e, d, snd w)
      | (Inr _, d) \<Rightarrow> (oidc_public_settings env (snd w), d, snd w))"

definition oidc_update_detail :: "oidc_patch \<Rightarrow> jobject" where
  "oidc_update_detail changes =
     [(''fields'', JArr (map JStr (sort (map fst changes)))),
      (''auth_mode'', case map_of changes ''auth_mode'' of Some (OText s) \<Rightarrow> JStr s | _ \<Rightarrow> JNull)]"

text \<open>The audit row commits with a written change, and only then.\<close>

definition put_oidc_settings ::
    "auth_env \<Rightarrow> oidc_env \<Rightarrow> instant \<Rightarrow> request \<Rightarrow> oidc_patch \<Rightarrow> db \<times> oidc_store \<Rightarrow>
       (http_error + oidc_settings_out) \<times> db \<times> oidc_store" where
  "put_oidc_settings aenv env now req body w =
     (case require_role [ADMIN] aenv now req (fst w) of
        (Inl e, d) \<Rightarrow> (Inl e, d, snd w)
      | (Inr admin, d) \<Rightarrow>
          (case parse_oidc_update body of
             None \<Rightarrow> (Inl (HttpError 422 ''body''), d, snd w)
           | Some changes \<Rightarrow>
               (case oidc_update_settings env now changes (snd w) of
                  (Inl OidcIntegrity, st) \<Rightarrow> (Inl (ServerError ''IntegrityError''), d, st)
                | (Inl (OidcInvalid e), st) \<Rightarrow> (Inl (HttpError 422 e), d, st)
                | (Inr (_, written), st) \<Rightarrow>
                    (oidc_public_settings env st,
                     (if written
                      then audit_record now (actor_from_request admin (Some (rq_client req)))
                             ''settings.oidc.update'' ''settings'' (Some ''oidc'') (oidc_update_detail changes) d
                      else d), st))))"

section \<open>Laws of the configuration\<close>

lemma pc_key_provider_of [simp]: "pc_key (provider_of env c k) = key_name k"
  by (cases k) (simp_all add: Let_def)

lemma key_name_inj [simp]: "key_name j = key_name k \<longleftrightarrow> j = k"
  by (cases j; cases k) simp_all

lemma keys_distinct: "distinct PROVIDER_KEYS" by (simp add: PROVIDER_KEYS_def)

lemma all_keys: "k \<in> set PROVIDER_KEYS" by (cases k) (simp_all add: PROVIDER_KEYS_def)

lemma first_error_None: "first_error f xs = None \<longleftrightarrow> (\<forall>x \<in> set xs. f x = None)"
  by (induction xs) (auto split: option.splits)

lemma validate_mode: "validate_oidc_config env c = None \<Longrightarrow> oc_auth_mode c \<in> {''local'', ''oidc'', ''both''}"
  by (auto simp: validate_oidc_config_def AUTH_MODES_def split: if_splits)

lemma validate_enabled_of: "validate_oidc_config env c = None \<Longrightarrow> oidc_auth_enabled c \<Longrightarrow> validate_enabled env c = None"
  by (auto simp: validate_oidc_config_def split: if_splits option.splits)

text \<open>A valid configuration satisfies the constraints of the table, so a write never fails there.\<close>

lemma validate_row_ok:
  assumes "validate_oidc_config env c = None"
  shows "oidc_row_ok c"
proof -
  have "filter (provider_enabled c) PROVIDER_KEYS \<noteq> []" if "oc_auth_mode c = ''oidc''"
    using validate_enabled_of [OF assms] that
    by (auto simp: validate_enabled_def oidc_auth_enabled_def split: option.splits if_splits)
  then show ?thesis using validate_mode [OF assms] by (auto simp: oidc_row_ok_def PROVIDER_KEYS_def split: if_splits)
qed

text \<open>What a valid configuration says of each provider it enables.\<close>

lemma validate_provider_of:
  assumes "validate_oidc_config env c = None" "oidc_auth_enabled c" "provider_enabled c k"
  shows "oe_client_secret env k \<noteq> [] \<and> ''openid'' \<in> set (split_words (provider_scopes c k)) \<and>
    list_all (\<lambda>v. strip v \<noteq> []) (provider_requirements c k)"
proof -
  have "validate_provider env c k = None"
    using validate_enabled_of [OF assms(1,2)] assms(3) all_keys
    by (auto simp: validate_enabled_def first_error_None split: option.splits if_splits)
  then show ?thesis by (auto simp: validate_provider_def Let_def split: if_splits)
qed

section \<open>The registry\<close>

definition registry_of :: "provider_config list \<Rightarrow> registry" where
  "registry_of ps = \<lparr>rg_registered = map (\<lambda>p. (pc_key p, p)) ps, rg_done = True,
                     rg_clients = map (\<lambda>p. (pc_key p, p)) ps\<rparr>"

lemma dict_put_new: "k \<notin> fst ` set d \<Longrightarrow> dict_put d k v = d @ [(k, v)]"
  by (induction d) auto

lemma map_of_pairs_None: "map_of (map (\<lambda>p. (pc_key p, p)) qs) k = None \<longleftrightarrow> k \<notin> pc_key ` set qs"
  by (induction qs) auto

lemma fold_register:
  "distinct (map pc_key (qs @ ps)) \<Longrightarrow>
     fold register_one ps \<lparr>rg_registered = map (\<lambda>p. (pc_key p, p)) qs, rg_done = b,
                           rg_clients = map (\<lambda>p. (pc_key p, p)) qs\<rparr> =
       \<lparr>rg_registered = map (\<lambda>p. (pc_key p, p)) (qs @ ps), rg_done = b,
        rg_clients = map (\<lambda>p. (pc_key p, p)) (qs @ ps)\<rparr>"
proof (induction ps arbitrary: qs)
  case (Cons p ps)
  have new: "pc_key p \<notin> pc_key ` set qs" using Cons.prems by auto
  have "register_one p \<lparr>rg_registered = map (\<lambda>p. (pc_key p, p)) qs, rg_done = b,
                        rg_clients = map (\<lambda>p. (pc_key p, p)) qs\<rparr> =
        \<lparr>rg_registered = map (\<lambda>p. (pc_key p, p)) (qs @ [p]), rg_done = b,
         rg_clients = map (\<lambda>p. (pc_key p, p)) (qs @ [p])\<rparr>"
    using new by (simp add: register_one_def map_of_pairs_None dict_put_new image_image)
  then show ?case using Cons.IH [of "qs @ [p]"] Cons.prems by simp
qed simp

lemma enabled_distinct: "distinct (map pc_key (enabled_providers env c))"
  using keys_distinct by (auto simp: enabled_providers_def distinct_map inj_on_def dest: arg_cong [where f = pc_key])

lemma register_empty:
  "snd (register_providers env c \<lparr>rg_registered = [], rg_done = b, rg_clients = []\<rparr>) =
     registry_of (enabled_providers env c)"
  using fold_register [of "[]" "enabled_providers env c" b] enabled_distinct
  by (simp add: register_providers_def registry_of_def Let_def)

definition registry_ok :: "oidc_env \<Rightarrow> oidc_config \<Rightarrow> registry \<Rightarrow> bool" where
  "registry_ok env c g \<longleftrightarrow> g = reset_registration g \<or> g = registry_of (enabled_providers env c)"

lemma ensure_registered_of: "registry_ok env c g \<Longrightarrow> ensure_registered env c g = registry_of (enabled_providers env c)"
  using register_empty [of env c False]
  by (auto simp: registry_ok_def ensure_registered_def reset_registration_def registry_of_def)

lemma get_provider_of:
  "get_provider (registry_of (enabled_providers env c)) key = Some p \<longleftrightarrow>
     (\<exists>k. key = key_name k \<and> oidc_auth_enabled c \<and> provider_enabled c k \<and> p = provider_of env c k)"
proof -
  have "get_provider (registry_of ps) key = Some p \<longleftrightarrow> p \<in> set ps \<and> pc_key p = key" if "distinct (map pc_key ps)" for ps
    using that by (auto simp: get_provider_def registry_of_def comp_def map_of_eq_Some_iff)
  from this [OF enabled_distinct] show ?thesis using all_keys by (auto simp: enabled_providers_def)
qed

section \<open>The store\<close>

definition oidc_store_ok :: "oidc_env \<Rightarrow> oidc_store \<Rightarrow> bool" where
  "oidc_store_ok env st \<longleftrightarrow>
     (case os_row st of
        None \<Rightarrow> False
      | Some row \<Rightarrow>
          validate_oidc_config env (ow_config row) = None \<and> os_snapshot st = Some (ow_config row) \<and>
          registry_ok env (ow_config row) (os_registry st))"

lemma reset_ok [simp]: "registry_ok env c (reset_registration g)"
  by (simp add: registry_ok_def reset_registration_def)

lemma refresh_ok: "oidc_refresh_cache env now st = Inr st' \<Longrightarrow> oidc_store_ok env st'"
  by (auto simp: oidc_refresh_cache_def oidc_ensure_seeded_def oidc_store_ok_def Let_def
    split: option.splits sum.splits if_splits)

lemma update_ok:
  assumes "oidc_update_settings env now changes st = (r, st')" "oidc_store_ok env st" "os_row st = Some row"
  shows "oidc_store_ok env st' \<and> r \<noteq> Inl OidcIntegrity \<and>
    (case r of Inl _ \<Rightarrow> st' = st | Inr (row', w) \<Rightarrow>
       os_row st' = Some row' \<and> ow_config row' = apply_patch changes (ow_config row) \<and>
       (w \<longleftrightarrow> ow_config row' \<noteq> ow_config row) \<and> (\<not> w \<longrightarrow> st' = st))"
  using assms validate_row_ok [of env "apply_patch changes (ow_config row)"]
  by (auto simp: oidc_update_settings_def oidc_ensure_seeded_def oidc_store_ok_def Let_def
    split: option.splits if_splits)

section \<open>What the admin route keeps\<close>

lemma put_oidc_cases:
  assumes "put_oidc_settings aenv env now req body (d, st) = (r, d', st')" "oidc_store_ok env st"
  shows "oidc_store_ok env st' \<and>
    (isl r \<longrightarrow> st' = st \<and> db_audit_logs d' = db_audit_logs d) \<and>
    (\<not> isl r \<longrightarrow> so_settings (projr r) = oidc_get_config env st' \<and>
       length (db_audit_logs d') =
         length (db_audit_logs d) + (if oidc_get_config env st' = oidc_get_config env st then 0 else 1))"
proof -
  obtain row where row: "os_row st = Some row" "os_snapshot st = Some (ow_config row)"
    using assms(2) by (auto simp: oidc_store_ok_def split: option.splits)
  obtain a d0 where role: "require_role [ADMIN] aenv now req d = (a, d0)" by fastforce
  then have logs: "db_audit_logs d0 = db_audit_logs d" using require_role_frame by fastforce
  show ?thesis
  proof (cases "isl a \<or> parse_oidc_update body = None")
    case True
    then show ?thesis using assms role logs by (cases a) (auto simp: put_oidc_settings_def)
  next
    case False
    then obtain admin changes where a: "a = Inr admin" "parse_oidc_update body = Some changes" by (cases a) auto
    obtain x st1 where u: "oidc_update_settings env now changes st = (x, st1)" by fastforce
    note ok = update_ok [OF u assms(2) row(1)]
    have snap: "os_row st1 = Some row1 \<Longrightarrow> os_snapshot st1 = Some (ow_config row1)" for row1
      using ok by (simp add: oidc_store_ok_def)
    show ?thesis
    proof (cases x)
      case (Inl e)
      then show ?thesis using ok assms(1) role logs a u
        by (cases e) (auto simp: put_oidc_settings_def)
    next
      case (Inr p)
      obtain row1 w where p: "p = (row1, w)" by (cases p)
      have put: "r = oidc_public_settings env st1" "st' = st1"
        "d' = (if w then audit_record now (actor_from_request admin (Some (rq_client req)))
                 ''settings.oidc.update'' ''settings'' (Some ''oidc'') (oidc_update_detail changes) d0 else d0)"
        using assms(1) role a u Inr p by (auto simp: put_oidc_settings_def)
      have row1: "os_row st1 = Some row1" "w \<longleftrightarrow> ow_config row1 \<noteq> ow_config row" "oidc_store_ok env st1"
        using ok Inr p by simp_all
      have "r = Inr \<lparr>so_settings = ow_config row1, so_client_secrets_set = client_secret_status env,
                     so_updated_at = ow_updated_at row1\<rparr>"
        using row1 by (simp add: put(1) oidc_public_settings_def oidc_get_settings_def)
      then show ?thesis
        using put row1 snap [OF row1(1)] row logs by (simp add: oidc_get_config_def audit_record_def)
    qed
  qed
qed

text \<open>With a valid configuration somebody can sign in: with a password, or through a provider that is
  registered under the configuration as it is now and has its secret.\<close>

definition login_path :: "oidc_env \<Rightarrow> oidc_store \<Rightarrow> bool" where
  "login_path env st \<longleftrightarrow>
     (let c = oidc_get_config env st; g = ensure_registered env c (os_registry st) in
      local_auth_enabled c \<or>
      list_ex (\<lambda>k. oe_client_secret env k \<noteq> [] \<and> get_provider g (key_name k) = Some (provider_of env c k) \<and>
                   map_of (rg_clients g) (key_name k) = Some (provider_of env c k)) PROVIDER_KEYS)"

lemma registry_clients: "map_of (rg_clients (registry_of ps)) k = get_provider (registry_of ps) k"
  by (simp add: registry_of_def get_provider_def)

lemma store_login_path:
  assumes "oidc_store_ok env st"
  shows "login_path env st"
proof -
  obtain row where row: "os_row st = Some row" "os_snapshot st = Some (ow_config row)"
      "validate_oidc_config env (ow_config row) = None" "registry_ok env (ow_config row) (os_registry st)"
    using assms by (auto simp: oidc_store_ok_def split: option.splits)
  let ?c = "ow_config row"
  have c: "oidc_get_config env st = ?c" using row(2) by (simp add: oidc_get_config_def)
  have g: "ensure_registered env ?c (os_registry st) = registry_of (enabled_providers env ?c)"
    using row(4) by (rule ensure_registered_of)
  show ?thesis
  proof (cases "local_auth_enabled ?c")
    case True
    then show ?thesis by (simp add: login_path_def c)
  next
    case False
    then have o: "oc_auth_mode ?c = ''oidc''" "oidc_auth_enabled ?c"
      using validate_mode [OF row(3)] by (auto simp: local_auth_enabled_def oidc_auth_enabled_def)
    then obtain k where k: "provider_enabled ?c k"
      using validate_row_ok [OF row(3)] by (auto simp: oidc_row_ok_def intro: provider_enabled.simps [THEN iffD2])
    have "get_provider (registry_of (enabled_providers env ?c)) (key_name k) = Some (provider_of env ?c k)"
      using o(2) k by (auto simp: get_provider_of)
    then show ?thesis
      using validate_provider_of [OF row(3) o(2) k] all_keys [of k]
      by (auto simp: login_path_def Let_def c g registry_clients list_ex_iff)
  qed
qed

text \<open>C32: changing the single sign-on settings can never lock everybody out or leave a provider's old
  client in use. From a good store, whatever the request, the store stays good: the stored
  configuration is valid and is the one in force, and there is a way to sign in, with a password
  or through an enabled provider that has its secret and is registered under the new configuration.
  A refused request changes nothing and leaves no audit row; an accepted one leaves exactly one
  when the configuration changed and none when it did not.
\<close>

theorem sso_settings_keep_login:
  assumes "put_oidc_settings aenv env now req body (d, st) = (r, d', st')" "oidc_store_ok env st"
  shows "oidc_store_ok env st' \<and> login_path env st' \<and>
    (isl r \<longrightarrow> st' = st \<and> db_audit_logs d' = db_audit_logs d) \<and>
    (\<not> isl r \<longrightarrow> so_settings (projr r) = oidc_get_config env st' \<and>
       length (db_audit_logs d') =
         length (db_audit_logs d) + (if oidc_get_config env st' = oidc_get_config env st then 0 else 1))"
  using put_oidc_cases [OF assms] store_login_path by blast

definition sample_oidc_config :: oidc_config where
  "sample_oidc_config =
     \<lparr>oc_auth_mode = ''both'', oc_redirect_base_url = [],
      oc_entra_enabled = False, oc_entra_client_id = [], oc_entra_tenant_id = [], oc_entra_scopes = [],
      oc_entra_role_claim = [], oc_entra_role_map = [],
      oc_authentik_enabled = True, oc_authentik_client_id = ''c'', oc_authentik_base_url = ''https://idp.example'',
      oc_authentik_app_slug = ''ebs'', oc_authentik_scopes = ''openid email'', oc_authentik_role_claim = ''groups'',
      oc_authentik_role_map = ''sec=admin'',
      oc_auth0_enabled = False, oc_auth0_client_id = [], oc_auth0_domain = [], oc_auth0_scopes = [],
      oc_auth0_role_claim = [], oc_auth0_role_map = [],
      oc_okta_enabled = False, oc_okta_client_id = [], oc_okta_domain = [], oc_okta_auth_server = [],
      oc_okta_scopes = [], oc_okta_role_claim = [], oc_okta_role_map = []\<rparr>"

definition sample_oidc_env :: oidc_env where
  "sample_oidc_env =
     \<lparr>oe_seed = sample_oidc_config, oe_client_secret = (\<lambda>k. if k = Authentik then ''s'' else []),
      oe_idna = Some, oe_sha256 = id, oe_app_base_url = []\<rparr>"

definition sample_oidc_store :: oidc_store where
  "sample_oidc_store =
     \<lparr>os_row = Some \<lparr>ow_config = sample_oidc_config, ow_updated_at = 0\<rparr>, os_snapshot = Some sample_oidc_config,
      os_registry = \<lparr>rg_registered = [], rg_done = False, rg_clients = []\<rparr>\<rparr>"

lemma sample_config_valid: "validate_oidc_config sample_oidc_env sample_oidc_config = None"
  by code_simp

lemma sample_oidc_store_ok: "oidc_store_ok sample_oidc_env sample_oidc_store"
  using sample_config_valid
  by (simp add: oidc_store_ok_def sample_oidc_store_def registry_ok_def reset_registration_def)

lemma sso_settings_keep_login_witness:
  "login_path sample_oidc_env (snd (snd (put_oidc_settings sample_auth_env sample_oidc_env 9 sample_request
     [(''auth_mode'', OText '' OIDC ''), (''oidc_authentik_enabled'', OFlag False)] (sample_db, sample_oidc_store))))"
proof -
  obtain r d' st' where p: "put_oidc_settings sample_auth_env sample_oidc_env 9 sample_request
      [(''auth_mode'', OText '' OIDC ''), (''oidc_authentik_enabled'', OFlag False)] (sample_db, sample_oidc_store) = (r, d', st')"
    by (metis prod_cases3)
  from sso_settings_keep_login [OF p sample_oidc_store_ok] p show ?thesis by simp
qed

end
