(* ===== verification/Sign_In.thy ===== *)
theory Sign_In
  imports Oidc_Admin Ratelimit
begin

text \<open>
  The sign-in surface: the cookie helpers of \<open>app/auth.py\<close>, the page shell and the login and
  logout routes of \<open>app/routes/ui.py\<close>, and the single sign-on routes of \<open>app/routes/oidc.py\<close>.

  A response is its status, headers, cookie changes and body. Authlib is an argument: what starting
  a login and exchanging the code give back. The signed flash cookie, the version and the two
  settings of the cookies are the rest of the environment.
\<close>

section \<open>Responses and cookies\<close>

record cookie =
  ck_name :: string
  ck_value :: string
  ck_max_age :: int
  ck_http_only :: bool
  ck_same_site :: string
  ck_secure :: bool

datatype cookie_action = SetCookie cookie | DeleteCookie string

datatype 'c body = Redirected string | Page string 'c

record 'c response =
  rs_status :: int
  rs_headers :: "(string \<times> string) list"
  rs_cookies :: "cookie_action list"
  rs_body :: "'c body"

record web_env =
  we_auth :: auth_env
  we_oidc :: oidc_env
  we_secure_cookies :: bool
  we_id_token_cookie :: string
  we_flash_loads :: "string \<Rightarrow> json option"
  we_flash_dumps :: "string \<Rightarrow> string"
  we_version :: string

definition web_cookie :: "web_env \<Rightarrow> string \<Rightarrow> string \<Rightarrow> int \<Rightarrow> cookie_action" where
  "web_cookie env key v age =
     SetCookie \<lparr>ck_name = key, ck_value = v, ck_max_age = age, ck_http_only = True, ck_same_site = ''lax'',
                ck_secure = we_secure_cookies env\<rparr>"

definition set_session :: "web_env \<Rightarrow> instant \<Rightarrow> string \<Rightarrow> int option \<Rightarrow> cookie_action" where
  "set_session env now username max_age =
     web_cookie env (as_session_cookie_name (ae_settings (we_auth env)))
       (create_session_cookie (we_auth env) now username)
       (case max_age of None \<Rightarrow> as_session_max_age (ae_settings (we_auth env)) | Some a \<Rightarrow> a)"

definition clear_session :: "web_env \<Rightarrow> cookie_action" where
  "clear_session env = DeleteCookie (as_session_cookie_name (ae_settings (we_auth env)))"

definition set_oidc_id_token :: "web_env \<Rightarrow> string \<Rightarrow> int \<Rightarrow> cookie_action" where
  "set_oidc_id_token env id_token max_age = web_cookie env (we_id_token_cookie env) id_token max_age"

definition get_oidc_id_token :: "web_env \<Rightarrow> request \<Rightarrow> string option" where
  "get_oidc_id_token env req = map_of (rq_cookies req) (we_id_token_cookie env)"

definition clear_oidc_id_token :: "web_env \<Rightarrow> cookie_action" where
  "clear_oidc_id_token env = DeleteCookie (we_id_token_cookie env)"

definition get_current_user :: "auth_env \<Rightarrow> instant \<Rightarrow> request \<Rightarrow> http_error + string option" where
  "get_current_user env now req = map_sum id (map_option fst) (get_session_claims env now req)"

definition redirect_to :: "string \<Rightarrow> cookie_action list \<Rightarrow> 'c response" where
  "redirect_to url cookies =
     \<lparr>rs_status = 303, rs_headers = [], rs_cookies = cookies, rs_body = Redirected url\<rparr>"

section \<open>The page shell\<close>

definition FLASH_COOKIE :: string where "FLASH_COOKIE = ''iceberg_ebs_flash''"

definition get_flash :: "web_env \<Rightarrow> request \<Rightarrow> json" where
  "get_flash env req =
     (case map_of (rq_cookies req) FLASH_COOKIE of
        Some (c # cs) \<Rightarrow> (case we_flash_loads env (c # cs) of Some v \<Rightarrow> v | None \<Rightarrow> JNull)
      | _ \<Rightarrow> JNull)"

definition set_flash :: "web_env \<Rightarrow> string \<Rightarrow> cookie_action" where
  "set_flash env message = web_cookie env FLASH_COOKIE (we_flash_dumps env message) 10"

definition clear_flash :: cookie_action where "clear_flash = DeleteCookie FLASH_COOKIE"

record shell =
  sh_flash :: json
  sh_role :: "string option"
  sh_is_admin :: bool
  sh_can_write :: bool
  sh_can_manage_alerts :: bool
  sh_can_read_audit :: bool
  sh_username :: string
  sh_app_version :: string
  sh_initial_theme :: string

definition page_shell :: "web_env \<Rightarrow> request \<Rightarrow> user option \<Rightarrow> shell" where
  "page_shell env req u =
     (let role = map_option u_role u in
      \<lparr>sh_flash = get_flash env req, sh_role = role,
       sh_is_admin = (role = Some (role_value ADMIN)),
       sh_can_write = (role \<in> {Some (role_value ADMIN), Some (role_value ANALYST)}),
       sh_can_manage_alerts = (role = Some (role_value ADMIN)),
       sh_can_read_audit = (role \<in> {Some (role_value ADMIN), Some (role_value AUDITOR)}),
       sh_username = (case u of Some v \<Rightarrow> u_username v | None \<Rightarrow> []),
       sh_app_version = we_version env,
       sh_initial_theme =
         (case map_of (rq_cookies req) ''ebs_resolved_theme'' of
            Some t \<Rightarrow> if t \<in> {''light'', ''dark''} then t else ''light''
          | None \<Rightarrow> ''light'')\<rparr>)"

definition render :: "web_env \<Rightarrow> request \<Rightarrow> string \<Rightarrow> 'c \<Rightarrow> user option \<Rightarrow> (shell \<times> 'c) response" where
  "render env req template ctx u =
     (let sh = page_shell env req u in
      \<lparr>rs_status = 200, rs_headers = [], rs_cookies = (if truthy (sh_flash sh) then [clear_flash] else []),
       rs_body = Page template (sh, ctx)\<rparr>)"

section \<open>Login and logout\<close>

record login_context =
  lc_error :: "string option"
  lc_local_auth_enabled :: bool
  lc_sso_providers :: "(string \<times> string) list"

type_synonym login_response = "(shell \<times> login_context) response"

record web_state =
  w_db :: db
  w_oidc :: oidc_store
  w_limiter :: login_limiter

definition register_now :: "oidc_env \<Rightarrow> oidc_store \<Rightarrow> oidc_store" where
  "register_now env st =
     st\<lparr>os_registry := ensure_registered env (oidc_get_config env st) (os_registry st)\<rparr>"

definition login_context_of :: "oidc_env \<Rightarrow> string option \<Rightarrow> oidc_store \<Rightarrow> login_context \<times> oidc_store" where
  "login_context_of env error st =
     (let st1 = register_now env st in
      (\<lparr>lc_error = error, lc_local_auth_enabled = local_auth_enabled (oidc_get_config env st1),
        lc_sso_providers = map (\<lambda>p. (pc_key p, pc_display_name p)) (registered_providers (os_registry st1))\<rparr>, st1))"

text \<open>The login page with an error, as an answer to a request.\<close>

definition login_screen ::
    "web_env \<Rightarrow> request \<Rightarrow> string option \<Rightarrow> web_state \<Rightarrow> login_response \<times> web_state" where
  "login_screen env req error w =
     (let (ctx, st) = login_context_of (we_oidc env) error (w_oidc w)
      in (render env req ''login.html'' ctx None, w\<lparr>w_oidc := st\<rparr>))"

definition login_page ::
    "web_env \<Rightarrow> instant \<Rightarrow> request \<Rightarrow> (string \<times> string) list \<Rightarrow> web_state \<Rightarrow>
       (http_error + login_response) \<times> web_state" where
  "login_page env now req query w =
     (case authenticate_session (we_auth env) now req (w_db w) of
        Inl e \<Rightarrow> (Inl e, w)
      | Inr (Some _) \<Rightarrow> (Inr (redirect_to ''/'' []), w)
      | Inr None \<Rightarrow>
          let error = (if map_of query ''error'' = Some ''sso''
                       then Some ''Single sign-on failed. Try again or contact your administrator.'' else None);
              (response, w1) = login_screen env req error w
          in (case get_current_user (we_auth env) now req of
                Inl e \<Rightarrow> (Inl e, w1)
              | Inr (Some (c # cs)) \<Rightarrow>
                  (Inr (response\<lparr>rs_cookies := rs_cookies response @ [clear_session env]\<rparr>), w1)
              | Inr _ \<Rightarrow> (Inr response, w1)))"

text \<open>The limiter reads its own clock, twice on a failure.\<close>

definition login_post ::
    "web_env \<Rightarrow> instant \<Rightarrow> rat \<Rightarrow> rat \<Rightarrow> request \<Rightarrow> string \<Rightarrow> string \<Rightarrow> web_state \<Rightarrow>
       login_response \<times> web_state" where
  "login_post env now clock later req username password w =
     (if \<not> local_auth_enabled (oidc_get_config (we_oidc env) (w_oidc w)) then
        (let (response, w1) =
               login_screen env req (Some ''Local sign-in is disabled - use single sign-on.'') w
         in (response\<lparr>rs_status := 403\<rparr>, w1))
      else
        let key = limiter_key (rq_client req) username in
        case retry_after key clock (w_limiter w) of
          Some seconds \<Rightarrow>
            (let (response, w1) =
                   login_screen env req (Some ''Too many failed attempts - please try again later.'') w
             in (response\<lparr>rs_status := 429, rs_headers := [(''Retry-After'', show_int seconds)]\<rparr>, w1))
        | None \<Rightarrow>
            (case verify_credentials (we_auth env) username password (w_db w) of
               Some u \<Rightarrow>
                 (redirect_to ''/'' [set_session env now (u_username u) None],
                  w\<lparr>w_limiter := login_reset key (w_limiter w)\<rparr>)
             | None \<Rightarrow>
                 login_screen env req (Some ''Invalid credentials'')
                   (w\<lparr>w_limiter := record_failure key clock later (w_limiter w)\<rparr>)))"

text \<open>The first of two strings that is not empty.\<close>

definition public_base :: "oidc_env \<Rightarrow> oidc_store \<Rightarrow> string" where
  "public_base env st =
     (let configured = oc_redirect_base_url (oidc_get_config env st)
      in if configured \<noteq> [] then configured else oe_app_base_url env)"

definition post_logout_redirect_uri :: "oidc_env \<Rightarrow> oidc_store \<Rightarrow> string \<Rightarrow> string" where
  "post_logout_redirect_uri env st request_base =
     (let configured = public_base env st
      in strip_slashes_right (if configured \<noteq> [] then configured else request_base) @ ''/login'')"

definition logout ::
    "web_env \<Rightarrow> (string \<Rightarrow> jobject option) \<Rightarrow> instant \<Rightarrow> string \<Rightarrow> request \<Rightarrow> web_state \<Rightarrow>
       (http_error + unit response) \<times> web_state" where
  "logout env metadata now request_base req w =
     (case require_auth (we_auth env) now req (w_db w) of
        Inl e \<Rightarrow> (Inl e, w)
      | Inr u \<Rightarrow>
          let answer = (\<lambda>target. redirect_to target [clear_session env, clear_oidc_id_token env]) in
          if u_oidc_subject u = None then (Inr (answer ''/login''), w)
          else
            let (idp_url, g) =
                  end_session_url (we_oidc env) (oidc_get_config (we_oidc env) (w_oidc w)) metadata
                    (u_auth_provider u) (post_logout_redirect_uri (we_oidc env) (w_oidc w) request_base)
                    (get_oidc_id_token env req) (os_registry (w_oidc w));
                target = (case idp_url of Some (c # cs) \<Rightarrow> c # cs | _ \<Rightarrow> ''/login'')
            in (Inr (answer target), w\<lparr>w_oidc := (w_oidc w)\<lparr>os_registry := g\<rparr>\<rparr>))"

section \<open>Single sign-on routes\<close>

definition callback_url :: "oidc_env \<Rightarrow> oidc_store \<Rightarrow> string \<Rightarrow> string \<Rightarrow> string" where
  "callback_url env st url_for provider =
     (let redirect_base = public_base env st in
      if redirect_base \<noteq> []
      then strip_slashes_right redirect_base @ ''/auth/oidc/'' @ provider @ ''/callback''
      else url_for)"

text \<open>What Authlib answers: the redirect to the provider, an \<open>OAuthError\<close> or \<open>httpx.HTTPError\<close>,
  or an exception the routes do not catch; and for the code exchange the token, with the claims of
  the ID token it validated.\<close>

datatype started = Started string | StartFailed | StartRaised string

datatype exchanged = Token "jobject option" "string option" | ExchangeFailed | ExchangeRaised string

definition sso_failed :: "'c response" where
  "sso_failed = redirect_to ''/login?error=sso'' []"

definition oidc_login ::
    "oidc_env \<Rightarrow> (provider_config \<Rightarrow> string \<Rightarrow> started) \<Rightarrow> string \<Rightarrow> string \<Rightarrow> web_state \<Rightarrow>
       (http_error + unit response) \<times> web_state" where
  "oidc_login env authorize provider url_for w =
     (let st = register_now env (w_oidc w); w1 = w\<lparr>w_oidc := st\<rparr> in
      (case (get_provider (os_registry st) provider, map_of (rg_clients (os_registry st)) provider) of
         (Some _, Some client) \<Rightarrow>
           (case authorize client (callback_url env st url_for provider) of
              Started url \<Rightarrow> Inr \<lparr>rs_status = 302, rs_headers = [], rs_cookies = [], rs_body = Redirected url\<rparr>
            | StartFailed \<Rightarrow> Inr sso_failed
            | StartRaised e \<Rightarrow> Inl (ServerError e))
       | _ \<Rightarrow> Inl (HttpError 404 ''Unknown SSO provider''), w1))"

text \<open>From the validated claims on.\<close>

definition oidc_finish ::
    "web_env \<Rightarrow> oidc_race \<Rightarrow> instant \<Rightarrow> provider_config \<Rightarrow> oidc_key \<Rightarrow> jobject \<Rightarrow> string option \<Rightarrow> web_state \<Rightarrow>
       unit response \<times> web_state" where
  "oidc_finish env race now cfg adapter claims id_token w =
     (case extract_identity adapter claims (pc_role_claim cfg) of
        Inl _ \<Rightarrow> (sso_failed, w)
      | Inr identity \<Rightarrow>
          (case provision_oidc_user (we_oidc env) race now cfg identity (w_db w) of
             (Inl _, d) \<Rightarrow> (sso_failed, w\<lparr>w_db := d\<rparr>)
           | (Inr (u, _), d) \<Rightarrow>
               let age = as_oidc_session_max_age (ae_settings (we_auth env)) in
               (redirect_to ''/''
                  (set_session env now (u_username u) (Some age) #
                   (case id_token of Some (c # cs) \<Rightarrow> [set_oidc_id_token env (c # cs) age] | _ \<Rightarrow> [])),
                w\<lparr>w_db := d\<rparr>)))"

definition oidc_callback ::
    "web_env \<Rightarrow> (provider_config \<Rightarrow> exchanged) \<Rightarrow> oidc_race \<Rightarrow> instant \<Rightarrow> string \<Rightarrow> web_state \<Rightarrow>
       (http_error + unit response) \<times> web_state" where
  "oidc_callback env exchange race now provider w =
     (let st = register_now (we_oidc env) (w_oidc w); w1 = w\<lparr>w_oidc := st\<rparr> in
      (case (get_provider (os_registry st) provider, map_of (rg_clients (os_registry st)) provider,
             get_adapter provider) of
         (Some cfg, Some client, Some adapter) \<Rightarrow>
           (case exchange client of
              ExchangeRaised e \<Rightarrow> (Inl (ServerError e), w1)
            | ExchangeFailed \<Rightarrow> (Inr sso_failed, w1)
            | Token (Some (c # claims)) id_token \<Rightarrow>
                (let (response, w2) = oidc_finish env race now cfg adapter (c # claims) id_token w1
                 in (Inr response, w2))
            | Token _ _ \<Rightarrow> (Inr sso_failed, w1))
       | _ \<Rightarrow> (Inl (HttpError 404 ''Unknown SSO provider''), w1)))"

section \<open>Guessing passwords\<close>

text \<open>Log-in attempts of one client for one name: the time, the limiter's two clock readings, and
  the password.\<close>

fun login_attempts ::
    "web_env \<Rightarrow> request \<Rightarrow> string \<Rightarrow> (instant \<times> rat \<times> rat \<times> string) list \<Rightarrow> web_state \<Rightarrow> web_state" where
  "login_attempts env req username [] w = w"
| "login_attempts env req username ((now, clock, later, password) # rest) w =
     login_attempts env req username rest (snd (login_post env now clock later req username password w))"

lemma login_attempts_snoc:
  "login_attempts env req username (as @ [(now, clock, later, password)]) w =
     snd (login_post env now clock later req username password (login_attempts env req username as w))"
  by (induction env req username as w rule: login_attempts.induct) simp_all

lemma login_screen_frame:
  "login_screen env req error w = (r, w') \<Longrightarrow>
     w_db w' = w_db w \<and> w_limiter w' = w_limiter w \<and>
     oidc_get_config (we_oidc env) (w_oidc w') = oidc_get_config (we_oidc env) (w_oidc w) \<and>
     rs_status r = 200 \<and> (\<forall>c. SetCookie c \<notin> set (rs_cookies r))"
  by (auto simp: login_screen_def login_context_of_def register_now_def oidc_get_config_def render_def
      clear_flash_def Let_def)

text \<open>Every branch of a password log-in.\<close>

lemma login_post_cases:
  assumes "login_post env now clock later req username password w = (r, w')"
  shows "w_db w' = w_db w \<and>
    oidc_get_config (we_oidc env) (w_oidc w') = oidc_get_config (we_oidc env) (w_oidc w) \<and>
    (if \<not> local_auth_enabled (oidc_get_config (we_oidc env) (w_oidc w))
     then rs_status r = 403 \<and> w_limiter w' = w_limiter w \<and> (\<forall>c. SetCookie c \<notin> set (rs_cookies r))
     else case retry_after (limiter_key (rq_client req) username) clock (w_limiter w) of
       Some s \<Rightarrow> rs_status r = 429 \<and> rs_headers r = [(''Retry-After'', show_int s)] \<and>
         w_limiter w' = w_limiter w \<and> (\<forall>c. SetCookie c \<notin> set (rs_cookies r))
     | None \<Rightarrow>
         (case verify_credentials (we_auth env) username password (w_db w) of
            None \<Rightarrow> rs_status r = 200 \<and> (\<forall>c. SetCookie c \<notin> set (rs_cookies r)) \<and>
              w_limiter w' = record_failure (limiter_key (rq_client req) username) clock later (w_limiter w)
          | Some u \<Rightarrow> rs_cookies r = [set_session env now (u_username u) None]))"
  using assms
  by (auto simp: login_post_def Let_def redirect_to_def split: if_splits option.splits prod.splits
      dest: login_screen_frame)

lemma record_failures_snoc:
  "record_failures key (ts @ [(t, t')]) l = record_failure key t t' (record_failures key ts l)"
  by (induction key ts l rule: record_failures.induct) simp_all

lemma record_failures_cfg [simp]:
  "ll_max_attempts (record_failures key ts l) = ll_max_attempts l"
  "ll_window_seconds (record_failures key ts l) = ll_window_seconds l"
  "ll_lockout_seconds (record_failures key ts l) = ll_lockout_seconds l"
  by (induction key ts l rule: record_failures.induct) simp_all

text \<open>What the limiter answers after \<open>n\<close> failures of a fresh key.\<close>

lemma retry_after_failures:
  assumes "length (ll_entries l) < MAX_ENTRIES" "map_of (ll_entries l) key = None"
    "\<forall>u \<in> fst ` set ts. u - fst (hd ts) \<le> ll_window_seconds l" "0 \<le> clock"
  shows "retry_after key clock (record_failures key ts l) =
    (if ts = [] \<or> int (length ts) < ll_max_attempts l \<or> last (map fst ts) + ll_lockout_seconds l \<le> clock then None
     else Some (\<lfloor>last (map fst ts) + ll_lockout_seconds l - clock\<rfloor> + 1))"
proof (cases ts)
  case Nil
  then show ?thesis using assms(2) by (simp add: retry_after_def)
next
  case (Cons a rest)
  obtain t t' where a: "a = (t, t')" by fastforce
  have "\<forall>u \<in> fst ` set rest. u - t \<le> ll_window_seconds l" using assms(3) by (simp add: Cons a)
  from record_failures_fresh [OF assms(1,2) this, of t'] obtain e where
    "map_of (ll_entries (record_failures key ((t, t') # rest) l)) key = Some e"
    "counted l t (last (t # map fst rest)) (1 + length rest) e" by blast
  then show ?thesis using assms(4) by (auto simp: retry_after_def counted_def Let_def Cons a)
qed

lemma wrong_attempts:
  assumes "local_auth_enabled (oidc_get_config (we_oidc env) (w_oidc w))"
    "\<forall>(now, clock, later, p) \<in> set as. verify_credentials (we_auth env) username p (w_db w) = None \<and> 0 \<le> clock \<and>
       clock - fst (snd (hd as)) \<le> ll_window_seconds (w_limiter w)"
    "length (ll_entries (w_limiter w)) < MAX_ENTRIES"
    "map_of (ll_entries (w_limiter w)) (limiter_key (rq_client req) username) = None"
    "int (length as) \<le> ll_max_attempts (w_limiter w)"
  shows "w_db (login_attempts env req username as w) = w_db w \<and>
    oidc_get_config (we_oidc env) (w_oidc (login_attempts env req username as w)) =
      oidc_get_config (we_oidc env) (w_oidc w) \<and>
    w_limiter (login_attempts env req username as w) =
      record_failures (limiter_key (rq_client req) username) (map (\<lambda>(_, c, l, _). (c, l)) as) (w_limiter w)"
  using assms(2,5)
proof (induction as rule: rev_induct)
  case (snoc x as)
  let ?key = "limiter_key (rq_client req) username" and ?w = "login_attempts env req username as w"
  let ?ts = "map (\<lambda>(_, c, l, _). (c, l)) as"
  obtain now clock later p where x: "x = (now, clock, later, p)" by (cases x) auto
  have hd: "as \<noteq> [] \<Longrightarrow> hd (as @ [x]) = hd as" by simp
  have IH: "w_db ?w = w_db w" "oidc_get_config (we_oidc env) (w_oidc ?w) = oidc_get_config (we_oidc env) (w_oidc w)"
      "w_limiter ?w = record_failures ?key ?ts (w_limiter w)"
    using snoc by (cases "as = []"; fastforce)+
  have "\<forall>u \<in> fst ` set ?ts. u - fst (hd ?ts) \<le> ll_window_seconds (w_limiter w)"
  proof (cases as)
    case (Cons b bs)
    then show ?thesis using snoc.prems(1) by (cases b) auto
  qed simp
  then have none: "retry_after ?key clock (w_limiter ?w) = None"
    using retry_after_failures [OF assms(3,4), of ?ts clock] snoc.prems by (auto simp: IH(3) x)
  obtain r w' where post: "login_post env now clock later req username p ?w = (r, w')" by fastforce
  have "verify_credentials (we_auth env) username p (w_db w) = None" using snoc.prems(1) by (auto simp: x)
  with login_post_cases [OF post] none assms(1) show ?case
    by (simp add: x login_attempts_snoc post IH record_failures_snoc)
qed simp


text \<open>C33: passwords cannot be guessed past the limit. After as many wrong passwords as the limiter
  allows, inside one window and from one address for one name, each later attempt is answered 429
  until the lockout time after the last one has passed, even with the right password: no session
  cookie is set, the database and the limiter stay as they are, and the advertised delay covers
  the time that remains.
\<close>

theorem brute_force_locked_out:
  assumes "local_auth_enabled (oidc_get_config (we_oidc env) (w_oidc w))"
    and "\<forall>(now, clock, later, p) \<in> set as. verify_credentials (we_auth env) username p (w_db w) = None \<and>
      0 \<le> clock \<and> clock - fst (snd (hd as)) \<le> ll_window_seconds (w_limiter w)"
    and "length (ll_entries (w_limiter w)) < MAX_ENTRIES"
    and "map_of (ll_entries (w_limiter w)) (limiter_key (rq_client req) username) = None"
    and "as \<noteq> []" "int (length as) = ll_max_attempts (w_limiter w)"
    and "0 \<le> clock" "clock < fst (snd (last as)) + ll_lockout_seconds (w_limiter w)"
    and "login_post env now clock later req username password (login_attempts env req username as w) = (r, w')"
  shows "rs_status r = 429 \<and> (\<forall>c. SetCookie c \<notin> set (rs_cookies r)) \<and> w_db w' = w_db w \<and>
    w_limiter w' = w_limiter (login_attempts env req username as w) \<and>
    (\<exists>s. rs_headers r = [(''Retry-After'', show_int s)] \<and>
       fst (snd (last as)) + ll_lockout_seconds (w_limiter w) \<le> clock + of_int s)"
proof -
  let ?key = "limiter_key (rq_client req) username" and ?ts = "map (\<lambda>(_, c, l, _). (c, l)) as"
  let ?w = "login_attempts env req username as w"
  let ?until = "fst (snd (last as)) + ll_lockout_seconds (w_limiter w)"
  have w: "w_db ?w = w_db w" "oidc_get_config (we_oidc env) (w_oidc ?w) = oidc_get_config (we_oidc env) (w_oidc w)"
      "w_limiter ?w = record_failures ?key ?ts (w_limiter w)"
    using wrong_attempts [OF assms(1-4)] assms(6) by simp_all
  have last: "last (map fst ?ts) = fst (snd (last as))" "fst (hd ?ts) = fst (snd (hd as))"
    using assms(5) by (simp_all add: last_map hd_map split_beta)
  have "\<forall>u \<in> fst ` set ?ts. u - fst (hd ?ts) \<le> ll_window_seconds (w_limiter w)"
    using assms(2) by (auto simp: last(2))
  from retry_after_failures [OF assms(3,4) this assms(7)]
  have retry: "retry_after ?key clock (w_limiter ?w) = Some (\<lfloor>?until - clock\<rfloor> + 1)"
    using assms(5,6,8) by (simp add: w(3) last(1) del: map_map)
  have "?until \<le> clock + of_int (\<lfloor>?until - clock\<rfloor> + 1)" by linarith
  then show ?thesis using login_post_cases [OF assms(9)] retry assms(1) w(1,2) by auto
qed

definition sample_web_env :: web_env where
  "sample_web_env =
     \<lparr>we_auth = sample_auth_env, we_oidc = sample_oidc_env, we_secure_cookies = True,
      we_id_token_cookie = ''idt'', we_flash_loads = (\<lambda>_. None), we_flash_dumps = id, we_version = ''1''\<rparr>"

definition sample_web_state :: web_state where
  "sample_web_state =
     \<lparr>w_db = sample_db, w_oidc = sample_oidc_store, w_limiter = new_login_limiter 2 300 300\<rparr>"

lemma brute_force_locked_out_witness:
  "verify_credentials sample_auth_env ''ann'' ''secret99'' sample_db = Some sample_user \<and>
   rs_status (fst (login_post sample_web_env 9 5 5 sample_request ''ann'' ''secret99''
     (login_attempts sample_web_env sample_request ''ann'' [(1, 1, 1, ''a''), (2, 2, 2, ''b'')] sample_web_state))) = 429"
proof -
  have wrong: "verify_credentials sample_auth_env ''ann'' p sample_db =
      (if p = ''secret99'' then Some sample_user else None)" if "length p \<le> 8" for p
    using that by (simp add: sample_defs verify_credentials_def find_user_def verify_password_def MAX_PASSWORD_BYTES_def)
  obtain r w' where p: "login_post sample_web_env 9 5 5 sample_request ''ann'' ''secret99''
     (login_attempts sample_web_env sample_request ''ann'' [(1, 1, 1, ''a''), (2, 2, 2, ''b'')] sample_web_state) = (r, w')"
    by fastforce
  have "local_auth_enabled (oidc_get_config (we_oidc sample_web_env) (w_oidc sample_web_state))"
    by (simp add: sample_web_env_def sample_web_state_def sample_oidc_store_def oidc_get_config_def
        sample_oidc_config_def local_auth_enabled_def)
  from brute_force_locked_out [OF this _ _ _ _ _ _ _ p] wrong
  have "rs_status r = 429"
    by (simp add: sample_web_env_def sample_web_state_def new_login_limiter_def MAX_ENTRIES_def)
  with p wrong [of "''secret99''"] show ?thesis by simp
qed

section \<open>What a page offers\<close>

text \<open>The controls a page offers are the ones the role gates allow: for a user whose role is one of
  the three, the flags of the shell agree with the sets of roles the administrator, analyst and
  audit routes accept, and the anonymous pages offer none.
\<close>

theorem shell_flags_match_gates:
  "sh_is_admin (page_shell env req (Some u)) = (u_role u \<in> set (map role_value [ADMIN])) \<and>
   sh_can_manage_alerts (page_shell env req (Some u)) = (u_role u \<in> set (map role_value [ADMIN])) \<and>
   sh_can_write (page_shell env req (Some u)) = (u_role u \<in> set (map role_value [ADMIN, ANALYST])) \<and>
   sh_can_read_audit (page_shell env req (Some u)) = (u_role u \<in> set (map role_value [ADMIN, AUDITOR])) \<and>
   \<not> sh_is_admin (page_shell env req None) \<and> \<not> sh_can_write (page_shell env req None) \<and>
   \<not> sh_can_manage_alerts (page_shell env req None) \<and> \<not> sh_can_read_audit (page_shell env req None)"
  by (simp add: page_shell_def Let_def)

section \<open>The session a sign-in hands out\<close>

lemma sync_email_in:
  "sync_email quiet i u d = (v, d') \<Longrightarrow> u \<in> set (db_users d) \<Longrightarrow> v \<in> set (db_users d')"
  by (auto simp: sync_email_def Let_def intro!: put_user_in split: if_splits option.splits)

lemma sync_returning_in:
  assumes h: "sync_returning_user quiet now cfg i u d = (Inr v, d')" and u: "u \<in> set (db_users d)"
  shows "v \<in> set (db_users d') \<and> u_password_changed_at v \<in> {u_password_changed_at u, Some (Aware now)}"
proof -
  obtain u1 where u1: "sync_tenant i u = Inr u1" using h by (auto simp: sync_returning_user_def split: sum.splits)
  note t = sync_tenant_ok [OF u1]
  have id1: "u_id u2 \<in> u_id ` set (db_users d)" if "u_id u2 = u_id u1" for u2
    using t u that by (simp add: same_identity_def)
  show ?thesis
  proof (cases "u_role_managed_by_idp u1 \<and> role_value (map_role cfg i) \<noteq> u_role u1")
    case True
    let ?u2 = "u1\<lparr>u_role := role_value (map_role cfg i), u_password_changed_at := Some (Aware now)\<rparr>"
    have e: "sync_email quiet i ?u2 (role_sync_audit now cfg (u_role u1) ?u2 (put_user ?u2 d)) = (v, d')"
      using h u1 True by (auto simp: sync_returning_user_def Let_def split: prod.splits)
    have "?u2 \<in> set (db_users (role_sync_audit now cfg (u_role u1) ?u2 (put_user ?u2 d)))"
      using put_user_in [OF id1 [of ?u2]] by (simp add: role_sync_audit_def)
    then show ?thesis using sync_email_in [OF e] sync_email_user [OF e] by simp
  next
    case False
    have e: "sync_email quiet i u1 (if u1 = u then d else put_user u1 d) = (v, d')"
      using h u1 False by (auto simp: sync_returning_user_def Let_def split: prod.splits)
    have "u1 \<in> set (db_users (if u1 = u then d else put_user u1 d))"
      using u put_user_in [OF id1 [of u1]] by simp
    then show ?thesis using sync_email_in [OF e] sync_email_user [OF e] t by simp
  qed
qed

lemma insert_in:
  "insert_user now p u0 d = Some (u, d') \<Longrightarrow>
     u \<in> set (db_users d') \<and> u_password_changed_at u = u_password_changed_at u0"
  by (auto simp: insert_user_def Let_def provision_audit_def add_user_def split: if_splits)

text \<open>The account a sign-in returns, as it is in the table afterwards.\<close>

definition recent :: "instant \<Rightarrow> user \<Rightarrow> bool" where
  "recent now u \<longleftrightarrow> (case u_password_changed_at u of None \<Rightarrow> True | Some c \<Rightarrow> utc_of c \<le> now)"

lemma recent_of: "u_password_changed_at v \<in> {u_password_changed_at u, Some (Aware now)} \<Longrightarrow> recent now u \<Longrightarrow> recent now v"
  by (auto simp: recent_def)

lemma returning_in:
  assumes "match_identity d i p = Some u" "sync_returning_user quiet now cfg i u d = (Inr v, d')"
    "list_all (recent now) (db_users d)"
  shows "v \<in> set (db_users d') \<and> recent now v"
proof -
  have u: "u \<in> set (db_users d)" using match_identity_Some [OF assms(1)] by simp
  then have "recent now u" using assms(3) by (simp add: list_all_iff)
  then show ?thesis using sync_returning_in [OF assms(2) u] recent_of by blast
qed

lemma jit_in:
  "insert_user now p (jit_user now cfg i n e) d = Some (u, d') \<Longrightarrow> u \<in> set (db_users d') \<and> recent now u"
  "insert_user now p ((jit_user now cfg i n e)\<lparr>u_username := m\<rparr>) d = Some (u, d') \<Longrightarrow>
     u \<in> set (db_users d') \<and> recent now u"
  using insert_in by (fastforce simp: recent_def jit_user_def)+

lemma provision_again_in:
  assumes "provision_again env quiet now cfg i (jit_user now cfg i n m) e d = (Inr (u, c), d')"
    "list_all (recent now) (db_users d)"
  shows "u \<in> set (db_users d') \<and> recent now u"
  using assms
  by (auto simp: provision_again_def Let_def dest: returning_in jit_in
    split: option.splits if_splits prod.splits sum.splits)

lemma provision_in:
  assumes "provision_oidc_user env quiet now cfg i d = (Inr (u, c), d')"
    "list_all (recent now) (db_users d)"
  shows "u \<in> set (db_users d') \<and> recent now u"
  using assms
  by (auto simp: provision_oidc_user_def Let_def dest: returning_in jit_in provision_again_in
    split: option.splits if_splits prod.splits sum.splits)

lemma find_user_unique:
  assumes "accounts_ok d" "u \<in> set (db_users d)"
  shows "find_user d (u_username u) = Some u"
proof -
  have "v = u" if "v \<in> set (db_users d)" "u_username v = u_username u" for v
  proof (rule ccontr)
    assume "v \<noteq> u"
    then have "u_id v \<noteq> u_id u" using accounts_same_row [OF assms(1) that(1) assms(2)] by blast
    then have "users_compatible v u" using assms that(1) by (auto simp: accounts_ok_def)
    with that(2) show False by (simp add: users_compatible_def)
  qed
  moreover have "find_user d (u_username u) \<noteq> None" using assms(2) by (auto simp: find_user_def find_None_iff)
  ultimately show ?thesis by (auto simp: find_user_def find_Some_iff) (metis nth_mem)
qed

text \<open>The documented behaviour of the signed timestamps: what was signed is read back until it is
  \<open>max_age\<close> seconds old, with the time of issue cut to a whole second.\<close>

definition signer_ok :: "auth_env \<Rightarrow> bool" where
  "signer_ok a \<longleftrightarrow>
     (\<forall>m t t0 name. create_session_cookie a t0 name \<noteq> [] \<and>
        (t0 \<le> t \<and> t - t0 < m * usec_per_sec \<longrightarrow>
         (\<exists>i. t0 - usec_per_sec < i \<and> i \<le> t0 \<and>
            ae_loads a m t (create_session_cookie a t0 name) = Some (JObj [(''u'', JStr name)], i))))"

lemma fresh_session:
  assumes "signer_ok a" "find_user d name = Some u" "recent t0 u"
    and "map_of (rq_cookies req) (as_session_cookie_name (ae_settings a)) = Some (create_session_cookie a t0 name)"
    and "t0 \<le> now" "now - t0 < as_session_max_age (ae_settings a) * usec_per_sec"
    and "now - t0 \<le> (as_oidc_session_max_age (ae_settings a) - 1) * usec_per_sec"
  shows "require_auth a now req d = Inr u"
proof -
  let ?c = "create_session_cookie a t0 name"
  obtain i where i: "t0 - usec_per_sec < i" "i \<le> t0"
      "ae_loads a (as_session_max_age (ae_settings a)) now ?c = Some (JObj [(''u'', JStr name)], i)"
    using assms(1,5,6) unfolding signer_ok_def by blast
  obtain c cs where "?c = c # cs"
    using assms(1) unfolding signer_ok_def by (meson list.exhaust)
  then have "get_session_claims a now req = Inr (Some (name, i))"
    using assms(4) i(3) by (simp add: get_session_claims_def dict_get_def)
  moreover have "session_after_password_change u i"
    using assms(3) i(1) by (auto simp: session_after_password_change_def recent_def split: option.splits)
  moreover have "session_within_sso_max_age a now u i"
    using assms(7) i(1) by (auto simp: session_within_sso_max_age_def algebra_simps)
  ultimately show ?thesis using assms(2) by (simp add: require_auth_def authenticate_session_def)
qed


text \<open>A callback sets a cookie only when it has provisioned an account.\<close>

lemma callback_cookie:
  assumes "oidc_callback env exchange race now provider w = (Inr resp, w')" "SetCookie ck \<in> set (rs_cookies resp)"
  shows "\<exists>cfg client adapter claims idt identity u created.
    get_provider (os_registry (register_now (we_oidc env) (w_oidc w))) provider = Some cfg \<and>
    exchange client = Token (Some claims) idt \<and> get_adapter provider = Some adapter \<and>
    extract_identity adapter claims (pc_role_claim cfg) = Inr identity \<and>
    provision_oidc_user (we_oidc env) race now cfg identity (w_db w) = (Inr (u, created), w_db w') \<and>
    (SetCookie ck = set_session env now (u_username u) (Some (as_oidc_session_max_age (ae_settings (we_auth env)))) \<or>
     ck_name ck = we_id_token_cookie env)"
  using assms
  by (auto simp: oidc_callback_def oidc_finish_def Let_def sso_failed_def redirect_to_def set_oidc_id_token_def
      web_cookie_def split: option.splits exchanged.splits list.splits prod.splits sum.splits; blast)

text \<open>Single sign-on hands out a session only to the account it provisioned, and the session works.
  When the callback of a provider sets the session cookie, the code exchange gave validated claims;
  the cookie is HTTP-only and same-site; and any later request that carries it, within the lifetime
  of single sign-on sessions, is authenticated as an account of exactly that provider, also when
  this very sign-in changed the role and so revoked every older session. (The last second of the
  lifetime is left out: a time of issue is stored in whole seconds.)
\<close>

theorem sso_session_works:
  assumes "oidc_callback env exchange quiet t0 provider w = (Inr resp, w')"
    and "SetCookie ck \<in> set (rs_cookies resp)" "ck_name ck = as_session_cookie_name (ae_settings (we_auth env))"
    and "we_id_token_cookie env \<noteq> as_session_cookie_name (ae_settings (we_auth env))"
    and "oidc_store_ok (we_oidc env) (w_oidc w)" "accounts_ok (w_db w)" "list_all (recent t0) (db_users (w_db w))"
    and "signer_ok (we_auth env)"
    and "map_of (rq_cookies req) (ck_name ck) = Some (ck_value ck)"
    and "t0 \<le> now" "now - t0 < as_session_max_age (ae_settings (we_auth env)) * usec_per_sec"
    and "now - t0 \<le> (as_oidc_session_max_age (ae_settings (we_auth env)) - 1) * usec_per_sec"
  shows "ck_http_only ck \<and> ck_same_site ck = ''lax'' \<and>
    (\<exists>u. require_auth (we_auth env) now req (w_db w') = Inr u \<and> u_auth_provider u = provider \<and>
         u \<in> set (db_users (w_db w')))"
proof -
  obtain cfg identity u created where
    cfg: "get_provider (os_registry (register_now (we_oidc env) (w_oidc w))) provider = Some cfg" and
    p: "provision_oidc_user (we_oidc env) quiet t0 cfg identity (w_db w) = (Inr (u, created), w_db w')" and
    ck: "SetCookie ck = set_session env t0 (u_username u) (Some (as_oidc_session_max_age (ae_settings (we_auth env))))"
    using callback_cookie [OF assms(1,2)] assms(3,4) by auto
  obtain row where "os_row (w_oidc w) = Some row" "os_snapshot (w_oidc w) = Some (ow_config row)"
      "registry_ok (we_oidc env) (ow_config row) (os_registry (w_oidc w))"
    using assms(5) by (auto simp: oidc_store_ok_def split: option.splits)
  then have "pc_key cfg = provider"
    using cfg by (auto simp: register_now_def oidc_get_config_def ensure_registered_of get_provider_of)
  moreover have "bound_to cfg identity u" using provision_signed_in [OF p] by (simp add: signed_in_def)
  moreover have u: "u \<in> set (db_users (w_db w'))" "recent t0 u" using provision_in [OF p assms(7)] by auto
  moreover have "accounts_ok (w_db w')" using provision_ok [OF p assms(6)] by simp
  then have "find_user (w_db w') (u_username u) = Some u" using u(1) by (rule find_user_unique)
  then have "require_auth (we_auth env) now req (w_db w') = Inr u"
    using fresh_session [OF assms(8) _ u(2) _ assms(10-12)] assms(3,9) ck
    by (simp add: set_session_def web_cookie_def)
  ultimately show ?thesis using ck by (auto simp: set_session_def web_cookie_def bound_to_def)
qed


text \<open>A signer that can be evaluated: the time in unary before the name.\<close>

definition unary_dumps :: "instant \<Rightarrow> json \<Rightarrow> string" where
  "unary_dumps t0 x =
     (if t0 < 0 then ''-'' else ''+'') @ replicate (nat \<bar>t0\<bar>) (CHR ''x'') @ '':'' @
     (case x of JObj [(_, JStr n)] \<Rightarrow> n | _ \<Rightarrow> [])"

definition unary_loads :: "int \<Rightarrow> instant \<Rightarrow> string \<Rightarrow> (json \<times> instant) option" where
  "unary_loads m t c =
     (let k = int (length (takeWhile (\<lambda>x. x = CHR ''x'') (tl c)));
          t0 = (if hd c = CHR ''-'' then - k else k);
          name = tl (dropWhile (\<lambda>x. x = CHR ''x'') (tl c))
      in if t - t0 < m * usec_per_sec then Some (JObj [(''u'', JStr name)], t0) else None)"

definition unary_auth_env :: auth_env where
  "unary_auth_env = sample_auth_env\<lparr>ae_dumps := unary_dumps, ae_loads := unary_loads\<rparr>"

lemma take_unary: "takeWhile (\<lambda>x. x = CHR ''x'') (replicate n (CHR ''x'') @ CHR '':'' # s) = replicate n (CHR ''x'')"
  by (induction n) simp_all

lemma drop_unary: "dropWhile (\<lambda>x. x = CHR ''x'') (replicate n (CHR ''x'') @ CHR '':'' # s) = CHR '':'' # s"
  by (induction n) simp_all

lemma unary_signer: "signer_ok unary_auth_env"
proof -
  have "unary_loads m t (unary_dumps t0 (JObj [(''u'', JStr name)])) = Some (JObj [(''u'', JStr name)], t0)"
    if "t - t0 < m * usec_per_sec" for m t t0 name
    using that by (simp add: unary_loads_def unary_dumps_def take_unary drop_unary Let_def)
  moreover have "unary_dumps t0 x \<noteq> []" for t0 x by (simp add: unary_dumps_def)
  moreover have "0 < usec_per_sec" by (simp add: usec_per_sec_def)
  ultimately show ?thesis
    by (simp add: signer_ok_def create_session_cookie_def unary_auth_env_def)
qed

definition unary_web_env :: web_env where
  "unary_web_env = sample_web_env\<lparr>we_auth := unary_auth_env\<rparr>"

definition sso_state :: web_state where
  "sso_state = sample_web_state\<lparr>w_db := sample_accounts\<rparr>"

definition sample_exchange :: "provider_config \<Rightarrow> exchanged" where
  "sample_exchange _ =
     Token (Some [(''iss'', JStr ''https://idp.example''), (''sub'', JStr ''s2''), (''email'', JStr ''Cat@x.org''),
                  (''email_verified'', JBool True), (''groups'', JArr [JStr ''sec''])]) None"

lemma sample_callback:
  "fst (oidc_callback unary_web_env sample_exchange quiet 9 ''authentik'' sso_state) =
     Inr (redirect_to ''/'' [set_session unary_web_env 9 ''cat@x.org'' (Some 3600)])"
  by code_simp


lemma sso_session_works_witness:
  "\<exists>u. require_auth unary_auth_env 20
         \<lparr>rq_method = ''GET'', rq_cookies = [(''sid'', create_session_cookie unary_auth_env 9 ''cat@x.org'')],
          rq_authorization = [], rq_client = None\<rparr>
         (w_db (snd (oidc_callback unary_web_env sample_exchange quiet 9 ''authentik'' sso_state))) = Inr u \<and>
       u_auth_provider u = ''authentik''"
proof -
  let ?ck = "\<lparr>ck_name = ''sid'', ck_value = create_session_cookie unary_auth_env 9 ''cat@x.org'', ck_max_age = 3600,
              ck_http_only = True, ck_same_site = ''lax'', ck_secure = True\<rparr>"
  let ?req = "\<lparr>rq_method = ''GET'', rq_cookies = [(''sid'', create_session_cookie unary_auth_env 9 ''cat@x.org'')],
               rq_authorization = [], rq_client = None\<rparr>"
  have env: "we_auth unary_web_env = unary_auth_env" "we_oidc unary_web_env = sample_oidc_env"
      "we_id_token_cookie unary_web_env = ''idt''" "we_secure_cookies unary_web_env = True"
      "as_session_cookie_name (ae_settings unary_auth_env) = ''sid''"
      "as_session_max_age (ae_settings unary_auth_env) = 86400"
      "as_oidc_session_max_age (ae_settings unary_auth_env) = 3600"
    by (simp_all add: unary_web_env_def sample_web_env_def unary_auth_env_def sample_auth_env_def)
  have st: "w_oidc sso_state = sample_oidc_store" "w_db sso_state = sample_accounts"
    by (simp_all add: sso_state_def sample_web_state_def)
  have call: "oidc_callback unary_web_env sample_exchange quiet 9 ''authentik'' sso_state =
      (Inr (redirect_to ''/'' [set_session unary_web_env 9 ''cat@x.org'' (Some 3600)]),
       snd (oidc_callback unary_web_env sample_exchange quiet 9 ''authentik'' sso_state))"
    using sample_callback by (metis prod.collapse)
  have cookie: "SetCookie ?ck \<in> set (rs_cookies (redirect_to ''/'' [set_session unary_web_env 9 ''cat@x.org'' (Some 3600)]))"
    by (simp add: redirect_to_def set_session_def web_cookie_def env)
  have fresh: "list_all (recent 9) (db_users sample_accounts)"
    by (simp add: sample_accounts_def recent_def returning_user_def new_user_def)
  show ?thesis
    using sso_session_works [OF call cookie, where req = ?req and now = 20] sample_oidc_store_ok sample_accounts_ok
      fresh unary_signer
    by (auto simp: env st usec_per_sec_def)
qed

end
