(* ===== verification/Edge.thy ===== *)
theory Edge
  imports Sign_In Extension_Views
begin

text \<open>
  \<open>app/main.py\<close> and \<open>app/middleware.py\<close>: the layers every request passes, from the outside in
  (security headers, the per-address rate limits, the origin check, then the routes), the two
  probes, the order of the start-up steps, and the validators of \<open>app/config.py\<close>.

  The routes are an argument: a function from the request and their state to a reply or an
  exception no handler caught. Header names are lower case, as Starlette stores them.
\<close>

section \<open>Requests and replies\<close>

record edge_request =
  er_method :: string
  er_path :: string
  er_scheme :: string
  er_netloc :: string
  er_headers :: "(string \<times> string) list"
  er_client :: "string option"

record reply =
  rp_status :: int
  rp_headers :: "(string \<times> string) list"
  rp_body :: json

type_synonym 's handler = "edge_request \<Rightarrow> 's \<Rightarrow> (string + reply) \<times> 's"

text \<open>\<open>headers[key] = value\<close>: the first occurrence is replaced, further ones are removed.\<close>

fun header_set :: "string \<Rightarrow> string \<Rightarrow> (string \<times> string) list \<Rightarrow> (string \<times> string) list" where
  "header_set k v [] = [(k, v)]"
| "header_set k v ((k', v') # hs) =
     (if k' = k then (k, v) # filter (\<lambda>p. fst p \<noteq> k) hs else (k', v') # header_set k v hs)"

definition detail_reply :: "int \<Rightarrow> string \<Rightarrow> reply" where
  "detail_reply status detail =
     \<lparr>rp_status = status, rp_headers = [], rp_body = JObj [(''detail'', JStr detail)]\<rparr>"

text \<open>What an \<open>HTTPException\<close> becomes; status 303 has a handler of its own.\<close>

fun error_reply :: "http_error \<Rightarrow> string + reply" where
  "error_reply (HttpError status detail) = Inr (detail_reply status detail)"
| "error_reply (RedirectTo url) =
     Inr \<lparr>rp_status = 303, rp_headers = [(''location'', url)], rp_body = JNull\<rparr>"
| "error_reply (ServerError e) = Inl e"

section \<open>The origin check\<close>

definition SAFE_METHODS :: "string list" where
  "SAFE_METHODS = [''GET'', ''HEAD'', ''OPTIONS'', ''TRACE'']"

definition is_bearer_auth :: "edge_request \<Rightarrow> bool" where
  "is_bearer_auth req \<longleftrightarrow>
     starts_with (lower (case map_of (er_headers req) ''authorization'' of Some v \<Rightarrow> v | None \<Rightarrow> [])) ''bearer ''"

text \<open>\<open>None\<close> is the \<open>ValueError\<close> of \<open>urlsplit\<close>.\<close>

definition request_origin :: "edge_request \<Rightarrow> string option option" where
  "request_origin req =
     (case map_of (er_headers req) ''origin'' of
        Some (c # cs) \<Rightarrow> Some (Some (c # cs))
      | _ \<Rightarrow>
          (case map_of (er_headers req) ''referer'' of
             Some (c # cs) \<Rightarrow>
               map_option (\<lambda>parts. if ur_scheme parts \<noteq> [] \<and> ur_netloc parts \<noteq> []
                                   then Some (ur_scheme parts @ ''://'' @ ur_netloc parts) else None)
                 (urlsplit (c # cs))
           | _ \<Rightarrow> Some None))"

definition origin_allowed :: "string \<Rightarrow> edge_request \<Rightarrow> string list \<Rightarrow> bool" where
  "origin_allowed org req trusted \<longleftrightarrow>
     org = er_scheme req @ ''://'' @ er_netloc req \<or> org \<in> set trusted"

definition csrf_dispatch :: "string list \<Rightarrow> 's handler \<Rightarrow> 's handler" where
  "csrf_dispatch trusted call_next req s =
     (if er_method req \<notin> set SAFE_METHODS \<and> \<not> is_bearer_auth req
      then (case request_origin req of
              None \<Rightarrow> (Inl ''ValueError'', s)
            | Some None \<Rightarrow> (Inr (detail_reply 403 ''Origin check failed''), s)
            | Some (Some org) \<Rightarrow>
                if origin_allowed org req trusted then call_next req s
                else (Inr (detail_reply 403 ''Origin check failed''), s))
      else call_next req s)"

text \<open>\<open>settings.trusted_origins\<close>, as the middleware is built.\<close>

definition trusted_origins :: "string \<Rightarrow> string list" where
  "trusted_origins setting = filter (\<lambda>v. v \<noteq> []) (map strip (split_on (CHR '','') setting))"

section \<open>Rate limits\<close>

record edge_settings =
  es_login_rate_limit_enabled :: bool
  es_api_rate_limit_enabled :: bool
  es_secure_cookies :: bool
  es_trusted_origins :: string

record limiters =
  lm_api :: request_limiter
  lm_login :: request_limiter

datatype zone = LoginZone | ApiZone

definition zone_of :: "edge_settings \<Rightarrow> edge_request \<Rightarrow> zone option" where
  "zone_of es req =
     (if es_login_rate_limit_enabled es \<and>
         ((er_method req = ''POST'' \<and> er_path req = ''/login'') \<or>
          (starts_with (er_path req) ''/auth/oidc/'' \<and> ends_with (er_path req) ''/login''))
      then Some LoginZone
      else if es_api_rate_limit_enabled es \<and> starts_with (er_path req) ''/api/'' then Some ApiZone
      else None)"

definition zone_check :: "zone \<Rightarrow> string \<Rightarrow> rat \<Rightarrow> rat \<Rightarrow> limiters \<Rightarrow> decision \<times> limiters" where
  "zone_check z ip now later lm =
     (case z of
        LoginZone \<Rightarrow> (let (r, l) = request_check ip now later (lm_login lm) in (r, lm\<lparr>lm_login := l\<rparr>))
      | ApiZone \<Rightarrow> (let (r, l) = request_check ip now later (lm_api lm) in (r, lm\<lparr>lm_api := l\<rparr>)))"

text \<open>The limiter reads the clock at the check, and again when it prunes.\<close>

definition edge_rate_limit ::
    "edge_settings \<Rightarrow> rat \<Rightarrow> rat \<Rightarrow> 's handler \<Rightarrow> (limiters \<times> 's) handler" where
  "edge_rate_limit es now later call_next req w =
     (let pass = (\<lambda>lm. let (r, s) = call_next req (snd w) in (r, (lm, s))) in
      case zone_of es req of
        None \<Rightarrow> pass (fst w)
      | Some z \<Rightarrow>
          (case zone_check z (case er_client req of Some ip \<Rightarrow> ip | None \<Rightarrow> ''-'') now later (fst w) of
             (Allowed, lm) \<Rightarrow> pass lm
           | (RetryAfter seconds, lm) \<Rightarrow>
               (Inr ((detail_reply 429 ''Rate limit exceeded. Slow down.'')
                       \<lparr>rp_headers := [(''retry-after'', show_int seconds)]\<rparr>), (lm, snd w))
           | (DivisionByZero, lm) \<Rightarrow> (Inl ''ZeroDivisionError'', (lm, snd w))))"

section \<open>Security headers\<close>

definition CANONICAL_CSP :: string where
  "CANONICAL_CSP =
     ''default-src 'self'; script-src 'self'; '' @
     ''style-src 'self' 'unsafe-inline'; style-src-elem 'self'; style-src-attr 'unsafe-inline'; '' @
     ''font-src 'self'; img-src 'self'; connect-src 'self'; '' @
     ''frame-ancestors 'none'; base-uri 'self'; object-src 'none'; form-action 'self'' @ [CHR 0x27]"

definition HSTS :: string where
  "HSTS = ''max-age=63072000; includeSubDomains; preload''"

definition PERMISSIONS_POLICY :: string where
  "PERMISSIONS_POLICY =
     ''accelerometer=(), camera=(), geolocation=(), gyroscope=(), magnetometer=(), microphone=(), payment=(), usb=()''"

definition security_header_list :: "bool \<Rightarrow> (string \<times> string) list" where
  "security_header_list secure =
     [(''content-security-policy'', CANONICAL_CSP), (''x-content-type-options'', ''nosniff''),
      (''x-frame-options'', ''DENY''), (''referrer-policy'', ''same-origin''),
      (''permissions-policy'', PERMISSIONS_POLICY)]
     @ (if secure then [(''strict-transport-security'', HSTS)] else [])"

definition apply_security_headers :: "edge_settings \<Rightarrow> reply \<Rightarrow> reply" where
  "apply_security_headers es r =
     r\<lparr>rp_headers := fold (\<lambda>(k, v). header_set k v) (security_header_list (es_secure_cookies es)) (rp_headers r)\<rparr>"

definition security_headers :: "edge_settings \<Rightarrow> 's handler \<Rightarrow> 's handler" where
  "security_headers es call_next req s =
     (case call_next req s of
        (Inl e, s') \<Rightarrow> (Inl e, s')
      | (Inr r, s') \<Rightarrow> (Inr (apply_security_headers es r), s'))"

definition unhandled_exception_response :: "edge_settings \<Rightarrow> reply" where
  "unhandled_exception_response es =
     apply_security_headers es
       \<lparr>rp_status = 500, rp_headers = [], rp_body = JStr ''Internal Server Error''\<rparr>"

text \<open>The whole stack: what the client receives.\<close>

definition serve ::
    "edge_settings \<Rightarrow> rat \<Rightarrow> rat \<Rightarrow> 's handler \<Rightarrow> edge_request \<Rightarrow> limiters \<times> 's \<Rightarrow> reply \<times> limiters \<times> 's" where
  "serve es now later routes req w =
     (case security_headers es
             (edge_rate_limit es now later (csrf_dispatch (trusted_origins (es_trusted_origins es)) routes)) req w of
        (Inl _, w') \<Rightarrow> (unhandled_exception_response es, w')
      | (Inr r, w') \<Rightarrow> (r, w'))"

section \<open>Probes\<close>

definition healthz :: reply where
  "healthz = \<lparr>rp_status = 200, rp_headers = [], rp_body = JObj [(''status'', JStr ''ok'')]\<rparr>"

definition readyz :: "bool \<Rightarrow> instant option \<Rightarrow> reply" where
  "readyz database_up last_run =
     (if \<not> database_up
      then \<lparr>rp_status = 503, rp_headers = [],
            rp_body = JObj [(''status'', JStr ''unavailable''), (''database'', JStr ''down'')]\<rparr>
      else \<lparr>rp_status = 200, rp_headers = [],
            rp_body = JObj [(''status'', JStr ''ok''), (''database'', JStr ''up''),
              (''last_scheduler_run'', case last_run of Some t \<Rightarrow> JStr (isoformat (Aware t)) | None \<Rightarrow> JNull)]\<rparr>)"

section \<open>Start-up\<close>

definition MIN_SECRET_KEY_LENGTH :: nat where "MIN_SECRET_KEY_LENGTH = 32"

definition validate_secret_key_length :: "string \<Rightarrow> string option" where
  "validate_secret_key_length v = (if length v < MIN_SECRET_KEY_LENGTH then None else Some v)"

text \<open>\<open>validate_feed_url\<close> of \<open>app/threats.py\<close>, which the settings call; \<open>None\<close> is a \<open>ValueError\<close>.\<close>

definition validate_feed_url :: "string \<Rightarrow> string option" where
  "validate_feed_url v =
     (if v = [] then Some v
      else
        (case urlparse v of
           None \<Rightarrow> None
         | Some parsed \<Rightarrow>
             if ur_scheme parsed \<noteq> ''https'' \<or> \<not> truthy_str (url_hostname parsed) \<or> has_credentials parsed then None
             else if ur_query parsed \<noteq> [] \<or> ur_fragment parsed \<noteq> [] then None
             else Some (strip_slashes_right v)))"

text \<open>The steps of \<open>lifespan\<close> up to the first request, on a migrated database. An error aborts the
  start.\<close>

definition startup ::
    "auth_env \<Rightarrow> proxy_defaults \<Rightarrow> oidc_env \<Rightarrow> instant \<Rightarrow> db \<Rightarrow> proxy_store \<Rightarrow> oidc_store \<Rightarrow>
       string + db \<times> proxy_store \<times> oidc_store" where
  "startup aenv s oenv now d ps os =
     (case validate_proxy_settings (pd_mode s) (pd_url s) of
        Inl _ \<Rightarrow> Inl ''invalid proxy settings''
      | Inr _ \<Rightarrow>
          (case seed_admin aenv now d of
             Inl _ \<Rightarrow> Inl ''PasswordTooLongError''
           | Inr d1 \<Rightarrow>
               (case refresh_cache s now ps of
                  None \<Rightarrow> Inl ''IntegrityError''
                | Some ps1 \<Rightarrow>
                    (case oidc_refresh_cache oenv now os of
                       Inl (OidcInvalid e) \<Rightarrow> Inl e
                     | Inl OidcIntegrity \<Rightarrow> Inl ''IntegrityError''
                     | Inr os1 \<Rightarrow>
                         Inr (d1, ps1,
                           os1\<lparr>os_registry := snd (register_providers oenv (oidc_get_config oenv os1)
                                                      (os_registry os1))\<rparr>)))))"

section \<open>Laws of the layers\<close>

lemma header_set_lookup: "map_of (header_set k v hs) k' = (if k' = k then Some v else map_of hs k')"
proof (induction k v hs rule: header_set.induct)
  case (2 k v a b hs)
  have "map_of (filter (\<lambda>p. fst p \<noteq> k) hs) k' = map_of hs k'" if "k' \<noteq> k"
    using that by (induction hs) auto
  then show ?case using 2 by auto
qed simp

lemma header_set_count: "length (filter (\<lambda>p. fst p = k) (header_set k v hs)) = 1"
  by (induction k v hs rule: header_set.induct) simp_all

lemma header_set_other: "k' \<noteq> k \<Longrightarrow> filter (\<lambda>p. fst p = k') (header_set k v hs) = filter (\<lambda>p. fst p = k') hs"
proof (induction k v hs rule: header_set.induct)
  case (2 k v a b hs)
  have "filter (\<lambda>p. fst p = k') (filter (\<lambda>p. fst p \<noteq> k) hs) = filter (\<lambda>p. fst p = k') hs"
    using 2(2) by (induction hs) auto
  then show ?case using 2 by auto
qed simp

lemma header_set_filter: "filter (\<lambda>p. fst p = k) (header_set k v hs) = [(k, v)]"
  by (induction k v hs rule: header_set.induct) (simp_all add: filter_empty_conv)

lemma fold_header_set:
  "distinct (map fst ps) \<Longrightarrow> (k, v) \<in> set ps \<Longrightarrow>
     filter (\<lambda>p. fst p = k) (fold (\<lambda>(k, v). header_set k v) ps hs) = [(k, v)]"
proof (induction ps arbitrary: hs)
  case (Cons p ps)
  obtain a b where p: "p = (a, b)" by fastforce
  show ?case
  proof (cases "(k, v) = p")
    case True
    have "filter (\<lambda>p. fst p = k) (fold (\<lambda>(k, v). header_set k v) ps hs') = filter (\<lambda>p. fst p = k) hs'"
      if "k \<notin> fst ` set ps" for hs'
      using that by (induction ps arbitrary: hs') (auto simp: header_set_other)
    then show ?thesis using Cons.prems True by (auto simp: header_set_filter)
  next
    case False
    then show ?thesis using Cons by auto
  qed
qed simp

lemma security_names_distinct: "distinct (map fst (security_header_list b))"
  by (simp add: security_header_list_def)

lemma apply_security_filter:
  "(k, v) \<in> set (security_header_list (es_secure_cookies es)) \<Longrightarrow>
     filter (\<lambda>p. fst p = k) (rp_headers (apply_security_headers es r)) = [(k, v)]"
  using fold_header_set [OF security_names_distinct] by (simp add: apply_security_headers_def)

lemma serve_applied: "\<exists>r0. fst (serve es now later routes req w) = apply_security_headers es r0"
  by (auto simp: serve_def security_headers_def unhandled_exception_response_def split: sum.splits prod.splits)

text \<open>Every reply carries the security headers exactly once and with the canonical value: replies
  of the routes, whatever headers these set themselves, the refusals of the inner layers, and the
  answer to an exception nobody caught. With secure cookies that includes the transport security
  header.
\<close>

theorem security_headers_everywhere:
  assumes "(k, v) \<in> set (security_header_list (es_secure_cookies es))"
  shows "filter (\<lambda>p. fst p = k) (rp_headers (fst (serve es now later routes req w))) = [(k, v)]"
  using apply_security_filter [OF assms] serve_applied [of es now later routes req w] by auto

definition sample_edge :: edge_settings where
  "sample_edge =
     \<lparr>es_login_rate_limit_enabled = True, es_api_rate_limit_enabled = True, es_secure_cookies = True,
      es_trusted_origins = '' https://a.example ,''\<rparr>"

definition sample_limiters :: limiters where
  "sample_limiters = \<lparr>lm_api = new_request_limiter 60 20, lm_login = new_request_limiter 5 5\<rparr>"

text \<open>Routes that count their calls and set a header the application owns.\<close>

definition counting_routes :: "nat handler" where
  "counting_routes req n =
     (if er_path req = ''/boom'' then (Inl ''RuntimeError'', n)
      else (Inr \<lparr>rp_status = 200, rp_headers = [(''x-frame-options'', ''ALLOW'')], rp_body = JNull\<rparr>, Suc n))"

definition get_request :: "string \<Rightarrow> edge_request" where
  "get_request path =
     \<lparr>er_method = ''GET'', er_path = path, er_scheme = ''https'', er_netloc = ''a.example'', er_headers = [],
      er_client = None\<rparr>"

theorem security_headers_everywhere_witness:
  "filter (\<lambda>p. fst p = ''x-frame-options'')
     (rp_headers (fst (serve sample_edge 0 0 counting_routes (get_request ''/boom'') (sample_limiters, 0)))) =
     [(''x-frame-options'', ''DENY'')]"
  by (rule security_headers_everywhere) (simp add: security_header_list_def)

text \<open>C34: no other site can make a browser change state. When a request reaches the routes and they
  change their state, its method is a safe one, or it is a bearer request, which a browser does not
  send on its own, or it names an origin that is the request's own or one the operator trusts. A
  request from elsewhere, or one that names no origin, gets an error status and leaves the routes'
  state as it was; this holds for the log-in form as well, which needs no session.
\<close>

theorem foreign_request_changes_nothing:
  assumes "serve es now later routes req (lm, s) = (r, lm', s')"
    and "er_method req \<notin> set SAFE_METHODS" "\<not> is_bearer_auth req"
    and "\<forall>org. request_origin req = Some (Some org) \<longrightarrow>
      org \<noteq> er_scheme req @ ''://'' @ er_netloc req \<and> org \<notin> set (trusted_origins (es_trusted_origins es))"
  shows "s' = s \<and> rp_status r \<in> {403, 429, 500}"
proof -
  have csrf: "csrf_dispatch (trusted_origins (es_trusted_origins es)) routes req s \<in>
      {(Inl ''ValueError'', s), (Inr (detail_reply 403 ''Origin check failed''), s)}"
    using assms(2-4) by (auto simp: csrf_dispatch_def origin_allowed_def split: option.splits)
  then show ?thesis using assms(1)
    by (auto simp: serve_def security_headers_def edge_rate_limit_def unhandled_exception_response_def
        apply_security_headers_def detail_reply_def Let_def split: option.splits prod.splits decision.splits)
qed

definition evil_post :: edge_request where
  "evil_post =
     \<lparr>er_method = ''POST'', er_path = ''/login'', er_scheme = ''https'', er_netloc = ''ebs.example'',
      er_headers = [(''origin'', ''https://evil.example'')], er_client = Some ''1.2.3.4''\<rparr>"

theorem foreign_request_changes_nothing_witness:
  "\<exists>r lm'. serve sample_edge 0 0 counting_routes evil_post (sample_limiters, 7) = (r, lm', 7) \<and>
     rp_status r \<in> {403, 429, 500}"
proof -
  obtain r lm' s' where s: "serve sample_edge 0 0 counting_routes evil_post (sample_limiters, 7) = (r, lm', s')"
    by (metis prod_cases3)
  have "trusted_origins (es_trusted_origins sample_edge) = [''https://a.example'']" by code_simp
  then show ?thesis
    using foreign_request_changes_nothing [OF s] s
    by (simp add: evil_post_def SAFE_METHODS_def is_bearer_auth_def request_origin_def origin_allowed_def
        starts_with_def lower_def)
qed

text \<open>The other direction: a request from the site itself reaches the routes.\<close>

lemma own_request_served:
  assumes "request_origin req = Some (Some (er_scheme req @ ''://'' @ er_netloc req))" "zone_of es req = None"
    "routes req s = (Inr r, s')"
  shows "serve es now later routes req (lm, s) = (apply_security_headers es r, lm, s')"
  using assms
  by (simp add: serve_def security_headers_def edge_rate_limit_def csrf_dispatch_def origin_allowed_def Let_def)

text \<open>The start fails closed. When the application starts, the two configuration snapshots are the
  validated stored rows: the proxy snapshot is the row of its table, so nothing is routed around a
  proxy that is required, the single sign-on configuration is valid, and somebody can sign in; and
  there is an account. Anything else aborts the start.
\<close>

theorem startup_fail_closed:
  assumes "startup aenv s oenv now d ps os = Inr (d', ps', os')"
    and "case st_row ps of None \<Rightarrow> True | Some row \<Rightarrow> proxy_row_ok row"
  shows "store_ok ps' \<and> oidc_store_ok oenv os' \<and> login_path oenv os' \<and> db_users d' \<noteq> []"
proof -
  obtain d1 ps1 os1 where st: "seed_admin aenv now d = Inr d1" "refresh_cache s now ps = Some ps1"
      "oidc_refresh_cache oenv now os = Inr os1" "d' = d1" "ps' = ps1"
      "os' = os1\<lparr>os_registry := snd (register_providers oenv (oidc_get_config oenv os1) (os_registry os1))\<rparr>"
    using assms(1) by (auto simp: startup_def split: sum.splits option.splits oidc_update_error.splits)
  have "store_ok ps1"
    using st(2) assms(2)
    by (auto simp: refresh_cache_def ensure_seeded_def store_ok_def Let_def split: option.splits if_splits)
  moreover have users: "db_users d1 \<noteq> []"
    using st(1) by (auto simp: seed_admin_def add_user_def split: if_splits option.splits)
  obtain row where row: "os_row os1 = Some row" "validate_oidc_config oenv (ow_config row) = None"
      "os_snapshot os1 = Some (ow_config row)"
    using refresh_ok [OF st(3)] by (auto simp: oidc_store_ok_def split: option.splits)
  have "os_registry os1 = reset_registration (os_registry os1)"
    using st(3) by (auto simp: oidc_refresh_cache_def reset_registration_def split: sum.splits option.splits)
  then have "snd (register_providers oenv (ow_config row) (os_registry os1)) =
      registry_of (enabled_providers oenv (ow_config row))"
    using register_empty [of oenv "ow_config row" False] by (simp add: reset_registration_def)
  then have "oidc_store_ok oenv os'"
    using row by (simp add: st(6) oidc_store_ok_def registry_ok_def oidc_get_config_def)
  ultimately show ?thesis using store_login_path users st(4,5) by blast
qed

lemma startup_fail_closed_witness:
  "\<exists>d' ps' os'. startup sample_auth_env \<lparr>pd_mode = ''system'', pd_url = [], pd_no_proxy = []\<rparr> sample_oidc_env 9
       empty_db \<lparr>st_row = None, st_snapshot = None\<rparr>
       \<lparr>os_row = None, os_snapshot = None, os_registry = \<lparr>rg_registered = [], rg_done = False, rg_clients = []\<rparr>\<rparr> =
       Inr (d', ps', os') \<and> store_ok ps' \<and> oidc_store_ok sample_oidc_env os' \<and> login_path sample_oidc_env os' \<and>
     db_users d' \<noteq> []"
proof -
  let ?run = "startup sample_auth_env \<lparr>pd_mode = ''system'', pd_url = [], pd_no_proxy = []\<rparr> sample_oidc_env 9
       empty_db \<lparr>st_row = None, st_snapshot = None\<rparr>
       \<lparr>os_row = None, os_snapshot = None, os_registry = \<lparr>rg_registered = [], rg_done = False, rg_clients = []\<rparr>\<rparr>"
  have seed: "oe_seed sample_oidc_env = sample_oidc_config" by (simp add: sample_oidc_env_def)
  have "\<not> isl ?run" by code_simp
  then obtain d' ps' os' where r: "?run = Inr (d', ps', os')" by (cases ?run) auto
  from startup_fail_closed [OF r] show ?thesis unfolding r by simp
qed

end
