(* ===== verification/Dashboard.thy ===== *)
theory Dashboard
  imports Sign_In Py_Int Extension_Ids Extension_Views Retention
begin

text \<open>
  The dashboard of \<open>app/routes/ui.py\<close>: fetch health, the fleet snapshot, the exposure panel, the
  links and the filtered, sorted, paginated table. What a page shows is the context its template
  is given. Columns read from the database are aware UTC times; the em dash of the labels is
  written \<open>-\<close>.
\<close>

section \<open>Labels and fetch health\<close>

definition minutes_usec :: int where "minutes_usec = 60 * usec_per_sec"

definition ago :: "instant \<Rightarrow> datetime option \<Rightarrow> string" where
  "ago now dt =
     (case dt of
        None \<Rightarrow> ''-''
      | Some t \<Rightarrow>
          let mins = (now - utc_of t) div minutes_usec in
          if mins < 1 then ''just now''
          else if mins < 60 then show_int mins @ ''m ago''
          else
            let hrs = mins div 60 in
            if hrs < 24 then show_int hrs @ ''h ago'' else show_int (hrs div 24) @ ''d ago'')"

definition stale_after :: "int \<Rightarrow> int" where
  "stale_after fetch_interval_minutes = max (fetch_interval_minutes * 2) 60 * minutes_usec"

definition is_stale :: "bool \<Rightarrow> instant option \<Rightarrow> instant \<Rightarrow> int \<Rightarrow> bool" where
  "is_stale watchlist last_fetched_at now limit =
     (if \<not> watchlist then False
      else (case last_fetched_at of None \<Rightarrow> True | Some t \<Rightarrow> now - t > limit))"

text \<open>\<open>ORDER BY fetched_at DESC, id DESC LIMIT 1\<close> per extension.\<close>

definition newer_log :: "fetch_log \<Rightarrow> fetch_log \<Rightarrow> bool" where
  "newer_log a b \<longleftrightarrow>
     fl_fetched_at a > fl_fetched_at b \<or> (fl_fetched_at a = fl_fetched_at b \<and> fl_id a > fl_id b)"

fun newest :: "fetch_log list \<Rightarrow> fetch_log option" where
  "newest [] = None"
| "newest (l # ls) = (case newest ls of None \<Rightarrow> Some l | Some m \<Rightarrow> Some (if newer_log m l then m else l))"

definition latest_fetch_log :: "db \<Rightarrow> int \<Rightarrow> fetch_log option" where
  "latest_fetch_log d ext_id = newest (filter (\<lambda>l. fl_extension_id l = ext_id) (db_fetch_logs d))"

definition latest_fetch_logs :: "db \<Rightarrow> int list \<Rightarrow> (int \<times> fetch_log) list" where
  "latest_fetch_logs d ext_ids =
     List.map_filter (\<lambda>i. map_option (Pair i) (latest_fetch_log d i)) ext_ids"

section \<open>The fleet snapshot\<close>

record fleet_stats =
  fs_extensions_count :: int
  fs_high_risk :: int
  fs_watchlist_count :: int
  fs_last_refresh :: "instant option"
  fs_next_refresh :: "instant option"
  fs_unhealthy :: int
  fs_latest_logs :: "(int \<times> fetch_log) list"

definition owned_extensions :: "int \<Rightarrow> db \<Rightarrow> extension list" where
  "owned_extensions user_id d = filter (\<lambda>x. x_user_id x = Some user_id) (db_extensions d)"

definition failing :: "fetch_log option \<Rightarrow> bool" where
  "failing lg = (case lg of None \<Rightarrow> False | Some l \<Rightarrow> \<not> fl_success l \<and> \<not> fl_store_outage l)"

definition unhealthy_row :: "(int \<times> fetch_log) list \<Rightarrow> instant \<Rightarrow> int \<Rightarrow> extension \<Rightarrow> bool" where
  "unhealthy_row logs now limit x \<longleftrightarrow>
     x_watchlist x \<and>
     (failing (map_of logs (x_id x)) \<or> is_stale (x_watchlist x) (x_last_fetched_at x) now limit)"

definition high_floor :: int where
  "high_floor = (case map_of RISK_BANDS ''high'' of Some (low, _) \<Rightarrow> low | None \<Rightarrow> 0)"

definition get_fleet_stats :: "int \<Rightarrow> int \<Rightarrow> instant \<Rightarrow> int \<Rightarrow> db \<Rightarrow> fleet_stats" where
  "get_fleet_stats fetch_interval_minutes user_id now limit d =
     (let snapshot = owned_extensions user_id d;
          logs = latest_fetch_logs d (map x_id snapshot);
          fetched = List.map_filter x_last_fetched_at snapshot;
          last_refresh = (if fetched = [] then None else Some (foldr max fetched (hd fetched)))
      in \<lparr>fs_extensions_count = int (length snapshot),
          fs_high_risk = int (length (filter
            (\<lambda>x. case x_risk_score x of Some s \<Rightarrow> s \<ge> high_floor | None \<Rightarrow> False) snapshot)),
          fs_watchlist_count = int (length (filter x_watchlist snapshot)),
          fs_last_refresh = last_refresh,
          fs_next_refresh = map_option (\<lambda>t. t + fetch_interval_minutes * minutes_usec) last_refresh,
          fs_unhealthy = int (length (filter (unhealthy_row logs now limit) snapshot)),
          fs_latest_logs = logs\<rparr>)"

text \<open>Rows of equal exposure come in an order the database is free to choose; here in table order.\<close>

definition top_exposure :: "int \<Rightarrow> db \<Rightarrow> jobject list" where
  "top_exposure user_id d =
     (let rows = filter (\<lambda>x. x_risk_score x \<noteq> None \<and>
                   (case x_install_footprint x of Some f \<Rightarrow> f > 0 | None \<Rightarrow> False)) (owned_extensions user_id d);
          ranked = sort_key (\<lambda>x. - the (exposure (x_risk_score x) (x_install_footprint x))) rows
      in map (\<lambda>x. [(''id'', JInt (x_id x)), (''name'', JStr (x_name x)), (''store'', JStr (x_store x)),
                    (''risk_score'', JInt (the (x_risk_score x))),
                    (''install_footprint'', JInt (the (x_install_footprint x))),
                    (''exposure'', JInt (the (x_risk_score x) * the (x_install_footprint x)))]) (take 5 ranked))"

section \<open>Links\<close>

definition empty_param :: "json \<Rightarrow> bool" where
  "empty_param v \<longleftrightarrow> v = JNull \<or> v = JStr []"

fun dict_pop :: "string \<Rightarrow> jobject \<Rightarrow> jobject" where
  "dict_pop k [] = []"
| "dict_pop k (p # ps) = (if fst p = k then ps else p # dict_pop k ps)"

definition pop_default :: "string \<Rightarrow> json \<Rightarrow> jobject \<Rightarrow> jobject" where
  "pop_default k v params = (if dict_get params k = Some v then dict_pop k params else params)"

definition merge_params :: "jobject \<Rightarrow> jobject \<Rightarrow> jobject" where
  "merge_params base overrides = fold (\<lambda>(k, v) ps. dict_put ps k v) overrides base"

definition params_query :: "jobject \<Rightarrow> string" where
  "params_query params = urlencode (map (\<lambda>(k, v). (k, py_str v)) params)"

definition clean_params :: "jobject \<Rightarrow> jobject" where
  "clean_params params = filter (\<lambda>(_, v). \<not> empty_param v) params"

definition build_qs :: "jobject \<Rightarrow> jobject \<Rightarrow> string" where
  "build_qs base_params overrides =
     (let clean = pop_default ''order'' (JStr ''desc'')
                    (pop_default ''sort'' (JStr ''risk_score'')
                      (pop_default ''page'' (JInt 1) (clean_params (merge_params base_params overrides))))
      in if clean \<noteq> [] then ''/?'' @ params_query clean else ''/'')"

definition json_of_opt :: "string option \<Rightarrow> json" where
  "json_of_opt v = (case v of Some s \<Rightarrow> JStr s | None \<Rightarrow> JNull)"

definition export_url :: "string \<Rightarrow> extension_filters \<Rightarrow> string" where
  "export_url fmt f =
     ''/api/extensions/export?'' @ params_query (clean_params
       [(''format'', JStr fmt), (''store'', json_of_opt (xf_store f)), (''risk'', json_of_opt (xf_risk f)),
        (''triage'', json_of_opt (xf_triage f)), (''q'', json_of_opt (xf_q f)), (''sort'', JStr (xf_sort f)),
        (''order'', JStr (xf_order f))])"

section \<open>The view a query asks for\<close>

definition DASHBOARD_PAGE_SIZE :: nat where "DASHBOARD_PAGE_SIZE = 25"

definition SORT_COLUMNS :: "string list" where
  "SORT_COLUMNS = [''name'', ''risk_score'', ''publisher'', ''install_count'', ''last_updated'', ''added_at'', ''exposure'']"

definition one_of :: "string list \<Rightarrow> string option \<Rightarrow> string option" where
  "one_of allowed v = (case v of Some s \<Rightarrow> if s \<in> set allowed then Some s else None | None \<Rightarrow> None)"

definition param_or :: "string \<Rightarrow> string option \<Rightarrow> string" where
  "param_or dflt v = (case v of Some s \<Rightarrow> s | None \<Rightarrow> dflt)"

text \<open>A parameter given twice counts as given last.\<close>

definition query_param :: "(string \<times> string) list \<Rightarrow> string \<Rightarrow> string option" where
  "query_param query k = map_of (rev query) k"

definition view_filters :: "(string \<times> string) list \<Rightarrow> extension_filters" where
  "view_filters query =
     \<lparr>xf_store = one_of [''chrome'', ''vscode'', ''edge''] (query_param query ''store''),
      xf_risk = one_of (map fst RISK_BANDS @ [''suppressed'']) (query_param query ''risk''),
      xf_triage = one_of [''new'', ''triaging'', ''accepted-risk'', ''blocked'', ''resolved''] (query_param query ''triage''),
      xf_publisher = None,
      xf_q = (let t = strip (param_or [] (query_param query ''q'')) in if t = [] then None else Some t),
      xf_sort = param_or ''risk_score'' (one_of SORT_COLUMNS (query_param query ''sort'')),
      xf_order = param_or ''desc'' (one_of [''asc'', ''desc''] (query_param query ''order''))\<rparr>"

definition view_page :: "(string \<times> string) list \<Rightarrow> int" where
  "view_page query =
     (case int_of_str (param_or ''1'' (query_param query ''page'')) of Some p \<Rightarrow> max p 1 | None \<Rightarrow> 1)"

definition total_pages_of :: "nat \<Rightarrow> int" where
  "total_pages_of filtered_total =
     max ((int filtered_total + int DASHBOARD_PAGE_SIZE - 1) div int DASHBOARD_PAGE_SIZE) 1"

definition page_offset :: "int \<Rightarrow> nat" where
  "page_offset page = nat ((page - 1) * int DASHBOARD_PAGE_SIZE)"

definition page_rows :: "extension list \<Rightarrow> int \<Rightarrow> extension list" where
  "page_rows stmt page = take DASHBOARD_PAGE_SIZE (drop (page_offset page) stmt)"

definition base_params_of :: "extension_filters \<Rightarrow> int \<Rightarrow> jobject" where
  "base_params_of f page =
     [(''store'', json_of_opt (xf_store f)), (''risk'', json_of_opt (xf_risk f)),
      (''triage'', json_of_opt (xf_triage f)), (''q'', json_of_opt (xf_q f)), (''sort'', JStr (xf_sort f)),
      (''order'', JStr (xf_order f)), (''page'', JInt page)]"

section \<open>The page\<close>

definition json_of_int :: "int option \<Rightarrow> json" where
  "json_of_int v = (case v of Some i \<Rightarrow> JInt i | None \<Rightarrow> JNull)"

definition ext_to_dict :: "extension \<Rightarrow> jobject" where
  "ext_to_dict e =
     [(''id'', JInt (x_id e)), (''store'', JStr (x_store e)), (''extension_id'', JStr (x_extension_id e)),
      (''name'', JStr (x_name e)), (''publisher'', JStr (x_publisher e)), (''version'', JStr (x_version e)),
      (''install_count'', json_of_int (x_install_count e)),
      (''last_updated'', json_of_opt (map_option isoformat (x_last_updated e))),
      (''risk_score'', json_of_int (x_risk_score e)),
      (''risk_band'', JStr (param_or ''unknown''
         (effective_risk_level (x_risk_score e) (x_threat_match e) (x_risk_override e)))),
      (''triage_status'', JStr (x_triage_status e)), (''risk_override'', JStr (x_risk_override e)),
      (''watchlist'', JBool (x_watchlist e))]"

definition row_dict :: "(int \<times> fetch_log) list \<Rightarrow> instant \<Rightarrow> int \<Rightarrow> extension \<Rightarrow> jobject" where
  "row_dict logs now limit e =
     (let lg = map_of logs (x_id e) in
      ext_to_dict e @
      [(''last_fetch_ok'', case lg of Some l \<Rightarrow> JBool (fl_success l) | None \<Rightarrow> JNull),
       (''last_fetch_error'', case lg of
          Some l \<Rightarrow> if \<not> fl_success l then json_of_opt (fl_error_message l) else JNull | None \<Rightarrow> JNull),
       (''store_outage'', JBool (case lg of Some l \<Rightarrow> fl_store_outage l | None \<Rightarrow> False)),
       (''stale'', JBool (is_stale (x_watchlist e) (x_last_fetched_at e) now limit))])"

record dashboard_context =
  dc_base_params :: jobject
  dc_export_csv_url :: string
  dc_export_json_url :: string
  dc_extensions :: "jobject list"
  dc_top_exposure :: "jobject list"
  dc_stats :: fleet_stats
  dc_last_refresh_label :: string
  dc_next_refresh_label :: string
  dc_filters :: extension_filters
  dc_page :: int
  dc_total_pages :: int
  dc_filtered_total :: nat
  dc_showing_from :: int
  dc_showing_to :: int

text \<open>\<open>strftime("%H:%M")\<close>\<close>

definition clock_label :: "instant \<Rightarrow> string" where
  "clock_label t =
     (let secs = (t mod usec_per_day) div usec_per_sec
      in pad_int 2 (secs div 3600) @ '':'' @ pad_int 2 (secs div 60 mod 60))"

definition dashboard_of ::
    "int \<Rightarrow> int \<Rightarrow> instant \<Rightarrow> (string \<times> string) list \<Rightarrow> db \<Rightarrow> dashboard_context" where
  "dashboard_of fetch_interval_minutes user_id now query d =
     (let limit = stale_after fetch_interval_minutes;
          stats = get_fleet_stats fetch_interval_minutes user_id now limit d;
          filters = view_filters query;
          stmt = build_extension_query user_id filters d;
          filtered_total = count_rows stmt;
          total_pages = total_pages_of filtered_total;
          page = min (view_page query) total_pages;
          rows = page_rows stmt page;
          dicts = map (row_dict (fs_latest_logs stats) now limit) rows
      in \<lparr>dc_base_params = base_params_of filters page,
          dc_export_csv_url = export_url ''csv'' filters, dc_export_json_url = export_url ''json'' filters,
          dc_extensions = dicts, dc_top_exposure = top_exposure user_id d, dc_stats = stats,
          dc_last_refresh_label = ago now (map_option Aware (fs_last_refresh stats)),
          dc_next_refresh_label =
            (case fs_next_refresh stats of
               Some t \<Rightarrow> ''next ~'' @ clock_label t @ '' UTC'' | None \<Rightarrow> ''next: scheduled''),
          dc_filters = filters, dc_page = page, dc_total_pages = total_pages,
          dc_filtered_total = filtered_total,
          dc_showing_from = (if filtered_total \<noteq> 0 then int (page_offset page) + 1 else 0),
          dc_showing_to = int (page_offset page) + int (length dicts)\<rparr>)"

definition dashboard ::
    "web_env \<Rightarrow> int \<Rightarrow> instant \<Rightarrow> request \<Rightarrow> (string \<times> string) list \<Rightarrow> db \<Rightarrow>
       http_error + (shell \<times> dashboard_context) response" where
  "dashboard env fetch_interval_minutes now req query d =
     (case require_auth (we_auth env) now req d of
        Inl e \<Rightarrow> Inl e
      | Inr u \<Rightarrow>
          Inr (render env req ''dashboard.html''
                 (dashboard_of fetch_interval_minutes (u_id u) now query d) (Some u)))"

section \<open>Query strings\<close>

definition quote_plus :: "string \<Rightarrow> string" where
  "quote_plus v = concat (map (\<lambda>c. if c = CHR '' '' then ''+'' else quote_char c) v)"

lemma urlencode_pairs: "urlencode ps = join ''&'' (map (\<lambda>(k, v). k @ ''='' @ quote_plus v) ps)"
  by (simp add: urlencode_def quote_plus_def)

lemma quote_char_set: "c \<in> set (quote_char x) \<Longrightarrow> is_unreserved c \<or> c = CHR ''%''"
  using quote_chars [of c "[x]"] by (simp add: quote_def)

lemma quote_plus_set: "c \<in> set (quote_plus v) \<Longrightarrow> is_unreserved c \<or> c = CHR ''%'' \<or> c = CHR ''+''"
  by (auto simp: quote_plus_def dest!: quote_char_set split: if_splits)

lemma reserved_chars:
  "\<not> is_unreserved (CHR ''&'')" "\<not> is_unreserved (CHR ''='')" "\<not> is_unreserved (CHR ''+'')" "\<not> is_unreserved (CHR '' '')"
  by code_simp+

lemma quote_plus_clean: "CHR ''&'' \<notin> set (quote_plus v)" "CHR ''='' \<notin> set (quote_plus v)"
  using quote_plus_set reserved_chars by fastforce+

lemma quote_plus_Nil [simp]: "quote_plus v = [] \<longleftrightarrow> v = []"
  by (cases v) (auto simp: quote_plus_def quote_char_def Let_def)

definition blank_plus :: "char \<Rightarrow> char" where
  "blank_plus c = (if c = CHR ''+'' then CHR '' '' else c)"

lemma blank_quoted: "map blank_plus (quote_char c) = quote_char c"
proof (rule map_idI)
  fix x
  assume "x \<in> set (quote_char c)"
  from quote_char_set [OF this] have "x \<noteq> CHR ''+''" using reserved_chars(3) by auto
  then show "blank_plus x = x" by (simp add: blank_plus_def)
qed

lemma unquote_quote_plus: "unquote_plus (quote_plus v) = v"
proof -
  have m: "map blank_plus (quote_plus v) = concat (map (\<lambda>c. if c = CHR '' '' then '' '' else quote_char c) v)"
    by (induction v) (auto simp: quote_plus_def blank_quoted, simp add: blank_plus_def)
  have "unquote (concat (map (\<lambda>c. if c = CHR '' '' then '' '' else quote_char c) v)) = v"
  proof (induction v)
    case (Cons c s)
    show ?case
    proof (cases "c = CHR '' ''")
      case True
      then show ?thesis using Cons by (simp add: unquote_Cons)
    next
      case False
      show ?thesis
      proof (cases rule: quote_char_cases [of c])
        case 1
        then have "c \<noteq> CHR ''%''" using percent_not_unreserved by auto
        with 1 Cons False show ?thesis by (simp add: unquote_Cons)
      next
        case (2 a b)
        then have "char_of (16 * a + b) = c" by (metis char_of_char)
        with 2 Cons False show ?thesis by (simp add: hex_value_char)
      qed
    qed
  qed simp
  with m show ?thesis by (simp add: unquote_plus_def blank_plus_def cong: map_cong)
qed

definition plain_name :: "string \<Rightarrow> bool" where
  "plain_name k \<longleftrightarrow> list_all is_unreserved k"

lemma plain_name_unquote: "plain_name k \<Longrightarrow> unquote_plus k = k"
proof -
  assume k: "plain_name k"
  have "map (\<lambda>c. if c = CHR ''+'' then CHR '' '' else c) k = k"
    using k reserved_chars(3) by (intro map_idI) (auto simp: plain_name_def list_all_iff)
  moreover have "unquote k = k" using k
  proof (induction k)
    case (Cons a k)
    then have "a \<noteq> CHR ''%''" using percent_not_unreserved by (auto simp: plain_name_def)
    with Cons show ?case by (simp add: plain_name_def unquote_Cons)
  qed simp
  ultimately show ?thesis by (simp add: unquote_plus_def)
qed

lemma plain_name_clean: "plain_name k \<Longrightarrow> CHR ''&'' \<notin> set k \<and> CHR ''='' \<notin> set k"
  using reserved_chars by (auto simp: plain_name_def list_all_iff)

text \<open>A query string is read back as the parameters it was written from.\<close>

lemma parse_urlencode:
  "list_all (\<lambda>(k, v). plain_name k \<and> v \<noteq> []) ps \<Longrightarrow> ps \<noteq> [] \<Longrightarrow> parse_qsl (urlencode ps) = ps"
proof (induction ps)
  case (Cons p ps)
  obtain k v where p: "p = (k, v)" by fastforce
  have k: "plain_name k" "v \<noteq> []" using Cons.prems by (auto simp: p)
  let ?e = "k @ ''='' @ quote_plus v"
  have sep: "CHR ''&'' \<notin> set ?e" using plain_name_clean [OF k(1)] quote_plus_clean by auto
  have one: "parse_qsl ?e = [(k, v)]"
    using split_on_none [OF sep] plain_name_clean [OF k(1)] k plain_name_unquote [OF k(1)]
    by (simp add: parse_qsl_def unquote_quote_plus)
  show ?case
  proof (cases ps)
    case Nil
    then show ?thesis using one by (simp add: urlencode_pairs p)
  next
    case (Cons q qs)
    obtain k' v' where q: "q = (k', v')" by fastforce
    have "urlencode (p # ps) = ?e @ CHR ''&'' # urlencode ps" by (simp add: urlencode_pairs p q Cons)
    then have "parse_qsl (urlencode (p # ps)) = parse_qsl ?e @ parse_qsl (urlencode ps)"
      using split_on_sep [OF sep] split_on_none [OF sep] by (simp add: parse_qsl_def)
    then show ?thesis using one Cons.IH Cons.prems by (simp add: p Cons)
  qed
qed simp

section \<open>Links\<close>

text \<open>Looking a parameter up in a dictionary with distinct keys, through the steps of a link.\<close>

lemma dict_pop_filter: "distinct (map fst ps) \<Longrightarrow> dict_pop k ps = filter (\<lambda>p. fst p \<noteq> k) ps"
proof (induction ps)
  case (Cons p ps)
  have "fst p = k \<Longrightarrow> filter (\<lambda>p. fst p \<noteq> k) ps = ps" using Cons.prems by (intro filter_True) (metis distinct.simps(2) image_eqI list.simps(9) set_map)
  then show ?case using Cons by auto
qed simp

lemma map_of_dict_pop: "distinct (map fst ps) \<Longrightarrow> map_of (dict_pop k ps) k' = (if k' = k then None else map_of ps k')"
  using map_of_filter [of "\<lambda>x. x \<noteq> k" ps] by (simp add: dict_pop_filter restrict_map_def)

lemma dict_pop_subset: "set (dict_pop k ps) \<subseteq> set ps" by (induction ps) auto

lemma distinct_dict_pop: "distinct (map fst ps) \<Longrightarrow> distinct (map fst (dict_pop k ps))"
  by (simp add: dict_pop_filter distinct_map_filter)

lemma map_of_rev_distinct:
  assumes "distinct (map fst xs)"
  shows "map_of (rev xs) = map_of xs"
proof
  fix k
  have "map_of (rev xs) k = Some v \<longleftrightarrow> map_of xs k = Some v" for v
    using assms by (simp add: map_of_eq_Some_iff rev_map [symmetric])
  then show "map_of (rev xs) k = map_of xs k" by (cases "map_of xs k") auto
qed

lemma map_of_values: "map_of (map (\<lambda>(k, v). (k, f v)) ps) k = map_option f (map_of ps k)"
  by (induction ps) auto

lemma pop_default:
  assumes "distinct (map fst ps)"
  shows "distinct (map fst (pop_default k v ps))" "set (pop_default k v ps) \<subseteq> set ps"
    "map_of (pop_default k v ps) k' = (if k' = k \<and> map_of ps k' = Some v then None else map_of ps k')"
  using assms distinct_dict_pop dict_pop_subset by (auto simp: pop_default_def dict_get_def map_of_dict_pop)

lemma map_of_clean:
  "distinct (map fst ps) \<Longrightarrow>
     map_of (clean_params ps) k = (case map_of ps k of Some v \<Rightarrow> if empty_param v then None else Some v | None \<Rightarrow> None)"
proof (induction ps)
  case (Cons p ps)
  obtain a b where p: "p = (a, b)" by fastforce
  have "a = k \<Longrightarrow> map_of ps k = None" using Cons.prems by (auto simp: p map_of_eq_None_iff)
  then show ?case using Cons by (auto simp: p clean_params_def split: option.splits)
qed (simp add: clean_params_def)

lemma distinct_clean: "distinct (map fst ps) \<Longrightarrow> distinct (map fst (clean_params ps))"
  by (simp add: clean_params_def distinct_map_filter)

text \<open>The query a link carries.\<close>

definition link_query :: "jobject \<Rightarrow> (string \<times> string) list" where
  "link_query params =
     (let clean = pop_default ''order'' (JStr ''desc'') (pop_default ''sort'' (JStr ''risk_score'')
                    (pop_default ''page'' (JInt 1) (clean_params params)))
      in map (\<lambda>(k, v). (k, py_str v)) clean)"

definition link_params_ok :: "jobject \<Rightarrow> bool" where
  "link_params_ok ps \<longleftrightarrow>
     distinct (map fst ps) \<and> list_all (\<lambda>(k, v). plain_name k \<and> (empty_param v \<or> py_str v \<noteq> [])) ps"

lemma followed_link:
  assumes "link_params_ok (merge_params base ov)"
  shows "parse_qsl (drop 2 (build_qs base ov)) = link_query (merge_params base ov)"
proof -
  let ?M = "merge_params base ov"
  let ?c = "pop_default ''order'' (JStr ''desc'') (pop_default ''sort'' (JStr ''risk_score'')
              (pop_default ''page'' (JInt 1) (clean_params ?M)))"
  have d: "distinct (map fst (clean_params ?M))" using assms by (simp add: link_params_ok_def distinct_clean)
  have sub: "set ?c \<subseteq> set (clean_params ?M)"
    using pop_default(1,2) [OF d] pop_default(1,2) by (meson order_trans)
  have ok: "list_all (\<lambda>(k, v). plain_name k \<and> v \<noteq> []) (map (\<lambda>(k, v). (k, py_str v)) ?c)"
    using assms sub by (fastforce simp: link_params_ok_def list_all_iff clean_params_def)
  have q: "link_query ?M = map (\<lambda>(k, v). (k, py_str v)) ?c" by (simp add: link_query_def Let_def)
  show ?thesis
  proof (cases "?c = []")
    case True
    then show ?thesis by (simp add: q build_qs_def Let_def parse_qsl_def)
  next
    case False
    then have "drop 2 (build_qs base ov) = params_query ?c" by (simp add: build_qs_def Let_def)
    then show ?thesis using parse_urlencode [OF ok] False by (simp add: q params_query_def)
  qed
qed

lemma link_query_param:
  assumes "distinct (map fst ps)"
  shows "query_param (link_query ps) k =
    (case map_of ps k of
       None \<Rightarrow> None
     | Some v \<Rightarrow>
         if empty_param v \<or> (k, v) \<in> {(''page'', JInt 1), (''sort'', JStr ''risk_score''), (''order'', JStr ''desc'')}
         then None else Some (py_str v))"
proof -
  let ?p1 = "pop_default ''page'' (JInt 1) (clean_params ps)"
  let ?p2 = "pop_default ''sort'' (JStr ''risk_score'') ?p1"
  let ?p3 = "pop_default ''order'' (JStr ''desc'') ?p2"
  have d: "distinct (map fst (clean_params ps))" "distinct (map fst ?p1)" "distinct (map fst ?p2)" "distinct (map fst ?p3)"
    using distinct_clean [OF assms] pop_default(1) by auto
  have "distinct (map fst (map (\<lambda>(k, v). (k, py_str v)) ?p3))"
    using d(4) by (simp add: comp_def split_beta)
  then have "query_param (link_query ps) k = map_of (map (\<lambda>(k, v). (k, py_str v)) ?p3) k"
    by (simp add: query_param_def link_query_def Let_def map_of_rev_distinct)
  also have "\<dots> = map_option py_str (map_of ?p3 k)" by (rule map_of_values)
  also have "map_of ?p3 k =
      (if (k, map_of (clean_params ps) k) \<in>
            {(''page'', Some (JInt 1)), (''sort'', Some (JStr ''risk_score'')), (''order'', Some (JStr ''desc''))}
       then None else map_of (clean_params ps) k)"
  proof -
    have "map_of ?p3 k = pop3 (map_of (clean_params ps) k)"
      if "pop3 = (\<lambda>c. let c1 = (if k = ''page'' \<and> c = Some (JInt 1) then None else c);
                              c2 = (if k = ''sort'' \<and> c1 = Some (JStr ''risk_score'') then None else c1)
                          in if k = ''order'' \<and> c2 = Some (JStr ''desc'') then None else c2)" for pop3
      unfolding that Let_def pop_default(3) [OF d(3)] pop_default(3) [OF d(2)] pop_default(3) [OF d(1)] ..
    then show ?thesis by (cases "map_of (clean_params ps) k") (simp_all add: Let_def)
  qed
  finally show ?thesis unfolding map_of_clean [OF assms] by (cases "map_of ps k") auto
qed

section \<open>Following a link\<close>

text \<open>The filters a view can have.\<close>

definition view_of :: "extension_filters \<Rightarrow> bool" where
  "view_of f \<longleftrightarrow>
     one_of [''chrome'', ''vscode'', ''edge''] (xf_store f) = xf_store f \<and>
     one_of (map fst RISK_BANDS @ [''suppressed'']) (xf_risk f) = xf_risk f \<and>
     one_of [''new'', ''triaging'', ''accepted-risk'', ''blocked'', ''resolved''] (xf_triage f) = xf_triage f \<and>
     xf_publisher f = None \<and> (\<forall>t. xf_q f = Some t \<longrightarrow> strip t = t \<and> t \<noteq> []) \<and>
     xf_sort f \<in> set SORT_COLUMNS \<and> xf_order f \<in> {''asc'', ''desc''}"

lemma one_of_idem [simp]: "one_of L (one_of L v) = one_of L v"
  by (cases v) (simp_all add: one_of_def)

lemma one_of_in: "one_of L v = Some s \<Longrightarrow> s \<in> set L"
  by (cases v) (auto simp: one_of_def split: if_splits)

lemma strip_Nil [simp]: "strip [] = []" by code_simp

lemma view_filters_view: "view_of (view_filters query)"
proof -
  have "param_or ''risk_score'' (one_of SORT_COLUMNS v) \<in> set SORT_COLUMNS" for v
    by (cases "one_of SORT_COLUMNS v") (auto simp: param_or_def SORT_COLUMNS_def dest: one_of_in)
  moreover have "param_or ''desc'' (one_of [''asc'', ''desc''] v) \<in> {''asc'', ''desc''}" for v
    by (cases "one_of [''asc'', ''desc''] v") (auto simp: param_or_def dest: one_of_in)
  ultimately show ?thesis by (simp add: view_of_def view_filters_def Let_def strip_idem)
qed

text \<open>The parameters of a view, with the page given by any value that stands for it.\<close>

definition page_value :: "json \<Rightarrow> int \<Rightarrow> bool" where
  "page_value v p \<longleftrightarrow> (v = JNull \<and> p = 1) \<or> (v = JInt p \<and> 1 \<le> p \<and> length (show_nat (nat p)) \<le> 4300)"

definition params_of_view :: "jobject \<Rightarrow> extension_filters \<Rightarrow> int \<Rightarrow> bool" where
  "params_of_view ps f p \<longleftrightarrow>
     map fst ps = [''store'', ''risk'', ''triage'', ''q'', ''sort'', ''order'', ''page''] \<and>
     map_of ps ''store'' = Some (json_of_opt (xf_store f)) \<and> map_of ps ''risk'' = Some (json_of_opt (xf_risk f)) \<and>
     map_of ps ''triage'' = Some (json_of_opt (xf_triage f)) \<and> map_of ps ''q'' = Some (json_of_opt (xf_q f)) \<and>
     map_of ps ''sort'' = Some (JStr (xf_sort f)) \<and> map_of ps ''order'' = Some (JStr (xf_order f)) \<and>
     (\<exists>v. map_of ps ''page'' = Some v \<and> page_value v p)"

lemma plain_names: "list_all plain_name [''store'', ''risk'', ''triage'', ''q'', ''sort'', ''order'', ''page'']"
  by code_simp

lemma view_values:
  assumes "view_of f"
  shows "xf_store f \<noteq> Some []" "xf_risk f \<noteq> Some []" "xf_triage f \<noteq> Some []" "xf_q f \<noteq> Some []"
    "xf_sort f \<noteq> []" "xf_order f \<noteq> []"
proof -
  have "[] \<notin> set (map fst RISK_BANDS @ [''suppressed''])" by code_simp
  moreover have "one_of L (Some []) = None" if "[] \<notin> set L" for L using that by (simp add: one_of_def)
  ultimately show "xf_store f \<noteq> Some []" "xf_risk f \<noteq> Some []" "xf_triage f \<noteq> Some []"
    using assms by (auto simp: view_of_def)
  show "xf_q f \<noteq> Some []" "xf_sort f \<noteq> []" "xf_order f \<noteq> []"
    using assms by (auto simp: view_of_def SORT_COLUMNS_def)
qed

lemma opt_param_nonempty: "v \<noteq> Some [] \<Longrightarrow> empty_param (json_of_opt v) \<or> py_str (json_of_opt v) \<noteq> []"
  by (cases v) (auto simp: json_of_opt_def empty_param_def py_str_def)

lemma params_of_view_ok:
  assumes "params_of_view ps f p" "view_of f"
  shows "link_params_ok ps"
proof -
  have keys: "map fst ps = [''store'', ''risk'', ''triage'', ''q'', ''sort'', ''order'', ''page'']"
    using assms(1) by (simp add: params_of_view_def)
  then have d: "distinct (map fst ps)" by simp
  have "plain_name k \<and> (empty_param v \<or> py_str v \<noteq> [])" if kv: "(k, v) \<in> set ps" for k v
  proof -
    have "k \<in> set (map fst ps)" using kv by force
    then have k: "k \<in> {''store'', ''risk'', ''triage'', ''q'', ''sort'', ''order'', ''page''}" by (simp add: keys)
    have v: "map_of ps k = Some v" using d kv by simp
    have "show_nat (nat p) \<noteq> []" by simp
    then have pg: "py_str (JInt p) \<noteq> []" if "1 \<le> p" using that by (simp add: py_str_def show_int_def)
    have "v \<in> {json_of_opt (xf_store f), json_of_opt (xf_risk f), json_of_opt (xf_triage f), json_of_opt (xf_q f),
              JStr (xf_sort f), JStr (xf_order f)} \<or> page_value v p"
      using k v assms(1) by (auto simp: params_of_view_def)
    moreover have "empty_param (JStr s) \<or> py_str (JStr s) \<noteq> []" for s by (simp add: empty_param_def py_str_def)
    moreover have "page_value v p \<Longrightarrow> empty_param v \<or> py_str v \<noteq> []"
      using pg by (auto simp: page_value_def empty_param_def)
    moreover have "plain_name k" using k plain_names by auto
    ultimately show ?thesis using view_values(1-4) [OF assms(2), THEN opt_param_nonempty] by blast
  qed
  with d show ?thesis by (auto simp: link_params_ok_def list_all_iff)
qed

lemma link_view:
  assumes p: "params_of_view (merge_params base ov) f n" and f: "view_of f"
  shows "view_filters (parse_qsl (drop 2 (build_qs base ov))) = f \<and>
    view_page (parse_qsl (drop 2 (build_qs base ov))) = n"
proof -
  let ?M = "merge_params base ov"
  have d: "distinct (map fst ?M)" using p by (simp add: params_of_view_def)
  note q = link_query_param [OF d]
  have str: "py_str (JStr s) = s" for s by (simp add: py_str_def)
  have opt: "(case json_of_opt v of x \<Rightarrow> if empty_param x then None else Some (py_str x)) = v" if "v \<noteq> Some []" for v
    using that by (cases v) (auto simp: json_of_opt_def empty_param_def str)
  have o: "query_param (link_query ?M) k = v"
    if "map_of ?M k = Some (json_of_opt v)" "v \<noteq> Some []" "k \<notin> {''page'', ''sort'', ''order''}" for k v
    using that(1,3) opt [OF that(2)] by (simp add: q)
  have "query_param (link_query ?M) ''store'' = xf_store f" "query_param (link_query ?M) ''risk'' = xf_risk f"
    "query_param (link_query ?M) ''triage'' = xf_triage f" "query_param (link_query ?M) ''q'' = xf_q f"
    using p view_values [OF f] by (auto simp: params_of_view_def intro!: o)
  moreover have "param_or ''risk_score'' (one_of SORT_COLUMNS (query_param (link_query ?M) ''sort'')) = xf_sort f"
    using p f view_values [OF f]
    by (auto simp: params_of_view_def q empty_param_def str one_of_def param_or_def view_of_def)
  moreover have "param_or ''desc'' (one_of [''asc'', ''desc''] (query_param (link_query ?M) ''order'')) = xf_order f"
    using p f by (auto simp: params_of_view_def q empty_param_def str one_of_def param_or_def view_of_def)
  moreover have "view_page (link_query ?M) = n"
  proof -
    obtain v where v: "map_of ?M ''page'' = Some v" "page_value v n" using p by (auto simp: params_of_view_def)
    have one: "int_of_str ''1'' = Some 1" by code_simp
    show ?thesis
    proof (cases "n = 1 \<or> v = JNull")
      case True
      then have "query_param (link_query ?M) ''page'' = None" "n = 1"
        using v by (auto simp: q page_value_def empty_param_def)
      then show ?thesis by (simp add: view_page_def param_or_def one)
    next
      case False
      then have "query_param (link_query ?M) ''page'' = Some (show_nat (nat n))" "1 \<le> n"
          "length (show_nat (nat n)) \<le> 4300"
        using v by (auto simp: q page_value_def empty_param_def py_str_def show_int_def)
      then show ?thesis by (simp add: view_page_def param_or_def int_of_show_nat)
    qed
  qed
  moreover have "parse_qsl (drop 2 (build_qs base ov)) = link_query ?M"
    using params_of_view_ok [OF p f] by (rule followed_link)
  ultimately show ?thesis
    using f by (auto simp: view_filters_def view_of_def param_or_def Let_def intro!: extension_filters.equality split: option.split)
qed


lemma merge_page:
  "merge_params (base_params_of f p) [(''page'', v)] =
     [(''store'', json_of_opt (xf_store f)), (''risk'', json_of_opt (xf_risk f)),
      (''triage'', json_of_opt (xf_triage f)), (''q'', json_of_opt (xf_q f)), (''sort'', JStr (xf_sort f)),
      (''order'', JStr (xf_order f)), (''page'', v)]"
  by (simp add: merge_params_def base_params_of_def)

lemma merge_store:
  "merge_params (base_params_of f p) [(''store'', s), (''page'', v)] =
     [(''store'', s), (''risk'', json_of_opt (xf_risk f)),
      (''triage'', json_of_opt (xf_triage f)), (''q'', json_of_opt (xf_q f)), (''sort'', JStr (xf_sort f)),
      (''order'', JStr (xf_order f)), (''page'', v)]"
  by (simp add: merge_params_def base_params_of_def)

lemma merge_sort:
  "merge_params (base_params_of f p) [(''sort'', c), (''order'', o'), (''page'', v)] =
     [(''store'', json_of_opt (xf_store f)), (''risk'', json_of_opt (xf_risk f)),
      (''triage'', json_of_opt (xf_triage f)), (''q'', json_of_opt (xf_q f)), (''sort'', c),
      (''order'', o'), (''page'', v)]"
  by (simp add: merge_params_def base_params_of_def)

text \<open>C35: the dashboard's links lead where they say. Whatever the query of the current page, following
  a page link gives the same filters, search and order at the asked page; a store pill changes
  just the store and starts at page one; a column header changes just the order and starts at page
  one. The parameters a link leaves out as defaults, and the percent encoding of the search text,
  change nothing.\<close>

theorem dashboard_links_lead:
  fixes query n p
  defines "f \<equiv> view_filters query"
  defines "follow \<equiv> \<lambda>ov. parse_qsl (drop 2 (build_qs (base_params_of f p) ov))"
  assumes "1 \<le> n" "length (show_nat (nat n)) \<le> 4300" "s \<in> {None, Some ''chrome'', Some ''vscode'', Some ''edge''}"
    and "c \<in> set SORT_COLUMNS" "dir \<in> {''asc'', ''desc''}"
  shows "view_filters (follow [(''page'', JInt n)]) = f \<and> view_page (follow [(''page'', JInt n)]) = n \<and>
    view_filters (follow [(''store'', json_of_opt s), (''page'', JInt 1)]) = f\<lparr>xf_store := s\<rparr> \<and>
    view_page (follow [(''store'', json_of_opt s), (''page'', JInt 1)]) = 1 \<and>
    view_filters (follow [(''sort'', JStr c), (''order'', JStr dir), (''page'', JInt 1)]) = f\<lparr>xf_sort := c, xf_order := dir\<rparr> \<and>
    view_page (follow [(''sort'', JStr c), (''order'', JStr dir), (''page'', JInt 1)]) = 1"
proof -
  have one: "length (show_nat (Suc 0)) \<le> 4300" by code_simp
  have f: "view_of f" unfolding f_def by (rule view_filters_view)
  have "params_of_view (merge_params (base_params_of f p) [(''page'', JInt n)]) f n"
    using assms(3,4) by (simp add: merge_page params_of_view_def page_value_def)
  moreover have "params_of_view (merge_params (base_params_of f p) [(''store'', json_of_opt s), (''page'', JInt 1)]) (f\<lparr>xf_store := s\<rparr>) 1"
    using one by (simp add: merge_store params_of_view_def page_value_def)
  moreover have "params_of_view (merge_params (base_params_of f p) [(''sort'', JStr c), (''order'', JStr dir), (''page'', JInt 1)])
      (f\<lparr>xf_sort := c, xf_order := dir\<rparr>) 1"
    using one by (simp add: merge_sort params_of_view_def page_value_def)
  moreover have "view_of (f\<lparr>xf_store := s\<rparr>)" using f assms(5) by (auto simp: view_of_def one_of_def)
  moreover have "view_of (f\<lparr>xf_sort := c, xf_order := dir\<rparr>)" using f assms(6,7) by (auto simp: view_of_def)
  ultimately show ?thesis using link_view f unfolding follow_def by blast
qed

theorem dashboard_links_lead_witness:
  "view_filters (parse_qsl (drop 2 (build_qs (base_params_of (view_filters [(''q'', '' a&b c '')]) 1) [(''page'', JInt 2)]))) =
     view_filters [(''q'', '' a&b c '')] \<and>
   xf_q (view_filters [(''q'', '' a&b c '')]) = Some ''a&b c''"
proof -
  have "length (show_nat (nat 2)) \<le> 4300" by code_simp
  from dashboard_links_lead [where n = 2 and s = None and c = "''name''" and dir = "''asc''" and
      query = "[(''q'', '' a&b c '')]" and p = 1, OF _ this]
  have "view_filters (parse_qsl (drop 2 (build_qs (base_params_of (view_filters [(''q'', '' a&b c '')]) 1) [(''page'', JInt 2)]))) =
     view_filters [(''q'', '' a&b c '')]"
    by (simp add: SORT_COLUMNS_def)
  moreover have "xf_q (view_filters [(''q'', '' a&b c '')]) = Some ''a&b c''" by code_simp
  ultimately show ?thesis ..
qed

section \<open>Pages\<close>

lemma total_pages_enough: "length stmt \<le> nat (total_pages_of (length stmt)) * DASHBOARD_PAGE_SIZE"
proof -
  define n where "n = length stmt"
  have "n \<le> nat (max 1 ((int n + 24) div 25)) * 25" by linarith
  then show ?thesis by (simp add: total_pages_of_def DASHBOARD_PAGE_SIZE_def n_def)
qed

text \<open>Paging loses and repeats nothing: the pages of a view, from the first to the last, are
  together exactly the result of the query in its order, every page but the last is full, and a
  page number past the end shows the last page.\<close>

theorem dashboard_pages_partition:
  "concat (map (\<lambda>i. page_rows stmt (int i + 1)) [0..<nat (total_pages_of (count_rows stmt))]) = stmt \<and>
   (\<forall>i. length (page_rows stmt (int i + 1)) = min DASHBOARD_PAGE_SIZE (length stmt - i * DASHBOARD_PAGE_SIZE)) \<and>
   dc_page (dashboard_of m u now query d) = min (view_page query) (dc_total_pages (dashboard_of m u now query d)) \<and>
   map (\<lambda>e. row_dict (fs_latest_logs (get_fleet_stats m u now (stale_after m) d)) now (stale_after m) e)
       (page_rows (build_extension_query u (view_filters query) d) (dc_page (dashboard_of m u now query d))) =
     dc_extensions (dashboard_of m u now query d)"
proof (intro conjI allI)
  have off: "page_offset (int i + 1) = i * DASHBOARD_PAGE_SIZE" for i
    by (simp add: page_offset_def nat_mult_distrib)
  have "concat (map (\<lambda>i. page_rows stmt (int i + 1)) [0..<nat (total_pages_of (count_rows stmt))]) =
      take (nat (total_pages_of (count_rows stmt)) * DASHBOARD_PAGE_SIZE) stmt"
    by (simp only: page_rows_def off concat_pages)
  then show "concat (map (\<lambda>i. page_rows stmt (int i + 1)) [0..<nat (total_pages_of (count_rows stmt))]) = stmt"
    using total_pages_enough [of stmt] by (simp add: count_rows_def)
  show "length (page_rows stmt (int i + 1)) = min DASHBOARD_PAGE_SIZE (length stmt - i * DASHBOARD_PAGE_SIZE)" for i
    by (simp add: page_rows_def off min.commute)
qed (simp_all add: dashboard_of_def Let_def)

section \<open>The snapshot\<close>

lemma newer_log_asym: "newer_log a b \<Longrightarrow> \<not> newer_log b a"
  by (auto simp: newer_log_def)

lemma not_newer_log_trans: "\<not> newer_log a b \<Longrightarrow> \<not> newer_log b c \<Longrightarrow> \<not> newer_log a c"
  unfolding newer_log_def by (elim contrapos_nn) linarith

lemma newest_None_iff: "newest ls = None \<longleftrightarrow> ls = []"
  by (cases ls) (auto split: option.splits)

lemma newest_Some: "newest ls = Some l \<Longrightarrow> l \<in> set ls \<and> (\<forall>m \<in> set ls. \<not> newer_log m l)"
proof (induction ls arbitrary: l)
  case (Cons a ls)
  have irr: "\<not> newer_log x x" for x by (simp add: newer_log_def)
  show ?case
  proof (cases "newest ls")
    case None
    then show ?thesis using Cons.prems irr by (auto simp: newest_None_iff)
  next
    case (Some m)
    note m = Cons.IH [OF Some]
    show ?thesis
    proof (cases "newer_log m a")
      case True
      then show ?thesis using Some Cons.prems m newer_log_asym by auto
    next
      case False
      then have "l = a" using Some Cons.prems by simp
      then show ?thesis using m not_newer_log_trans [OF _ False] irr by auto
    qed
  qed
qed simp

end
