(* ===== verification/Detail_Page.thy ===== *)
theory Detail_Page
  imports Dashboard Stored_Types
begin

text \<open>
  The extension page of \<open>app/routes/ui.py\<close>: the stored JSON read back with its defaults, the package
  diff, the score breakdown, the trend and the organisation's footprint.

  A percentage of the breakdown is kept in tenths, as the page rounds it. For an integer it is the
  exact quotient rounded half to even, which Python's doubles give for every value below
  \<open>2 ^ 40\<close>; for a stored float it is the argument \<open>float_pct\<close>, with no value where \<open>int\<close> of the
  percentage raises.
\<close>

section \<open>Stored objects and their defaults\<close>

definition dict_setdefault :: "jobject \<Rightarrow> string \<Rightarrow> json \<Rightarrow> jobject" where
  "dict_setdefault d k v = (if dict_get d k = None then d @ [(k, v)] else d)"

definition backfill :: "jobject \<Rightarrow> jobject \<Rightarrow> jobject" where
  "backfill defaults d = fold (\<lambda>(k, v) d. dict_setdefault d k v) defaults d"

definition page_risk_detail :: "extension \<Rightarrow> jobject option" where
  "page_risk_detail x =
     (case risk_detail_dict x of
        Some (p # ps) \<Rightarrow> Some (backfill risk_stored_defaults (p # ps))
      | other \<Rightarrow> other)"

definition has_threat_code :: "json \<Rightarrow> bool" where
  "has_threat_code f =
     (case f of JObj d \<Rightarrow> dict_get_none d ''code'' = JStr ''threat_match'' | _ \<Rightarrow> False)"

definition page_threat_finding :: json where
  "page_threat_finding =
     JObj [(''code'', JStr ''threat_match''), (''severity'', JStr ''critical''),
           (''title'', JStr ''Known-bad extension matched a threat list''),
           (''detail'', JStr ''The extension is present in a configured threat list.''),
           (''source'', JStr ''threat_list'')]"

definition page_findings :: "extension \<Rightarrow> jobject \<Rightarrow> json list" where
  "page_findings x d =
     (let findings = (case dict_get_none d ''findings'' of JArr fs \<Rightarrow> fs | _ \<Rightarrow> [])
      in if x_threat_match x \<and> \<not> list_ex has_threat_code findings
         then findings @ [page_threat_finding] else findings)"

definition page_analysis :: "extension \<Rightarrow> jobject option" where
  "page_analysis x =
     (case analysis_dict x of
        Some (p # ps) \<Rightarrow>
          let d = backfill analysis_stored_defaults (p # ps)
          in Some (dict_set d ''findings'' (JArr (page_findings x d)))
      | other \<Rightarrow> other)"

text \<open>The grouped findings of the page's analysis; hashing an unhashable part is a \<open>TypeError\<close>.\<close>

definition grouped_findings ::
    "jobject option \<Rightarrow> http_error + (finding_group \<times> page_section list \<times> string) list" where
  "grouped_findings analysis =
     (case analysis of
        Some (p # ps) \<Rightarrow>
          (case group_detection_findings (findings_list (p # ps)) of
             None \<Rightarrow> Inl (ServerError ''TypeError'')
           | Some gs \<Rightarrow> Inr gs)
      | _ \<Rightarrow> Inr [])"

section \<open>The package diff\<close>

definition last_snapshots :: "int \<Rightarrow> db \<Rightarrow> package_snapshot list" where
  "last_snapshots ext_id d =
     take 2 (rev (sort_key (\<lambda>s. (ps_captured_at s, ps_id s))
       (filter (\<lambda>s. ps_extension_id s = ext_id) (db_snapshots d))))"

definition capability_diff :: "package_snapshot list \<Rightarrow> (jobject \<times> string \<times> string) option" where
  "capability_diff snapshots =
     (case snapshots of
        [new, old] \<Rightarrow>
          let (newer, older) =
                (case (json_loads (ps_analysis_json new), json_loads (ps_analysis_json old)) of
                   (Some n, Some o') \<Rightarrow> (n, o')
                 | _ \<Rightarrow> (JObj [], JObj []))
          in (case (newer, older) of
                (JObj n, JObj o') \<Rightarrow>
                  map_option (\<lambda>diff. (diff, ps_version old, ps_version new)) (diff_analysis o' n)
              | _ \<Rightarrow> None)
      | _ \<Rightarrow> None)"

section \<open>The score breakdown\<close>

definition RISK_ROW_DEFS :: "(string \<times> string \<times> int \<times> string) list" where
  "RISK_ROW_DEFS =
     [(''Permissions'', ''permissions'', 25, ''Danger level of declared permissions''),
      (''Popularity'', ''popularity'', 20, ''Install count / sudden drop''),
      (''Publisher'', ''publisher'', 15, ''Ownership change / verification''),
      (''Staleness'', ''staleness'', 15, ''Time since last author update''),
      (''Code behaviour'', ''code_behaviour'', 15, ''eval / remote code / obfuscation''),
      (''External domains'', ''external_domains'', 10, ''Unknown external URLs in code'')]"

record risk_row =
  rr_label :: string
  rr_value :: json
  rr_max :: int
  rr_note :: string
  rr_pct :: int
  rr_band :: string

text \<open>\<open>round(n / m)\<close> for positive \<open>m\<close>, half to even.\<close>

definition round_half_even :: "int \<Rightarrow> int \<Rightarrow> int" where
  "round_half_even n m =
     (let q = n div m; r = 2 * (n mod m) in
      if r < m \<or> (r = m \<and> even q) then q else q + 1)"

definition pct_tenths :: "(string \<Rightarrow> int \<Rightarrow> int option) \<Rightarrow> json \<Rightarrow> int \<Rightarrow> http_error + int" where
  "pct_tenths float_pct v category_max =
     (case v of
        JInt n \<Rightarrow> Inr (round_half_even (n * 1000) category_max)
      | JBool b \<Rightarrow> Inr (round_half_even (if b then 1000 else 0) category_max)
      | JFloat r \<Rightarrow>
          (case float_pct r category_max of Some p \<Rightarrow> Inr p | None \<Rightarrow> Inl (ServerError ''ValueError''))
      | _ \<Rightarrow> Inl (ServerError ''TypeError''))"

text \<open>\<open>int(pct)\<close> cuts towards zero.\<close>

definition whole_pct :: "int \<Rightarrow> int" where
  "whole_pct tenths = (if tenths \<ge> 0 then tenths div 10 else - ((- tenths) div 10))"

fun risk_rows_of ::
    "(string \<Rightarrow> int \<Rightarrow> int option) \<Rightarrow> jobject \<Rightarrow> (string \<times> string \<times> int \<times> string) list \<Rightarrow>
       http_error + risk_row list" where
  "risk_rows_of float_pct detail [] = Inr []"
| "risk_rows_of float_pct detail ((label, key, category_max, note) # defs) =
     (let v = or_else (dict_get_none detail key) (JInt 0) in
      case pct_tenths float_pct v category_max of
        Inl e \<Rightarrow> Inl e
      | Inr pct \<Rightarrow>
          (case risk_rows_of float_pct detail defs of
             Inl e \<Rightarrow> Inl e
           | Inr rows \<Rightarrow>
               Inr (\<lparr>rr_label = label, rr_value = v, rr_max = category_max, rr_note = note,
                     rr_pct = pct, rr_band = risk_level (whole_pct pct)\<rparr> # rows)))"

definition risk_rows :: "(string \<Rightarrow> int \<Rightarrow> int option) \<Rightarrow> jobject option \<Rightarrow> http_error + risk_row list" where
  "risk_rows float_pct detail =
     (case detail of
        Some (p # ps) \<Rightarrow> risk_rows_of float_pct (p # ps) RISK_ROW_DEFS
      | _ \<Rightarrow> Inr [])"

section \<open>History and footprint\<close>

text \<open>Log entries of the same moment come in no order the query fixes; here later ones come first.\<close>

definition recent_fetch_logs :: "int \<Rightarrow> db \<Rightarrow> fetch_log list" where
  "recent_fetch_logs ext_id d =
     take 20 (rev (sort_key fl_fetched_at (filter (\<lambda>l. fl_extension_id l = ext_id) (db_fetch_logs d))))"

definition MONTHS :: "string list" where
  "MONTHS = [''Jan'', ''Feb'', ''Mar'', ''Apr'', ''May'', ''Jun'', ''Jul'', ''Aug'', ''Sep'', ''Oct'',
             ''Nov'', ''Dec'']"

text \<open>\<open>strftime("%b %d")\<close>\<close>

definition day_label :: "instant \<Rightarrow> string" where
  "day_label t =
     (let (_, month, day) = civil_of_days (t div usec_per_day)
      in MONTHS ! nat (month - 1) @ '' '' @ pad_int 2 day)"

definition score_points :: "fetch_log list \<Rightarrow> (string \<times> int) list" where
  "score_points fetch_logs =
     List.map_filter (\<lambda>l. if fl_success l then map_option (Pair (day_label (fl_fetched_at l))) (fl_risk_score_after l)
                          else None) (rev fetch_logs)"

definition score_bands :: "(string \<times> int \<times> int) list" where
  "score_bands = map (\<lambda>(band, low, high). (band, low, case high of None \<Rightarrow> 100 | Some h \<Rightarrow> h)) RISK_BANDS"

definition fresh_observations :: "instant option \<Rightarrow> int \<Rightarrow> db \<Rightarrow> install_observation list" where
  "fresh_observations cutoff ext_id d =
     filter (\<lambda>ob. io_extension_id ob = ext_id \<and>
                  (case cutoff of None \<Rightarrow> True | Some c \<Rightarrow> io_last_seen ob \<ge> c)) (db_observations d)"

definition distinct_assets :: "install_observation list \<Rightarrow> string option \<Rightarrow> nat" where
  "distinct_assets obs dept =
     length (remdups (map io_asset_id (filter (\<lambda>ob. io_department ob = dept) obs)))"

text \<open>Departments of equal count come in an order the database is free to choose; here in the order
  they are first seen.\<close>

definition department_counts :: "install_observation list \<Rightarrow> (string option \<times> nat) list" where
  "department_counts obs =
     sort_key (\<lambda>(_, n). - int n) (map (\<lambda>dept. (dept, distinct_assets obs dept)) (unique (map io_department obs)))"

definition department_label :: "string option \<Rightarrow> string" where
  "department_label dept = (case dept of Some (c # cs) \<Rightarrow> c # cs | _ \<Rightarrow> ''Unassigned'')"

section \<open>The page\<close>

record detail_context =
  dp_ext :: extension
  dp_risk_band :: string
  dp_footprint_assets :: int
  dp_footprint_departments :: "(string \<times> nat) list"
  dp_exposure :: "int option"
  dp_permission_tags :: "(string \<times> string) list"
  dp_host_permission_tags :: "(string \<times> string) list"
  dp_risk_detail :: "jobject option"
  dp_risk_rows :: "risk_row list"
  dp_package_analysis :: "jobject option"
  dp_grouped_findings :: "(finding_group \<times> page_section list \<times> string) list"
  dp_capability_diff :: "(jobject \<times> string \<times> string) option"
  dp_indicators :: "indicator list"
  dp_primary_indicators :: "indicator list"
  dp_referenced_indicators :: "indicator list"
  dp_fetch_logs :: "fetch_log list"
  dp_score_points :: "(string \<times> int) list"
  dp_score_bands :: "(string \<times> int \<times> int) list"

definition detail_of ::
    "(string \<Rightarrow> int \<Rightarrow> int option) \<Rightarrow> retention_settings \<Rightarrow> instant \<Rightarrow> extension \<Rightarrow> db \<Rightarrow>
       http_error + detail_context" where
  "detail_of float_pct s now x d =
     (let fetch_logs = recent_fetch_logs (x_id x) d;
          detail = page_risk_detail x;
          analysis = page_analysis x in
      case grouped_findings analysis of
        Inl e \<Rightarrow> Inl e
      | Inr grouped \<Rightarrow>
          (case risk_rows float_pct detail of
             Inl e \<Rightarrow> Inl e
           | Inr rows \<Rightarrow>
               let indicators = build_threat_intel_indicators analysis;
                   departments = department_counts (fresh_observations (freshness_cutoff s now) (x_id x) d);
                   assets = (case x_install_footprint x of Some n \<Rightarrow> n | None \<Rightarrow> 0)
               in Inr \<lparr>dp_ext = x,
                    dp_risk_band =
                      (case effective_risk_level (x_risk_score x) (x_threat_match x) (x_risk_override x) of
                         Some band \<Rightarrow> band | None \<Rightarrow> ''unknown''),
                    dp_footprint_assets = assets,
                    dp_footprint_departments = map (\<lambda>(dept, n). (department_label dept, n)) departments,
                    dp_exposure = (if assets = 0 then None else map_option (\<lambda>r. r * assets) (x_risk_score x)),
                    dp_permission_tags = map (\<lambda>p. (p, permission_tier p)) (permissions_list x),
                    dp_host_permission_tags = map (\<lambda>p. (p, host_permission_tier p)) (host_permissions_list x),
                    dp_risk_detail = detail, dp_risk_rows = rows,
                    dp_package_analysis = analysis, dp_grouped_findings = grouped,
                    dp_capability_diff = capability_diff (last_snapshots (x_id x) d),
                    dp_indicators = indicators,
                    dp_primary_indicators = filter (\<lambda>i. in_section i \<noteq> ''referenced'') indicators,
                    dp_referenced_indicators = filter (\<lambda>i. in_section i = ''referenced'') indicators,
                    dp_fetch_logs = fetch_logs, dp_score_points = score_points fetch_logs,
                    dp_score_bands = score_bands\<rparr>))"

definition extension_detail ::
    "web_env \<Rightarrow> (string \<Rightarrow> int \<Rightarrow> int option) \<Rightarrow> retention_settings \<Rightarrow> instant \<Rightarrow> request \<Rightarrow> int \<Rightarrow> db \<Rightarrow>
       http_error + (shell \<times> detail_context) response" where
  "extension_detail env float_pct s now req ext_id d =
     (case require_auth (we_auth env) now req d of
        Inl e \<Rightarrow> Inl e
      | Inr u \<Rightarrow>
          (let missing = redirect_to ''/'' [set_flash env ''Extension not found''] in
           case get_extension d ext_id of
             None \<Rightarrow> Inr missing
           | Some x \<Rightarrow>
               if x_user_id x \<noteq> Some (u_id u) then Inr missing
               else map_sum id (\<lambda>ctx. render env req ''extension_detail.html'' ctx (Some u))
                      (detail_of float_pct s now x d)))"

section \<open>Laws\<close>

lemma dict_get_append: "dict_get (a @ b) k = (case dict_get a k of Some v \<Rightarrow> Some v | None \<Rightarrow> dict_get b k)"
  by (simp add: dict_get_def map_add_def split: option.split)

lemma backfill_get:
  "dict_get (backfill defaults d) k = (case dict_get d k of Some v \<Rightarrow> Some v | None \<Rightarrow> dict_get defaults k)"
proof (induction defaults arbitrary: d)
  case Nil
  then show ?case by (simp add: backfill_def dict_get_def split: option.split)
next
  case (Cons p ps)
  obtain k' v where p: "p = (k', v)" by (cases p)
  have "dict_get (backfill (p # ps) d) k = dict_get (backfill ps (dict_setdefault d k' v)) k"
    by (simp add: backfill_def p)
  also have "\<dots> = (case dict_get (dict_setdefault d k' v) k of Some v \<Rightarrow> Some v | None \<Rightarrow> dict_get ps k)"
    by (rule Cons.IH)
  also have "\<dots> = (case dict_get d k of Some v \<Rightarrow> Some v | None \<Rightarrow> dict_get (p # ps) k)"
    by (auto simp: dict_setdefault_def dict_get_append p dict_get_def split: option.split)
  finally show ?case .
qed

lemma setdefault_not_Nil: "d \<noteq> [] \<Longrightarrow> dict_setdefault d k v \<noteq> []"
  by (simp add: dict_setdefault_def)

lemma backfill_not_Nil: "d \<noteq> [] \<Longrightarrow> backfill defaults d \<noteq> []"
  unfolding backfill_def by (induction defaults arbitrary: d) (simp_all add: setdefault_not_Nil split: prod.split)

lemma typed_backfill:
  "typed (JObj d) (TRec fs) \<Longrightarrow> typed (JObj defaults) (TRec fs) \<Longrightarrow> typed (JObj (backfill defaults d)) (TRec fs)"
  by (auto simp: typed_record_iff backfill_get split: option.splits)

lemma typed_analysis_defaults: "typed (JObj analysis_stored_defaults) ANALYSIS_TYPE"
  unfolding analysis_stored_defaults_def ANALYSIS_TYPE_def
  by (rule typed_entries) (auto intro: typed_intros intro!: t_list)

lemma typed_page_threat: "typed page_threat_finding FINDING_TYPE"
  unfolding page_threat_finding_def FINDING_TYPE_def
  by (rule typed_entries) (auto intro: typed_intros)

lemma page_findings_typed:
  assumes "typed (JObj d) ANALYSIS_TYPE" "f \<in> set (page_findings x d)"
  shows "typed f FINDING_TYPE"
proof -
  have "f \<in> set (findings_list d) \<or> f = page_threat_finding"
    using assms(2) by (auto simp: page_findings_def findings_list_def Let_def split: json.splits if_splits)
  then show ?thesis using typed_findings_list [OF assms(1)] typed_page_threat by blast
qed

lemma findings_list_set_findings: "findings_list (dict_set d ''findings'' (JArr fs)) = fs"
  by (simp add: findings_list_def dict_get_none_set)

lemma grouped_findings_typed:
  assumes "row_typed x"
  shows "\<exists>gs. grouped_findings (page_analysis x) = Inr gs"
proof (cases "page_analysis x")
  case None
  then show ?thesis by (simp add: grouped_findings_def)
next
  case (Some a)
  show ?thesis
  proof (cases a)
    case Nil
    then show ?thesis using Some by (simp add: grouped_findings_def)
  next
    case (Cons q qs)
    obtain d where d: "analysis_dict x = Some d"
      using Some by (auto simp: page_analysis_def split: option.splits list.splits)
    have "d \<noteq> []" using Some Cons d by (auto simp: page_analysis_def)
    then obtain e where e: "a = dict_set (backfill analysis_stored_defaults d) ''findings'' (JArr (page_findings x (backfill analysis_stored_defaults d)))"
      using Some d by (auto simp: page_analysis_def Let_def neq_Nil_conv)
    have t: "typed (JObj (backfill analysis_stored_defaults d)) ANALYSIS_TYPE"
      using assms d typed_backfill [OF _ typed_analysis_defaults [unfolded ANALYSIS_TYPE_def]]
      by (auto simp: row_typed_def ANALYSIS_TYPE_def)
    have "list_all (\<lambda>f. typed f FINDING_TYPE) (findings_list a)"
      using page_findings_typed [OF t] by (simp add: e findings_list_set_findings list_all_iff)
    then obtain gs where "group_rows (findings_list a) [] = Some gs"
      using group_rows_typed by blast
    then show ?thesis using Some Cons
      by (auto simp: grouped_findings_def group_detection_findings_def)
  qed
qed


section \<open>What a fetched row shows\<close>

definition RISK_COMPONENTS :: "risk_detail \<Rightarrow> (string \<times> int) list" where
  "RISK_COMPONENTS r =
     [(''permissions'', rd_permissions r), (''popularity'', rd_popularity r), (''publisher'', rd_publisher r),
      (''staleness'', rd_staleness r), (''code_behaviour'', rd_code_behaviour r),
      (''external_domains'', rd_external_domains r)]"

text \<open>A breakdown that has the six components as integers.\<close>

definition breakdown_of :: "risk_detail \<Rightarrow> jobject \<Rightarrow> bool" where
  "breakdown_of r d \<longleftrightarrow> (\<forall>(k, v) \<in> set (RISK_COMPONENTS r). dict_get d k = Some (JInt v))"

definition row_for :: "string \<Rightarrow> int \<Rightarrow> int \<Rightarrow> string \<Rightarrow> risk_row" where
  "row_for label v category_max note =
     \<lparr>rr_label = label, rr_value = JInt v, rr_max = category_max, rr_note = note,
      rr_pct = round_half_even (v * 1000) category_max,
      rr_band = risk_level (whole_pct (round_half_even (v * 1000) category_max))\<rparr>"

definition rows_for :: "risk_detail \<Rightarrow> risk_row list" where
  "rows_for r = map (\<lambda>((label, _, m, note), (_, v)). row_for label v m note) (zip RISK_ROW_DEFS (RISK_COMPONENTS r))"

lemma or_else_int: "or_else (JInt v) (JInt 0) = JInt v"
  by (simp add: or_else_def)

lemma risk_rows_breakdown:
  assumes "breakdown_of r d"
  shows "risk_rows fp (Some d) = Inr (rows_for r)"
proof -
  have "d \<noteq> []" using assms by (auto simp: breakdown_of_def RISK_COMPONENTS_def dict_get_def)
  moreover have "risk_rows_of fp d RISK_ROW_DEFS = Inr (rows_for r)"
    unfolding RISK_ROW_DEFS_def rows_for_def RISK_COMPONENTS_def
    using assms by (simp add: breakdown_of_def RISK_COMPONENTS_def dict_get_none_get or_else_int pct_tenths_def
        row_for_def Let_def)
  ultimately show ?thesis by (auto simp: risk_rows_def neq_Nil_conv)
qed

lemma breakdown_backfill: "breakdown_of r d \<Longrightarrow> breakdown_of r (backfill defaults d)"
  by (auto simp: breakdown_of_def backfill_get)

lemma breakdown_posture:
  "breakdown_of r (dict_set (dict_set (risk_detail_asdict r) ''total'' a) ''risk_level'' b)"
  by (simp add: breakdown_of_def RISK_COMPONENTS_def dict_get_set) (simp add: risk_detail_asdict_def dict_get_def)


lemma risk_detail_threat: "risk_detail_dict (apply_threat_finding y es) = risk_detail_dict y"
  by (auto simp: apply_threat_finding_def Let_def risk_detail_dict_def split: option.split)

lemma fetch_results_breakdown:
  "(\<exists>db. risk_detail_dict (apply_fetch_results now x0 md a eff risk) = Some db \<and> breakdown_of risk db) \<and>
   x_heuristic_risk_score (apply_fetch_results now x0 md a eff risk) = Some (rd_total risk)"
  using breakdown_posture
  by (fastforce simp: apply_fetch_results_def Let_def risk_detail_dict_def set_posture_def)

lemma fetched_row_breakdown:
  "\<exists>i db. risk_detail_dict (fetched_row env now md a x d) = Some db \<and>
     breakdown_of (compute_risk_score (fe_psl env) now i False) db \<and>
     x_heuristic_risk_score (fetched_row env now md a x d) = Some (rd_total (compute_risk_score (fe_psl env) now i False))"
  unfolding fetched_row_def Let_def score_fetch_def risk_detail_threat apply_threat_finding_frame
  using fetch_results_breakdown by blast

lemma rows_for_labels: "map rr_label (rows_for r) = map fst RISK_ROW_DEFS"
  by (simp add: rows_for_def RISK_ROW_DEFS_def RISK_COMPONENTS_def row_for_def)

text \<open>The integer a row shows.\<close>

definition row_points :: "risk_row \<Rightarrow> int" where
  "row_points row = (case rr_value row of JInt v \<Rightarrow> v | _ \<Rightarrow> 0)"

lemma rows_for_points: "sum_list (map row_points (rows_for r)) = component_sum r"
  by (simp add: rows_for_def RISK_ROW_DEFS_def RISK_COMPONENTS_def row_for_def row_points_def component_sum_def)

lemma round_half_even_bounds: "0 \<le> v \<Longrightarrow> v \<le> m \<Longrightarrow> 0 < m \<Longrightarrow> 0 \<le> round_half_even (v * 1000) m \<and> round_half_even (v * 1000) m \<le> 1000"
proof -
  assume v: "0 \<le> v" "v \<le> m" "0 < m"
  have "v * 1000 div m \<le> 1000"
    using zdiv_mono1 [of "v * 1000" "1000 * m" m] v by simp
  moreover have "v * 1000 mod m = 0" if q: "v * 1000 div m = 1000"
  proof -
    have "1000 * m + v * 1000 mod m = v * 1000" using div_mult_mod_eq [of "v * 1000" m] q by simp
    moreover have "0 \<le> v * 1000 mod m" using v by simp
    ultimately show ?thesis using v by linarith
  qed
  moreover have "0 \<le> v * 1000 div m" using v by (simp add: pos_imp_zdiv_nonneg_iff)
  ultimately show ?thesis using v
    by (cases "v * 1000 div m = 1000") (auto simp: round_half_even_def Let_def)
qed

definition in_bounds :: "risk_row \<Rightarrow> bool" where
  "in_bounds row \<longleftrightarrow>
     0 \<le> row_points row \<and> row_points row \<le> rr_max row \<and> 0 \<le> rr_pct row \<and> rr_pct row \<le> 1000"

lemma row_for_bounds: "0 \<le> v \<Longrightarrow> v \<le> m \<Longrightarrow> 0 < m \<Longrightarrow> in_bounds (row_for label v m note)"
  using round_half_even_bounds [of v m] by (simp add: in_bounds_def row_for_def row_points_def)

lemma rows_for_bounded: "list_all in_bounds (rows_for (compute_risk_score psl now i False))"
  unfolding rows_for_def RISK_ROW_DEFS_def RISK_COMPONENTS_def compute_risk_score_def Let_def
  by (simp add: row_for_bounds signal_bounds)

lemma total_is_components:
  "rd_total (compute_risk_score psl now i False) = component_sum (compute_risk_score psl now i False)"
  using component_sum_le_100 by (simp add: compute_risk_score_def component_sum_def Let_def)

text \<open>C39: after a fetch the extension's page always renders, and its breakdown is the score. Whatever
  the store and the inspector delivered, when the row's stored analysis had its declared type, the
  page of the stored row is built without an error at any later moment; it shows the six signals in
  their order, each between zero and its maximum with a percentage between 0 and 100, and together
  they are the stored heuristic score.\<close>

theorem detail_after_fetch:
  assumes "row_typed x" "store_fetch env now md analysis x d = (x', new, d')"
  shows "\<exists>ctx. detail_of float_pct s later x' d'' = Inr ctx \<and>
    map rr_label (dp_risk_rows ctx) = map fst RISK_ROW_DEFS \<and>
    Some (sum_list (map row_points (dp_risk_rows ctx))) = x_heuristic_risk_score x' \<and>
    list_all in_bounds (dp_risk_rows ctx)"
proof -
  obtain evs d3 where m: "merge_pending_events (fetched_row env now md analysis x d) evs d3 = (x', new, d')"
    using store_fetch_decompose [OF assms(2)] by auto
  obtain mk where x': "x' = (fetched_row env now md analysis x d)\<lparr>x_pending_alert_events := mk\<rparr>"
    using m by (auto simp: merge_pending_events_def Let_def split: prod.splits)
  obtain i db where db: "risk_detail_dict x' = Some db" "breakdown_of (compute_risk_score (fe_psl env) now i False) db"
      "x_heuristic_risk_score x' = Some (rd_total (compute_risk_score (fe_psl env) now i False))"
    using fetched_row_breakdown [of env now md analysis x d] by (auto simp: x' risk_detail_dict_def)
  let ?r = "compute_risk_score (fe_psl env) now i False"
  have "db \<noteq> []" using db(2) by (auto simp: breakdown_of_def RISK_COMPONENTS_def dict_get_def)
  then have "page_risk_detail x' = Some (backfill risk_stored_defaults db)"
    using db(1) by (auto simp: page_risk_detail_def neq_Nil_conv)
  then have rows: "risk_rows float_pct (page_risk_detail x') = Inr (rows_for ?r)"
    using risk_rows_breakdown [OF breakdown_backfill [OF db(2)]] by simp
  have "row_typed x'" using fetched_row_typed [OF assms(1)] by (simp add: x' row_typed_def analysis_dict_def)
  then obtain gs where gs: "grouped_findings (page_analysis x') = Inr gs" using grouped_findings_typed by blast
  have "rd_total ?r = sum_list (map row_points (rows_for ?r))"
    by (simp add: rows_for_points total_is_components)
  then show ?thesis using rows gs rows_for_labels rows_for_bounded db(3)
    by (simp add: detail_of_def Let_def)
qed


theorem detail_after_fetch_witness:
  "\<exists>ctx. detail_of (\<lambda>_ _. None) \<lparr>rt_inventory_freshness_days = 0, rt_retention_days = 0\<rparr> 9
     (fst (store_fetch sample_fetch 5 sample_metadata (Some empty_analysis) sample_extension empty_db)) empty_db = Inr ctx"
proof -
  obtain x' new d' where s: "store_fetch sample_fetch 5 sample_metadata (Some empty_analysis) sample_extension empty_db = (x', new, d')"
    by (metis prod_cases3)
  have "row_typed sample_extension"
    by (simp add: row_typed_def analysis_dict_def sample_extension_def json_object_def safe_json_loads_def)
  from detail_after_fetch [OF this s, of "\<lambda>_ _. None" "\<lparr>rt_inventory_freshness_days = 0, rt_retention_days = 0\<rparr>" 9 empty_db]
  show ?thesis by (auto simp: s)
qed

section \<open>Footprint\<close>

text \<open>\<open>uq_install_observation_extension_asset\<close>\<close>

definition observations_unique :: "db \<Rightarrow> bool" where
  "observations_unique d \<longleftrightarrow> distinct (map (\<lambda>ob. (io_extension_id ob, io_asset_id ob)) (db_observations d))"

lemma fresh_observations_assets: "map io_asset_id (fresh_observations cutoff i d) = fresh_assets cutoff i (db_observations d)"
  by (simp add: fresh_observations_def fresh_assets_def)

lemma fresh_distinct:
  assumes "observations_unique d"
  shows "distinct (map io_asset_id (fresh_observations cutoff i d))"
  using assms unfolding observations_unique_def fresh_observations_def
  by (induction "db_observations d" arbitrary: d) (auto simp: distinct_map inj_on_def)

lemma distinct_assets_count:
  assumes "distinct (map io_asset_id obs)"
  shows "distinct_assets obs dept = length (filter (\<lambda>ob. io_department ob = dept) obs)"
proof -
  have "distinct (map io_asset_id (filter (\<lambda>ob. io_department ob = dept) obs))"
    using assms by (rule distinct_map_filter)
  then show ?thesis by (simp add: distinct_assets_def distinct_remdups_id)
qed

lemma sum_list_indicator: "distinct ks \<Longrightarrow> a \<in> set ks \<Longrightarrow> sum_list (map (\<lambda>k. if a = k then 1 else 0) ks) = (1::nat)"
proof (induction ks)
  case (Cons k ks)
  then show ?case by (cases "a = k") (auto simp: sum_list_eq_0_iff)
qed simp

lemma sum_of_groups:
  "distinct ks \<Longrightarrow> f ` set xs \<subseteq> set ks \<Longrightarrow> sum_list (map (\<lambda>k. length (filter (\<lambda>x. f x = k) xs)) ks) = length xs"
proof (induction xs)
  case (Cons a xs)
  have "sum_list (map (\<lambda>k. length (filter (\<lambda>x. f x = k) (a # xs))) ks) =
      sum_list (map (\<lambda>k. (if f a = k then 1 else 0) + length (filter (\<lambda>x. f x = k) xs)) ks)"
    by (rule arg_cong [where f = sum_list]) simp
  also have "\<dots> = sum_list (map (\<lambda>k. if f a = k then 1 else 0) ks) + length xs"
    using Cons by (simp add: sum_list_addf)
  also have "sum_list (map (\<lambda>k. if f a = k then 1 else 0) ks) = (1::nat)"
    by (rule sum_list_indicator) (use Cons.prems in auto)
  finally show ?case by simp
qed simp

lemma sum_list_mset_cong:
  fixes f :: "'a \<Rightarrow> nat"
  shows "mset xs = mset ys \<Longrightarrow> sum_list (map f xs) = sum_list (map f ys)"
  by (simp only: sum_mset_sum_list [symmetric] mset_map)

lemma department_total:
  assumes "distinct (map io_asset_id obs)"
  shows "sum_list (map snd (department_counts obs)) = length obs"
proof -
  let ?rows = "map (\<lambda>dept. (dept, distinct_assets obs dept)) (unique (map io_department obs))"
  have "mset (department_counts obs) = mset ?rows"
    by (simp add: department_counts_def)
  then have "sum_list (map snd (department_counts obs)) = sum_list (map snd ?rows)"
    by (rule sum_list_mset_cong)
  also have "\<dots> = sum_list (map (\<lambda>k. length (filter (\<lambda>x. io_department x = k) obs)) (unique (map io_department obs)))"
    using assms by (simp add: distinct_assets_count comp_def)
  also have "\<dots> = length obs" by (rule sum_of_groups) auto
  finally show ?thesis .
qed


text \<open>The footprint card agrees with its rows. When the cached footprints are those of the moment
  (as every ingest, prune and footprint refresh leaves them), the number of assets the page shows
  is the sum of the departments it lists, and it lists them from the largest down.\<close>

theorem footprint_card_agrees:
  assumes "observations_unique d" "footprints_synced s now d" "x \<in> set (db_extensions d)"
    and "detail_of float_pct s now x d = Inr ctx"
  shows "int (sum_list (map snd (dp_footprint_departments ctx))) = dp_footprint_assets ctx \<and>
    sorted (rev (map snd (dp_footprint_departments ctx)))"
proof -
  let ?obs = "fresh_observations (freshness_cutoff s now) (x_id x) d"
  have "dp_footprint_departments ctx = map (\<lambda>(dept, n). (department_label dept, n)) (department_counts ?obs)"
    and assets: "dp_footprint_assets ctx = (case x_install_footprint x of Some n \<Rightarrow> n | None \<Rightarrow> 0)"
    using assms(4) by (auto simp: detail_of_def Let_def split: sum.splits)
  then have depts: "map snd (dp_footprint_departments ctx) = map snd (department_counts ?obs)"
    by (simp add: comp_def case_prod_unfold)
  have dist: "distinct (map io_asset_id ?obs)" by (rule fresh_distinct [OF assms(1)])
  then have "fresh_count (freshness_cutoff s now) (x_id x) (db_observations d) = int (length ?obs)"
    by (simp add: fresh_count_def distinct_remdups_id flip: fresh_observations_assets)
  moreover have "?obs = []" if "\<not> footprint_touched d x"
    using that by (force simp: footprint_touched_def fresh_observations_def filter_empty_conv)
  ultimately have "dp_footprint_assets ctx = int (length ?obs)"
    using bspec [OF assms(2) [unfolded footprints_synced_def] assms(3)]
    by (cases "footprint_touched d x") (simp_all add: assets)
  moreover have "sorted (map (\<lambda>n. - int n) (map snd (department_counts ?obs)))"
    using sorted_sort_key [of "\<lambda>(_, n). - int n"] by (simp add: department_counts_def comp_def case_prod_unfold)
  then have "sorted (rev (map snd (department_counts ?obs)))"
    by (simp add: sorted_wrt_map sorted_wrt_rev)
  ultimately show ?thesis using department_total [OF dist] by (simp add: depts)
qed


definition sample_observations :: db where
  "sample_observations =
     empty_db\<lparr>db_extensions := [sample_extension\<lparr>x_install_footprint := Some 3\<rparr>],
       db_observations := map (\<lambda>(i, asset, dept). \<lparr>io_id = i, io_extension_id = 7, io_asset_id = asset,
           io_asset_type = None, io_department = dept, io_source = ''soar'', io_first_seen = 0, io_last_seen = 0\<rparr>)
         [(1, ''a'', None), (2, ''b'', Some ''IT''), (3, ''c'', Some ''IT'')]\<rparr>"

theorem footprint_card_agrees_witness:
  "\<exists>ctx. detail_of (\<lambda>_ _. None) \<lparr>rt_inventory_freshness_days = 0, rt_retention_days = 0\<rparr> 9
       (sample_extension\<lparr>x_install_footprint := Some 3\<rparr>) sample_observations = Inr ctx \<and>
     dp_footprint_departments ctx = [(''IT'', 2), (''Unassigned'', 1)] \<and>
     int (sum_list (map snd (dp_footprint_departments ctx))) = dp_footprint_assets ctx"
proof -
  let ?s = "\<lparr>rt_inventory_freshness_days = 0, rt_retention_days = 0\<rparr>"
  let ?x = "sample_extension\<lparr>x_install_footprint := Some 3\<rparr>"
  have "observations_unique sample_observations" by code_simp
  moreover have "footprints_synced ?s 9 sample_observations" by code_simp
  moreover have "?x \<in> set (db_extensions sample_observations)" by (simp add: sample_observations_def)
  moreover obtain ctx where ctx: "detail_of (\<lambda>_ _. None) ?s 9 ?x sample_observations = Inr ctx"
    by (simp add: detail_of_def Let_def grouped_findings_def page_analysis_def analysis_dict_def risk_rows_def
        page_risk_detail_def risk_detail_dict_def sample_extension_def json_object_def safe_json_loads_def)
  ultimately have "int (sum_list (map snd (dp_footprint_departments ctx))) = dp_footprint_assets ctx"
    using footprint_card_agrees by blast
  moreover have "map (\<lambda>(dept, n). (department_label dept, n))
      (department_counts (fresh_observations (freshness_cutoff ?s 9) 7 sample_observations)) = [(''IT'', 2), (''Unassigned'', 1)]"
    by code_simp
  then have "dp_footprint_departments ctx = [(''IT'', 2), (''Unassigned'', 1)]"
    using ctx by (auto simp: detail_of_def Let_def sample_extension_def split: sum.splits)
  ultimately show ?thesis using ctx by blast
qed

section \<open>Access and failures\<close>

text \<open>Whoever sees the page owns the row; everyone else is sent to the dashboard.\<close>

lemma extension_detail_owner:
  assumes "extension_detail env float_pct s now req i d = Inr r"
  shows "\<exists>u. require_auth (we_auth env) now req d = Inr u \<and>
    (rs_body r = Redirected ''/'' \<or>
     (\<exists>x sh ctx. get_extension d i = Some x \<and> x_user_id x = Some (u_id u) \<and>
        rs_body r = Page ''extension_detail.html'' (sh, ctx) \<and> detail_of float_pct s now x d = Inr ctx))"
proof -
  obtain u where u: "require_auth (we_auth env) now req d = Inr u"
    using assms by (auto simp: extension_detail_def split: sum.splits)
  show ?thesis
  proof (cases "\<exists>x. get_extension d i = Some x \<and> x_user_id x = Some (u_id u)")
    case False
    then have "r = redirect_to ''/'' [set_flash env ''Extension not found'']"
      using assms u by (auto simp: extension_detail_def Let_def split: option.splits if_splits)
    then show ?thesis using u by (simp add: redirect_to_def)
  next
    case True
    then obtain x where x: "get_extension d i = Some x" "x_user_id x = Some (u_id u)" by blast
    then obtain ctx where "detail_of float_pct s now x d = Inr ctx" "r = render env req ''extension_detail.html'' ctx (Some u)"
      using assms u by (cases "detail_of float_pct s now x d") (auto simp: extension_detail_def Let_def)
    then show ?thesis using u x by (simp add: render_def Let_def)
  qed
qed

text \<open>A component that is stored as text stops the page: the backfill checks the keys, not the
  values.\<close>

lemma detail_fails_on_text:
  "detail_of float_pct s now (sample_extension\<lparr>x_risk_detail := Some (json_dumps (JObj [(''permissions'', JStr ''25'')]))\<rparr>) d =
     Inl (ServerError ''TypeError'')"
proof -
  let ?x = "sample_extension\<lparr>x_risk_detail := Some (json_dumps (JObj [(''permissions'', JStr ''25'')]))\<rparr>"
  let ?b = "backfill risk_stored_defaults [(''permissions'', JStr ''25'')]"
  have "page_analysis ?x = None"
    by (simp add: page_analysis_def analysis_dict_def sample_extension_def json_object_def safe_json_loads_def)
  moreover have "page_risk_detail ?x = Some ?b"
    by (simp add: page_risk_detail_def risk_detail_dict_def)
  moreover have "dict_get ?b ''permissions'' = Some (JStr ''25'')"
    by (simp add: backfill_get) (simp add: dict_get_def)
  then have "or_else (dict_get_none ?b ''permissions'') (JInt 0) = JStr ''25''"
    by (simp add: dict_get_none_get or_else_def)
  then have "risk_rows_of float_pct ?b RISK_ROW_DEFS = Inl (ServerError ''TypeError'')"
    by (simp add: RISK_ROW_DEFS_def pct_tenths_def)
  then have "risk_rows float_pct (Some ?b) = Inl (ServerError ''TypeError'')"
    using backfill_not_Nil [of "[(''permissions'', JStr ''25'')]" risk_stored_defaults]
    by (auto simp: risk_rows_def neq_Nil_conv)
  ultimately show ?thesis by (simp add: detail_of_def grouped_findings_def Let_def)
qed

end
