(* ===== verification/Account_Pages.thy ===== *)
theory Account_Pages
  imports Detail_Page Alert_Routes
begin

text \<open>
  The other pages of \<open>app/routes/ui.py\<close>: the forms, the administration pages, the audit trail and
  the account pages. A page that only has a form or static text has the unit context.
\<close>

section \<open>Forms\<close>

definition form_page ::
    "role list \<Rightarrow> string \<Rightarrow> web_env \<Rightarrow> instant \<Rightarrow> request \<Rightarrow> db \<Rightarrow> http_error + (shell \<times> unit) response" where
  "form_page roles template env now req d =
     map_sum id (\<lambda>u. render env req template () (Some u)) (require_role_ui roles (we_auth env) now req d)"

definition add_extension_page ::
    "web_env \<Rightarrow> instant \<Rightarrow> request \<Rightarrow> db \<Rightarrow> http_error + (shell \<times> unit) response" where
  "add_extension_page = form_page [ADMIN, ANALYST] ''add_extension.html''"

definition bulk_import_page ::
    "web_env \<Rightarrow> instant \<Rightarrow> request \<Rightarrow> db \<Rightarrow> http_error + (shell \<times> unit) response" where
  "bulk_import_page = form_page [ADMIN, ANALYST] ''bulk_import.html''"

definition help_page ::
    "web_env \<Rightarrow> instant \<Rightarrow> request \<Rightarrow> db \<Rightarrow> http_error + (shell \<times> unit) response" where
  "help_page env now req d =
     map_sum id (\<lambda>u. render env req ''help.html'' () (Some u)) (require_auth (we_auth env) now req d)"

section \<open>Administration\<close>

record users_context =
  uc_users :: "(user_out \<times> instant) list"
  uc_current_user_id :: int
  uc_roles :: "string list"

definition admin_users_page ::
    "web_env \<Rightarrow> instant \<Rightarrow> request \<Rightarrow> db \<Rightarrow> http_error + (shell \<times> users_context) response" where
  "admin_users_page env now req d =
     map_sum id (\<lambda>u. render env req ''admin_users.html''
         \<lparr>uc_users = map (\<lambda>v. (user_out_of v, u_created_at v)) (sort_key u_created_at (db_users d)),
          uc_current_user_id = u_id u, uc_roles = map role_value [ADMIN, ANALYST, AUDITOR]\<rparr> (Some u))
       (require_role_ui [ADMIN] (we_auth env) now req d)"

definition AUDIT_PAGE_LIMIT :: nat where "AUDIT_PAGE_LIMIT = 200"

record audit_context =
  ac_entries :: "(audit_log \<times> string \<times> jobject) list"
  ac_filters :: "(string \<times> string) list"
  ac_limit :: nat
  ac_truncated :: bool

text \<open>\<open>if value\<close>: a blank filter is no filter.\<close>

definition page_filter :: "string option \<Rightarrow> string option \<Rightarrow> bool" where
  "page_filter f v = (case f of Some (c # cs) \<Rightarrow> v = Some (c # cs) | _ \<Rightarrow> True)"

definition audit_page_rows ::
    "string option \<Rightarrow> string option \<Rightarrow> string option \<Rightarrow> string option \<Rightarrow> db \<Rightarrow> audit_log list" where
  "audit_page_rows actor action target_type target_id d =
     take AUDIT_PAGE_LIMIT (rev (sort_key (\<lambda>r. (au_at r, au_id r))
       (filter (\<lambda>r. page_filter actor (Some (au_actor r)) \<and> page_filter action (Some (au_action r)) \<and>
                    page_filter target_type (Some (au_target_type r)) \<and> page_filter target_id (au_target_id r))
          (db_audit_logs d))))"

definition admin_audit_page ::
    "web_env \<Rightarrow> instant \<Rightarrow> request \<Rightarrow> string option \<Rightarrow> string option \<Rightarrow> string option \<Rightarrow> string option \<Rightarrow> db \<Rightarrow>
       http_error + (shell \<times> audit_context) response" where
  "admin_audit_page env now req actor action target_type target_id d =
     (case require_role_ui [ADMIN, AUDITOR] (we_auth env) now req d of
        Inl e \<Rightarrow> Inl e
      | Inr u \<Rightarrow>
          let rows = audit_page_rows actor action target_type target_id d;
              blank = (\<lambda>v. case v of Some s \<Rightarrow> s | None \<Rightarrow> [])
          in Inr (render env req ''admin_audit.html''
               \<lparr>ac_entries = map (\<lambda>r. (r, ago now (Some (Aware (au_at r))), detail_dict r)) rows,
                ac_filters = [(''actor'', blank actor), (''action'', blank action),
                              (''target_type'', blank target_type), (''target_id'', blank target_id)],
                ac_limit = AUDIT_PAGE_LIMIT, ac_truncated = (length rows \<ge> AUDIT_PAGE_LIMIT)\<rparr> (Some u)))"

text \<open>The settings rows are read only after the gate; a missing row is an error of the server.\<close>

definition admin_proxy_page ::
    "web_env \<Rightarrow> instant \<Rightarrow> request \<Rightarrow> proxy_store \<Rightarrow> db \<Rightarrow> http_error + (shell \<times> proxy_settings) response" where
  "admin_proxy_page env now req st d =
     (case require_role_ui [ADMIN] (we_auth env) now req d of
        Inl e \<Rightarrow> Inl e
      | Inr u \<Rightarrow> map_sum id (\<lambda>row. render env req ''admin_proxy.html'' row (Some u)) (get_settings st))"

definition admin_oidc_page ::
    "web_env \<Rightarrow> instant \<Rightarrow> request \<Rightarrow> oidc_store \<Rightarrow> db \<Rightarrow> http_error + (shell \<times> oidc_settings_out) response" where
  "admin_oidc_page env now req st d =
     (case require_role_ui [ADMIN] (we_auth env) now req d of
        Inl e \<Rightarrow> Inl e
      | Inr u \<Rightarrow>
          map_sum id (\<lambda>out. render env req ''admin_oidc.html'' out (Some u)) (oidc_public_settings (we_oidc env) st))"

section \<open>The account\<close>

record rule_item =
  rit_rule :: alert_rule
  rit_dest_label :: string
  rit_ext_name :: "string option"

record extension_item =
  eit_id :: int
  eit_name :: string
  eit_store :: string

record account_context =
  acc_destinations :: "destination_out list"
  acc_rules :: "rule_item list"
  acc_extensions :: "extension_item list"
  acc_alert_log :: "alert_log_out list"
  acc_destination_kinds :: "json list"

definition user_destinations :: "int \<Rightarrow> db \<Rightarrow> alert_destination list" where
  "user_destinations user_id d = sort_key ad_created_at (filter (\<lambda>a. ad_user_id a = user_id) (db_destinations d))"

definition user_rules :: "int \<Rightarrow> db \<Rightarrow> alert_rule list" where
  "user_rules user_id d = sort_key ar_created_at (filter (\<lambda>r. ar_user_id r = user_id) (db_rules d))"

definition user_extensions :: "int \<Rightarrow> db \<Rightarrow> extension list" where
  "user_extensions user_id d = sort_key x_name (owned_extensions user_id d)"

text \<open>A dictionary built from rows: for one key the last row counts.\<close>

definition rows_dict :: "('k \<times> 'v) list \<Rightarrow> 'k \<Rightarrow> 'v option" where
  "rows_dict ps = map_of (rev ps)"

definition rule_item_of :: "alert_destination list \<Rightarrow> extension list \<Rightarrow> alert_rule \<Rightarrow> rule_item" where
  "rule_item_of destinations extensions r =
     \<lparr>rit_rule = r,
      rit_dest_label = (case rows_dict (map (\<lambda>a. (ad_id a, ad_label a)) destinations) (ar_destination_id r) of
                          Some l \<Rightarrow> l | None \<Rightarrow> utf8_dash),
      rit_ext_name = (case ar_extension_id r of
                        None \<Rightarrow> None
                      | Some i \<Rightarrow> if i = 0 then None
                          else rows_dict (map (\<lambda>x. (x_id x, or_default (x_name x) (x_extension_id x))) extensions) i)\<rparr>"

definition account_context_of :: "sender_env \<Rightarrow> int \<Rightarrow> db \<Rightarrow> account_context" where
  "account_context_of senv user_id d =
     (let destinations = user_destinations user_id d; extensions = user_extensions user_id d
      in \<lparr>acc_destinations = map destination_out_of destinations,
          acc_rules = map (rule_item_of destinations extensions) (user_rules user_id d),
          acc_extensions =
            map (\<lambda>x. \<lparr>eit_id = x_id x, eit_name = or_default (x_name x) (x_extension_id x), eit_store = x_store x\<rparr>) extensions,
          acc_alert_log = get_alert_log user_id 50 d, acc_destination_kinds = kind_descriptors senv\<rparr>)"

definition account_page ::
    "web_env \<Rightarrow> sender_env \<Rightarrow> instant \<Rightarrow> request \<Rightarrow> db \<Rightarrow> http_error + (shell \<times> account_context) response" where
  "account_page env senv now req d =
     map_sum id (\<lambda>u. render env req ''account.html'' (account_context_of senv (u_id u) d) (Some u))
       (require_auth (we_auth env) now req d)"

definition account_keys_page ::
    "web_env \<Rightarrow> instant \<Rightarrow> request \<Rightarrow> db \<Rightarrow> http_error + (shell \<times> key_out list) response" where
  "account_keys_page env now req d =
     map_sum id (\<lambda>u. render env req ''account_keys.html''
         (map key_out_of (sort_key (\<lambda>k. utc_of (ak_created_at k))
            (filter (\<lambda>k. ak_user_id k = u_id u) (db_api_keys d)))) (Some u))
       (require_auth (we_auth env) now req d)"

definition account_password_page ::
    "web_env \<Rightarrow> instant \<Rightarrow> request \<Rightarrow> db \<Rightarrow> http_error + (shell \<times> bool) response" where
  "account_password_page env now req d =
     map_sum id (\<lambda>u. render env req ''account_password.html''
         (case u_password_hash u of Some (c # cs) \<Rightarrow> True | _ \<Rightarrow> False) (Some u))
       (require_auth (we_auth env) now req d)"

section \<open>Laws\<close>

text \<open>The filter of the page as the query of \<open>GET /api/audit\<close>.\<close>

definition not_blank :: "string option \<Rightarrow> string option" where
  "not_blank f = (if f = Some [] then None else f)"

definition page_query :: "string option \<Rightarrow> string option \<Rightarrow> string option \<Rightarrow> string option \<Rightarrow> audit_query" where
  "page_query actor action target_type target_id =
     \<lparr>aq_actor = not_blank actor, aq_action = not_blank action, aq_target_type = not_blank target_type,
      aq_target_id = not_blank target_id, aq_since = None\<rparr>"

lemma page_filter_eq: "page_filter f v = (case not_blank f of None \<Rightarrow> True | Some w \<Rightarrow> v = Some w)"
  by (auto simp: page_filter_def not_blank_def split: option.split list.split)

lemma audit_page_matches:
  "(page_filter actor (Some (au_actor r)) \<and> page_filter action (Some (au_action r)) \<and>
    page_filter target_type (Some (au_target_type r)) \<and> page_filter target_id (au_target_id r)) =
   audit_matches (page_query actor action target_type target_id) r"
  by (simp add: page_filter_eq audit_matches_def page_query_def opt_eq_def split: option.split)

lemma audit_page_rows_eq:
  "audit_page_rows actor action target_type target_id d =
     take AUDIT_PAGE_LIMIT (rev (sort_key (\<lambda>r. (au_at r, au_id r))
       (filter (audit_matches (page_query actor action target_type target_id)) (db_audit_logs d))))"
  unfolding audit_page_rows_def audit_page_matches ..

text \<open>The audit page hides nothing silently. It renders only for an administrator or an auditor;
  its entries are the newest of the rows that the audit API returns for the same filters, a blank
  filter being no filter; and when the page does not say it is truncated, every matching row of
  the trail is on it.\<close>

theorem audit_page_whole:
  assumes "admin_audit_page env now req actor action target_type target_id d = Inr r"
  shows "\<exists>u sh ctx. require_auth (we_auth env) now req d = Inr u \<and> u_role u \<in> {''admin'', ''auditor''} \<and>
    rs_body r = Page ''admin_audit.html'' (sh, ctx) \<and>
    map (audit_out_from_db \<circ> fst) (ac_entries ctx) =
      list_audit_log (page_query actor action target_type target_id) AUDIT_PAGE_LIMIT 0 d \<and>
    (ac_truncated ctx \<or>
     set (map fst (ac_entries ctx)) =
       {x \<in> set (db_audit_logs d). audit_matches (page_query actor action target_type target_id) x})"
proof -
  obtain u where u: "require_role_ui [ADMIN, AUDITOR] (we_auth env) now req d = Inr u"
    using assms by (auto simp: admin_audit_page_def split: sum.splits)
  let ?all = "rev (sort_key (\<lambda>r. (au_at r, au_id r))
    (filter (audit_matches (page_query actor action target_type target_id)) (db_audit_logs d)))"
  let ?rows = "audit_page_rows actor action target_type target_id d"
  have rows: "?rows = take AUDIT_PAGE_LIMIT ?all" by (rule audit_page_rows_eq)
  obtain sh ctx where ctx: "rs_body r = Page ''admin_audit.html'' (sh, ctx)"
      "map fst (ac_entries ctx) = ?rows" "ac_truncated ctx = (length ?rows \<ge> AUDIT_PAGE_LIMIT)"
    using assms u by (auto simp: admin_audit_page_def render_def Let_def comp_def)
  have "map (audit_out_from_db \<circ> fst) (ac_entries ctx) = map audit_out_from_db ?rows"
    using ctx(2) by (metis map_map)
  then have "map (audit_out_from_db \<circ> fst) (ac_entries ctx) =
      list_audit_log (page_query actor action target_type target_id) AUDIT_PAGE_LIMIT 0 d"
    by (simp add: list_audit_log_def rows)
  moreover have "set ?rows = set ?all" if "\<not> ac_truncated ctx"
    using that by (simp add: ctx(3) rows)
  then have "ac_truncated ctx \<or> set (map fst (ac_entries ctx)) =
      {x \<in> set (db_audit_logs d). audit_matches (page_query actor action target_type target_id) x}"
    using ctx(2) by auto
  moreover have "require_auth (we_auth env) now req d = Inr u \<and> u_role u \<in> {''admin'', ''auditor''}"
    using u by (auto simp: require_role_ui_def split: sum.splits if_splits)
  ultimately show ?thesis using ctx(1) by blast
qed

lemma sample_session: "require_auth sample_auth_env 9 sample_request sample_db = Inr sample_user"
  by (simp add: sample_defs require_auth_def authenticate_session_def get_session_claims_def find_user_def
      dict_get_def session_after_password_change_def session_within_sso_max_age_def usec_per_sec_def)

theorem audit_page_whole_witness:
  "\<exists>r sh ctx. admin_audit_page sample_web_env 9 sample_request (Some []) None None None sample_db = Inr r \<and>
     rs_body r = Page ''admin_audit.html'' (sh, ctx) \<and>
     map (audit_out_from_db \<circ> fst) (ac_entries ctx) = list_audit_log (page_query (Some []) None None None) AUDIT_PAGE_LIMIT 0 sample_db"
proof -
  have "require_role_ui [ADMIN, AUDITOR] (we_auth sample_web_env) 9 sample_request sample_db = Inr sample_user"
    by (simp add: require_role_ui_def sample_web_env_def sample_session) (simp add: sample_user_def new_user_def)
  then obtain r where r: "admin_audit_page sample_web_env 9 sample_request (Some []) None None None sample_db = Inr r"
    by (simp add: admin_audit_page_def Let_def)
  from audit_page_whole [OF r] r show ?thesis by blast
qed

section \<open>The account page\<close>

lemma rows_dict_mem: "rows_dict (map (\<lambda>a. (k a, v a)) rows) i = Some w \<Longrightarrow> \<exists>a \<in> set rows. k a = i \<and> w = v a"
  by (force simp: rows_dict_def dest!: map_of_SomeD)

text \<open>The account page shows only the user's own rows. Its destinations, rules and extensions are
  exactly those of the user who asks; and a rule that points at another user's destination or
  extension does not reveal its name: the label is that of an own destination or a dash, the
  extension's name that of an own extension or missing.\<close>

theorem account_page_own:
  assumes "account_page env senv now req d = Inr r"
  shows "\<exists>u sh ctx. require_auth (we_auth env) now req d = Inr u \<and> rs_body r = Page ''account.html'' (sh, ctx) \<and>
    set (acc_destinations ctx) = destination_out_of ` {a \<in> set (db_destinations d). ad_user_id a = u_id u} \<and>
    rit_rule ` set (acc_rules ctx) = {ru \<in> set (db_rules d). ar_user_id ru = u_id u} \<and>
    eit_id ` set (acc_extensions ctx) = x_id ` {x \<in> set (db_extensions d). x_user_id x = Some (u_id u)} \<and>
    list_all (\<lambda>item.
      rit_dest_label item \<in> insert utf8_dash
        (ad_label ` {a \<in> set (db_destinations d). ad_user_id a = u_id u \<and> ad_id a = ar_destination_id (rit_rule item)}) \<and>
      rit_ext_name item \<in> insert None
        ((\<lambda>x. Some (or_default (x_name x) (x_extension_id x))) ` set (owned_extensions (u_id u) d))) (acc_rules ctx)"
proof -
  obtain u where u: "require_auth (we_auth env) now req d = Inr u"
    using assms by (auto simp: account_page_def map_sum_def split: sum.splits)
  let ?ctx = "account_context_of senv (u_id u) d"
  have page: "\<exists>sh. rs_body r = Page ''account.html'' (sh, ?ctx)"
    using assms u by (auto simp: account_page_def render_def Let_def)
  have rules: "acc_rules ?ctx = map (rule_item_of (user_destinations (u_id u) d) (user_extensions (u_id u) d)) (user_rules (u_id u) d)"
    by (simp add: account_context_of_def Let_def)
  have "set (acc_destinations ?ctx) = destination_out_of ` {a \<in> set (db_destinations d). ad_user_id a = u_id u}"
    by (simp add: account_context_of_def Let_def user_destinations_def)
  moreover have "rit_rule ` set (acc_rules ?ctx) = {ru \<in> set (db_rules d). ar_user_id ru = u_id u}"
    by (simp add: account_context_of_def Let_def user_rules_def rule_item_of_def image_image)
  moreover have "eit_id ` set (acc_extensions ?ctx) = x_id ` {x \<in> set (db_extensions d). x_user_id x = Some (u_id u)}"
    by (simp add: account_context_of_def Let_def user_extensions_def owned_extensions_def image_image)
  moreover have "rit_dest_label item \<in> insert utf8_dash
        (ad_label ` {a \<in> set (db_destinations d). ad_user_id a = u_id u \<and> ad_id a = ar_destination_id (rit_rule item)}) \<and>
      rit_ext_name item \<in> insert None
        ((\<lambda>x. Some (or_default (x_name x) (x_extension_id x))) ` set (owned_extensions (u_id u) d))"
    if item: "item \<in> set (acc_rules ?ctx)" for item
  proof -
    obtain ru where ru: "item = rule_item_of (user_destinations (u_id u) d) (user_extensions (u_id u) d) ru"
      using item rules by auto
    have "rit_dest_label item \<in> insert utf8_dash
        (ad_label ` {a \<in> set (db_destinations d). ad_user_id a = u_id u \<and> ad_id a = ar_destination_id (rit_rule item)})"
      by (auto simp: ru rule_item_of_def user_destinations_def split: option.split dest!: rows_dict_mem)
    moreover have "rit_ext_name item = None \<or>
        (\<exists>x \<in> set (user_extensions (u_id u) d). rit_ext_name item = Some (or_default (x_name x) (x_extension_id x)))"
    proof (cases "rit_ext_name item")
      case (Some w)
      then obtain i where "rows_dict (map (\<lambda>x. (x_id x, or_default (x_name x) (x_extension_id x))) (user_extensions (u_id u) d)) i = Some w"
        by (auto simp: ru rule_item_of_def split: option.splits if_splits)
      then show ?thesis using rows_dict_mem [of x_id "\<lambda>x. or_default (x_name x) (x_extension_id x)"] Some by blast
    qed simp
    ultimately show ?thesis by (auto simp: user_extensions_def)
  qed
  ultimately show ?thesis using u page by (auto simp: list_all_iff)
qed


theorem account_page_own_witness:
  "\<exists>r. account_page sample_web_env sample_sender_env 9 sample_request sample_db = Inr r \<and>
     (\<exists>sh ctx. rs_body r = Page ''account.html'' (sh, ctx) \<and> acc_extensions ctx = [])"
proof -
  obtain r where r: "account_page sample_web_env sample_sender_env 9 sample_request sample_db = Inr r"
    by (simp add: account_page_def sample_web_env_def sample_session)
  have "{x \<in> set (db_extensions sample_db). x_user_id x = Some (u_id sample_user)} = {}"
    by (simp add: sample_defs)
  with account_page_own [OF r] sample_session
  obtain sh ctx where "rs_body r = Page ''account.html'' (sh, ctx)" "eit_id ` set (acc_extensions ctx) = {}"
    by (auto simp: sample_web_env_def)
  then show ?thesis using r by auto
qed

end
