(* ===== verification/Store_Fetchers.thy ===== *)
theory Store_Fetchers
  imports Pipeline Py_Int Regex
begin

text \<open>
  The three store fetchers of \<open>app/fetchers/\<close>. The HTTP client, the zip writer, BeautifulSoup,
  pydantic's lax conversions, and the float and date parsers are the arguments in \<open>store_env\<close>; the
  requests, every status and shape check, the metadata of each store, the size cap of a download and
  what a failed download leaves are written out. Bytes are 8-bit characters.

  An exception that no fetcher catches is \<open>OtherError\<close> with its class; \<open>httpx.HTTPError\<close> is
  \<open>TransportError\<close>.
\<close>

section \<open>Environment\<close>

text \<open>A response: \<open>resp.json()\<close> has no value when the body is not JSON. A streamed body is its chunks,
  each of which can be an exception instead.\<close>

record http_answer =
  ha_status :: int
  ha_json :: "json option"
  ha_text :: string

record stream_answer =
  sa_status :: int
  sa_content_length :: "string option"
  sa_chunks :: "(exn + string) list"

text \<open>\<open>datetime.fromtimestamp(float(raw))\<close>: a time, a \<open>ValueError\<close> or \<open>OSError\<close>, or another class.\<close>

datatype moment = Moment instant | BadMoment | MomentRaised string

text \<open>What the Chrome page yields: the heading, the publisher link and the strings of the \<open>mdSapd\<close>
  block when they exist, the content of the description tag, every text node with the stripped
  text of its parent's next sibling and of its grandparent's, and, once scripts and styles are
  taken out, the text nodes and the visible text.\<close>

record text_node =
  tn_text :: string
  tn_sibling :: "string option"
  tn_uncle :: "string option"

record chrome_soup =
  cs_h1 :: "string option"
  cs_publisher_link :: "string option"
  cs_sapd :: "string list option"
  cs_description :: "string option"
  cs_nodes :: "text_node list"
  cs_texts :: "string list"
  cs_visible :: string

record store_env =
  se_get :: "string \<Rightarrow> (string \<times> string) list \<Rightarrow> exn + http_answer"
  se_post :: "string \<Rightarrow> json \<Rightarrow> (string \<times> string) list \<Rightarrow> exn + http_answer"
  se_stream :: "string \<Rightarrow> exn + stream_answer"
  se_zip :: "string \<Rightarrow> string"
  se_soup :: "string \<Rightarrow> chrome_soup"
  se_float_moment :: "json \<Rightarrow> moment"
  se_float_int :: "string \<Rightarrow> int option"
  se_fromisoformat :: "string \<Rightarrow> datetime option"
  se_strptime :: "string \<Rightarrow> string \<Rightarrow> datetime option"
  se_lax_int :: "json \<Rightarrow> int option"
  se_lax_bool :: "json \<Rightarrow> bool option"

section \<open>The shared base\<close>

definition MAX_PACKAGE_DOWNLOAD_BYTES :: int where
  "MAX_PACKAGE_DOWNLOAD_BYTES = 64 * 1024 * 1024"

definition too_large :: exn where "too_large = FetchError ''Package download too large''"

fun read_chunks :: "int \<Rightarrow> string \<Rightarrow> (exn + string) list \<Rightarrow> exn + string" where
  "read_chunks received chunks [] = Inr chunks"
| "read_chunks received chunks (Inl e # rest) = Inl e"
| "read_chunks received chunks (Inr chunk # rest) =
     (let received' = received + int (length chunk) in
      if received' > MAX_PACKAGE_DOWNLOAD_BYTES then Inl too_large
      else read_chunks received' (chunks @ chunk) rest)"

definition announced_too_large :: "string option \<Rightarrow> bool" where
  "announced_too_large content_length =
     (case content_length of
        Some (c # cs) \<Rightarrow>
          (case int_of_str (c # cs) of Some n \<Rightarrow> n > MAX_PACKAGE_DOWNLOAD_BYTES | None \<Rightarrow> False)
      | _ \<Rightarrow> False)"

definition get_package_bytes :: "store_env \<Rightarrow> string \<Rightarrow> exn + string" where
  "get_package_bytes env url =
     (case se_stream env url of
        Inl e \<Rightarrow> Inl e
      | Inr resp \<Rightarrow>
          if sa_status resp \<noteq> 200
          then Inl (FetchError (''Package download returned '' @ show_int (sa_status resp)))
          else if announced_too_large (sa_content_length resp) then Inl too_large
          else read_chunks 0 [] (sa_chunks resp))"

text \<open>\<open>except (FetchError, httpx.HTTPError)\<close>\<close>

fun caught :: "exn \<Rightarrow> bool" where
  "caught (FetchError _) = True"
| "caught (TransportError _) = True"
| "caught (OtherError _) = False"

definition best_effort :: "exn + string \<Rightarrow> string option \<Rightarrow> exn + string option" where
  "best_effort package fallback =
     (case package of Inr b \<Rightarrow> Inr (Some b) | Inl e \<Rightarrow> if caught e then Inr fallback else Inl e)"

text \<open>\<open>BaseFetcher.fetch\<close>\<close>

definition base_fetch ::
    "(string \<Rightarrow> exn + extension_metadata) \<Rightarrow> (string \<Rightarrow> exn + string) \<Rightarrow> string \<Rightarrow>
       exn + (extension_metadata \<times> string option \<times> bool)" where
  "base_fetch fetch_metadata download_package extension_id =
     (case fetch_metadata extension_id of
        Inl e \<Rightarrow> Inl e
      | Inr metadata \<Rightarrow>
          map_sum id (\<lambda>package. (metadata, package, True)) (best_effort (download_package extension_id) None))"

section \<open>Metadata from JSON\<close>

definition str_field :: "json \<Rightarrow> string option" where
  "str_field v = (case v of JStr s \<Rightarrow> Some s | _ \<Rightarrow> None)"

definition int_field :: "store_env \<Rightarrow> json \<Rightarrow> int option" where
  "int_field env v = (case v of JInt n \<Rightarrow> Some n | _ \<Rightarrow> se_lax_int env v)"

definition bool_field :: "store_env \<Rightarrow> json \<Rightarrow> bool option" where
  "bool_field env v = (case v of JBool b \<Rightarrow> Some b | _ \<Rightarrow> se_lax_bool env v)"

definition opt_field :: "(json \<Rightarrow> 'a option) \<Rightarrow> json \<Rightarrow> 'a option option" where
  "opt_field field v = (if v = JNull then Some None else map_option Some (field v))"

definition metadata_of ::
    "store_env \<Rightarrow> json \<Rightarrow> json \<Rightarrow> json \<Rightarrow> json \<Rightarrow> json \<Rightarrow> datetime option \<Rightarrow> string \<Rightarrow> json \<Rightarrow>
       exn + extension_metadata" where
  "metadata_of env nm publisher description version install_count last_updated store_url verified =
     (case (str_field nm, str_field publisher, opt_field str_field description, str_field version,
            opt_field (int_field env) install_count, opt_field (bool_field env) verified) of
        (Some n, Some p, Some de, Some v, Some i, Some b) \<Rightarrow>
          Inr \<lparr>md_name = n, md_publisher = p, md_description = de, md_version = v,
               md_install_count = i, md_last_updated = last_updated, md_store_url = store_url,
               md_publisher_verified = b\<rparr>
      | _ \<Rightarrow> Inl (OtherError ''ValidationError''))"

text \<open>\<open>a or b\<close> on decoded values.\<close>

definition py_or :: "json \<Rightarrow> json \<Rightarrow> json" where
  "py_or a b = (if truthy a then a else b)"

section \<open>Edge\<close>

definition EDGE_API_PREFIX :: string where
  "EDGE_API_PREFIX = ''https://microsoftedge.microsoft.com/addons/getproductdetailsbycrxid/''"

definition edge_api_url :: "string \<Rightarrow> string" where
  "edge_api_url extension_id = EDGE_API_PREFIX @ extension_id @ ''?hl=en-US''"

definition edge_detail_url :: "string \<Rightarrow> string" where
  "edge_detail_url extension_id = ''https://microsoftedge.microsoft.com/addons/detail/'' @ extension_id"

definition edge_download_url :: "string \<Rightarrow> string" where
  "edge_download_url extension_id =
     ''https://edge.microsoft.com/extensionwebstorebase/v1/crx?x=id%3D'' @ extension_id @
     ''%26installsource%3Dondemand&response=redirect''"

definition edge_call_api :: "store_env \<Rightarrow> string \<Rightarrow> exn + json" where
  "edge_call_api env extension_id =
     (case se_get env (edge_api_url extension_id) [] of
        Inl e \<Rightarrow> Inl e
      | Inr resp \<Rightarrow>
          if ha_status resp = 404 then Inl (FetchError (''Extension not found: '' @ extension_id))
          else if ha_status resp \<noteq> 200
          then Inl (FetchError (''Edge Add-ons API returned '' @ show_int (ha_status resp)))
          else (case ha_json resp of Some j \<Rightarrow> Inr j | None \<Rightarrow> Inl (OtherError ''JSONDecodeError'')))"

text \<open>An integer is a time of the calendar when its year has four digits; beyond that it is a
  \<open>ValueError\<close>, and outside the range of a C time an \<open>OverflowError\<close>.\<close>

definition int_moment :: "int \<Rightarrow> moment" where
  "int_moment n =
     (if -62135596800 \<le> n \<and> n < 253402300800 then Moment (n * usec_per_sec)
      else if - (2 ^ 63) \<le> n \<and> n < 2 ^ 63 then BadMoment
      else MomentRaised ''OverflowError'')"

definition moment_of :: "store_env \<Rightarrow> json \<Rightarrow> moment" where
  "moment_of env raw =
     (case raw of
        JInt n \<Rightarrow> int_moment n
      | JBool b \<Rightarrow> int_moment (if b then 1 else 0)
      | JFloat _ \<Rightarrow> se_float_moment env raw
      | JStr _ \<Rightarrow> se_float_moment env raw
      | _ \<Rightarrow> MomentRaised ''TypeError'')"

definition edge_last_updated :: "store_env \<Rightarrow> jobject \<Rightarrow> exn + datetime option" where
  "edge_last_updated env data =
     (let raw_ts = dict_get_none data ''lastUpdateDate'' in
      if raw_ts = JNull then Inr None
      else (case moment_of env raw_ts of
              Moment t \<Rightarrow> Inr (Some (Aware t))
            | BadMoment \<Rightarrow> Inr None
            | MomentRaised e \<Rightarrow> Inl (OtherError e)))"

definition edge_parse_response :: "store_env \<Rightarrow> json \<Rightarrow> string \<Rightarrow> exn + extension_metadata" where
  "edge_parse_response env data extension_id =
     (case data of
        JObj d \<Rightarrow>
          (case edge_last_updated env d of
             Inl e \<Rightarrow> Inl e
           | Inr last_updated \<Rightarrow>
               metadata_of env (py_or (dict_get_none d ''name'') (JStr extension_id))
                 (py_or (dict_get_none d ''developer'') (JStr []))
                 (py_or (dict_get_none d ''description'') (dict_get_none d ''shortDescription''))
                 (py_or (dict_get_none d ''version'') (JStr []))
                 (dict_get_none d ''activeInstallCount'') last_updated (edge_detail_url extension_id) JNull)
      | _ \<Rightarrow> Inl (OtherError ''AttributeError''))"

definition edge_fetch_metadata :: "store_env \<Rightarrow> string \<Rightarrow> exn + extension_metadata" where
  "edge_fetch_metadata env extension_id =
     (case edge_call_api env extension_id of
        Inl e \<Rightarrow> Inl e | Inr data \<Rightarrow> edge_parse_response env data extension_id)"

definition edge_download_package :: "store_env \<Rightarrow> string \<Rightarrow> exn + string" where
  "edge_download_package env extension_id = get_package_bytes env (edge_download_url extension_id)"

text \<open>\<open>_manifest_to_zip\<close> of the manifest the response embeds, which has to be a text.\<close>

definition edge_manifest_package :: "store_env \<Rightarrow> json \<Rightarrow> exn + string option" where
  "edge_manifest_package env data =
     (case data of
        JObj d \<Rightarrow>
          let manifest = (case dict_get d ''manifest'' of Some v \<Rightarrow> v | None \<Rightarrow> JStr []) in
          if \<not> truthy manifest then Inr None
          else (case manifest of JStr s \<Rightarrow> Inr (Some (se_zip env s)) | _ \<Rightarrow> Inl (OtherError ''TypeError''))
      | _ \<Rightarrow> Inr None)"

definition edge_fetch ::
    "store_env \<Rightarrow> string \<Rightarrow> exn + (extension_metadata \<times> string option \<times> bool)" where
  "edge_fetch env extension_id =
     (case edge_call_api env extension_id of
        Inl e \<Rightarrow> Inl e
      | Inr data \<Rightarrow>
          (case edge_parse_response env data extension_id of
             Inl e \<Rightarrow> Inl e
           | Inr metadata \<Rightarrow>
               (case edge_manifest_package env data of
                  Inl e \<Rightarrow> Inl e
                | Inr manifest_only \<Rightarrow>
                    (case edge_download_package env extension_id of
                       Inr b \<Rightarrow> Inr (metadata, Some b, True)
                     | Inl e \<Rightarrow>
                         if caught e then Inr (metadata, manifest_only, manifest_only = None) else Inl e))))"

section \<open>Visual Studio Code\<close>

definition GALLERY_URL :: string where
  "GALLERY_URL = ''https://marketplace.visualstudio.com/_apis/public/gallery/extensionquery''"

definition gallery_query :: "string \<Rightarrow> json" where
  "gallery_query extension_id =
     JObj [(''filters'', JArr [JObj [(''criteria'',
              JArr [JObj [(''filterType'', JInt 7), (''value'', JStr extension_id)]])]]),
           (''flags'', JInt 914)]"

definition GALLERY_HEADERS :: "(string \<times> string) list" where
  "GALLERY_HEADERS = [(''Accept'', ''application/json;api-version=7.1-preview.1''),
                      (''Content-Type'', ''application/json'')]"

text \<open>\<open>v[k]\<close> for a text key and \<open>v[0]\<close>, with the class of the exception.\<close>

definition py_key :: "json \<Rightarrow> string \<Rightarrow> string + json" where
  "py_key v k =
     (case v of
        JObj d \<Rightarrow> (case dict_get d k of Some w \<Rightarrow> Inr w | None \<Rightarrow> Inl ''KeyError'')
      | _ \<Rightarrow> Inl ''TypeError'')"

definition py_first :: "json \<Rightarrow> string + json" where
  "py_first v =
     (case v of
        JArr vs \<Rightarrow> (case vs of w # _ \<Rightarrow> Inr w | [] \<Rightarrow> Inl ''IndexError'')
      | JStr s \<Rightarrow> (case s of c # _ \<Rightarrow> Inr (JStr [c]) | [] \<Rightarrow> Inl ''IndexError'')
      | JObj _ \<Rightarrow> Inl ''KeyError''
      | _ \<Rightarrow> Inl ''TypeError'')"

definition py_bind :: "'e + 'a \<Rightarrow> ('a \<Rightarrow> 'e + 'b) \<Rightarrow> 'e + 'b" where
  "py_bind r f = (case r of Inl e \<Rightarrow> Inl e | Inr a \<Rightarrow> f a)"

definition gallery_entry :: "json \<Rightarrow> string + json" where
  "gallery_entry data =
     py_bind (py_key data ''results'') (\<lambda>results.
     py_bind (py_first results) (\<lambda>result.
     py_bind (py_key result ''extensions'') py_first))"

definition call_gallery :: "store_env \<Rightarrow> string \<Rightarrow> exn + json" where
  "call_gallery env extension_id =
     (case se_post env GALLERY_URL (gallery_query extension_id) GALLERY_HEADERS of
        Inl e \<Rightarrow> Inl e
      | Inr resp \<Rightarrow>
          if ha_status resp \<noteq> 200
          then Inl (FetchError (''Marketplace API returned '' @ show_int (ha_status resp)))
          else (case ha_json resp of
                  None \<Rightarrow> Inl (OtherError ''JSONDecodeError'')
                | Some data \<Rightarrow>
                    (case gallery_entry data of
                       Inr ext \<Rightarrow> Inr ext
                     | Inl e \<Rightarrow>
                         if e = ''KeyError'' \<or> e = ''IndexError''
                         then Inl (FetchError (''Extension not found: '' @ extension_id))
                         else Inl (OtherError e))))"

text \<open>\<open>v.get(k, dflt)\<close>\<close>

definition py_get :: "json \<Rightarrow> string \<Rightarrow> json \<Rightarrow> exn + json" where
  "py_get v k dflt =
     (case v of
        JObj d \<Rightarrow> Inr (case dict_get d k of Some w \<Rightarrow> w | None \<Rightarrow> dflt)
      | _ \<Rightarrow> Inl (OtherError ''AttributeError''))"

text \<open>\<open>for x in v\<close>: the items of a list, the characters of a text, the keys of an object.\<close>

definition py_items :: "json \<Rightarrow> exn + json list" where
  "py_items v =
     (case v of
        JArr vs \<Rightarrow> Inr vs
      | JStr s \<Rightarrow> Inr (map (\<lambda>c. JStr [c]) s)
      | JObj d \<Rightarrow> Inr (map (\<lambda>(k, _). JStr k) d)
      | _ \<Rightarrow> Inl (OtherError ''TypeError''))"

definition py_int_of :: "store_env \<Rightarrow> json \<Rightarrow> exn + int" where
  "py_int_of env v =
     (let from = (\<lambda>r. case r of Some n \<Rightarrow> Inr n | None \<Rightarrow> Inl (OtherError ''ValueError'')) in
      case v of
        JInt n \<Rightarrow> Inr n
      | JBool b \<Rightarrow> Inr (if b then 1 else 0)
      | JFloat r \<Rightarrow> from (se_float_int env r)
      | JStr s \<Rightarrow> from (int_of_str s)
      | _ \<Rightarrow> Inl (OtherError ''TypeError''))"

fun install_statistic :: "store_env \<Rightarrow> json list \<Rightarrow> exn + int option" where
  "install_statistic env [] = Inr None"
| "install_statistic env (stat # stats) =
     py_bind (py_get stat ''statisticName'' JNull) (\<lambda>nm.
       if nm = JStr ''install''
       then py_bind (py_get stat ''value'' (JInt 0)) (\<lambda>v. map_sum id Some (py_int_of env v))
       else install_statistic env stats)"

text \<open>\<open>versions[0] if versions else {}\<close>\<close>

definition latest_version :: "json \<Rightarrow> exn + json" where
  "latest_version ext =
     py_bind (py_get ext ''versions'' (JArr [JObj []])) (\<lambda>versions.
       if \<not> truthy versions then Inr (JObj [])
       else (case py_first versions of Inr v \<Rightarrow> Inr v | Inl e \<Rightarrow> Inl (OtherError e)))"

definition vscode_last_updated :: "store_env \<Rightarrow> json \<Rightarrow> exn + datetime option" where
  "vscode_last_updated env raw_date =
     (if \<not> truthy raw_date then Inr None
      else (case raw_date of
              JStr s \<Rightarrow> Inr (se_fromisoformat env s)
            | _ \<Rightarrow> Inl (OtherError ''TypeError'')))"

definition vscode_parse_metadata :: "store_env \<Rightarrow> json \<Rightarrow> string \<Rightarrow> exn + extension_metadata" where
  "vscode_parse_metadata env ext extension_id =
     py_bind (py_get ext ''publisher'' (JObj [])) (\<lambda>publisher.
     py_bind (latest_version ext) (\<lambda>latest.
     py_bind (py_get ext ''statistics'' (JArr [])) (\<lambda>statistics.
     py_bind (py_items statistics) (\<lambda>stats.
     py_bind (install_statistic env stats) (\<lambda>install_count.
     py_bind (py_get latest ''lastUpdated'' JNull) (\<lambda>raw_date.
     py_bind (vscode_last_updated env raw_date) (\<lambda>last_updated.
     py_bind (py_get ext ''displayName'' JNull) (\<lambda>display_name.
     py_bind (py_get publisher ''publisherName'' (JStr [])) (\<lambda>publisher_name.
     py_bind (py_get ext ''shortDescription'' JNull) (\<lambda>description.
     py_bind (py_get latest ''version'' (JStr [])) (\<lambda>version.
     py_bind (py_get publisher ''isDomainVerified'' JNull) (\<lambda>verified.
       metadata_of env (py_or display_name (JStr extension_id)) publisher_name description version
         (case install_count of Some n \<Rightarrow> JInt n | None \<Rightarrow> JNull) last_updated
         (''https://marketplace.visualstudio.com/items?itemName='' @ extension_id) verified))))))))))))"

fun vsix_source :: "string \<Rightarrow> json list \<Rightarrow> exn + json" where
  "vsix_source extension_id [] = Inl (FetchError (''No VSIX asset found for '' @ extension_id))"
| "vsix_source extension_id (f # files) =
     py_bind (py_get f ''assetType'' JNull) (\<lambda>asset.
       if asset = JStr ''Microsoft.VisualStudio.Services.VSIXPackage''
       then py_bind (py_get f ''source'' JNull) (\<lambda>url.
              if truthy url then Inr url else vsix_source extension_id files)
       else vsix_source extension_id files)"

definition vsix_url :: "json \<Rightarrow> string \<Rightarrow> exn + json" where
  "vsix_url ext extension_id =
     py_bind (latest_version ext) (\<lambda>latest.
     py_bind (py_get latest ''files'' (JArr [])) (\<lambda>files.
     py_bind (py_items files) (vsix_source extension_id)))"

definition vsix_package :: "store_env \<Rightarrow> json \<Rightarrow> string \<Rightarrow> exn + string" where
  "vsix_package env ext extension_id =
     py_bind (vsix_url ext extension_id) (\<lambda>url.
       case url of JStr u \<Rightarrow> get_package_bytes env u | _ \<Rightarrow> Inl (OtherError ''TypeError''))"

definition vscode_fetch_metadata :: "store_env \<Rightarrow> string \<Rightarrow> exn + extension_metadata" where
  "vscode_fetch_metadata env extension_id =
     py_bind (call_gallery env extension_id) (\<lambda>ext. vscode_parse_metadata env ext extension_id)"

definition vscode_download_package :: "store_env \<Rightarrow> string \<Rightarrow> exn + string" where
  "vscode_download_package env extension_id =
     py_bind (call_gallery env extension_id) (\<lambda>ext. vsix_package env ext extension_id)"

definition vscode_fetch ::
    "store_env \<Rightarrow> string \<Rightarrow> exn + (extension_metadata \<times> string option \<times> bool)" where
  "vscode_fetch env extension_id =
     py_bind (call_gallery env extension_id) (\<lambda>ext.
     py_bind (vscode_parse_metadata env ext extension_id) (\<lambda>metadata.
       map_sum id (\<lambda>package. (metadata, package, True))
         (best_effort (vsix_package env ext extension_id) None)))"

section \<open>Chrome\<close>

definition chrome_detail_url :: "string \<Rightarrow> string" where
  "chrome_detail_url extension_id = ''https://chromewebstore.google.com/detail/'' @ extension_id @ ''?hl=en''"

definition chrome_download_url :: "string \<Rightarrow> string" where
  "chrome_download_url extension_id =
     ''https://clients2.google.com/service/update2/crx?response=redirect&prodversion=130.0&acceptformat=crx3&x=id%3D'' @
     extension_id @ ''%26uc''"

definition DATE_FORMATS :: "string list" where
  "DATE_FORMATS = [''%B %d, %Y'', ''%b %d, %Y'', ''%Y-%m-%d'']"

fun first_some :: "('a \<Rightarrow> 'b option) \<Rightarrow> 'a list \<Rightarrow> 'b option" where
  "first_some f [] = None"
| "first_some f (x # xs) = (case f x of Some y \<Rightarrow> Some y | None \<Rightarrow> first_some f xs)"

definition parse_date :: "store_env \<Rightarrow> string \<Rightarrow> datetime option" where
  "parse_date env raw = (if raw = [] then None else first_some (se_strptime env (strip raw)) DATE_FORMATS)"

text \<open>\<open>^\s*label\s*$\<close>, and the label anywhere in the text, ignoring case.\<close>

definition is_label :: "string \<Rightarrow> string \<Rightarrow> bool" where
  "is_label label node = rx_match (seqs [spaces, lit_nocase label, spaces, End]) node"

definition has_label :: "string \<Rightarrow> string \<Rightarrow> bool" where
  "has_label label node = rx_found (lit_nocase label) node"

text \<open>The value beside a node: the text of its parent's next sibling, or else of its grandparent's.\<close>

definition node_value :: "text_node \<Rightarrow> string option" where
  "node_value n =
     (case tn_sibling n of
        Some (c # cs) \<Rightarrow> Some (c # cs)
      | _ \<Rightarrow> (case tn_uncle n of Some (c # cs) \<Rightarrow> Some (c # cs) | _ \<Rightarrow> None))"

definition find_detail_value :: "chrome_soup \<Rightarrow> string \<Rightarrow> bool \<Rightarrow> string" where
  "find_detail_value soup label exact =
     (case first_some node_value
             (filter (\<lambda>n. (if exact then is_label else has_label) label (tn_text n)) (cs_nodes soup)) of
        Some t \<Rightarrow> t | None \<Rightarrow> [])"

text \<open>\<open>[0-9][0-9.]*\<close>, and the whole text \<open>Version : x\<close>.\<close>

definition is_version :: "string \<Rightarrow> bool" where
  "is_version s =
     (case s of [] \<Rightarrow> False | c # cs \<Rightarrow> is_digit_ascii c \<and> list_all (\<lambda>x. is_digit_ascii x \<or> x = CHR ''.'') cs)"

definition inline_version :: "string \<Rightarrow> string option" where
  "inline_version node =
     (let t = strip node in
      if starts_with t ''Version'' then
        (case dropWhile is_py_space (drop 7 t) of
           c # rest \<Rightarrow>
             if c = CHR '':'' \<and> is_version (dropWhile is_py_space rest)
             then Some (dropWhile is_py_space rest) else None
         | [] \<Rightarrow> None)
      else None)"

text \<open>The text nodes after the first node that is one of the two labels, the first label first.\<close>

fun after_first :: "('a \<Rightarrow> bool) \<Rightarrow> 'a list \<Rightarrow> 'a list option" where
  "after_first p [] = None"
| "after_first p (x # xs) = (if p x then Some xs else after_first p xs)"

definition after_anchor :: "string list \<Rightarrow> string list option" where
  "after_anchor texts = first_some (\<lambda>label. after_first (is_label label) texts) [''Updated'', ''Offered by'']"

definition inline_fallback :: "string list \<Rightarrow> string" where
  "inline_fallback texts =
     (let candidates = List.map_filter inline_version texts in
      if candidates = [] then []
      else (case after_anchor texts of
              Some after \<Rightarrow> (case first_some inline_version after of Some v \<Rightarrow> v | None \<Rightarrow> [])
            | None \<Rightarrow> last candidates))"

definition chrome_version :: "chrome_soup \<Rightarrow> string" where
  "chrome_version soup =
     (let labelled = find_detail_value soup ''version'' True in
      if is_version labelled then labelled else inline_fallback (cs_texts soup))"

definition is_count_char :: "char \<Rightarrow> bool" where
  "is_count_char c \<longleftrightarrow> is_digit_ascii c \<or> c = CHR '',''"

definition users_rx :: rx where
  "users_rx = seqs [plus is_count_char, spaces1, lit_nocase ''user'', opt (lit_nocase ''s'')]"

text \<open>The group of the match is the whole run of digits and commas: what follows it has to be a
  space.\<close>

definition chrome_install_count :: "string \<Rightarrow> int option" where
  "chrome_install_count visible =
     (case rx_search users_rx visible of
        None \<Rightarrow> None
      | Some i \<Rightarrow> int_of_str (filter (\<lambda>c. c \<noteq> CHR '','') (takeWhile is_count_char (drop i visible))))"

definition chrome_publisher :: "chrome_soup \<Rightarrow> string" where
  "chrome_publisher soup =
     (case cs_publisher_link soup of
        Some t \<Rightarrow> t
      | None \<Rightarrow>
          (case cs_sapd soup of
             Some strings \<Rightarrow> strip (case strings of t # _ \<Rightarrow> t | [] \<Rightarrow> [])
           | None \<Rightarrow> find_detail_value soup ''offered by'' False))"

definition chrome_parse_page :: "store_env \<Rightarrow> string \<Rightarrow> string \<Rightarrow> string \<Rightarrow> extension_metadata" where
  "chrome_parse_page env html extension_id url =
     (let soup = se_soup env html in
      \<lparr>md_name = (case cs_h1 soup of Some t \<Rightarrow> t | None \<Rightarrow> extension_id),
       md_publisher = chrome_publisher soup, md_description = cs_description soup,
       md_version = chrome_version soup, md_install_count = chrome_install_count (cs_visible soup),
       md_last_updated = parse_date env (find_detail_value soup ''updated'' False),
       md_store_url = url, md_publisher_verified = None\<rparr>)"

definition chrome_fetch_metadata :: "store_env \<Rightarrow> string \<Rightarrow> exn + extension_metadata" where
  "chrome_fetch_metadata env extension_id =
     (let url = chrome_detail_url extension_id in
      case se_get env url [(''Accept-Language'', ''en-US,en'')] of
        Inl e \<Rightarrow> Inl e
      | Inr resp \<Rightarrow>
          if ha_status resp = 404 then Inl (FetchError (''Extension not found: '' @ extension_id))
          else if ha_status resp \<noteq> 200
          then Inl (FetchError (''Chrome Web Store returned '' @ show_int (ha_status resp)))
          else Inr (chrome_parse_page env (ha_text resp) extension_id url))"

definition chrome_download_package :: "store_env \<Rightarrow> string \<Rightarrow> exn + string" where
  "chrome_download_package env extension_id = get_package_bytes env (chrome_download_url extension_id)"

definition chrome_fetch ::
    "store_env \<Rightarrow> string \<Rightarrow> exn + (extension_metadata \<times> string option \<times> bool)" where
  "chrome_fetch env = base_fetch (chrome_fetch_metadata env) (chrome_download_package env)"

section \<open>The registry\<close>

text \<open>The fetchers as the environment of the pipeline.\<close>

definition store_fetcher ::
    "store_env \<Rightarrow> string \<Rightarrow> string \<Rightarrow> exn + (extension_metadata \<times> string option \<times> bool)" where
  "store_fetcher env store =
     (if store = ''chrome'' then chrome_fetch env
      else if store = ''vscode'' then vscode_fetch env
      else edge_fetch env)"

definition fetch_env_of ::
    "store_env \<Rightarrow> (string \<Rightarrow> string) \<Rightarrow> (string \<Rightarrow> inspect_exn + package_analysis) \<Rightarrow> fetch_env" where
  "fetch_env_of env psl inspect = \<lparr>fe_psl = psl, fe_fetch = store_fetcher env, fe_inspect = inspect\<rparr>"

section \<open>Downloads\<close>

lemma read_chunks_Inr:
  "n \<le> MAX_PACKAGE_DOWNLOAD_BYTES \<Longrightarrow>
   read_chunks n acc cs = Inr b \<longleftrightarrow>
     list_all (\<lambda>c. \<not> isl c) cs \<and> b = acc @ concat (map projr cs) \<and>
     n + int (length (concat (map projr cs))) \<le> MAX_PACKAGE_DOWNLOAD_BYTES"
  by (induction n acc cs rule: read_chunks.induct) (auto simp: Let_def too_large_def)

text \<open>A package is downloaded whole or not at all. The bytes handed on are exactly the body: all
  its chunks in order, of a response with status 200 that did not announce more than the limit,
  and never more than 64 MiB; every other response, an oversized body and a body that breaks off
  are errors.\<close>

theorem package_bytes_exact:
  "get_package_bytes env url = Inr b \<longleftrightarrow>
     (\<exists>resp. se_stream env url = Inr resp \<and> sa_status resp = 200 \<and>
        \<not> announced_too_large (sa_content_length resp) \<and> list_all (\<lambda>c. \<not> isl c) (sa_chunks resp) \<and>
        b = concat (map projr (sa_chunks resp)) \<and> int (length b) \<le> 67108864)"
  using read_chunks_Inr [of 0 "[]" _ b]
  by (auto simp: get_package_bytes_def MAX_PACKAGE_DOWNLOAD_BYTES_def too_large_def split: sum.splits if_splits)

section \<open>The version of a Chrome page\<close>

lemma after_first_skip: "list_all (\<lambda>t. \<not> p t) pre \<Longrightarrow> after_first p (pre @ ys) = after_first p ys"
  by (induction pre) auto

lemma first_some_mem: "first_some f xs = Some y \<Longrightarrow> \<exists>x \<in> set xs. f x = Some y"
  by (induction xs) (auto split: option.splits)

lemma inline_version_is_version: "inline_version t = Some v \<Longrightarrow> is_version v"
  by (auto simp: inline_version_def Let_def split: list.splits if_splits)

lemma inline_fallback_version: "inline_fallback texts = [] \<or> is_version (inline_fallback texts)"
proof (cases "List.map_filter inline_version texts = []")
  case False
  then have "\<exists>t. inline_version t = Some (last (List.map_filter inline_version texts))"
    using last_in_set [OF False] by (auto simp: List.map_filter_def)
  then have "is_version (last (List.map_filter inline_version texts))" using inline_version_is_version by blast
  moreover have "is_version v" if "first_some inline_version after = Some v" for after v
    using first_some_mem [OF that] inline_version_is_version by blast
  ultimately show ?thesis using False
    by (auto simp: inline_fallback_def Let_def split: option.split)
qed (simp add: inline_fallback_def)

definition page_label :: "string \<Rightarrow> bool" where
  "page_label t \<longleftrightarrow> is_label ''Updated'' t \<or> is_label ''Offered by'' t"

lemma after_anchor_skip:
  assumes "list_all (\<lambda>t. \<not> page_label t) pre"
  shows "after_anchor (pre @ ys) = after_anchor ys"
proof -
  have "list_all (\<lambda>t. \<not> is_label ''Updated'' t) pre" "list_all (\<lambda>t. \<not> is_label ''Offered by'' t) pre"
    using assms by (auto simp: list_all_iff page_label_def)
  then show ?thesis by (simp add: after_anchor_def after_first_skip cong: option.case_cong)
qed

lemma after_anchor_found: "page_label t \<Longrightarrow> after_anchor (t # post) \<noteq> None"
proof -
  have "after_first p (t # post) \<noteq> None" if "p t" for p using that by simp
  moreover assume "page_label t"
  ultimately show ?thesis by (auto simp: after_anchor_def page_label_def split: option.split)
qed

lemma after_first_suffix: "after_first p xs = Some ys \<Longrightarrow> set ys \<subseteq> set xs"
  by (induction xs) (auto split: if_splits)

lemma after_anchor_suffix: "after_anchor xs = Some ys \<Longrightarrow> set ys \<subseteq> set xs"
  using first_some_mem after_first_suffix unfolding after_anchor_def by fast

lemma map_filter_Nil: "List.map_filter f xs = [] \<longleftrightarrow> (\<forall>x \<in> set xs. f x = None)"
  by (induction xs) (auto simp: List.map_filter_simps split: option.split)

lemma inline_fallback_anchored:
  assumes "list_all (\<lambda>t. \<not> page_label t) pre" "page_label anchor"
  shows "inline_fallback (pre @ anchor # post) =
    (case first_some inline_version (the (after_anchor (anchor # post))) of Some v \<Rightarrow> v | None \<Rightarrow> [])"
proof -
  obtain ys where ys: "after_anchor (anchor # post) = Some ys" using after_anchor_found [OF assms(2)] by auto
  show ?thesis
  proof (cases "List.map_filter inline_version (pre @ anchor # post) = []")
    case True
    then have "inline_version t = None" if "t \<in> set ys" for t
      using that after_anchor_suffix [OF ys] by (auto simp: map_filter_Nil)
    then have "first_some inline_version ys = None" by (induction ys) auto
    then show ?thesis using True ys by (simp add: inline_fallback_def)
  next
    case False
    then show ?thesis using ys by (simp add: inline_fallback_def Let_def after_anchor_skip [OF assms(1)])
  qed
qed


definition sample_soup :: chrome_soup where
  "sample_soup =
     \<lparr>cs_h1 = Some ''Tabs'', cs_publisher_link = None, cs_sapd = None, cs_description = None, cs_nodes = [],
      cs_texts = [''Tabs'', ''New in Version 9.9.9'', '' Updated '', ''May 1, 2026'', ''Version: 1.2''],
      cs_visible = ''1,000 users''\<rparr>"



section \<open>Failed downloads\<close>

lemma best_effort_none:
  "best_effort r None = Inr (Some b) \<Longrightarrow> r = Inr b"
  by (auto simp: best_effort_def split: sum.splits if_splits)

lemma store_fetcher_package:
  assumes "store_fetcher env store i = Inr (md, Some b, complete)"
  shows "(\<exists>u. get_package_bytes env u = Inr b) \<or>
    (store \<noteq> ''chrome'' \<and> store \<noteq> ''vscode'' \<and> \<not> complete \<and> (\<exists>s. b = se_zip env s))"
proof -
  consider (chrome) "store = ''chrome''" | (vscode) "store = ''vscode''" | (edge) "store \<noteq> ''chrome''" "store \<noteq> ''vscode''"
    by blast
  then show ?thesis
  proof cases
    case chrome
    then have "best_effort (chrome_download_package env i) None = Inr (Some b)"
      using assms by (auto simp: store_fetcher_def chrome_fetch_def base_fetch_def map_sum_def split: sum.splits)
    then show ?thesis by (auto dest!: best_effort_none simp: chrome_download_package_def)
  next
    case vscode
    then obtain ext where "best_effort (vsix_package env ext i) None = Inr (Some b)"
      using assms by (auto simp: store_fetcher_def vscode_fetch_def py_bind_def map_sum_def split: sum.splits)
    then show ?thesis
      by (auto dest!: best_effort_none simp: vsix_package_def py_bind_def split: sum.splits json.splits)
  next
    case edge
    then show ?thesis using assms
      by (auto simp: store_fetcher_def edge_fetch_def edge_download_package_def edge_manifest_package_def Let_def
          split: sum.splits if_splits json.splits option.splits)
  qed
qed


lemma store_fetch_no_snapshot:
  assumes "store_fetch env now md a x d = (x', new, d')" "case a of None \<Rightarrow> True | Some an \<Rightarrow> \<not> pa_analysis_complete an"
  shows "db_snapshots d' = db_snapshots d"
proof -
  obtain evs d3 where m: "merge_pending_events (fetched_row env now md a x d) evs d3 = (x', new, d')"
    and d3: "d3 = add_fetch_log now (x_id x) True False None (x_risk_score x) (x_risk_score (fetched_row env now md a x d))
       (snd (capture_package_snapshot now (fetched_row env now md a x d) a (snd (stage_install_reading now x md d))))"
    using store_fetch_decompose [OF assms(1)] by blast
  have "db_snapshots d3 = db_snapshots d"
    using assms(2) by (auto simp: d3 capture_db add_fetch_log_def stage_install_reading_def Let_def split: option.splits)
  then show ?thesis using m by (auto simp: merge_pending_events_def Let_def split: prod.splits)
qed

text \<open>C37: a package that was not downloaded leaves no trace as one. When every download of a refresh
  fails, what the store's answer alone gives is at most Edge's embedded manifest, and its analysis
  is marked incomplete; so the transaction that stores the refresh adds no package snapshot and
  changes none, for any store, page, metadata and inspector.\<close>

theorem degraded_never_snapshot:
  assumes "\<forall>url b. get_package_bytes env url \<noteq> Inr b"
    and "x_store x \<in> {''chrome'', ''vscode'', ''edge''}"
    and "fetch_and_inspect (fetch_env_of env psl inspect) x = Inr (md, a)"
    and "store_fetch (fetch_env_of env psl inspect) now md a x d = (x', new, d')"
  shows "(a = None \<or> (x_store x = ''edge'' \<and> \<not> pa_analysis_complete (the a))) \<and> db_snapshots d' = db_snapshots d"
proof -
  have known: "get_fetcher (fetch_env_of env psl inspect) (x_store x) = Inr (store_fetcher env (x_store x))"
    using assms(2) by (auto simp: get_fetcher_def fetch_env_of_def)
  have a: "a = None \<or> (x_store x = ''edge'' \<and> \<not> pa_analysis_complete (the a))"
  proof (cases a)
    case (Some an)
    then obtain b bs complete where "store_fetcher env (x_store x) (x_extension_id x) = Inr (md, Some (b # bs), complete)"
        "pa_analysis_complete an = complete"
      using assms(3) known
      by (auto simp: fetch_and_inspect_def split: sum.splits option.splits list.splits inspect_exn.splits)
    then show ?thesis using store_fetcher_package assms(1,2) Some by fastforce
  qed simp
  then have "case a of None \<Rightarrow> True | Some an \<Rightarrow> \<not> pa_analysis_complete an" by (auto split: option.split)
  then show ?thesis using a store_fetch_no_snapshot [OF assms(4)] by blast
qed

definition sample_store :: store_env where
  "sample_store =
     \<lparr>se_get = (\<lambda>_ _. Inr \<lparr>ha_status = 200,
         ha_json = Some (JObj [(''name'', JStr ''Tabs''), (''version'', JStr ''2.0''), (''manifest'', JStr ''{}''),
                               (''lastUpdateDate'', JInt 1000)]), ha_text = []\<rparr>),
      se_post = (\<lambda>_ _ _. Inl (TransportError [])),
      se_stream = (\<lambda>_. Inr \<lparr>sa_status = 500, sa_content_length = None, sa_chunks = []\<rparr>),
      se_zip = (\<lambda>s. CHR ''P'' # s), se_soup = (\<lambda>_. sample_soup), se_float_moment = (\<lambda>_. BadMoment),
      se_float_int = (\<lambda>_. None), se_fromisoformat = (\<lambda>_. None), se_strptime = (\<lambda>_ _. None),
      se_lax_int = (\<lambda>_. None), se_lax_bool = (\<lambda>_. None)\<rparr>"

theorem degraded_never_snapshot_witness:
  "\<exists>md an. fetch_and_inspect (fetch_env_of sample_store id (\<lambda>_. Inr empty_analysis)) (sample_extension\<lparr>x_store := ''edge''\<rparr>) = Inr (md, Some an) \<and>
     md_version md = ''2.0'' \<and> \<not> pa_analysis_complete an \<and>
     db_snapshots (snd (snd (store_fetch (fetch_env_of sample_store id (\<lambda>_. Inr empty_analysis)) 5 md (Some an)
       (sample_extension\<lparr>x_store := ''edge''\<rparr>) empty_db))) = []"
proof -
  let ?x = "sample_extension\<lparr>x_store := ''edge''\<rparr>"
  let ?env = "fetch_env_of sample_store id (\<lambda>_. Inr empty_analysis)"
  have fails: "\<forall>url b. get_package_bytes sample_store url \<noteq> Inr b"
    by (simp add: get_package_bytes_def sample_store_def)
  obtain md an where f: "fetch_and_inspect ?env ?x = Inr (md, Some an)" and v: "md_version md = ''2.0''"
    by (simp add: fetch_and_inspect_def get_fetcher_def fetch_env_of_def store_fetcher_def edge_fetch_def edge_call_api_def
        edge_parse_response_def edge_last_updated_def moment_of_def int_moment_def metadata_of_def py_or_def str_field_def
        opt_field_def edge_manifest_package_def edge_download_package_def get_package_bytes_def sample_store_def
        dict_get_none_def dict_get_def Let_def)
  obtain x' new d' where s: "store_fetch ?env 5 md (Some an) ?x empty_db = (x', new, d')" by (metis prod_cases3)
  from degraded_never_snapshot [OF fails _ f s]
  have "\<not> pa_analysis_complete an \<and> db_snapshots d' = db_snapshots empty_db" by simp
  then show ?thesis using f v s by (auto simp: empty_db_def)
qed

text \<open>A time stamp beyond the C range is not caught: the whole refresh fails.\<close>

lemma edge_timestamp_overflow:
  "edge_parse_response env (JObj [(''lastUpdateDate'', JInt (2 ^ 63))]) i = Inl (OtherError ''OverflowError'')"
  by (simp add: edge_parse_response_def edge_last_updated_def moment_of_def int_moment_def dict_get_none_def Let_def)

end
