(* ===== verification/Feed_Download.thy ===== *)
theory Feed_Download
  imports Scheduler Webhooks
begin

text \<open>
  The download of the threat feed in \<open>app/threat_feed.py\<close>: the pinned request of Webhooks, the status
  and the capped body, \<open>json.loads\<close> and the parser of Threats; and the scheduler's refresh job on
  what it gives. The HTTP client and the decoder are arguments.
\<close>

definition MAX_FEED_BYTES :: int where "MAX_FEED_BYTES = 2 * 1024 * 1024"

text \<open>A streamed response, with the exception that breaks the body off; and a decoded body.\<close>

record feed_answer =
  fa_status :: int
  fa_chunks :: "(string + string) list"

datatype feed_body = FeedJson json | FeedBadJson | FeedBodyRaised string

datatype feed_error =
    FeedUrl webhook_exn
  | FeedTransport string
  | FeedStatus int
  | FeedTooBig
  | FeedNotJson
  | FeedDecoder string
  | FeedRows threat_error

fun read_feed :: "int \<Rightarrow> string \<Rightarrow> (string + string) list \<Rightarrow> feed_error + string" where
  "read_feed received chunks [] = Inr chunks"
| "read_feed received chunks (Inl e # rest) = Inl (FeedTransport e)"
| "read_feed received chunks (Inr chunk # rest) =
     (let received' = received + int (length chunk) in
      if received' > MAX_FEED_BYTES then Inl FeedTooBig
      else read_feed received' (chunks @ chunk) rest)"

text \<open>\<open>raise_for_status\<close> refuses every status outside 200 to 299, redirects included.\<close>

definition feed_body_of :: "(string \<Rightarrow> feed_body) \<Rightarrow> feed_answer \<Rightarrow> feed_error + json" where
  "feed_body_of decode response =
     (if fa_status response < 200 \<or> fa_status response > 299 then Inl (FeedStatus (fa_status response))
      else (case read_feed 0 [] (fa_chunks response) of
              Inl e \<Rightarrow> Inl e
            | Inr body \<Rightarrow>
                (case decode body of
                   FeedJson payload \<Rightarrow> Inr payload
                 | FeedBadJson \<Rightarrow> Inl FeedNotJson
                 | FeedBodyRaised e \<Rightarrow> Inl (FeedDecoder e))))"

definition fetch_threat_feed ::
    "resolver \<Rightarrow> (pinned_request \<Rightarrow> string + feed_answer) \<Rightarrow> (string \<Rightarrow> feed_body) \<Rightarrow> string \<Rightarrow> string \<Rightarrow>
       feed_error + threat_entry_input list" where
  "fetch_threat_feed getaddrinfo client decode url default_source =
     (case threat_feed_request getaddrinfo url of
        Inl e \<Rightarrow> Inl (FeedUrl e)
      | Inr req \<Rightarrow>
          (case client req of
             Inl e \<Rightarrow> Inl (FeedTransport e)
           | Inr response \<Rightarrow>
               (case feed_body_of decode response of
                  Inl e \<Rightarrow> Inl e
                | Inr payload \<Rightarrow>
                    (case parse_feed_payload payload default_source of
                       Inl e \<Rightarrow> Inl (FeedRows e)
                     | Inr inputs \<Rightarrow> Inr inputs))))"

text \<open>The job: any exception of the download leaves the stored list.\<close>

definition threat_feed_job ::
    "resolver \<Rightarrow> (pinned_request \<Rightarrow> string + feed_answer) \<Rightarrow> (string \<Rightarrow> feed_body) \<Rightarrow> string \<Rightarrow> string \<Rightarrow>
       (int \<Rightarrow> delivery_env) \<Rightarrow> instant \<Rightarrow> db \<Rightarrow> db" where
  "threat_feed_job getaddrinfo client decode url default_source env now d =
     refresh_threat_feed url (map_sum (\<lambda>_. ()) id (fetch_threat_feed getaddrinfo client decode url default_source)) env now d"

section \<open>Laws\<close>

lemma read_feed_Inr:
  "n \<le> MAX_FEED_BYTES \<Longrightarrow>
   read_feed n acc cs = Inr b \<longleftrightarrow>
     list_all (\<lambda>c. \<not> isl c) cs \<and> b = acc @ concat (map projr cs) \<and>
     n + int (length (concat (map projr cs))) \<le> MAX_FEED_BYTES"
  by (induction n acc cs rule: read_feed.induct) (auto simp: Let_def)

lemma feed_body_of_Inr:
  "feed_body_of decode r = Inr payload \<Longrightarrow>
     200 \<le> fa_status r \<and> fa_status r \<le> 299 \<and> list_all (\<lambda>c. \<not> isl c) (fa_chunks r) \<and>
     int (length (concat (map projr (fa_chunks r)))) \<le> MAX_FEED_BYTES \<and>
     decode (concat (map projr (fa_chunks r))) = FeedJson payload"
proof -
  assume "feed_body_of decode r = Inr payload"
  then obtain body where b: "200 \<le> fa_status r" "fa_status r \<le> 299" "read_feed 0 [] (fa_chunks r) = Inr body"
      "decode body = FeedJson payload"
    by (simp add: feed_body_of_def split: if_splits sum.splits feed_body.splits)
  have "0 \<le> MAX_FEED_BYTES" by (simp add: MAX_FEED_BYTES_def)
  from read_feed_Inr [OF this, THEN iffD1, OF b(3)] b show ?thesis by simp
qed

lemma threat_feed_request_pinned:
  assumes "threat_feed_request g url = Inr rq"
  shows "pr_method rq = ''GET'' \<and> \<not> pr_follow_redirects rq \<and>
    (\<exists>ip a p port. ip_address ip = Some a \<and> public_ip a \<and> urlparse url = Some p \<and> url_port p = Some port \<and>
       pr_url rq = pin_url p ip port)"
proof -
  obtain ips where v: "validate_webhook_url g url = Inr ips"
    using assms by (auto simp: threat_feed_request_def split: sum.splits)
  obtain p port where p: "urlparse url = Some p" "url_port p = Some port" "pr_url rq = pin_url p (hd ips) port"
      "pr_method rq = ''GET''" "\<not> pr_follow_redirects rq"
    using assms v by (auto simp: threat_feed_request_def split: option.splits)
  obtain a where "ip_address (hd ips) = Some a" "public_ip a"
    by (rule validate_webhook_url_cases [OF v]) (use hd_in_set in blast)
  then show ?thesis using p by blast
qed

text \<open>C38: the feed job acts only on a feed it may trust. When a run changes anything, it sent one GET
  request, without following redirects, to a validated public address of the configured host; the
  answer was a success of at most 2 MiB; and the whole body decoded to a payload whose rows are all
  valid. In every other case, errors of any kind included, the database is left as it was.\<close>

theorem threat_feed_job_safe:
  assumes "threat_feed_job g client decode url src env now d \<noteq> d"
  shows "\<exists>rq r payload inputs.
    threat_feed_request g url = Inr rq \<and> pr_method rq = ''GET'' \<and> \<not> pr_follow_redirects rq \<and>
    (\<exists>ip a p port. ip_address ip = Some a \<and> public_ip a \<and> urlparse url = Some p \<and> url_port p = Some port \<and>
       pr_url rq = pin_url p ip port) \<and>
    client rq = Inr r \<and> 200 \<le> fa_status r \<and> fa_status r \<le> 299 \<and>
    int (length (concat (map projr (fa_chunks r)))) \<le> 2097152 \<and>
    decode (concat (map projr (fa_chunks r))) = FeedJson payload \<and>
    parse_feed_payload payload src = Inr inputs \<and>
    threat_feed_job g client decode url src env now d =
      (let (transitions, d') = ingest_entries now inputs d in fire_transitions env now transitions d')"
proof -
  obtain inputs where f: "fetch_threat_feed g client decode url src = Inr inputs"
    using assms by (cases "fetch_threat_feed g client decode url src")
      (auto simp: threat_feed_job_def refresh_threat_feed_def split: if_splits)
  obtain rq r payload where r: "threat_feed_request g url = Inr rq" "client rq = Inr r"
      "feed_body_of decode r = Inr payload" "parse_feed_payload payload src = Inr inputs"
    using f by (auto simp: fetch_threat_feed_def split: sum.splits)
  have "url \<noteq> []" using assms by (auto simp: threat_feed_job_def refresh_threat_feed_def)
  then have "threat_feed_job g client decode url src env now d =
      (let (transitions, d') = ingest_entries now inputs d in fire_transitions env now transitions d')"
    using f by (simp add: threat_feed_job_def refresh_threat_feed_def)
  then show ?thesis
    using r threat_feed_request_pinned [OF r(1)] feed_body_of_Inr [OF r(3)] by (auto simp: MAX_FEED_BYTES_def)
qed

theorem threat_feed_job_safe_witness:
  "map tl_extension_id (db_threats (threat_feed_job (\<lambda>_ _. GaiError) (\<lambda>_. Inr \<lparr>fa_status = 200, fa_chunks = [Inr ''x'']\<rparr>)
       (\<lambda>_. FeedJson (JArr [JObj [(''store'', JStr ''edge''), (''extension_id'', JStr (replicate 32 (CHR ''a'')))]]))
       ''https://8.8.8.8/feed'' ''ops'' (\<lambda>_. sample_delivery) 5 empty_db)) = [replicate 32 (CHR ''a'')] \<and>
   (\<exists>rq. threat_feed_request (\<lambda>_ _. GaiError) ''https://8.8.8.8/feed'' = Inr rq \<and> \<not> pr_follow_redirects rq)"
proof -
  let ?job = "threat_feed_job (\<lambda>_ _. GaiError) (\<lambda>_. Inr \<lparr>fa_status = 200, fa_chunks = [Inr ''x'']\<rparr>)
       (\<lambda>_. FeedJson (JArr [JObj [(''store'', JStr ''edge''), (''extension_id'', JStr (replicate 32 (CHR ''a'')))]]))
       ''https://8.8.8.8/feed'' ''ops'' (\<lambda>_. sample_delivery) 5 empty_db"
  have ids: "map tl_extension_id (db_threats ?job) = [replicate 32 (CHR ''a'')]" by code_simp
  then have "?job \<noteq> empty_db" by (auto simp: empty_db_def)
  from threat_feed_job_safe [OF this] ids show ?thesis by blast
qed

end
