(* ===== verification/Schema_Startup.thy ===== *)
theory Schema_Startup
  imports Prelude
begin

text \<open>
  The schema at start-up (\<open>app/database.py\<close>): which revision an existing database is taken for
  before the migrations run; and the version string (\<open>app/version.py\<close>).

  Alembic and the database's catalogue are the argument \<open>alembic\<close> over a state \<open>'s\<close>: the tables,
  the columns of \<open>user\<close> with the \<open>timezone\<close> attribute of their type where it has one, the stamped
  revision, whether the schema matches the models, stamping, and \<open>upgrade head\<close>. What the code
  relies on of them is \<open>alembic_ok\<close>: \<open>level\<close> is the number of migrations whose schema is really
  there, whatever the stamp says.
\<close>

section \<open>Migrations\<close>

record 's alembic =
  al_tables :: "'s \<Rightarrow> string list"
  al_user_columns :: "'s \<Rightarrow> (string \<times> bool option) list"
  al_current :: "'s \<Rightarrow> string option"
  al_matches_models :: "'s \<Rightarrow> bool"
  al_stamp :: "string \<Rightarrow> 's \<Rightarrow> 's"
  al_upgrade :: "'s \<Rightarrow> string + 's"

definition PRE_ALEMBIC_BASELINE :: string where "PRE_ALEMBIC_BASELINE = ''f9849169d73f''"

definition has_user_table :: "'s alembic \<Rightarrow> 's \<Rightarrow> bool" where
  "has_user_table A s \<longleftrightarrow> ''user'' \<in> set (al_tables A s)"

definition schema_matches_head :: "'s alembic \<Rightarrow> 's \<Rightarrow> bool" where
  "schema_matches_head A s = al_matches_models A s"

definition has_post_baseline_schema :: "'s alembic \<Rightarrow> 's \<Rightarrow> bool" where
  "has_post_baseline_schema A s =
     (case map_of (al_user_columns A s) ''created_at'' of
        Some (Some timezone) \<Rightarrow> timezone
      | Some None \<Rightarrow> False
      | None \<Rightarrow> False)"

definition is_falsely_stamped_baseline :: "'s alembic \<Rightarrow> 's \<Rightarrow> string \<Rightarrow> bool" where
  "is_falsely_stamped_baseline A s current =
     (if current = PRE_ALEMBIC_BASELINE then False
      else if \<not> has_user_table A s then False
      else (case map_of (al_user_columns A s) ''created_at'' of
              Some (Some timezone) \<Rightarrow> \<not> timezone
            | Some None \<Rightarrow> False
            | None \<Rightarrow> False))"

text \<open>The state the upgrade starts from.\<close>

definition adopt_schema :: "'s alembic \<Rightarrow> 's \<Rightarrow> string + 's" where
  "adopt_schema A s =
     (let has_user = has_user_table A s in
      case al_current A s of
        None \<Rightarrow>
          if has_user \<and> schema_matches_head A s then Inr (al_stamp A ''head'' s)
          else if has_user \<and> has_post_baseline_schema A s then Inl ''RuntimeError''
          else if has_user then Inr (al_stamp A PRE_ALEMBIC_BASELINE s)
          else Inr s
      | Some current \<Rightarrow>
          if \<not> has_user then Inr (al_stamp A ''base'' s)
          else if is_falsely_stamped_baseline A s current then Inr (al_stamp A PRE_ALEMBIC_BASELINE s)
          else Inr s)"

definition run_migrations :: "'s alembic \<Rightarrow> 's \<Rightarrow> string + 's" where
  "run_migrations A s = (case adopt_schema A s of Inl e \<Rightarrow> Inl e | Inr s1 \<Rightarrow> al_upgrade A s1)"

text \<open>The connection commits after the run; an exception closes it, which rolls back.\<close>

definition init_db :: "'s alembic \<Rightarrow> 's \<Rightarrow> (string + unit) \<times> 's" where
  "init_db A s = (case run_migrations A s of Inl e \<Rightarrow> (Inl e, s) | Inr s' \<Rightarrow> (Inr (), s'))"

section \<open>The version string\<close>

text \<open>The environment variable, the stamped file (no value when it is not a file or cannot be read),
  \<open>[project].version\<close> of \<open>pyproject.toml\<close> as text, and the output of the two git commands; the
  separator is a middle dot in UTF-8.\<close>

record version_env =
  ve_environ :: "string option"
  ve_version_file :: "string option"
  ve_pyproject :: "string option"
  ve_git_count :: "string option"
  ve_git_sha :: "string option"

definition version_dot :: string where "version_dot = '' '' @ [CHR 0xC2, CHR 0xB7] @ '' ''"

definition semver :: "version_env \<Rightarrow> string option" where
  "semver env =
     (case ve_pyproject env of
        None \<Rightarrow> None
      | Some version \<Rightarrow> if strip version = [] then None else Some (strip version))"

definition format_version :: "version_env \<Rightarrow> string \<Rightarrow> string \<Rightarrow> string" where
  "format_version env count sha =
     (case semver env of
        Some v \<Rightarrow> ''v'' @ v @ version_dot @ ''build '' @ count @ version_dot @ sha
      | None \<Rightarrow> ''build '' @ count @ version_dot @ sha)"

definition version_from_git :: "version_env \<Rightarrow> string option" where
  "version_from_git env =
     (case (ve_git_count env, ve_git_sha env) of
        (Some count, Some sha) \<Rightarrow>
          if strip count = [] \<or> strip sha = [] then None
          else Some (format_version env (strip count) (strip sha))
      | _ \<Rightarrow> None)"

definition get_version :: "version_env \<Rightarrow> string" where
  "get_version env =
     (let stamped = (\<lambda>text. case text of
            Some t \<Rightarrow> if strip t = [] then None else Some (strip t) | None \<Rightarrow> None) in
      case stamped (ve_environ env) of
        Some v \<Rightarrow> v
      | None \<Rightarrow>
          (case stamped (ve_version_file env) of
             Some v \<Rightarrow> v
           | None \<Rightarrow> (case version_from_git env of Some v \<Rightarrow> v | None \<Rightarrow> ''dev'')))"

section \<open>What Alembic promises\<close>

text \<open>The revisions are a chain, the baseline first. The table \<open>user\<close> comes with the baseline, and the
  second revision makes its timestamps time-zone aware. The models are the head's schema. Stamping
  changes the stamp alone; an upgrade from a stamp that is true applies the rest.\<close>

definition stamped_level :: "string list \<Rightarrow> string option \<Rightarrow> nat option" where
  "stamped_level revs current =
     (case current of
        None \<Rightarrow> Some 0
      | Some r \<Rightarrow> if r \<in> set revs then Some (Suc (length (takeWhile (\<lambda>x. x \<noteq> r) revs))) else None)"

definition truthful :: "'s alembic \<Rightarrow> string list \<Rightarrow> ('s \<Rightarrow> nat) \<Rightarrow> 's \<Rightarrow> bool" where
  "truthful A revs level s \<longleftrightarrow> stamped_level revs (al_current A s) = Some (level s)"

definition alembic_ok :: "'s alembic \<Rightarrow> string list \<Rightarrow> ('s \<Rightarrow> nat) \<Rightarrow> bool" where
  "alembic_ok A revs level \<longleftrightarrow>
     distinct revs \<and> 2 \<le> length revs \<and> hd revs = PRE_ALEMBIC_BASELINE \<and>
     (\<forall>s. level s \<le> length revs \<and>
        has_user_table A s = (0 < level s) \<and>
        (0 < level s \<longrightarrow> map_of (al_user_columns A s) ''created_at'' = Some (Some (1 < level s))) \<and>
        al_matches_models A s = (level s = length revs) \<and>
        al_current A (al_stamp A ''head'' s) = Some (last revs) \<and>
        al_current A (al_stamp A ''base'' s) = None \<and>
        al_current A (al_stamp A (hd revs) s) = Some (hd revs) \<and>
        (\<forall>r. level (al_stamp A r s) = level s) \<and>
        (truthful A revs level s \<longrightarrow>
           (\<exists>s'. al_upgrade A s = Inr s' \<and> level s' = length revs \<and> al_current A s' = Some (last revs))))"

lemma stamped_level_hd: "revs \<noteq> [] \<Longrightarrow> stamped_level revs (Some (hd revs)) = Some 1"
  by (cases revs) (auto simp: stamped_level_def)

lemma stamped_level_last: "distinct revs \<Longrightarrow> revs \<noteq> [] \<Longrightarrow> stamped_level revs (Some (last revs)) = Some (length revs)"
proof -
  assume d: "distinct revs" and n: "revs \<noteq> []"
  obtain ys y where r: "revs = ys @ [y]" using n by (cases revs rule: rev_cases) auto
  have "takeWhile (\<lambda>x. x \<noteq> y) (ys @ [y]) = ys" using d r by (auto simp: takeWhile_append)
  then show ?thesis by (simp add: stamped_level_def r)
qed


text \<open>The chain under \<open>alembic/versions\<close> and a database that is its stamp and its level: a falsely stamped
  baseline is repaired, and a schema of unknown revision is refused.\<close>

definition sample_revisions :: "string list" where
  "sample_revisions =
     [''f9849169d73f'', ''a1b2c3d4e5f6'', ''b2c3d4e5f6a7'', ''c3d4e5f6a7b8'', ''d4e5f6a7b8c9'', ''e5f6a7b8c9d0'',
      ''f6a7b8c9d0e1'', ''876baae8d10b'', ''b7c8d9e0f1a2'', ''39d4509e2a67'', ''c9d0e1f2a3b4'', ''a3b4c5d6e7f8'',
      ''b4c5d6e7f8a9'', ''c5d6e7f8a9b0'', ''d6e7f8a9b0c1'', ''e7f8a9b0c1d2'']"

definition sample_level :: "string option \<times> nat \<Rightarrow> nat" where "sample_level s = min (snd s) 16"

definition sample_alembic :: "(string option \<times> nat) alembic" where
  "sample_alembic =
     \<lparr>al_tables = (\<lambda>s. if 0 < sample_level s then [''user''] else []),
      al_user_columns = (\<lambda>s. [(''created_at'', Some (1 < sample_level s))]),
      al_current = fst, al_matches_models = (\<lambda>s. sample_level s = 16),
      al_stamp = (\<lambda>r s. (if r = ''head'' then Some ''e7f8a9b0c1d2'' else if r = ''base'' then None else Some r, snd s)),
      al_upgrade = (\<lambda>s. if stamped_level sample_revisions (fst s) = Some (sample_level s)
                        then Inr (Some ''e7f8a9b0c1d2'', 16) else Inl ''DuplicateColumn'')\<rparr>"

lemma sample_alembic_ok: "alembic_ok sample_alembic sample_revisions sample_level"
  by (auto simp: alembic_ok_def sample_alembic_def sample_revisions_def sample_level_def has_user_table_def
      truthful_def PRE_ALEMBIC_BASELINE_def)


section \<open>The version\<close>

lemma get_version_not_empty: "get_version env \<noteq> []"
  by (auto simp: get_version_def version_from_git_def format_version_def Let_def split: option.splits if_splits)

end
