(* ===== verification/Spec2Isabelle.thy ===== *)
theory Spec2Isabelle
  imports Prelude Ip Url Json Permissions Analysis Models Scoring Package_Diff Threats Notifications Pending Threat_Match Pipeline Delivery Threat_Ingest Scheduler Extension_Queries Retention Ratelimit Audit_Trail Auth Accounts Webhooks Proxy Proxy_Admin Transport Extension_Ids Py_Int Threat_Intel Findings_View Senders Alert_Routes Extension_Views Enrollment Extension_Routes Enrollment_Laws Regex Manifest Code_Scan Inspector_Laws Stored_Types Oidc_Config Oidc_Service Oidc_Laws Oidc_Admin Sign_In Edge Dashboard Detail_Page Account_Pages Store_Fetchers Feed_Download Schema_Startup
begin

text \<open>
  Iceberg EBS watches browser and editor extensions. It fetches their store listings and
  packages, scores their risk, compares each reading with the one before, and alerts on the
  differences. This development models the Python application under \<open>src/app\<close>: a FastAPI
  service over one PostgreSQL database, with a scheduler in the same process.

  \<^bold>\<open>The parts and how they interact.\<close> A refresh (scheduler or API) runs
  \<open>services.fetch_and_store\<close>: fetch the listing and package, inspect, take the row lock, score,
  capture a package snapshot, detect changes, and merge the events into the row's durable
  marker \<open>pending_alert_events\<close> in the same transaction. After the commit
  \<open>services.fire_pending_alerts\<close> delivers the events through \<open>notifications.fire_alerts\<close> and
  acknowledges exactly those events; \<open>services.recover_pending_alerts\<close> redelivers what a crash
  or a failed delivery left behind. The threat list enters by the API or a feed and changes
  the posture of tracked rows through the same marker. The routes read and write the same
  tables behind \<open>auth.py\<close> and leave an audit row in the caller's transaction.

  \<^bold>\<open>State.\<close> A table is a list of records in insertion order and the database is the record
  \<open>db\<close> of theory Models, passed and returned explicitly. A function that stages writes returns
  the new database: its caller commits by keeping it and rolls back by keeping the old one.
  Row locks (\<open>SELECT ... FOR UPDATE\<close>) make a read-modify-write atomic, so a locked section is
  one function. Concurrency is modelled where the code defends against it: as sequences of
  atomic steps (Delivery: the step relation \<open>step\<close> and its reachable states) and as two
  overlapping merges (Pending). An exception, an HTTP error and an early return are values of
  a sum or option type.

  \<^bold>\<open>Theories and sources.\<close>
 
  \<^item> Prelude: Python's string and list operations, with their laws.
 
  \<^item> Ip: the standard library's \<open>ipaddress\<close>, 32 and 128 bit words.
  \<^item> Url: its
    \<open>urllib.parse\<close>, and \<open>domain_from_url\<close> of \<open>utils.py\<close>.
 
  \<^item> Json: decoded JSON values, stored texts and the defensive parsers (\<open>utils.py\<close>).
 
  \<^item> Permissions: \<open>permissions.py\<close>, the permission tiers.
 
  \<^item> Analysis: the result types of \<open>inspector.py\<close> and their JSON form.
 
  \<^item> Models: \<open>models.py\<close>, one record per table, constraints, accessors, the database.
 
  \<^item> Scoring: \<open>scoring.py\<close>, the six signals, the aggregate, bands, policy.
 
  \<^item> Package_Diff: \<open>package_diff.py\<close>.
  \<^item> Threats: \<open>threats.py\<close>.
 
  \<^item> Notifications: \<open>notifications.py\<close>, change events, their detection, alert texts, firing.
 
  \<^item> Pending: the pending-alert marker of \<open>services.py\<close>: merge, acknowledge, clear. Its
    locale \<open>pending_queue\<close> states what the marker promises as a queue of events.
 
  \<^item> Threat_Match: threat matching and posture of \<open>services.py\<close>.
 
  \<^item> Pipeline: \<open>fetch_and_store\<close> and its steps.
  \<^item> Delivery: firing and recovery of
    \<open>services.py\<close>, and the delivery protocol as an abstract step relation that they refine.
 
  \<^item> Threat_Ingest: the upsert of threat entries that the feed job and the route share.
 
  \<^item> Scheduler: \<open>scheduler.py\<close> and \<open>scheduler_state.py\<close>, the cycle and its circuit breaker.
 
  \<^item> Extension_Queries: \<open>extension_queries.py\<close>.
  \<^item> Retention: \<open>retention.py\<close>.
 
  \<^item> Ratelimit: \<open>ratelimit.py\<close>; its locale \<open>token_meter\<close> states the bucket's contract.
 
  \<^item> Audit_Trail: \<open>audit.py\<close> and \<open>routes/audit.py\<close>.
 
  \<^item> Auth: \<open>auth.py\<close> and \<open>deps.py\<close>.
  \<^item> Accounts: \<open>routes/keys.py\<close> and \<open>routes/users.py\<close>.
 
  \<^item> Webhooks: \<open>webhooks.py\<close> and the pinned request of \<open>threat_feed.py\<close>.
 
  \<^item> Proxy: \<open>proxy.py\<close>, routing, credentials and redaction.
  \<^item> Proxy_Admin:
    \<open>proxy_settings.py\<close> and \<open>routes/proxy.py\<close>.
 
  \<^item> Transport: \<open>fetchers/transport.py\<close>, the retry loop and the proxy-routing transport.

  \<^item> Extension_Ids: store identities and the bulk text of \<open>routes/api.py\<close>.
  \<^item> Threat_Intel: \<open>threat_intel.py\<close>.
  \<^item> Findings_View: \<open>findings_view.py\<close>.
  \<^item> Senders: \<open>senders/\<close>, the six delivery kinds.
  \<^item> Alert_Routes: \<open>routes/alerts.py\<close> and \<open>alert_queries.py\<close>.
  \<^item> Extension_Views: the response objects and the export of \<open>routes/api.py\<close>.
  \<^item> Enrollment: its enrolment primitive over an explicit session (committed and staged
    database).
  \<^item> Extension_Routes: its handlers.
  \<^item> Enrollment_Laws: what an enrolment leaves in the table.

  \<^item> Regex: the part of Python's \<open>re\<close> the inspector uses, by matching positions.
  \<^item> Manifest: the archive checks, the manifest and the choice of scripts of \<open>inspector.py\<close>.
  \<^item> Code_Scan: its patterns, the scan of one file and \<open>inspect_package\<close>.
  \<^item> Inspector_Laws: bounds of an inspection and what it cannot miss.
  \<^item> Stored_Types: the JSON type of a stored analysis, kept by a fetch and relied on by readers.

  \<^item> Oidc_Config: \<open>oidc/config.py\<close>, \<open>oidc/base.py\<close> and the adapters: the runtime configuration,
    its validation, and the identity a token's claims give.
  \<^item> Oidc_Service: \<open>oidc/service.py\<close>, provisioning and the provider registry; what other requests
    commit between its reads and writes is the argument \<open>oidc_race\<close>.
  \<^item> Oidc_Laws: who a sign-in resolves to and what it leaves untouched.
  \<^item> Oidc_Admin: \<open>oidc_settings.py\<close> and \<open>routes/oidc_settings.py\<close>.
  \<^item> Sign_In: the cookies of \<open>auth.py\<close>, the page shell, login and logout of \<open>routes/ui.py\<close>, and
    \<open>routes/oidc.py\<close>.
  \<^item> Edge: \<open>main.py\<close> and \<open>middleware.py\<close>, the layers around the routes, and the start-up.
  \<^item> Dashboard: fetch health, the fleet snapshot, links and the table of \<open>routes/ui.py\<close>.
  \<^item> Detail_Page: its extension page, from the stored JSON to breakdown, diff and footprint.
  \<^item> Account_Pages: its forms, administration and account pages.
  \<^item> Py_Int: Python's \<open>int\<close> of a text.
  \<^item> Store_Fetchers: \<open>fetchers/\<close>, the Chrome, Edge and VS Code fetchers and the capped download.
  \<^item> Feed_Download: \<open>threat_feed.py\<close> and the feed job on it.
  \<^item> Schema_Startup: \<open>database.py\<close>, which revision an existing schema is taken for, and
    \<open>version.py\<close>.

  \<^bold>\<open>What the lemmas show.\<close> The central group is the delivery protocol: no event a committed
  refresh detected is ever lost, whatever the order of refreshes, deliveries, failures,
  crashes and recoveries; overlapping refreshes acknowledge only their own events; no event
  is invented; and the concrete functions of the services refine the protocol's steps. The
  scoring group gives exact sums, bounds and monotonicity, the pipeline group what a partial
  fetch keeps and which events it may raise, the scheduler group when a store's circuit is
  open and what an open circuit skips, the rate-limit group how many requests any window
  admits, the authentication group which credentials are accepted and what a password change
  revokes, and the query, retention, threat and audit groups the functional behaviour of each.
  The inspection group bounds what a package can store and shows that a scanned script with a
  direct call of eval is reported under any name; the stored analysis keeps a declared JSON type.
  The sign-in group shows that a token resolves only to the account of its provider, issuer and
  subject, that the settings can lock nobody out, that a session cookie works and guessing
  passwords does not, and the edge group that foreign requests change nothing and that a start
  that succeeds is a safe one. The outbound group shows that a webhook only ever reaches a validated public address, that
  no proxy credential survives redaction, that explicit proxy mode never falls back to a
  direct connection, and that retries end and no transport is left open. The page group shows where the dashboard's links lead,
  that the extension page of a fetched row renders with a breakdown that adds up, and that
  the account and audit pages show the right rows; the fetcher group that a download is whole or an
  error, that a failed one never becomes a snapshot, that a page's description cannot forge its
  version, and that only a wholly valid feed changes anything; and the start-up group that the
  schema reaches head or the start is refused.

  \<^bold>\<open>Interfaces.\<close> \<open>pending_queue\<close> (Pending), \<open>token_meter\<close> (Ratelimit) and \<open>audited\<close>
  (Audit_Trail: a handler that succeeds leaves one audit row, one that fails none) are locales,
  each interpreted on the code's own operations.

  \<^bold>\<open>Arguments of the model.\<close> Code outside \<open>src/\<close> is an argument: the store's answer and the
  inspector (\<open>fetch_env\<close>), the public-suffix lookup, bcrypt, SHA-256 and the cookie serializer
  (\<open>auth_env\<close>), whether a sender reports success (\<open>delivery_env\<close>), the clock and random tokens;
  zipfile, BeautifulSoup and \<open>json.loads\<close> of the inspector (\<open>inspect_env\<close>); IDNA, the client
  secrets and Authlib's answers (\<open>oidc_env\<close>, \<open>started\<close>, \<open>exchanged\<close>); BeautifulSoup's queries, the
  HTTP client, zip and date parsing of the fetchers (\<open>store_env\<close>); Alembic (\<open>alembic\<close>).

  \<^bold>\<open>Bounds.\<close> Python integers are unbounded and modelled as \<open>int\<close>; the floats of the rate
  limiter are exact rationals. No definition uses fuel: every loop of the modelled code is
  over a list or a decreasing measure and is proved terminating.

  \<^bold>\<open>Limits.\<close> Strings are lists of 8-bit characters with ASCII case folding; a database text
  order is the order of character codes. Not modelled: the
  HTML templates, the DDL of the single migrations, logging, and the scripts and examples around
  the service.
\<close>

end
